(* ===== verification/Elspeth_Prelude.thy ===== *)
theory Elspeth_Prelude
  imports
    "HOL-Library.List_Lexorder"
    "HOL-Library.Char_ord"
    "HOL-Library.Product_Lexorder"
    "HOL-Library.Option_ord"
    "HOL-Library.Sublist"
    "HOL-Library.AList"
begin

text \<open>
  The shared vocabulary of the development.

  \<^item> A transaction body (the code between the opening of a write transaction
    and its commit) is a function from a connection state to either the error
    it raises or a result with the next connection state.  The combinators
    \<open>tx_return\<close>, \<open>tx_raise\<close>, \<open>tx_bind\<close>, \<open>tx_gets\<close>, \<open>tx_modify\<close>,
    \<open>tx_assert\<close>, \<open>tx_for\<close> and \<open>tx_each\<close> compose such bodies in the order of
    the Python statements they translate.
  \<^item> A database table is the list of its rows in insertion order: a SELECT is
    a filter, an UPDATE with a WHERE clause is \<open>update_where\<close> and its rowcount
    is \<open>count_where\<close>.
  \<^item> The locale \<open>tx_preorder\<close> is the interface between a reflexive and
    transitive relation on states and the bodies that respect it: its lemmas
    lift a relation that every statement of a body respects to the whole body.
\<close>

named_theorems tx_inv \<open>inversion of a successful transaction body\<close>
named_theorems tx_rel_intro \<open>introduction rules of the two-state relation on bodies\<close>
named_theorems table_simps \<open>simplification of table expressions\<close>

type_synonym ident = string

text \<open>Instants and durations are whole microseconds, the resolution of a
  Python \<open>datetime\<close>/\<open>timedelta\<close>.\<close>

type_synonym instant = int

type_synonym duration = int

abbreviation seconds :: "int \<Rightarrow> duration" where
  "seconds n \<equiv> n * 1000000"

section \<open>Transaction bodies\<close>

type_synonym ('s, 'e, 'a) tx = "'s \<Rightarrow> 'e + ('a \<times> 's)"

definition tx_return :: "'a \<Rightarrow> ('s, 'e, 'a) tx" where
  "tx_return x s = Inr (x, s)"

definition tx_raise :: "'e \<Rightarrow> ('s, 'e, 'a) tx" where
  "tx_raise e s = Inl e"

definition tx_bind :: "('s, 'e, 'a) tx \<Rightarrow> ('a \<Rightarrow> ('s, 'e, 'b) tx) \<Rightarrow> ('s, 'e, 'b) tx" where
  "tx_bind m f s = (case m s of Inl e \<Rightarrow> Inl e | Inr (x, t) \<Rightarrow> f x t)"

definition tx_then :: "('s, 'e, 'a) tx \<Rightarrow> ('s, 'e, 'b) tx \<Rightarrow> ('s, 'e, 'b) tx" where
  "tx_then m n = tx_bind m (\<lambda>_. n)"

definition tx_gets :: "('s \<Rightarrow> 'a) \<Rightarrow> ('s, 'e, 'a) tx" where
  "tx_gets f s = Inr (f s, s)"

definition tx_modify :: "('s \<Rightarrow> 's) \<Rightarrow> ('s, 'e, unit) tx" where
  "tx_modify f s = Inr ((), f s)"

definition tx_assert :: "bool \<Rightarrow> 'e \<Rightarrow> ('s, 'e, unit) tx" where
  "tx_assert b e s = (if b then Inr ((), s) else Inl e)"

primrec tx_for :: "'a list \<Rightarrow> ('a \<Rightarrow> ('s, 'e, unit) tx) \<Rightarrow> ('s, 'e, unit) tx" where
  "tx_for [] f = tx_return ()"
| "tx_for (x # xs) f = tx_then (f x) (tx_for xs f)"

primrec tx_each :: "'a list \<Rightarrow> ('a \<Rightarrow> ('s, 'e, 'b) tx) \<Rightarrow> ('s, 'e, 'b list) tx" where
  "tx_each [] f = tx_return []"
| "tx_each (x # xs) f = tx_bind (f x) (\<lambda>y. tx_bind (tx_each xs f) (\<lambda>ys. tx_return (y # ys)))"

text \<open>The error half of an \<open>error + 'a\<close> value, for results of whole verbs.\<close>

definition is_err :: "'e + 'a \<Rightarrow> bool" where
  "is_err r = (case r of Inl _ \<Rightarrow> True | Inr _ \<Rightarrow> False)"

section \<open>Tables\<close>

definition update_where :: "('r \<Rightarrow> bool) \<Rightarrow> ('r \<Rightarrow> 'r) \<Rightarrow> 'r list \<Rightarrow> 'r list" where
  "update_where P f rs = map (\<lambda>r. if P r then f r else r) rs"

definition count_where :: "('r \<Rightarrow> bool) \<Rightarrow> 'r list \<Rightarrow> nat" where
  "count_where P rs = length (filter P rs)"

definition exists_where :: "('r \<Rightarrow> bool) \<Rightarrow> 'r list \<Rightarrow> bool" where
  "exists_where P rs = list_ex P rs"

definition keyed :: "('r \<Rightarrow> 'k) \<Rightarrow> 'r list \<Rightarrow> bool" where
  "keyed key rs = distinct (map key rs)"

section \<open>Lemmas on transaction bodies\<close>

lemma tx_return_inv [tx_inv]: "tx_return x s = Inr r \<longleftrightarrow> r = (x, s)"
  by (auto simp: tx_return_def)

lemma tx_raise_inv [tx_inv]: "tx_raise e s = Inr r \<longleftrightarrow> False"
  by (simp add: tx_raise_def)

lemma tx_bind_inv [tx_inv]:
  "tx_bind m f s = Inr r \<longleftrightarrow> (\<exists>x t. m s = Inr (x, t) \<and> f x t = Inr r)"
  by (auto simp: tx_bind_def split: sum.splits)

lemma tx_then_inv [tx_inv]:
  "tx_then m n s = Inr r \<longleftrightarrow> (\<exists>x t. m s = Inr (x, t) \<and> n t = Inr r)"
  by (simp add: tx_then_def tx_bind_inv)

lemma tx_gets_inv [tx_inv]: "tx_gets f s = Inr r \<longleftrightarrow> r = (f s, s)"
  by (auto simp: tx_gets_def)

lemma tx_modify_inv [tx_inv]: "tx_modify f s = Inr r \<longleftrightarrow> r = ((), f s)"
  by (auto simp: tx_modify_def)

lemma tx_assert_inv [tx_inv]: "tx_assert b e s = Inr r \<longleftrightarrow> b \<and> r = ((), s)"
  by (auto simp: tx_assert_def)

lemma tx_if_inv [tx_inv]:
  "(if b then m else n) s = Inr r \<longleftrightarrow> (b \<and> m s = Inr r) \<or> (\<not> b \<and> n s = Inr r)"
  by simp

lemma tx_bind_raises:
  "m s = Inl e \<Longrightarrow> tx_bind m f s = Inl e"
  "m s = Inl e \<Longrightarrow> tx_then m n s = Inl e"
  by (simp_all add: tx_bind_def tx_then_def)

lemma tx_bind_steps:
  "m s = Inr (x, t) \<Longrightarrow> tx_bind m f s = f x t"
  "m s = Inr (x, t) \<Longrightarrow> tx_then m n s = n t"
  by (simp_all add: tx_bind_def tx_then_def)

section \<open>The two-state relation of a body\<close>

definition tx_rel :: "('s \<Rightarrow> 's \<Rightarrow> bool) \<Rightarrow> ('s, 'e, 'a) tx \<Rightarrow> bool" where
  "tx_rel R m \<longleftrightarrow> (\<forall>s x t. m s = Inr (x, t) \<longrightarrow> R s t)"

lemma tx_relI: "(\<And>s x t. m s = Inr (x, t) \<Longrightarrow> R s t) \<Longrightarrow> tx_rel R m"
  by (auto simp: tx_rel_def)

lemma tx_relD: "tx_rel R m \<Longrightarrow> m s = Inr (x, t) \<Longrightarrow> R s t"
  by (auto simp: tx_rel_def)

lemma tx_rel_mono: "tx_rel R m \<Longrightarrow> (\<And>s t. R s t \<Longrightarrow> Q s t) \<Longrightarrow> tx_rel Q m"
  by (auto simp: tx_rel_def)

lemma tx_rel_raise [tx_rel_intro]: "tx_rel R (tx_raise e)"
  by (simp add: tx_rel_def tx_raise_def)

lemma tx_rel_modify [tx_rel_intro]: "(\<And>s. R s (f s)) \<Longrightarrow> tx_rel R (tx_modify f)"
  by (simp add: tx_rel_def tx_modify_def)

lemma tx_rel_if [tx_rel_intro]:
  "(b \<Longrightarrow> tx_rel R m) \<Longrightarrow> (\<not> b \<Longrightarrow> tx_rel R n) \<Longrightarrow> tx_rel R (if b then m else n)"
  by simp

lemma tx_rel_case_option [tx_rel_intro]:
  "(v = None \<Longrightarrow> tx_rel R m) \<Longrightarrow> (\<And>x. v = Some x \<Longrightarrow> tx_rel R (n x)) \<Longrightarrow>
   tx_rel R (case v of None \<Rightarrow> m | Some x \<Rightarrow> n x)"
  by (cases v) simp_all

lemma tx_rel_case_prod [tx_rel_intro]:
  "(\<And>x y. p = (x, y) \<Longrightarrow> tx_rel R (f x y)) \<Longrightarrow> tx_rel R (case p of (x, y) \<Rightarrow> f x y)"
  by (cases p) simp

lemma tx_rel_case_sum [tx_rel_intro]:
  "(\<And>x. v = Inl x \<Longrightarrow> tx_rel R (f x)) \<Longrightarrow> (\<And>y. v = Inr y \<Longrightarrow> tx_rel R (g y)) \<Longrightarrow>
   tx_rel R (case v of Inl x \<Rightarrow> f x | Inr y \<Rightarrow> g y)"
  by (cases v) simp_all

lemma tx_rel_let [tx_rel_intro]: "tx_rel R (f v) \<Longrightarrow> tx_rel R (Let v f)"
  by simp

locale tx_preorder =
  fixes R :: "'s \<Rightarrow> 's \<Rightarrow> bool"
  assumes R_refl: "R s s"
    and R_trans: "R s t \<Longrightarrow> R t u \<Longrightarrow> R s u"
begin

lemma rel_return: "tx_rel R (tx_return x)"
  by (simp add: tx_rel_def tx_return_def R_refl)

lemma rel_gets: "tx_rel R (tx_gets f)"
  by (simp add: tx_rel_def tx_gets_def R_refl)

lemma rel_assert: "tx_rel R (tx_assert b e)"
  by (auto simp: tx_rel_def tx_assert_inv R_refl)

lemma rel_bind: "tx_rel R m \<Longrightarrow> (\<And>x. tx_rel R (f x)) \<Longrightarrow> tx_rel R (tx_bind m f)"
  unfolding tx_rel_def tx_bind_inv by (blast intro: R_trans)

lemma rel_then: "tx_rel R m \<Longrightarrow> tx_rel R n \<Longrightarrow> tx_rel R (tx_then m n)"
  unfolding tx_then_def by (rule rel_bind)

lemma rel_for: "(\<And>x. x \<in> set xs \<Longrightarrow> tx_rel R (f x)) \<Longrightarrow> tx_rel R (tx_for xs f)"
  by (induction xs) (auto intro: rel_return rel_then)

lemma rel_each: "(\<And>x. x \<in> set xs \<Longrightarrow> tx_rel R (f x)) \<Longrightarrow> tx_rel R (tx_each xs f)"
  by (induction xs) (auto intro!: rel_return rel_bind)

lemmas rel_intros = rel_return rel_gets rel_assert rel_bind rel_then rel_for rel_each

end

section \<open>Lemmas on tables\<close>

lemma update_where_Nil [simp]: "update_where P f [] = []"
  by (simp add: update_where_def)

lemma update_where_Cons [simp]:
  "update_where P f (r # rs) = (if P r then f r else r) # update_where P f rs"
  by (simp add: update_where_def)

lemma set_update_where: "set (update_where P f rs) = (\<lambda>r. if P r then f r else r) ` set rs"
  by (simp add: update_where_def)

lemma update_where_memD:
  "x \<in> set (update_where P f rs) \<Longrightarrow> \<exists>r \<in> set rs. x = (if P r then f r else r)"
  unfolding set_update_where by (elim imageE) blast

lemma mem_update_where: "r \<in> set rs \<Longrightarrow> P r \<Longrightarrow> f r \<in> set (update_where P f rs)"
  by (force simp: set_update_where)

lemma update_where_all:
  assumes "\<And>r. r \<in> set rs \<Longrightarrow> P r \<Longrightarrow> Q (f r)" and "\<And>r. r \<in> set rs \<Longrightarrow> \<not> P r \<Longrightarrow> Q r"
  shows "\<forall>x \<in> set (update_where P f rs). Q x"
  using assms by (induction rs) simp_all

lemma update_where_ex:
  "r \<in> set rs \<Longrightarrow> P r \<Longrightarrow> Q (f r) \<Longrightarrow> \<exists>x \<in> set (update_where P f rs). Q x"
  using mem_update_where [of r rs P f] by blast

lemma length_update_where [simp]: "length (update_where P f rs) = length rs"
  by (simp add: update_where_def)

lemma update_where_none: "\<forall>r \<in> set rs. \<not> P r \<Longrightarrow> update_where P f rs = rs"
  by (induction rs) auto

lemma update_where_cong:
  "(\<And>r. r \<in> set rs \<Longrightarrow> P r = Q r) \<Longrightarrow> (\<And>r. r \<in> set rs \<Longrightarrow> P r \<Longrightarrow> f r = g r) \<Longrightarrow>
   update_where P f rs = update_where Q g rs"
  by (induction rs) auto

lemma map_key_update_where [table_simps]:
  "(\<And>r. P r \<Longrightarrow> key (f r) = key r) \<Longrightarrow> map key (update_where P f rs) = map key rs"
  by (induction rs) simp_all

lemma keyed_update_where [intro]:
  "(\<And>r. P r \<Longrightarrow> key (f r) = key r) \<Longrightarrow> keyed key rs \<Longrightarrow> keyed key (update_where P f rs)"
  by (simp add: keyed_def map_key_update_where)

lemma keyed_append_one [table_simps]:
  "keyed key (rs @ [r]) \<longleftrightarrow> keyed key rs \<and> \<not> exists_where (\<lambda>x. key x = key r) rs"
  by (auto simp: keyed_def exists_where_def list_ex_iff) (metis image_eqI)

lemma keyed_unique: "keyed key rs \<Longrightarrow> r \<in> set rs \<Longrightarrow> r' \<in> set rs \<Longrightarrow> key r = key r' \<Longrightarrow> r = r'"
  unfolding keyed_def by (meson distinct_map inj_onD)

lemma exists_where_iff: "exists_where P rs \<longleftrightarrow> (\<exists>r \<in> set rs. P r)"
  by (simp add: exists_where_def list_ex_iff)

lemma count_where_eq_0_iff: "count_where P rs = 0 \<longleftrightarrow> (\<forall>r \<in> set rs. \<not> P r)"
  by (auto simp: count_where_def filter_empty_conv)

lemma count_where_pos_iff: "0 < count_where P rs \<longleftrightarrow> (\<exists>r \<in> set rs. P r)"
  using count_where_eq_0_iff [of P rs] by auto

lemma count_where_keyed_le_1:
  "keyed key rs \<Longrightarrow> (\<And>r. P r \<Longrightarrow> key r = k) \<Longrightarrow> count_where P rs \<le> 1"
proof (induction rs)
  case Nil
  then show ?case by (simp add: count_where_def)
next
  case (Cons a rs)
  then have "keyed key rs" by (simp add: keyed_def)
  with Cons have le: "count_where P rs \<le> 1" by simp
  show ?case
  proof (cases "P a")
    case True
    then have "\<forall>r \<in> set rs. \<not> P r"
      using Cons.prems unfolding keyed_def by force
    then show ?thesis by (simp add: count_where_def)
  next
    case False
    then show ?thesis using le by (simp add: count_where_def)
  qed
qed

lemma count_where_keyed_iff:
  "keyed key rs \<Longrightarrow> (\<And>r. P r \<Longrightarrow> key r = k) \<Longrightarrow> count_where P rs = 1 \<longleftrightarrow> (\<exists>r \<in> set rs. P r)"
  using count_where_keyed_le_1 [of key rs P k] count_where_pos_iff [of P rs] by fastforce

lemma sort_key_Nil_iff [simp]: "sort_key k xs = [] \<longleftrightarrow> xs = []"
  by (metis length_0_conv length_sort)

lemma find_Some_mem: "List.find P rs = Some r \<Longrightarrow> r \<in> set rs \<and> P r"
  by (auto simp: find_Some_iff)

lemma find_None_all: "List.find P rs = None \<longleftrightarrow> (\<forall>r \<in> set rs. \<not> P r)"
  by (auto simp: find_None_iff)

lemma find_keyed:
  "keyed key rs \<Longrightarrow> r \<in> set rs \<Longrightarrow> List.find (\<lambda>x. key x = key r) rs = Some r"
  by (induction rs) (auto simp: keyed_def)

end
