(* ===== verification/Sha256.thy ===== *)
theory Sha256
  imports "HOL-Library.Word"
begin

text \<open>
  The SHA-256 digest of FIPS 180-4 as \<open>hashlib.sha256(...).hexdigest()\<close> of the
  Python standard library computes it.  A string is its UTF-8 bytes, one
  character per byte.  The Landscape derives work-item identities and ledger
  event identities from it.
\<close>

unbundle bit_operations_syntax

type_synonym w32 = "32 word"

text \<open>The constants are the first 32 bits of the fractional parts of the cube roots of the first
  64 primes, and of the square roots of the first eight.  An integer root is found bit by bit from
  the top; 35 bits, from \<open>2 ^ 34\<close> down, hold the root of every number used here, and the numbers
  are scaled by \<open>2 ^ 96\<close> and \<open>2 ^ 64\<close>.\<close>

fun root_from :: "(int \<Rightarrow> int) \<Rightarrow> nat \<Rightarrow> int \<Rightarrow> int \<Rightarrow> int \<Rightarrow> int" where
  "root_from pow 0 b n r = r"
| "root_from pow (Suc k) b n r =
    root_from pow k (b div 2) n (if pow (r + b) \<le> n then r + b else r)"

definition fractional_cube_root :: "int \<Rightarrow> w32" where
  "fractional_cube_root p =
    word_of_int (root_from (\<lambda>r. r * r * r) 35 17179869184 (p * 79228162514264337593543950336) 0)"

definition fractional_square_root :: "int \<Rightarrow> w32" where
  "fractional_square_root p =
    word_of_int (root_from (\<lambda>r. r * r) 35 17179869184 (p * 18446744073709551616) 0)"

definition first_primes :: "int list" where
  "first_primes = fold (\<lambda>n ps. if list_all (\<lambda>p. n mod p \<noteq> 0) ps then ps @ [n] else ps) [2..311] []"

definition sha256_k :: "w32 list" where
  "sha256_k = map fractional_cube_root first_primes"

definition sha256_h0 :: "w32 list" where
  "sha256_h0 = map fractional_square_root (take 8 first_primes)"

text \<open>Rotation to the right by \<open>n\<close> bits, given \<open>p = 2 ^ n\<close>, and shift to the right.\<close>

definition rotr :: "int \<Rightarrow> w32 \<Rightarrow> w32" where
  "rotr p x = word_of_int (uint x div p + (uint x mod p) * (4294967296 div p))"

definition shr :: "int \<Rightarrow> w32 \<Rightarrow> w32" where
  "shr p x = word_of_int (uint x div p)"

text \<open>Rotations by 7, 18 and a shift by 3; by 17, 19 and a shift by 10; by 2, 13, 22; by 6, 11, 25.\<close>

definition small_sigma0 :: "w32 \<Rightarrow> w32" where
  "small_sigma0 x = rotr 128 x XOR rotr 262144 x XOR shr 8 x"

definition small_sigma1 :: "w32 \<Rightarrow> w32" where
  "small_sigma1 x = rotr 131072 x XOR rotr 524288 x XOR shr 1024 x"

definition big_sigma0 :: "w32 \<Rightarrow> w32" where
  "big_sigma0 x = rotr 4 x XOR rotr 8192 x XOR rotr 4194304 x"

definition big_sigma1 :: "w32 \<Rightarrow> w32" where
  "big_sigma1 x = rotr 64 x XOR rotr 2048 x XOR rotr 33554432 x"

text \<open>The message schedule: \<open>ws\<close> holds the last sixteen words, oldest first;
  one step emits the oldest and appends the next.\<close>

fun sha256_schedule :: "nat \<Rightarrow> w32 list \<Rightarrow> w32 list" where
  "sha256_schedule 0 ws = []"
| "sha256_schedule (Suc n) ws =
    hd ws # sha256_schedule n
      (tl ws @ [small_sigma1 (ws ! 14) + ws ! 9 + small_sigma0 (ws ! 1) + ws ! 0])"

fun sha256_round :: "w32 \<times> w32 \<Rightarrow> w32 list \<Rightarrow> w32 list" where
  "sha256_round (k, w) [a, b, c, d, e, f, g, h] =
    (let t1 = h + big_sigma1 e + ((e AND f) XOR (NOT e AND g)) + k + w;
         t2 = big_sigma0 a + ((a AND b) XOR (a AND c) XOR (b AND c))
     in [t1 + t2, a, b, c, d + t1, e, f, g])"
| "sha256_round _ hs = hs"

definition sha256_block :: "w32 list \<Rightarrow> w32 list \<Rightarrow> w32 list \<Rightarrow> w32 list" where
  "sha256_block ks hs ws =
    map2 (+) hs (fold sha256_round (zip ks (sha256_schedule 64 ws)) hs)"

definition bytes_of_int :: "nat \<Rightarrow> int \<Rightarrow> int list" where
  "bytes_of_int n x = map (\<lambda>i. (x div 256 ^ i) mod 256) (rev [0..<n])"

definition sha256_pad :: "int list \<Rightarrow> int list" where
  "sha256_pad bs =
    (let n = length bs; z = (119 - n mod 64) mod 64
     in bs @ [128] @ replicate z 0 @ bytes_of_int 8 (8 * int n))"

fun words_of_bytes :: "int list \<Rightarrow> w32 list" where
  "words_of_bytes (a # b # c # d # bs) =
    of_int (a * 16777216 + b * 65536 + c * 256 + d) # words_of_bytes bs"
| "words_of_bytes _ = []"

function sha256_blocks :: "w32 list \<Rightarrow> w32 list \<Rightarrow> w32 list \<Rightarrow> w32 list" where
  "sha256_blocks ks hs ws =
    (if ws = [] then hs else sha256_blocks ks (sha256_block ks hs (take 16 ws)) (drop 16 ws))"
  by pat_completeness auto
termination
  by (relation "measure (\<lambda>(ks, hs, ws). length ws)") auto

declare sha256_blocks.simps [simp del]

definition hex_digit :: "nat \<Rightarrow> char" where
  "hex_digit n = ''0123456789abcdef'' ! (n mod 16)"

definition hex_of_word :: "w32 \<Rightarrow> string" where
  "hex_of_word w = map (\<lambda>i. hex_digit (unat (drop_bit (4 * i) w AND 15))) (rev [0..<8])"

definition sha256_hex :: "w32 list \<Rightarrow> w32 list \<Rightarrow> string \<Rightarrow> string" where
  "sha256_hex ks hs s =
    concat (map hex_of_word (sha256_blocks ks hs (words_of_bytes (sha256_pad (map of_char s)))))"

text \<open>\<open>hashlib.sha256(text.encode()).hexdigest()\<close> as the repositories use it.  Evaluation of
  a model term leaves a digest as it is, except at the strings tabulated below.\<close>

definition digest :: "string \<Rightarrow> string" where [code del]:
  "digest s = sha256_hex sha256_k sha256_h0 s"

section \<open>The digest has 64 hexadecimal digits\<close>

lemma sha256_round_length: "length hs = 8 \<Longrightarrow> length (sha256_round kw hs) = 8"
  by (induction kw hs rule: sha256_round.induct) (simp_all add: Let_def)

lemma sha256_rounds_length: "length hs = 8 \<Longrightarrow> length (fold sha256_round kws hs) = 8"
  by (induction kws arbitrary: hs) (simp_all add: sha256_round_length)

lemma sha256_block_length: "length hs = 8 \<Longrightarrow> length (sha256_block ks hs ws) = 8"
  by (simp add: sha256_block_def sha256_rounds_length)

lemma sha256_blocks_length: "length hs = 8 \<Longrightarrow> length (sha256_blocks ks hs ws) = 8"
proof (induction ks hs ws rule: sha256_blocks.induct)
  case (1 ks hs ws)
  then show ?case
    by (subst sha256_blocks.simps) (simp add: sha256_block_length)
qed

lemma length_concat_hex: "length (concat (map hex_of_word ws)) = 8 * length ws"
  by (induction ws) (simp_all add: hex_of_word_def)

lemma sha256_h0_length: "length sha256_h0 = 8"
  by code_simp

lemma digest_length: "length (digest s) = 64"
  by (simp add: digest_def sha256_hex_def length_concat_hex sha256_blocks_length sha256_h0_length)

section \<open>Tabulated digests\<close>

text \<open>The digests the example run needs, evaluated together so that the constants are computed
  once: two published test vectors and the preimage of a work item identity.\<close>

lemma sha256_table:
  "map (sha256_hex sha256_k sha256_h0) ['''', ''abc'', ''r:t1:n1:2''] =
   [''e3b0c44298fc1c149afbf4c8996fb92427ae41e4649b934ca495991b7852b855'',
    ''ba7816bf8f01cfea414140de5dae2223b00361a396177a9cb410ff61f20015ad'',
    ''279aa4a8fd4292f04797276cb296ebea732743aef465e26008f98ca54788cedb'']"
  by code_simp

lemma digest_table [code]:
  "digest '''' = ''e3b0c44298fc1c149afbf4c8996fb92427ae41e4649b934ca495991b7852b855''"
  "digest ''abc'' = ''ba7816bf8f01cfea414140de5dae2223b00361a396177a9cb410ff61f20015ad''"
  "digest ''r:t1:n1:2'' = ''279aa4a8fd4292f04797276cb296ebea732743aef465e26008f98ca54788cedb''"
  using sha256_table by (simp_all add: digest_def)

end
