(* ===== verification/Landscape_Schema.thy ===== *)
theory Landscape_Schema
  imports Elspeth_Prelude Sha256
begin

text \<open>
  The data of the Landscape audit database that run coordination and the token
  scheduler read and write: the enums of \<open>contracts/enums.py\<close> and
  \<open>contracts/scheduler.py\<close>, one record per table row of
  \<open>core/landscape/schema.py\<close> (the columns those components use), the uniqueness
  and CHECK constraints of the tables, and the shared WHERE clauses.

  A nullable column is an \<open>option\<close>.  The \<open>context_json\<close> column of a ledger row
  holds the value whose canonical JSON text the code stores, and the
  \<open>lineage_path_json\<close> column holds the frames of the path.  A column that the
  schema restricts to an enum by a CHECK constraint has the enum's datatype; a
  column that is free text in the schema (\<open>pending_outcome\<close>, \<open>pending_path\<close>) stays
  a string.  Column widths are not modelled.
\<close>

section \<open>Enumerations\<close>

datatype run_status = RunRunning | RunCompleted | RunCompletedWithFailures | RunFailed | RunEmpty
  | RunInterrupted

datatype token_work_status = READY | LEASED | BLOCKED | PENDING_SINK | TERMINAL | FAILED

datatype scheduler_event_type = ENQUEUE | CLAIM_READY | CLAIM_PENDING_SINK
  | RECOVER_EXPIRED_LEASE | LEASE_LOST | MARK_BLOCKED | MARK_TERMINAL | MARK_FAILED
  | MARK_PENDING_SINK | MARK_PENDING_SINK_TERMINAL | MARK_BLOCKED_BARRIER_TERMINAL
  | RESUME_REQUEUE_FAILED

datatype terminal_outcome = SUCCESS | FAILURE | TRANSIENT

datatype terminal_path = DEFAULT_FLOW | GATE_ROUTED | GATE_DISCARDED | GATE_ERROR_DISCARDED
  | ON_ERROR_ROUTED | FILTER_DROPPED | COALESCED | UNROUTED | QUARANTINED_AT_SOURCE
  | SINK_FALLBACK_TO_FAILSINK | SINK_DISCARDED | FORK_PARENT | EXPAND_PARENT | BATCH_CONSUMED
  | BUFFERED | ABANDONED

primrec status_value :: "token_work_status \<Rightarrow> string" where
  "status_value READY = ''ready''"
| "status_value LEASED = ''leased''"
| "status_value BLOCKED = ''blocked''"
| "status_value PENDING_SINK = ''pending_sink''"
| "status_value TERMINAL = ''terminal''"
| "status_value FAILED = ''failed''"

primrec event_type_value :: "scheduler_event_type \<Rightarrow> string" where
  "event_type_value ENQUEUE = ''enqueue''"
| "event_type_value CLAIM_READY = ''claim_ready''"
| "event_type_value CLAIM_PENDING_SINK = ''claim_pending_sink''"
| "event_type_value RECOVER_EXPIRED_LEASE = ''recover_expired_lease''"
| "event_type_value LEASE_LOST = ''lease_lost''"
| "event_type_value MARK_BLOCKED = ''mark_blocked''"
| "event_type_value MARK_TERMINAL = ''mark_terminal''"
| "event_type_value MARK_FAILED = ''mark_failed''"
| "event_type_value MARK_PENDING_SINK = ''mark_pending_sink''"
| "event_type_value MARK_PENDING_SINK_TERMINAL = ''mark_pending_sink_terminal''"
| "event_type_value MARK_BLOCKED_BARRIER_TERMINAL = ''mark_blocked_barrier_terminal''"
| "event_type_value RESUME_REQUEUE_FAILED = ''resume_requeue_failed''"

primrec outcome_value :: "terminal_outcome \<Rightarrow> string" where
  "outcome_value SUCCESS = ''success''"
| "outcome_value FAILURE = ''failure''"
| "outcome_value TRANSIENT = ''transient''"

primrec path_value :: "terminal_path \<Rightarrow> string" where
  "path_value DEFAULT_FLOW = ''default_flow''"
| "path_value GATE_ROUTED = ''gate_routed''"
| "path_value GATE_DISCARDED = ''gate_discarded''"
| "path_value GATE_ERROR_DISCARDED = ''gate_error_discarded''"
| "path_value ON_ERROR_ROUTED = ''on_error_routed''"
| "path_value FILTER_DROPPED = ''filter_dropped''"
| "path_value COALESCED = ''coalesced''"
| "path_value UNROUTED = ''unrouted''"
| "path_value QUARANTINED_AT_SOURCE = ''quarantined_at_source''"
| "path_value SINK_FALLBACK_TO_FAILSINK = ''sink_fallback_to_failsink''"
| "path_value SINK_DISCARDED = ''sink_discarded''"
| "path_value FORK_PARENT = ''fork_parent''"
| "path_value EXPAND_PARENT = ''expand_parent''"
| "path_value BATCH_CONSUMED = ''batch_consumed''"
| "path_value BUFFERED = ''buffered''"
| "path_value ABANDONED = ''abandoned''"

definition all_terminal_outcomes :: "terminal_outcome list" where
  "all_terminal_outcomes = [SUCCESS, FAILURE, TRANSIENT]"

definition all_terminal_paths :: "terminal_path list" where
  "all_terminal_paths =
    [DEFAULT_FLOW, GATE_ROUTED, GATE_DISCARDED, GATE_ERROR_DISCARDED, ON_ERROR_ROUTED,
     FILTER_DROPPED, COALESCED, UNROUTED, QUARANTINED_AT_SOURCE, SINK_FALLBACK_TO_FAILSINK,
     SINK_DISCARDED, FORK_PARENT, EXPAND_PARENT, BATCH_CONSUMED, BUFFERED, ABANDONED]"

definition legal_terminal_pairs :: "(terminal_outcome \<times> terminal_path) list" where
  "legal_terminal_pairs =
    [(SUCCESS, DEFAULT_FLOW), (SUCCESS, GATE_ROUTED), (SUCCESS, GATE_DISCARDED),
     (FAILURE, GATE_ERROR_DISCARDED), (FAILURE, ON_ERROR_ROUTED), (SUCCESS, FILTER_DROPPED),
     (SUCCESS, COALESCED), (FAILURE, UNROUTED), (FAILURE, QUARANTINED_AT_SOURCE),
     (TRANSIENT, SINK_FALLBACK_TO_FAILSINK), (FAILURE, SINK_DISCARDED), (TRANSIENT, FORK_PARENT),
     (TRANSIENT, EXPAND_PARENT), (TRANSIENT, BATCH_CONSUMED)]"

definition non_terminal_paths :: "terminal_path list" where
  "non_terminal_paths = [BUFFERED, ABANDONED]"

text \<open>Registry enumerations: \<open>run_workers.role\<close>, \<open>run_workers.status\<close> and
  \<open>run_coordination_events.event_type\<close> are restricted by CHECK constraints.\<close>

datatype worker_role = Leader | Follower

datatype worker_status = Active | Departed | Evicted

datatype coord_event_type = WorkerRegister | WorkerDepart | WorkerEvict | WorkerStalled
  | LeaderAcquire | LeaderRelease | LeadershipLost | FenceRefusal | HeartbeatDegraded
  | Finalize | ResumeRefused

primrec coord_event_value :: "coord_event_type \<Rightarrow> string" where
  "coord_event_value WorkerRegister = ''worker_register''"
| "coord_event_value WorkerDepart = ''worker_depart''"
| "coord_event_value WorkerEvict = ''worker_evict''"
| "coord_event_value WorkerStalled = ''worker_stalled''"
| "coord_event_value LeaderAcquire = ''leader_acquire''"
| "coord_event_value LeaderRelease = ''leader_release''"
| "coord_event_value LeadershipLost = ''leadership_lost''"
| "coord_event_value FenceRefusal = ''fence_refusal''"
| "coord_event_value HeartbeatDegraded = ''heartbeat_degraded''"
| "coord_event_value Finalize = ''finalize''"
| "coord_event_value ResumeRefused = ''resume_refused''"

datatype frame_kind = FORK | EXPAND

datatype node_type = SOURCE | QUEUE | TRANSFORM | GATE | AGGREGATION | COALESCE | ROW_UNION
  | COLLECTOR | SINK

datatype node_state_status = STATE_OPEN | STATE_PENDING | STATE_COMPLETED | STATE_FAILED

datatype batch_status = DRAFT | EXECUTING | BATCH_COMPLETED | BATCH_FAILED

text \<open>JSON values; \<open>JTime\<close> is the ISO-8601 text of an instant.\<close>

datatype json = JNull | JBool bool | JInt int | JStr string | JTime instant | JArr "json list"
  | JObj "(string \<times> json) list"

definition jopt :: "('a \<Rightarrow> json) \<Rightarrow> 'a option \<Rightarrow> json" where
  "jopt f v = (case v of None \<Rightarrow> JNull | Some x \<Rightarrow> f x)"

section \<open>Rows\<close>

record lineage_frame =
  fr_kind :: frame_kind
  fr_group_id :: ident
  fr_member_key :: ident

record run_row =
  run_run_id :: ident
  run_run_status :: run_status
  run_config_hash :: string
  run_completed_at :: "instant option"
  run_reproducibility_grade :: "string option"

record node_row =
  nd_node_id :: ident
  nd_run_id :: ident
  nd_node_type :: node_type

record row_row =
  rw_row_id :: ident
  rw_run_id :: ident
  rw_ingest_sequence :: int

record token_row =
  tk_token_id :: ident
  tk_row_id :: ident
  tk_run_id :: ident

record token_outcome_row =
  to_outcome_id :: ident
  to_run_id :: ident
  to_token_id :: ident
  to_outcome :: "terminal_outcome option"
  to_path :: terminal_path
  to_completed :: bool
  to_recorded_at :: instant
  to_sink_name :: "ident option"
  to_batch_id :: "ident option"
  to_error_hash :: "string option"
  to_context :: "json option"

record token_parent_row =
  tp_token_id :: ident
  tp_parent_token_id :: ident
  tp_run_id :: ident
  tp_ordinal :: int

record lineage_frame_row =
  lf_token_id :: ident
  lf_run_id :: ident
  lf_depth :: int
  lf_kind :: frame_kind
  lf_group_id :: ident
  lf_member_key :: ident

record batch_row =
  bt_batch_id :: ident
  bt_run_id :: ident
  bt_status :: batch_status

record batch_member_row =
  bm_batch_id :: ident
  bm_run_id :: ident
  bm_token_id :: ident
  bm_ordinal :: int

text \<open>The witnesses an outcome is checked against: node states, artifacts and sink effects.\<close>

record node_state_row =
  ns_state_id :: ident
  ns_token_id :: ident
  ns_run_id :: ident
  ns_node_id :: ident
  ns_status :: node_state_status

record artifact_row =
  ar_artifact_id :: ident
  ar_run_id :: ident
  ar_produced_by_state_id :: "ident option"
  ar_sink_effect_id :: "ident option"
  ar_sink_node_id :: ident

record sink_effect_row =
  sf_effect_id :: ident
  sf_run_id :: ident
  sf_sink_node_id :: ident

record sink_effect_member_row =
  sm_effect_id :: ident
  sm_run_id :: ident
  sm_token_id :: ident

record seat_row =
  st_run_id :: ident
  st_leader_worker_id :: "ident option"
  st_leader_epoch :: int
  st_leader_heartbeat_expires_at :: "instant option"
  st_updated_at :: instant

record worker_row =
  wk_worker_id :: ident
  wk_run_id :: ident
  wk_role :: worker_role
  wk_status :: worker_status
  wk_registered_at :: instant
  wk_heartbeat_expires_at :: instant
  wk_departed_at :: "instant option"
  wk_evicted_at :: "instant option"
  wk_evicted_by_worker_id :: "ident option"
  wk_pid :: "int option"
  wk_hostname :: "string option"
  wk_entry_point :: "string option"

record coord_event_row =
  ce_event_id :: string
  ce_run_id :: ident
  ce_event_type :: coord_event_type
  ce_worker_id :: ident
  ce_leader_epoch :: "int option"
  ce_recorded_at :: instant
  ce_context :: json

record work_item =
  wi_work_item_id :: ident
  wi_run_id :: ident
  wi_token_id :: ident
  wi_row_id :: ident
  wi_node_id :: "ident option"
  wi_step_index :: int
  wi_ingest_sequence :: int
  wi_row_payload_json :: string
  wi_status :: token_work_status
  wi_queue_key :: "string option"
  wi_barrier_key :: "string option"
  wi_on_success_sink :: "string option"
  wi_pending_sink_name :: "string option"
  wi_pending_outcome :: "string option"
  wi_pending_path :: "string option"
  wi_pending_error_hash :: "string option"
  wi_pending_error_message :: "string option"
  wi_join_group_id :: "ident option"
  wi_lineage_path :: "lineage_frame list"
  wi_coalesce_node_id :: "ident option"
  wi_coalesce_name :: "string option"
  wi_row_union_name :: "string option"
  wi_collector_name :: "string option"
  wi_attempt :: int
  wi_lease_owner :: "ident option"
  wi_lease_expires_at :: "instant option"
  wi_available_at :: instant
  wi_barrier_blocked_at :: "instant option"
  wi_barrier_adopted_epoch :: "int option"
  wi_created_at :: instant
  wi_updated_at :: instant

record scheduler_event_row =
  se_event_id :: string
  se_run_id :: ident
  se_token_id :: ident
  se_work_item_id :: ident
  se_node_id :: "ident option"
  se_event_type :: scheduler_event_type
  se_from_status :: "token_work_status option"
  se_to_status :: token_work_status
  se_from_lease_owner :: "ident option"
  se_to_lease_owner :: "ident option"
  se_from_lease_expires_at :: "instant option"
  se_to_lease_expires_at :: "instant option"
  se_from_attempt :: "int option"
  se_to_attempt :: int
  se_recorded_at :: instant
  se_caller_owner :: "ident option"
  se_context :: json

record group_loss_row =
  gl_loss_id :: ident
  gl_run_id :: ident
  gl_closer_name :: string
  gl_group_id :: ident
  gl_member_key :: ident
  gl_token_id :: ident
  gl_reason :: string
  gl_recorded_by :: ident
  gl_recorded_at :: instant
  gl_adopted_epoch :: "int option"

record db =
  db_runs :: "run_row list"
  db_nodes :: "node_row list"
  db_rows :: "row_row list"
  db_tokens :: "token_row list"
  db_outcomes :: "token_outcome_row list"
  db_seats :: "seat_row list"
  db_workers :: "worker_row list"
  db_coord_events :: "coord_event_row list"
  db_work_items :: "work_item list"
  db_scheduler_events :: "scheduler_event_row list"
  db_group_losses :: "group_loss_row list"
  db_token_parents :: "token_parent_row list"
  db_lineage_frames :: "lineage_frame_row list"
  db_batches :: "batch_row list"
  db_batch_members :: "batch_member_row list"
  db_node_states :: "node_state_row list"
  db_artifacts :: "artifact_row list"
  db_sink_effects :: "sink_effect_row list"
  db_sink_effect_members :: "sink_effect_member_row list"

section \<open>Table constraints\<close>

definition lower_hex16 :: "string option \<Rightarrow> bool" where
  "lower_hex16 v = (case v of None \<Rightarrow> True
     | Some s \<Rightarrow> length s = 16 \<and> list_all (\<lambda>ch. ch \<in> set ''0123456789abcdef'') s)"

definition run_coordination_check :: "seat_row \<Rightarrow> bool" where
  "run_coordination_check s \<longleftrightarrow>
     (st_leader_worker_id s = None) = (st_leader_heartbeat_expires_at s = None)"

definition run_workers_check :: "worker_row \<Rightarrow> bool" where
  "run_workers_check w \<longleftrightarrow> (wk_status w = Evicted) = (wk_evicted_at w \<noteq> None)"

definition token_work_items_check :: "work_item \<Rightarrow> bool" where
  "token_work_items_check w \<longleftrightarrow>
     (wi_status w = LEASED \<longrightarrow> wi_lease_owner w \<noteq> None \<and> wi_lease_owner w \<noteq> Some '''') \<and>
     lower_hex16 (wi_pending_error_hash w)"

text \<open>\<open>UNIQUE (run_id, token_id, node_id, attempt)\<close> together with the partial unique
  index over the rows whose \<open>node_id\<close> is NULL.\<close>

definition work_item_lane :: "work_item \<Rightarrow> ident \<times> ident \<times> ident option \<times> int" where
  "work_item_lane w = (wi_run_id w, wi_token_id w, wi_node_id w, wi_attempt w)"

definition token_work_items_ok :: "work_item list \<Rightarrow> bool" where
  "token_work_items_ok ws \<longleftrightarrow>
     keyed wi_work_item_id ws \<and> keyed work_item_lane ws \<and> list_all token_work_items_check ws"

definition run_coordination_ok :: "seat_row list \<Rightarrow> bool" where
  "run_coordination_ok ss \<longleftrightarrow> keyed st_run_id ss \<and> list_all run_coordination_check ss"

definition run_workers_ok :: "worker_row list \<Rightarrow> bool" where
  "run_workers_ok ws \<longleftrightarrow> keyed wk_worker_id ws \<and> list_all run_workers_check ws"

definition run_coordination_events_ok :: "coord_event_row list \<Rightarrow> bool" where
  "run_coordination_events_ok es \<longleftrightarrow> keyed ce_event_id es"

definition group_loss_natural :: "group_loss_row \<Rightarrow> ident \<times> string \<times> ident \<times> ident" where
  "group_loss_natural g = (gl_run_id g, gl_closer_name g, gl_group_id g, gl_member_key g)"

definition group_losses_ok :: "group_loss_row list \<Rightarrow> bool" where
  "group_losses_ok gs \<longleftrightarrow> keyed gl_loss_id gs \<and> keyed group_loss_natural gs"

text \<open>\<open>token_outcomes\<close>: the primary key, the partial unique index over the completed rows
  and the hash CHECK; \<open>batch_members\<close>: the natural key and the ordinal of a member.\<close>

definition token_outcomes_ok :: "token_outcome_row list \<Rightarrow> bool" where
  "token_outcomes_ok ts \<longleftrightarrow>
     keyed to_outcome_id ts \<and> keyed to_token_id (filter to_completed ts) \<and>
     list_all (\<lambda>t. lower_hex16 (to_error_hash t)) ts"

definition batch_members_ok :: "batch_member_row list \<Rightarrow> bool" where
  "batch_members_ok ms \<longleftrightarrow>
     keyed (\<lambda>m. (bm_batch_id m, bm_token_id m)) ms \<and> keyed (\<lambda>m. (bm_batch_id m, bm_ordinal m)) ms"

text \<open>The constraints every committed database image satisfies.\<close>

definition db_ok :: "db \<Rightarrow> bool" where
  "db_ok d \<longleftrightarrow>
     keyed run_run_id (db_runs d) \<and> keyed tk_token_id (db_tokens d) \<and>
     keyed rw_row_id (db_rows d) \<and>
     run_coordination_ok (db_seats d) \<and> run_workers_ok (db_workers d) \<and>
     run_coordination_events_ok (db_coord_events d) \<and>
     token_work_items_ok (db_work_items d) \<and> group_losses_ok (db_group_losses d) \<and>
     token_outcomes_ok (db_outcomes d) \<and> batch_members_ok (db_batch_members d)"

section \<open>Shared WHERE clauses\<close>

definition no_error_evidence :: "work_item \<Rightarrow> bool" where
  "no_error_evidence w \<longleftrightarrow> wi_pending_error_hash w = None \<and> wi_pending_error_message w = None"

definition column_present :: "string option \<Rightarrow> bool" where
  "column_present v \<longleftrightarrow> v \<noteq> None \<and> v \<noteq> Some ''''"

definition pending_pair :: "terminal_outcome \<Rightarrow> terminal_path \<Rightarrow> work_item \<Rightarrow> bool" where
  "pending_pair oc p w \<longleftrightarrow>
     wi_pending_outcome w = Some (outcome_value oc) \<and> wi_pending_path w = Some (path_value p)"

definition pending_sink_bundle_clause :: "work_item \<Rightarrow> bool" where
  "pending_sink_bundle_clause w \<longleftrightarrow>
     wi_row_payload_json w \<noteq> '''' \<and> column_present (wi_pending_sink_name w) \<and>
     (pending_pair SUCCESS DEFAULT_FLOW w \<and> no_error_evidence w
      \<or> pending_pair SUCCESS GATE_ROUTED w \<and> no_error_evidence w
      \<or> pending_pair FAILURE ON_ERROR_ROUTED w \<and> column_present (wi_pending_error_hash w) \<and>
          wi_pending_error_message w \<noteq> None
      \<or> pending_pair SUCCESS COALESCED w \<and> column_present (wi_join_group_id w) \<and>
          no_error_evidence w
      \<or> pending_pair FAILURE QUARANTINED_AT_SOURCE w \<and>
          column_present (wi_pending_error_hash w) \<and> wi_pending_error_message w \<noteq> None \<and>
          wi_join_group_id w = None)"

text \<open>\<open>token_decided_clause\<close> is correlated to a token, and
  \<open>work_item_token_decided_clause\<close> to a work item.\<close>

definition decided :: "db \<Rightarrow> ident \<Rightarrow> ident \<Rightarrow> bool" where
  "decided d run token \<longleftrightarrow>
     exists_where (\<lambda>t. to_run_id t = run \<and> to_token_id t = token \<and> to_completed t)
       (db_outcomes d)"

definition token_decided_clause :: "db \<Rightarrow> token_row \<Rightarrow> bool" where
  "token_decided_clause d t \<longleftrightarrow> decided d (tk_run_id t) (tk_token_id t)"

definition work_item_token_decided_clause :: "db \<Rightarrow> work_item \<Rightarrow> bool" where
  "work_item_token_decided_clause d w \<longleftrightarrow> decided d (wi_run_id w) (wi_token_id w)"

definition undecided_failed_work_clause :: "db \<Rightarrow> work_item \<Rightarrow> bool" where
  "undecided_failed_work_clause d w \<longleftrightarrow>
     wi_status w = FAILED \<and> \<not> work_item_token_decided_clause d w"

definition blocked_barrier_hold_clause :: "work_item \<Rightarrow> bool" where
  "blocked_barrier_hold_clause w \<longleftrightarrow> wi_status w = BLOCKED \<and> wi_barrier_key w \<noteq> None"

definition active_worker_fence_clause :: "db \<Rightarrow> ident \<Rightarrow> ident \<Rightarrow> bool" where
  "active_worker_fence_clause d worker run \<longleftrightarrow>
     exists_where (\<lambda>w. wk_worker_id w = worker \<and> wk_run_id w = run \<and> wk_status w = Active)
       (db_workers d)"

definition claim_verb_fence_clause :: "db \<Rightarrow> ident \<Rightarrow> ident \<Rightarrow> bool" where
  "claim_verb_fence_clause d worker run \<longleftrightarrow>
     active_worker_fence_clause d worker run \<or>
     \<not> exists_where (\<lambda>w. wk_run_id w = run) (db_workers d)"

end
