(* ===== verification/Landscape_Database.thy ===== *)
theory Landscape_Database
  imports Landscape_Schema
begin

text \<open>
  The write-transaction machinery: \<open>core/landscape/database.py\<close> (\<open>begin_write\<close>),
  \<open>core/landscape/database_clock.py\<close> and \<open>core/landscape/lease_deadlines.py\<close>, the
  errors the repositories raise, and one primitive per kind of SQL statement.

  What is outside the repository is a field of the record \<open>env\<close>: the dialect of
  the server, the successive readings of its clock, the instant at which a
  PostgreSQL transaction started, the process clock, whether
  \<open>BEGIN IMMEDIATE\<close> finds the write lock held, the RFC 8785 serialiser behind
  \<open>canonical_json\<close>, the UUID source, and the process identity.  A write
  transaction runs its body on a connection, checks the deadlines the body
  issued, and either commits the body's tables or leaves the database as it
  was.  Writers are serialised (\<open>BEGIN IMMEDIATE\<close>, row locks), so a
  multi-worker history is a sequence of whole transactions.
\<close>

section \<open>Errors and contracts\<close>

datatype resume_refusal_cause = LEADER_LIVE | RUN_NOT_FINALIZED | TERMINAL_STATUS_CHANGED

record registered_worker =
  rg_worker_id :: ident
  rg_role :: worker_role
  rg_status :: worker_status
  rg_pid :: "int option"
  rg_hostname :: "string option"

text \<open>\<open>DeadlineKey\<close>: the kind with its identity tuple.\<close>

datatype deadline_key =
    LeaderDeadline ident ident int
  | WorkerDeadline ident ident
  | ItemDeadline ident
  | SinkEffectDeadline ident

datatype error =
    AuditIntegrityError string
  | LandscapeRecordError string
  | RunLeadershipLostError ident ident int string
  | RunMembershipLostError ident ident string
  | RunWorkerEvictedError ident ident
  | SchedulerLeaseLostError ident ident ident
  | NonResumableRunError ident resume_refusal_cause
  | JoinRefusedError ident string
  | WriteLockHeldError ident "registered_worker list"
  | LeaseDeadlineExpiredError deadline_key
  | ValueError string
  | IntegrityError string
  | DatabaseLockedError
  | NoResultFoundError
  | PendingSinkTerminalMiss
  | KeyError string

record coordination_token =
  ct_run_id :: ident
  ct_worker_id :: ident
  ct_leader_epoch :: int

record worker_membership_token =
  mt_run_id :: ident
  mt_worker_id :: ident

definition membership :: "coordination_token \<Rightarrow> worker_membership_token" where
  "membership t = \<lparr>mt_run_id = ct_run_id t, mt_worker_id = ct_worker_id t\<rparr>"

definition DEFAULT_RUN_LIVENESS_WINDOW :: duration where
  "DEFAULT_RUN_LIVENESS_WINDOW = seconds 80"

definition DEFAULT_ITEM_STALL_BUDGET :: duration where
  "DEFAULT_ITEM_STALL_BUDGET = seconds 600"

section \<open>The environment and a connection\<close>

datatype dialect = Sqlite | Postgresql

record env =
  env_dialect :: dialect
  env_clock :: "nat \<Rightarrow> instant"
  env_transaction_start :: instant
  env_process_clock :: instant
  env_locked :: bool
  env_refusal_locked :: bool
  env_canonical_json :: "json \<Rightarrow> string"
  env_uuid4_hex :: "nat \<Rightarrow> string"
  env_pid :: int
  env_hostname :: string

record issued_deadline =
  dl_expires_at :: instant
  dl_reserve :: duration

record conn =
  conn_env :: env
  conn_clock_reads :: nat
  conn_uuid_reads :: nat
  conn_issued :: "(deadline_key \<times> issued_deadline) list"
  tables :: db

type_synonym 'a body = "(conn, error, 'a) tx"

definition open_conn :: "env \<Rightarrow> db \<Rightarrow> conn" where
  "open_conn e d = \<lparr>conn_env = e, conn_clock_reads = 0, conn_uuid_reads = 0, conn_issued = [],
     tables = d\<rparr>"

section \<open>Database clock\<close>

text \<open>SQLite's \<open>strftime('%f', 'now')\<close> has millisecond resolution.\<close>

definition decision_instant :: "dialect \<Rightarrow> instant \<Rightarrow> instant" where
  "decision_instant dl t = (case dl of Postgresql \<Rightarrow> t | Sqlite \<Rightarrow> t div 1000 * 1000)"

definition read_landscape_decision_time :: "instant body" where
  "read_landscape_decision_time c =
    Inr (decision_instant (env_dialect (conn_env c)) (env_clock (conn_env c) (conn_clock_reads c)),
         c\<lparr>conn_clock_reads := Suc (conn_clock_reads c)\<rparr>)"

text \<open>\<open>CURRENT_TIMESTAMP\<close> is the start of the transaction on PostgreSQL and the whole
  second of the statement on SQLite.\<close>

definition transaction_instant :: "env \<Rightarrow> instant \<Rightarrow> instant" where
  "transaction_instant e t =
    (case env_dialect e of Postgresql \<Rightarrow> env_transaction_start e | Sqlite \<Rightarrow> t div 1000000 * 1000000)"

definition read_landscape_transaction_time :: "instant body" where
  "read_landscape_transaction_time c =
    Inr (transaction_instant (conn_env c) (env_clock (conn_env c) (conn_clock_reads c)),
         c\<lparr>conn_clock_reads := Suc (conn_clock_reads c)\<rparr>)"

definition generate_id :: "string body" where
  "generate_id c =
    Inr (env_uuid4_hex (conn_env c) (conn_uuid_reads c), c\<lparr>conn_uuid_reads := Suc (conn_uuid_reads c)\<rparr>)"

section \<open>Issued deadlines\<close>

fun valid_deadline_key :: "deadline_key \<Rightarrow> bool" where
  "valid_deadline_key (LeaderDeadline r w e) \<longleftrightarrow> r \<noteq> '''' \<and> w \<noteq> ''''"
| "valid_deadline_key (WorkerDeadline r w) \<longleftrightarrow> r \<noteq> '''' \<and> w \<noteq> ''''"
| "valid_deadline_key (ItemDeadline i) \<longleftrightarrow> i \<noteq> ''''"
| "valid_deadline_key (SinkEffectDeadline i) \<longleftrightarrow> i \<noteq> ''''"

text \<open>\<open>timedelta(seconds=window * 0.1)\<close> rounds to the nearest microsecond, ties to even.\<close>

definition tenth :: "duration \<Rightarrow> duration" where
  "tenth w = (let q = w div 10; r = w mod 10 in if r < 5 \<or> (r = 5 \<and> even q) then q else q + 1)"

definition deadline_reserve :: "duration \<Rightarrow> duration" where
  "deadline_reserve window = min (seconds 1) (tenth window)"

definition clock_resolution :: "dialect \<Rightarrow> duration" where
  "clock_resolution dl = (case dl of Sqlite \<Rightarrow> 1000 | Postgresql \<Rightarrow> 1)"

definition record_issued_deadline :: "deadline_key \<Rightarrow> instant \<Rightarrow> duration \<Rightarrow> unit body" where
  "record_issued_deadline key expires_at window =
    tx_then (tx_assert (valid_deadline_key key) (ValueError ''deadline identity''))
   (tx_then (tx_assert (0 < window) (ValueError ''deadline window''))
   (tx_bind (tx_gets (\<lambda>c. clock_resolution (env_dialect (conn_env c)))) (\<lambda>resolution.
    tx_then (tx_assert (resolution \<le> deadline_reserve window) (ValueError ''deadline reserve''))
   (tx_modify (\<lambda>c. c\<lparr>conn_issued := AList.update key
      \<lparr>dl_expires_at = expires_at, dl_reserve = deadline_reserve window\<rparr> (conn_issued c)\<rparr>)))))"

definition forget_issued_deadline :: "deadline_key \<Rightarrow> unit body" where
  "forget_issued_deadline key = tx_modify (\<lambda>c. c\<lparr>conn_issued := AList.delete key (conn_issued c)\<rparr>)"

definition has_issued_deadline :: "deadline_key \<Rightarrow> bool body" where
  "has_issued_deadline key = tx_gets (\<lambda>c. map_of (conn_issued c) key \<noteq> None)"

definition check_deadlines_before_commit :: "unit body" where
  "check_deadlines_before_commit =
    tx_bind (tx_gets conn_issued) (\<lambda>issued.
      if issued = [] then tx_return ()
      else tx_bind read_landscape_decision_time (\<lambda>sampled_at.
        tx_for issued (\<lambda>(key, deadline).
          tx_assert (dl_reserve deadline < dl_expires_at deadline - sampled_at)
            (LeaseDeadlineExpiredError key))))"

section \<open>Write transactions\<close>

text \<open>The outcome of a verb: its result or error, and the database after it.\<close>

type_synonym 'a outcome = "(error + 'a) \<times> db"

definition begin_write :: "env \<Rightarrow> 'a body \<Rightarrow> db \<Rightarrow> 'a outcome" where
  "begin_write e body d =
    (if env_locked e then (Inl DatabaseLockedError, d)
     else case tx_bind body (\<lambda>x. tx_then check_deadlines_before_commit (tx_return x)) (open_conn e d) of
       Inl err \<Rightarrow> (Inl err, d)
     | Inr (x, c) \<Rightarrow> (Inr x, tables c))"

text \<open>A read on a plain connection sees the committed image and writes nothing.\<close>

definition read_connection :: "env \<Rightarrow> 'a body \<Rightarrow> db \<Rightarrow> error + 'a" where
  "read_connection e body d = (case body (open_conn e d) of Inl err \<Rightarrow> Inl err | Inr (x, _) \<Rightarrow> Inr x)"

section \<open>Statements\<close>

definition select_tables :: "(db \<Rightarrow> 'a) \<Rightarrow> 'a body" where
  "select_tables q = tx_gets (\<lambda>c. q (tables c))"

definition put_table :: "bool \<Rightarrow> string \<Rightarrow> (db \<Rightarrow> db) \<Rightarrow> 'a \<Rightarrow> 'a body" where
  "put_table ok name f x c =
    (if ok then Inr (x, c\<lparr>tables := f (tables c)\<rparr>) else Inl (IntegrityError name))"

definition update_runs :: "(run_row \<Rightarrow> bool) \<Rightarrow> (run_row \<Rightarrow> run_row) \<Rightarrow> nat body" where
  "update_runs P f = tx_bind (select_tables db_runs) (\<lambda>rs.
     put_table (keyed run_run_id (update_where P f rs)) ''runs''
       (\<lambda>d. d\<lparr>db_runs := update_where P f rs\<rparr>) (count_where P rs))"

definition update_seats :: "(seat_row \<Rightarrow> bool) \<Rightarrow> (seat_row \<Rightarrow> seat_row) \<Rightarrow> nat body" where
  "update_seats P f = tx_bind (select_tables db_seats) (\<lambda>rs.
     put_table (run_coordination_ok (update_where P f rs)) ''run_coordination''
       (\<lambda>d. d\<lparr>db_seats := update_where P f rs\<rparr>) (count_where P rs))"

definition update_workers :: "(worker_row \<Rightarrow> bool) \<Rightarrow> (worker_row \<Rightarrow> worker_row) \<Rightarrow> nat body" where
  "update_workers P f = tx_bind (select_tables db_workers) (\<lambda>rs.
     put_table (run_workers_ok (update_where P f rs)) ''run_workers''
       (\<lambda>d. d\<lparr>db_workers := update_where P f rs\<rparr>) (count_where P rs))"

definition update_work_items :: "(work_item \<Rightarrow> bool) \<Rightarrow> (work_item \<Rightarrow> work_item) \<Rightarrow> nat body" where
  "update_work_items P f = tx_bind (select_tables db_work_items) (\<lambda>rs.
     put_table (token_work_items_ok (update_where P f rs)) ''token_work_items''
       (\<lambda>d. d\<lparr>db_work_items := update_where P f rs\<rparr>) (count_where P rs))"

definition update_group_losses ::
  "(group_loss_row \<Rightarrow> bool) \<Rightarrow> (group_loss_row \<Rightarrow> group_loss_row) \<Rightarrow> nat body" where
  "update_group_losses P f = tx_bind (select_tables db_group_losses) (\<lambda>rs.
     put_table (group_losses_ok (update_where P f rs)) ''group_losses''
       (\<lambda>d. d\<lparr>db_group_losses := update_where P f rs\<rparr>) (count_where P rs))"

text \<open>Foreign keys the inserts are checked against.\<close>

definition run_exists :: "db \<Rightarrow> ident \<Rightarrow> bool" where
  "run_exists d run \<longleftrightarrow> exists_where (\<lambda>r. run_run_id r = run) (db_runs d)"

definition token_exists :: "db \<Rightarrow> ident \<Rightarrow> ident \<Rightarrow> bool" where
  "token_exists d run token \<longleftrightarrow>
     exists_where (\<lambda>t. tk_token_id t = token \<and> tk_run_id t = run) (db_tokens d)"

definition row_exists :: "db \<Rightarrow> ident \<Rightarrow> ident \<Rightarrow> bool" where
  "row_exists d run row \<longleftrightarrow> exists_where (\<lambda>r. rw_row_id r = row \<and> rw_run_id r = run) (db_rows d)"

definition node_exists :: "db \<Rightarrow> ident \<Rightarrow> ident option \<Rightarrow> bool" where
  "node_exists d run node \<longleftrightarrow> (case node of None \<Rightarrow> True
     | Some n \<Rightarrow> exists_where (\<lambda>x. nd_node_id x = n \<and> nd_run_id x = run) (db_nodes d))"

definition insert_seat :: "seat_row \<Rightarrow> unit body" where
  "insert_seat r = tx_bind (select_tables (\<lambda>d. d)) (\<lambda>d.
     put_table (run_exists d (st_run_id r) \<and> run_coordination_ok (db_seats d @ [r]))
       ''run_coordination'' (\<lambda>d. d\<lparr>db_seats := db_seats d @ [r]\<rparr>) ())"

definition insert_worker :: "worker_row \<Rightarrow> unit body" where
  "insert_worker r = tx_bind (select_tables (\<lambda>d. d)) (\<lambda>d.
     put_table (run_exists d (wk_run_id r) \<and> run_workers_ok (db_workers d @ [r]))
       ''run_workers'' (\<lambda>d. d\<lparr>db_workers := db_workers d @ [r]\<rparr>) ())"

definition insert_coord_event :: "coord_event_row \<Rightarrow> unit body" where
  "insert_coord_event r = tx_bind (select_tables (\<lambda>d. d)) (\<lambda>d.
     put_table (run_exists d (ce_run_id r) \<and> run_coordination_events_ok (db_coord_events d @ [r]))
       ''run_coordination_events'' (\<lambda>d. d\<lparr>db_coord_events := db_coord_events d @ [r]\<rparr>) ())"

definition insert_work_item :: "work_item \<Rightarrow> unit body" where
  "insert_work_item r = tx_bind (select_tables (\<lambda>d. d)) (\<lambda>d.
     put_table (token_exists d (wi_run_id r) (wi_token_id r) \<and> row_exists d (wi_run_id r) (wi_row_id r) \<and>
                node_exists d (wi_run_id r) (wi_node_id r) \<and>
                node_exists d (wi_run_id r) (wi_coalesce_node_id r) \<and>
                token_work_items_ok (db_work_items d @ [r]))
       ''token_work_items'' (\<lambda>d. d\<lparr>db_work_items := db_work_items d @ [r]\<rparr>) ())"

definition scheduler_events_check :: "scheduler_event_row \<Rightarrow> bool" where
  "scheduler_events_check e \<longleftrightarrow>
     (case se_from_attempt e of None \<Rightarrow> True | Some a \<Rightarrow> 0 \<le> a) \<and> 0 \<le> se_to_attempt e"

definition insert_scheduler_event :: "scheduler_event_row \<Rightarrow> unit body" where
  "insert_scheduler_event r = tx_bind (select_tables (\<lambda>d. d)) (\<lambda>d.
     put_table (run_exists d (se_run_id r) \<and> token_exists d (se_run_id r) (se_token_id r) \<and>
                node_exists d (se_run_id r) (se_node_id r) \<and> scheduler_events_check r)
       ''scheduler_events'' (\<lambda>d. d\<lparr>db_scheduler_events := db_scheduler_events d @ [r]\<rparr>) ())"

definition insert_group_loss :: "group_loss_row \<Rightarrow> unit body" where
  "insert_group_loss r = tx_bind (select_tables (\<lambda>d. d)) (\<lambda>d.
     put_table (run_exists d (gl_run_id r) \<and> token_exists d (gl_run_id r) (gl_token_id r) \<and>
                group_losses_ok (db_group_losses d @ [r]))
       ''group_losses'' (\<lambda>d. d\<lparr>db_group_losses := db_group_losses d @ [r]\<rparr>) ())"

definition batch_exists :: "db \<Rightarrow> ident \<Rightarrow> ident option \<Rightarrow> bool" where
  "batch_exists d run batch \<longleftrightarrow> (case batch of None \<Rightarrow> True
     | Some b \<Rightarrow> exists_where (\<lambda>x. bt_batch_id x = b \<and> bt_run_id x = run) (db_batches d))"

definition insert_outcome :: "token_outcome_row \<Rightarrow> unit body" where
  "insert_outcome r = tx_bind (select_tables (\<lambda>d. d)) (\<lambda>d.
     put_table (token_exists d (to_run_id r) (to_token_id r) \<and> batch_exists d (to_run_id r) (to_batch_id r) \<and>
                token_outcomes_ok (db_outcomes d @ [r]))
       ''token_outcomes'' (\<lambda>d. d\<lparr>db_outcomes := db_outcomes d @ [r]\<rparr>) ())"

definition insert_batch_member :: "batch_member_row \<Rightarrow> unit body" where
  "insert_batch_member r = tx_bind (select_tables (\<lambda>d. d)) (\<lambda>d.
     put_table (token_exists d (bm_run_id r) (bm_token_id r) \<and>
                batch_exists d (bm_run_id r) (Some (bm_batch_id r)) \<and>
                batch_members_ok (db_batch_members d @ [r]))
       ''batch_members'' (\<lambda>d. d\<lparr>db_batch_members := db_batch_members d @ [r]\<rparr>) ())"

text \<open>A statement executed once per parameter set: the rowcounts add up.\<close>

primrec execute_many :: "'a list \<Rightarrow> ('a \<Rightarrow> nat body) \<Rightarrow> nat body" where
  "execute_many [] f = tx_return 0"
| "execute_many (x # xs) f = tx_bind (f x) (\<lambda>n. tx_bind (execute_many xs f) (\<lambda>k. tx_return (n + k)))"

text \<open>\<open>except SQLAlchemyError\<close>: a database refusal is raised as a \<open>LandscapeRecordError\<close>; any
  other error passes through.\<close>

fun record_error :: "string \<Rightarrow> error \<Rightarrow> error" where
  "record_error msg (IntegrityError t) = LandscapeRecordError msg"
| "record_error msg err = err"

definition refused_as_record_error :: "string \<Rightarrow> 'a body \<Rightarrow> 'a body" where
  "refused_as_record_error msg m c = (case m c of Inl err \<Rightarrow> Inl (record_error msg err) | Inr r \<Rightarrow> Inr r)"

text \<open>\<open>.mappings().one()\<close> and \<open>.one_or_none()\<close> on a key: the row of that key.\<close>

definition the_row :: "'a option \<Rightarrow> 'a body" where
  "the_row v = (case v of None \<Rightarrow> tx_raise NoResultFoundError | Some x \<Rightarrow> tx_return x)"

section \<open>Lemmas on statements and transactions\<close>

lemma read_landscape_decision_time_inv [tx_inv]:
  "read_landscape_decision_time c = Inr r \<longleftrightarrow>
   r = (decision_instant (env_dialect (conn_env c)) (env_clock (conn_env c) (conn_clock_reads c)),
        c\<lparr>conn_clock_reads := Suc (conn_clock_reads c)\<rparr>)"
  by (auto simp: read_landscape_decision_time_def)

lemma generate_id_inv [tx_inv]:
  "generate_id c = Inr r \<longleftrightarrow>
   r = (env_uuid4_hex (conn_env c) (conn_uuid_reads c), c\<lparr>conn_uuid_reads := Suc (conn_uuid_reads c)\<rparr>)"
  by (auto simp: generate_id_def)

lemma select_tables_inv [tx_inv]: "select_tables q c = Inr r \<longleftrightarrow> r = (q (tables c), c)"
  by (auto simp: select_tables_def tx_inv)

lemma put_table_inv [tx_inv]:
  "put_table ok name f x c = Inr r \<longleftrightarrow> ok \<and> r = (x, c\<lparr>tables := f (tables c)\<rparr>)"
  by (auto simp: put_table_def)

lemma update_inv [tx_inv]:
  "update_runs PR fr c = Inr r \<longleftrightarrow> keyed run_run_id (update_where PR fr (db_runs (tables c))) \<and>
     r = (count_where PR (db_runs (tables c)),
          c\<lparr>tables := (tables c)\<lparr>db_runs := update_where PR fr (db_runs (tables c))\<rparr>\<rparr>)"
  "update_seats PS fs c = Inr r \<longleftrightarrow> run_coordination_ok (update_where PS fs (db_seats (tables c))) \<and>
     r = (count_where PS (db_seats (tables c)),
          c\<lparr>tables := (tables c)\<lparr>db_seats := update_where PS fs (db_seats (tables c))\<rparr>\<rparr>)"
  "update_workers PW fw c = Inr r \<longleftrightarrow> run_workers_ok (update_where PW fw (db_workers (tables c))) \<and>
     r = (count_where PW (db_workers (tables c)),
          c\<lparr>tables := (tables c)\<lparr>db_workers := update_where PW fw (db_workers (tables c))\<rparr>\<rparr>)"
  "update_work_items PI fi c = Inr r \<longleftrightarrow>
     token_work_items_ok (update_where PI fi (db_work_items (tables c))) \<and>
     r = (count_where PI (db_work_items (tables c)),
          c\<lparr>tables := (tables c)\<lparr>db_work_items := update_where PI fi (db_work_items (tables c))\<rparr>\<rparr>)"
  "update_group_losses PG fg c = Inr r \<longleftrightarrow>
     group_losses_ok (update_where PG fg (db_group_losses (tables c))) \<and>
     r = (count_where PG (db_group_losses (tables c)),
          c\<lparr>tables := (tables c)\<lparr>db_group_losses := update_where PG fg (db_group_losses (tables c))\<rparr>\<rparr>)"
  by (auto simp: update_runs_def update_seats_def update_workers_def update_work_items_def
      update_group_losses_def tx_inv)

lemma insert_inv [tx_inv]:
  "insert_seat s c = Inr r \<longleftrightarrow> run_exists (tables c) (st_run_id s) \<and>
     run_coordination_ok (db_seats (tables c) @ [s]) \<and>
     r = ((), c\<lparr>tables := (tables c)\<lparr>db_seats := db_seats (tables c) @ [s]\<rparr>\<rparr>)"
  "insert_worker w c = Inr r \<longleftrightarrow> run_exists (tables c) (wk_run_id w) \<and>
     run_workers_ok (db_workers (tables c) @ [w]) \<and>
     r = ((), c\<lparr>tables := (tables c)\<lparr>db_workers := db_workers (tables c) @ [w]\<rparr>\<rparr>)"
  "insert_coord_event ce c = Inr r \<longleftrightarrow> run_exists (tables c) (ce_run_id ce) \<and>
     run_coordination_events_ok (db_coord_events (tables c) @ [ce]) \<and>
     r = ((), c\<lparr>tables := (tables c)\<lparr>db_coord_events := db_coord_events (tables c) @ [ce]\<rparr>\<rparr>)"
  by (auto simp: insert_seat_def insert_worker_def insert_coord_event_def tx_inv)

lemma insert_item_inv [tx_inv]:
  "insert_work_item i c = Inr r \<longleftrightarrow> token_exists (tables c) (wi_run_id i) (wi_token_id i) \<and>
     row_exists (tables c) (wi_run_id i) (wi_row_id i) \<and>
     node_exists (tables c) (wi_run_id i) (wi_node_id i) \<and>
     node_exists (tables c) (wi_run_id i) (wi_coalesce_node_id i) \<and>
     token_work_items_ok (db_work_items (tables c) @ [i]) \<and>
     r = ((), c\<lparr>tables := (tables c)\<lparr>db_work_items := db_work_items (tables c) @ [i]\<rparr>\<rparr>)"
  "insert_scheduler_event se c = Inr r \<longleftrightarrow> run_exists (tables c) (se_run_id se) \<and>
     token_exists (tables c) (se_run_id se) (se_token_id se) \<and>
     node_exists (tables c) (se_run_id se) (se_node_id se) \<and> scheduler_events_check se \<and>
     r = ((), c\<lparr>tables := (tables c)\<lparr>db_scheduler_events := db_scheduler_events (tables c) @ [se]\<rparr>\<rparr>)"
  "insert_group_loss g c = Inr r \<longleftrightarrow> run_exists (tables c) (gl_run_id g) \<and>
     token_exists (tables c) (gl_run_id g) (gl_token_id g) \<and>
     group_losses_ok (db_group_losses (tables c) @ [g]) \<and>
     r = ((), c\<lparr>tables := (tables c)\<lparr>db_group_losses := db_group_losses (tables c) @ [g]\<rparr>\<rparr>)"
  by (auto simp: insert_work_item_def insert_scheduler_event_def insert_group_loss_def tx_inv)

lemma insert_outcome_inv [tx_inv]:
  "insert_outcome t c = Inr r \<longleftrightarrow> token_exists (tables c) (to_run_id t) (to_token_id t) \<and>
     batch_exists (tables c) (to_run_id t) (to_batch_id t) \<and>
     token_outcomes_ok (db_outcomes (tables c) @ [t]) \<and>
     r = ((), c\<lparr>tables := (tables c)\<lparr>db_outcomes := db_outcomes (tables c) @ [t]\<rparr>\<rparr>)"
  "insert_batch_member m c = Inr r \<longleftrightarrow> token_exists (tables c) (bm_run_id m) (bm_token_id m) \<and>
     batch_exists (tables c) (bm_run_id m) (Some (bm_batch_id m)) \<and>
     batch_members_ok (db_batch_members (tables c) @ [m]) \<and>
     r = ((), c\<lparr>tables := (tables c)\<lparr>db_batch_members := db_batch_members (tables c) @ [m]\<rparr>\<rparr>)"
  by (auto simp: insert_outcome_def insert_batch_member_def tx_inv)

lemma refused_as_record_error_inv [tx_inv]: "refused_as_record_error msg m c = Inr r \<longleftrightarrow> m c = Inr r"
  by (simp add: refused_as_record_error_def split: sum.splits)

lemma the_row_inv [tx_inv]: "the_row v c = Inr r \<longleftrightarrow> (\<exists>x. v = Some x \<and> r = (x, c))"
  by (auto simp: the_row_def tx_inv split: option.splits)

lemma read_landscape_transaction_time_inv [tx_inv]:
  "read_landscape_transaction_time c = Inr r \<longleftrightarrow>
   r = (transaction_instant (conn_env c) (env_clock (conn_env c) (conn_clock_reads c)),
        c\<lparr>conn_clock_reads := Suc (conn_clock_reads c)\<rparr>)"
  by (auto simp: read_landscape_transaction_time_def)

lemma record_issued_deadline_inv [tx_inv]:
  "record_issued_deadline key t w c = Inr r \<longleftrightarrow>
   valid_deadline_key key \<and> 0 < w \<and>
   clock_resolution (env_dialect (conn_env c)) \<le> deadline_reserve w \<and>
   r = ((), c\<lparr>conn_issued := AList.update key
          \<lparr>dl_expires_at = t, dl_reserve = deadline_reserve w\<rparr> (conn_issued c)\<rparr>)"
  by (auto simp: record_issued_deadline_def tx_inv)

lemma forget_issued_deadline_inv [tx_inv]:
  "forget_issued_deadline key c = Inr r \<longleftrightarrow>
   r = ((), c\<lparr>conn_issued := AList.delete key (conn_issued c)\<rparr>)"
  by (auto simp: forget_issued_deadline_def tx_inv)

lemma has_issued_deadline_inv [tx_inv]:
  "has_issued_deadline key c = Inr r \<longleftrightarrow> r = (map_of (conn_issued c) key \<noteq> None, c)"
  by (auto simp: has_issued_deadline_def tx_inv)

lemma tx_for_assert_inv:
  "tx_for xs (\<lambda>x. tx_assert (P x) (E x)) s = Inr r \<longleftrightarrow> list_all P xs \<and> r = ((), s)"
  by (induction xs) (auto simp: tx_inv)

lemma check_deadlines_inv:
  "check_deadlines_before_commit c = Inr r \<Longrightarrow>
   tables (snd r) = tables c \<and>
   (\<forall>(key, dl) \<in> set (conn_issued c). dl_reserve dl < dl_expires_at dl -
      decision_instant (env_dialect (conn_env c)) (env_clock (conn_env c) (conn_clock_reads c)))"
  unfolding check_deadlines_before_commit_def case_prod_beta
  by (auto simp: tx_inv tx_for_assert_inv list_all_iff split: if_splits)

lemma begin_write_error: "begin_write e body d = (Inl err, d') \<Longrightarrow> d' = d"
  by (auto simp: begin_write_def split: if_splits sum.splits)

lemma begin_write_success:
  assumes "begin_write e body d = (Inr x, d')"
  obtains c where "\<not> env_locked e" "body (open_conn e d) = Inr (x, c)" "tables c = d'"
    "\<forall>(key, dl) \<in> set (conn_issued c). dl_reserve dl < dl_expires_at dl -
       decision_instant (env_dialect (conn_env c)) (env_clock (conn_env c) (conn_clock_reads c))"
proof -
  from assms obtain c c' where step: "\<not> env_locked e" "body (open_conn e d) = Inr (x, c)"
      "check_deadlines_before_commit c = Inr ((), c')" "tables c' = d'"
    by (auto simp: begin_write_def tx_inv split: if_splits sum.splits)
  with check_deadlines_inv [OF step(3)] show ?thesis using that by simp
qed

lemma open_conn_simps [simp]:
  "tables (open_conn e d) = d" "conn_env (open_conn e d) = e" "conn_issued (open_conn e d) = []"
  "conn_clock_reads (open_conn e d) = 0" "conn_uuid_reads (open_conn e d) = 0"
  by (simp_all add: open_conn_def)

text \<open>A loop whose steps only read.\<close>

lemma tx_each_reads:
  assumes step: "\<And>x c y c'. f x c = Inr (y, c') \<Longrightarrow> Q x y \<and> tables c' = tables c"
  shows "tx_each xs f c = Inr (ys, c') \<Longrightarrow> list_all2 Q xs ys \<and> tables c' = tables c"
proof (induction xs arbitrary: c ys)
  case (Cons x xs)
  from Cons.prems obtain y c1 ys' where "f x c = Inr (y, c1)" "tx_each xs f c1 = Inr (ys', c')" "ys = y # ys'"
    unfolding tx_each.simps tx_bind_inv tx_return_inv by blast
  with step [of x c y c1] Cons.IH [of c1 ys'] show ?case by simp
qed (simp add: tx_inv)

text \<open>A preorder on databases and the bodies that respect it: the statements a
  repository composes, and the transaction around them.\<close>

locale db_preorder =
  fixes R :: "db \<Rightarrow> db \<Rightarrow> bool"
  assumes db_refl: "R d d"
    and db_trans: "R d d' \<Longrightarrow> R d' d'' \<Longrightarrow> R d d''"

sublocale db_preorder \<subseteq> tx_preorder "\<lambda>c c'. R (tables c) (tables c')"
  by unfold_locales (blast intro: db_refl db_trans)+

context db_preorder
begin

abbreviation resp :: "'a body \<Rightarrow> bool" where
  "resp m \<equiv> tx_rel (\<lambda>c c'. R (tables c) (tables c')) m"

lemma resp_clock: "resp read_landscape_decision_time"
  by (rule tx_relI) (simp add: tx_inv db_refl)

lemma resp_transaction_clock: "resp read_landscape_transaction_time"
  by (rule tx_relI) (simp add: tx_inv db_refl)

lemma resp_generate_id: "resp generate_id"
  by (rule tx_relI) (simp add: tx_inv db_refl)

lemma resp_select: "resp (select_tables q)"
  by (rule tx_relI) (simp add: tx_inv db_refl)

text \<open>A body that relies on what it read.\<close>

lemma resp_select_bind: "(\<And>d. resp (f (q d))) \<Longrightarrow> resp (tx_bind (select_tables q) f)"
  by (rule tx_relI) (auto simp: tx_inv dest: tx_relD)

lemma resp_issued: "resp (record_issued_deadline key t w)"
  by (rule tx_relI) (simp add: tx_inv db_refl)

lemma resp_forget: "resp (forget_issued_deadline key)"
  by (rule tx_relI) (simp add: tx_inv db_refl)

lemma resp_has_issued: "resp (has_issued_deadline key)"
  by (rule tx_relI) (simp add: tx_inv db_refl)

lemma resp_execute_many: "(\<And>x. x \<in> set xs \<Longrightarrow> resp (f x)) \<Longrightarrow> resp (execute_many xs f)"
  by (induction xs) (auto intro!: rel_return rel_bind)

lemma resp_refused: "resp m \<Longrightarrow> resp (refused_as_record_error msg m)"
  by (simp add: tx_rel_def tx_inv)

lemma resp_the_row: "resp (the_row v)"
  by (rule tx_relI) (auto simp: tx_inv db_refl)

lemmas resp_intros = rel_intros resp_clock resp_transaction_clock resp_execute_many resp_refused
  resp_the_row resp_generate_id resp_select resp_issued resp_forget
  resp_has_issued tx_rel_raise tx_rel_if tx_rel_case_option tx_rel_case_prod tx_rel_case_sum
  tx_rel_let

lemma begin_write_resp: "resp body \<Longrightarrow> R d (snd (begin_write e body d))"
proof (cases "begin_write e body d")
  case (Pair r d')
  assume body: "resp body"
  show ?thesis
  proof (cases r)
    case (Inl err)
    then show ?thesis using Pair begin_write_error [of e body d err d'] db_refl by simp
  next
    case (Inr x)
    then obtain c where "body (open_conn e d) = Inr (x, c)" "tables c = d'"
      using Pair by (auto elim: begin_write_success)
    then show ?thesis using Pair tx_relD [OF body, of "open_conn e d" x c] by simp
  qed
qed

end

end
