(* ===== verification/Landscape_History.thy ===== *)
theory Landscape_History
  imports Landscape_Database
begin

text \<open>
  How a database image may evolve.  The relation \<open>evolves\<close> between an earlier and
  a later image collects what no verb may undo: a leader epoch never falls and
  is never handed to a second holder, a departed or evicted identity never
  returns, a successful run keeps its status, the two ledgers only grow, no work
  item disappears and a terminal one never changes, a recorded group loss keeps
  its identity, and the table constraints stay satisfied.  It is a preorder, so the locale \<open>db_preorder\<close> lifts it from
  statements to bodies and transactions; each verb's proof is then a check of
  the statements it executes.
\<close>

definition rows_evolve :: "('r \<Rightarrow> 'r \<Rightarrow> bool) \<Rightarrow> 'r list \<Rightarrow> 'r list \<Rightarrow> bool" where
  "rows_evolve Q rs rs' \<longleftrightarrow> (\<forall>r \<in> set rs. \<exists>r' \<in> set rs'. Q r r')"

definition seat_evolves :: "seat_row \<Rightarrow> seat_row \<Rightarrow> bool" where
  "seat_evolves s s' \<longleftrightarrow> st_run_id s' = st_run_id s \<and>
     (st_leader_epoch s < st_leader_epoch s' \<or>
      st_leader_epoch s' = st_leader_epoch s \<and>
      (st_leader_worker_id s' = st_leader_worker_id s \<or> st_leader_worker_id s' = None))"

definition worker_evolves :: "worker_row \<Rightarrow> worker_row \<Rightarrow> bool" where
  "worker_evolves w w' \<longleftrightarrow> wk_worker_id w' = wk_worker_id w \<and> wk_run_id w' = wk_run_id w \<and>
     wk_role w' = wk_role w \<and> wk_registered_at w' = wk_registered_at w \<and>
     (wk_status w \<noteq> Active \<longrightarrow> wk_status w' = wk_status w \<and> wk_evicted_at w' = wk_evicted_at w)"

definition run_evolves :: "run_row \<Rightarrow> run_row \<Rightarrow> bool" where
  "run_evolves r r' \<longleftrightarrow> run_run_id r' = run_run_id r \<and> run_config_hash r' = run_config_hash r \<and>
     (run_run_status r \<in> {RunCompleted, RunCompletedWithFailures, RunEmpty} \<longrightarrow>
      run_run_status r' = run_run_status r)"

definition item_evolves :: "work_item \<Rightarrow> work_item \<Rightarrow> bool" where
  "item_evolves w w' \<longleftrightarrow> wi_run_id w' = wi_run_id w \<and> wi_token_id w' = wi_token_id w \<and>
     wi_row_id w' = wi_row_id w \<and> wi_node_id w' = wi_node_id w \<and>
     wi_ingest_sequence w' = wi_ingest_sequence w \<and> wi_attempt w \<le> wi_attempt w' \<and>
     (wi_status w = TERMINAL \<longrightarrow> w' = w)"

definition loss_evolves :: "group_loss_row \<Rightarrow> group_loss_row \<Rightarrow> bool" where
  "loss_evolves g g' \<longleftrightarrow> gl_loss_id g' = gl_loss_id g \<and>
     group_loss_natural g' = group_loss_natural g \<and> gl_token_id g' = gl_token_id g \<and>
     gl_reason g' = gl_reason g \<and> gl_recorded_by g' = gl_recorded_by g \<and>
     gl_recorded_at g' = gl_recorded_at g"

definition evolves :: "db \<Rightarrow> db \<Rightarrow> bool" where
  "evolves d d' \<longleftrightarrow>
     rows_evolve run_evolves (db_runs d) (db_runs d') \<and>
     rows_evolve seat_evolves (db_seats d) (db_seats d') \<and>
     rows_evolve worker_evolves (db_workers d) (db_workers d') \<and>
     rows_evolve item_evolves (db_work_items d) (db_work_items d') \<and>
     rows_evolve loss_evolves (db_group_losses d) (db_group_losses d') \<and>
     prefix (db_coord_events d) (db_coord_events d') \<and>
     prefix (db_scheduler_events d) (db_scheduler_events d') \<and>
     prefix (db_outcomes d) (db_outcomes d') \<and> prefix (db_tokens d) (db_tokens d') \<and>
     prefix (db_rows d) (db_rows d') \<and> prefix (db_nodes d) (db_nodes d') \<and>
     prefix (db_token_parents d) (db_token_parents d') \<and>
     prefix (db_lineage_frames d) (db_lineage_frames d') \<and>
     prefix (db_batches d) (db_batches d') \<and> prefix (db_batch_members d) (db_batch_members d') \<and>
     (db_ok d \<longrightarrow> db_ok d')"

section \<open>Evolution of a table\<close>

lemma rows_evolve_refl: "(\<And>r. Q r r) \<Longrightarrow> rows_evolve Q rs rs"
  by (auto simp: rows_evolve_def)

lemma rows_evolve_trans:
  "rows_evolve Q rs ss \<Longrightarrow> rows_evolve Q ss ts \<Longrightarrow> transp Q \<Longrightarrow> rows_evolve Q rs ts"
  unfolding rows_evolve_def by (blast dest: transpD)

lemma rows_evolve_append: "(\<And>r. Q r r) \<Longrightarrow> rows_evolve Q rs (rs @ ss)"
  by (auto simp: rows_evolve_def)

lemma rows_evolve_update:
  assumes "\<And>r. Q r r" and "\<And>r. P r \<Longrightarrow> Q r (f r)"
  shows "rows_evolve Q rs (update_where P f rs)"
proof -
  have "Q r (if P r then f r else r)" for r
    using assms by simp
  then show ?thesis unfolding rows_evolve_def update_where_def set_map by blast
qed

lemma row_evolves_refl [simp]:
  "seat_evolves s s" "worker_evolves w w" "run_evolves r r" "item_evolves i i" "loss_evolves g g"
  by (simp_all add: seat_evolves_def worker_evolves_def run_evolves_def item_evolves_def loss_evolves_def)

lemma row_evolves_transp [simp]:
  "transp seat_evolves" "transp worker_evolves" "transp run_evolves" "transp item_evolves"
  "transp loss_evolves"
      apply (rule transpI; unfold seat_evolves_def; force)
     apply (rule transpI; unfold worker_evolves_def; metis)
    apply (rule transpI; unfold run_evolves_def; metis)
   apply (rule transpI; unfold item_evolves_def; metis order_trans)
  apply (rule transpI; unfold loss_evolves_def; metis)
  done

lemma evolves_refl [simp]: "evolves d d"
  by (simp add: evolves_def rows_evolve_refl)

lemma evolves_trans: "evolves d d' \<Longrightarrow> evolves d' d'' \<Longrightarrow> evolves d d''"
  unfolding evolves_def
  by (elim conjE, intro conjI)
    (erule (1) rows_evolve_trans, simp | erule (1) prefix_order.trans | simp)+

interpretation hist: db_preorder evolves
  by unfold_locales (simp, blast intro: evolves_trans)

section \<open>Evolution of a statement\<close>

lemma resp_update_runs:
  "(\<And>r. P r \<Longrightarrow> run_evolves r (f r)) \<Longrightarrow> hist.resp (update_runs P f)"
  by (rule tx_relI)
    (auto simp: tx_inv evolves_def db_ok_def rows_evolve_refl intro: rows_evolve_update)

lemma resp_update_seats:
  "(\<And>s. P s \<Longrightarrow> seat_evolves s (f s)) \<Longrightarrow> hist.resp (update_seats P f)"
  by (rule tx_relI)
    (auto simp: tx_inv evolves_def db_ok_def rows_evolve_refl intro: rows_evolve_update)

lemma resp_update_workers:
  "(\<And>w. P w \<Longrightarrow> worker_evolves w (f w)) \<Longrightarrow> hist.resp (update_workers P f)"
  by (rule tx_relI)
    (auto simp: tx_inv evolves_def db_ok_def rows_evolve_refl intro: rows_evolve_update)

lemma resp_update_work_items:
  "(\<And>w. P w \<Longrightarrow> item_evolves w (f w)) \<Longrightarrow> hist.resp (update_work_items P f)"
  by (rule tx_relI)
    (auto simp: tx_inv evolves_def db_ok_def rows_evolve_refl intro: rows_evolve_update)

lemma resp_update_group_losses:
  "(\<And>g. P g \<Longrightarrow> loss_evolves g (f g)) \<Longrightarrow> hist.resp (update_group_losses P f)"
  by (rule tx_relI)
    (auto simp: tx_inv evolves_def db_ok_def rows_evolve_refl intro: rows_evolve_update)

lemma resp_inserts:
  "hist.resp (insert_seat s)" "hist.resp (insert_worker w)" "hist.resp (insert_coord_event ce)"
  "hist.resp (insert_work_item i)" "hist.resp (insert_scheduler_event se)"
  "hist.resp (insert_group_loss g)" "hist.resp (insert_outcome t)" "hist.resp (insert_batch_member m)"
  by (rule tx_relI,
      auto simp: tx_inv evolves_def db_ok_def rows_evolve_refl
        intro: rows_evolve_append)+

lemmas hist_intros = hist.resp_intros resp_update_runs resp_update_seats resp_update_workers
  resp_update_work_items resp_update_group_losses resp_inserts

section \<open>The table constraints are kept by every statement\<close>

definition keeps_ok :: "db \<Rightarrow> db \<Rightarrow> bool" where
  "keeps_ok d d' \<longleftrightarrow> (db_ok d \<longrightarrow> db_ok d')"

interpretation okp: db_preorder keeps_ok
  by unfold_locales (auto simp: keeps_ok_def)

lemma keeps_ok_statements:
  "okp.resp (update_runs PR fr)" "okp.resp (update_seats PS fs)" "okp.resp (update_workers PW fw)"
  "okp.resp (update_work_items PI fi)" "okp.resp (update_group_losses PG fg)"
  "okp.resp (insert_seat s)" "okp.resp (insert_worker w)" "okp.resp (insert_coord_event ce)"
  "okp.resp (insert_work_item i)" "okp.resp (insert_scheduler_event se)"
  "okp.resp (insert_group_loss g)" "okp.resp (insert_outcome t)" "okp.resp (insert_batch_member m)"
  by (rule tx_relI, auto simp: tx_inv keeps_ok_def db_ok_def)+

lemmas okp_intros = okp.resp_intros keeps_ok_statements

text \<open>History from a database that satisfies its constraints: the preorder for the bodies that
  rely on the uniqueness of the keys they read.\<close>

definition ok_evolves :: "db \<Rightarrow> db \<Rightarrow> bool" where
  "ok_evolves d d' \<longleftrightarrow> (db_ok d \<longrightarrow> evolves d d')"

lemma evolves_ok: "evolves d d' \<Longrightarrow> db_ok d \<Longrightarrow> db_ok d'"
  by (simp add: evolves_def)

lemma evolves_ok_evolves: "evolves d d' \<Longrightarrow> ok_evolves d d'"
  by (simp add: ok_evolves_def)

end
