(* ===== verification/Run_Coordination.thy ===== *)
theory Run_Coordination
  imports Landscape_History
begin

text \<open>
  Run coordination (\<open>core/landscape/run_coordination_repository.py\<close>): the leader
  seat with its fencing epoch, the worker registry, the two transaction fences,
  and the coordination ledger.  Each verb is a function of the environment, its
  arguments and the database, with the result or error and the database after
  it.  Runtime type checks on the carrier classes are the types of the
  parameters.
\<close>

section \<open>The coordination ledger\<close>

definition coordination_event_id ::
  "env \<Rightarrow> ident \<Rightarrow> coord_event_type \<Rightarrow> ident \<Rightarrow> int option \<Rightarrow> instant \<Rightarrow> json \<Rightarrow> string" where
  "coordination_event_id e run type worker epoch recorded_at context =
    digest (env_canonical_json e (JObj
      [(''context_json'', JStr (env_canonical_json e context)),
       (''event_type'', JStr (coord_event_value type)),
       (''leader_epoch'', jopt JInt epoch),
       (''recorded_at'', JTime recorded_at),
       (''run_id'', JStr run),
       (''worker_id'', JStr worker)]))"

definition coord_event ::
  "env \<Rightarrow> ident \<Rightarrow> coord_event_type \<Rightarrow> ident \<Rightarrow> int option \<Rightarrow> instant \<Rightarrow> json \<Rightarrow> coord_event_row" where
  "coord_event e run type worker epoch recorded_at context =
    \<lparr>ce_event_id = coordination_event_id e run type worker epoch recorded_at context,
     ce_run_id = run, ce_event_type = type, ce_worker_id = worker, ce_leader_epoch = epoch,
     ce_recorded_at = recorded_at, ce_context = context\<rparr>"

definition record_coordination_event ::
  "ident \<Rightarrow> coord_event_type \<Rightarrow> ident \<Rightarrow> int option \<Rightarrow> instant \<Rightarrow> json \<Rightarrow> unit body" where
  "record_coordination_event run type worker epoch recorded_at context =
    tx_bind (tx_gets conn_env) (\<lambda>e.
      insert_coord_event (coord_event e run type worker epoch recorded_at context))"

text \<open>The batch writer: one row per \<open>CoordinationEventRow\<close>, in order.\<close>

definition record_coordination_events ::
  "ident \<Rightarrow> (coord_event_type \<times> ident \<times> int option \<times> instant \<times> json) list \<Rightarrow> unit body" where
  "record_coordination_events run events =
    tx_for events (\<lambda>(type, worker, epoch, recorded_at, context).
      record_coordination_event run type worker epoch recorded_at context)"

datatype best_effort_event_outcome = Recorded | LostToDbFault

definition record_best_effort_event ::
  "env \<Rightarrow> ident \<Rightarrow> coord_event_type \<Rightarrow> ident \<Rightarrow> int option \<Rightarrow> instant \<Rightarrow> json \<Rightarrow> db \<Rightarrow>
   best_effort_event_outcome \<times> db" where
  "record_best_effort_event e run type worker epoch recorded_at context d =
    (case begin_write (e\<lparr>env_locked := env_refusal_locked e\<rparr>)
            (record_coordination_event run type worker epoch recorded_at context) d of
       (Inl _, d') \<Rightarrow> (LostToDbFault, d')
     | (Inr _, d') \<Rightarrow> (Recorded, d'))"

section \<open>The leader fence\<close>

definition leader_deadline_key :: "coordination_token \<Rightarrow> deadline_key" where
  "leader_deadline_key t = LeaderDeadline (ct_run_id t) (ct_worker_id t) (ct_leader_epoch t)"

definition worker_deadline_key :: "ident \<Rightarrow> ident \<Rightarrow> deadline_key" where
  "worker_deadline_key run worker = WorkerDeadline run worker"

definition leadership_lost :: "coordination_token \<Rightarrow> string \<Rightarrow> error" where
  "leadership_lost t verb =
    RunLeadershipLostError (ct_run_id t) (ct_worker_id t) (ct_leader_epoch t) verb"

text \<open>The seat predicate every leader CAS repeats: run, holder and epoch, never expiry.\<close>

definition holds_seat :: "coordination_token \<Rightarrow> seat_row \<Rightarrow> bool" where
  "holds_seat t s \<longleftrightarrow> st_run_id s = ct_run_id t \<and>
     st_leader_worker_id s = Some (ct_worker_id t) \<and> st_leader_epoch s = ct_leader_epoch t"

definition renew_leader_deadline_on :: "coordination_token \<Rightarrow> duration \<Rightarrow> string \<Rightarrow> unit body" where
  "renew_leader_deadline_on t window verb =
    tx_bind read_landscape_decision_time (\<lambda>database_now.
    tx_bind (update_seats (holds_seat t)
      (\<lambda>s. s\<lparr>st_leader_heartbeat_expires_at := Some (database_now + window),
              st_updated_at := database_now\<rparr>)) (\<lambda>renewed.
    tx_then (tx_assert (renewed = 1) (leadership_lost t verb))
      (record_issued_deadline (leader_deadline_key t) (database_now + window) window)))"

definition verify_and_extend_leader_fence ::
  "coordination_token \<Rightarrow> duration \<Rightarrow> string \<Rightarrow> unit body" where
  "verify_and_extend_leader_fence t window verb =
    tx_bind (update_seats (holds_seat t) (\<lambda>s. s\<lparr>st_leader_epoch := st_leader_epoch s\<rparr>)) (\<lambda>matched.
    tx_then (tx_assert (matched = 1) (leadership_lost t verb))
      (renew_leader_deadline_on t window verb))"

definition leader_fenced_body :: "coordination_token \<Rightarrow> duration \<Rightarrow> string \<Rightarrow> 'a body \<Rightarrow> 'a body" where
  "leader_fenced_body t window verb body =
    tx_then (verify_and_extend_leader_fence t window verb)
   (tx_bind body (\<lambda>x.
    tx_bind (has_issued_deadline (leader_deadline_key t)) (\<lambda>issued.
    tx_then (if issued then renew_leader_deadline_on t window verb else tx_return ())
      (tx_return x))))"

fun is_leadership_lost :: "error + 'a \<Rightarrow> bool" where
  "is_leadership_lost (Inl (RunLeadershipLostError r w ep v)) \<longleftrightarrow> True"
| "is_leadership_lost _ \<longleftrightarrow> False"

definition fenced_leader_transaction ::
  "env \<Rightarrow> coordination_token \<Rightarrow> duration \<Rightarrow> string \<Rightarrow> 'a body \<Rightarrow> db \<Rightarrow> 'a outcome" where
  "fenced_leader_transaction e t window verb body d =
    (case begin_write e (leader_fenced_body t window verb body) d of (r, d') \<Rightarrow>
       if is_leadership_lost r
       then (r, snd (record_best_effort_event e (ct_run_id t) FenceRefusal (ct_worker_id t)
                  (Some (ct_leader_epoch t)) (env_process_clock e) (JObj [(''verb'', JStr verb)]) d'))
       else (r, d'))"

section \<open>The membership fence\<close>

definition active_member :: "worker_membership_token \<Rightarrow> worker_row \<Rightarrow> bool" where
  "active_member m w \<longleftrightarrow> wk_run_id w = mt_run_id m \<and> wk_worker_id w = mt_worker_id m \<and>
     wk_status w = Active"

definition verify_membership_fence :: "worker_membership_token \<Rightarrow> string \<Rightarrow> unit body" where
  "verify_membership_fence m verb =
    tx_bind (update_workers (active_member m) (\<lambda>w. w\<lparr>wk_status := Active\<rparr>)) (\<lambda>matched.
      if matched = 1 then tx_return ()
      else tx_bind (select_tables (\<lambda>d. List.find (\<lambda>w. wk_run_id w = mt_run_id m \<and>
                       wk_worker_id w = mt_worker_id m) (db_workers d))) (\<lambda>registered.
        case registered of
          None \<Rightarrow> tx_raise (AuditIntegrityError ''unregistered worker'')
        | Some _ \<Rightarrow> tx_raise (RunMembershipLostError (mt_run_id m) (mt_worker_id m) verb)))"

fun is_membership_lost :: "error + 'a \<Rightarrow> bool" where
  "is_membership_lost (Inl (RunMembershipLostError r w v)) \<longleftrightarrow> True"
| "is_membership_lost _ \<longleftrightarrow> False"

definition membership_refusal_event ::
  "env \<Rightarrow> worker_membership_token \<Rightarrow> string \<Rightarrow> db \<Rightarrow> db" where
  "membership_refusal_event e m verb d =
    snd (record_best_effort_event e (mt_run_id m) FenceRefusal (mt_worker_id m) None
      (env_process_clock e)
      (JObj [(''verb'', JStr verb), (''fence'', JStr ''membership'')]) d)"

definition fenced_member_transaction ::
  "env \<Rightarrow> worker_membership_token \<Rightarrow> string \<Rightarrow> 'a body \<Rightarrow> db \<Rightarrow> 'a outcome" where
  "fenced_member_transaction e m verb body d =
    (case begin_write e (tx_then (verify_membership_fence m verb) body) d of (r, d') \<Rightarrow>
       if is_membership_lost r then (r, membership_refusal_event e m verb d') else (r, d'))"

text \<open>The seat row is read (and locked) before the membership fence runs.\<close>

definition fenced_heartbeat_transaction ::
  "env \<Rightarrow> worker_membership_token \<Rightarrow> string \<Rightarrow> 'a body \<Rightarrow> db \<Rightarrow> 'a outcome" where
  "fenced_heartbeat_transaction e m verb body =
    begin_write e
     (tx_bind (select_tables (\<lambda>d. List.find (\<lambda>s. st_run_id s = mt_run_id m) (db_seats d))) (\<lambda>locked_seat.
      tx_then (verify_membership_fence m verb)
     (tx_then (tx_assert (locked_seat \<noteq> None) (AuditIntegrityError ''membership without seat'')) body)))"

section \<open>Registration and seat takeover\<close>

definition new_worker_row ::
  "env \<Rightarrow> ident \<Rightarrow> ident \<Rightarrow> worker_role \<Rightarrow> duration \<Rightarrow> string \<Rightarrow> instant \<Rightarrow> worker_row" where
  "new_worker_row e run worker role window entry_point database_now =
    \<lparr>wk_worker_id = worker, wk_run_id = run, wk_role = role, wk_status = Active,
     wk_registered_at = database_now, wk_heartbeat_expires_at = database_now + window,
     wk_departed_at = None, wk_evicted_at = None, wk_evicted_by_worker_id = None,
     wk_pid = Some (env_pid e), wk_hostname = Some (env_hostname e),
     wk_entry_point = Some entry_point\<rparr>"

definition insert_worker_row ::
  "ident \<Rightarrow> ident \<Rightarrow> worker_role \<Rightarrow> duration \<Rightarrow> string \<Rightarrow> instant \<Rightarrow> unit body" where
  "insert_worker_row run worker role window entry_point database_now =
    tx_bind (tx_gets conn_env) (\<lambda>e.
    tx_then (insert_worker (new_worker_row e run worker role window entry_point database_now))
      (record_issued_deadline (worker_deadline_key run worker) (database_now + window) window))"

definition finalize_leader_registration_on :: "coordination_token \<Rightarrow> duration \<Rightarrow> unit body" where
  "finalize_leader_registration_on t window =
    tx_bind read_landscape_decision_time (\<lambda>database_now.
    tx_bind (update_seats (holds_seat t)
      (\<lambda>s. s\<lparr>st_leader_heartbeat_expires_at := Some (database_now + window),
              st_updated_at := database_now\<rparr>)) (\<lambda>seat.
    tx_then (tx_assert (seat = 1) (leadership_lost t ''finalize_leader_registration''))
   (tx_bind (update_workers (\<lambda>w. active_member (membership t) w \<and> wk_role w = Leader)
      (\<lambda>w. w\<lparr>wk_heartbeat_expires_at := database_now + window\<rparr>)) (\<lambda>member.
    tx_then (tx_assert (member = 1) (AuditIntegrityError ''leader membership missing''))
   (tx_then (record_issued_deadline (leader_deadline_key t) (database_now + window) window)
      (record_issued_deadline (worker_deadline_key (ct_run_id t) (ct_worker_id t))
         (database_now + window) window))))))"

definition register_run_leader_on ::
  "ident \<Rightarrow> ident \<Rightarrow> duration \<Rightarrow> string \<Rightarrow> coordination_token body" where
  "register_run_leader_on run worker window entry_point =
    tx_bind read_landscape_decision_time (\<lambda>database_now.
    let t = \<lparr>ct_run_id = run, ct_worker_id = worker, ct_leader_epoch = 1\<rparr> in
    tx_then (insert_seat \<lparr>st_run_id = run, st_leader_worker_id = Some worker, st_leader_epoch = 1,
       st_leader_heartbeat_expires_at = Some (database_now + window), st_updated_at = database_now\<rparr>)
   (tx_then (record_issued_deadline (leader_deadline_key t) (database_now + window) window)
   (tx_then (insert_worker_row run worker Leader window entry_point database_now)
   (tx_then (record_coordination_event run WorkerRegister worker (Some 1) database_now
       (JObj [(''role'', JStr ''leader''), (''entry_point'', JStr entry_point)]))
   (tx_then (record_coordination_event run LeaderAcquire worker (Some 1) database_now
       (JObj [(''entry_point'', JStr entry_point)]))
     (tx_return t))))))"

definition takeover_flippable :: "run_status list" where
  "takeover_flippable = [RunFailed, RunInterrupted]"

definition immutable_success :: "run_status list" where
  "immutable_success = [RunCompleted, RunCompletedWithFailures, RunEmpty]"

definition export_seat_statuses :: "run_status list" where
  "export_seat_statuses = takeover_flippable @ immutable_success"

definition run_status_of :: "ident \<Rightarrow> db \<Rightarrow> run_status option" where
  "run_status_of run d =
    map_option run_run_status (List.find (\<lambda>r. run_run_id r = run) (db_runs d))"

definition in_statuses :: "run_status option \<Rightarrow> run_status list \<Rightarrow> bool" where
  "in_statuses v ss = (case v of None \<Rightarrow> False | Some s \<Rightarrow> s \<in> set ss)"

text \<open>The takeover predicate: the seat is vacant or its liveness clock has passed.\<close>

definition seat_takeable :: "ident \<Rightarrow> instant \<Rightarrow> seat_row \<Rightarrow> bool" where
  "seat_takeable run database_now s \<longleftrightarrow> st_run_id s = run \<and>
     (st_leader_worker_id s = None \<or>
      (case st_leader_heartbeat_expires_at s of None \<Rightarrow> False | Some t \<Rightarrow> t < database_now))"

definition seize_seat ::
  "ident \<Rightarrow> ident \<Rightarrow> seat_row \<Rightarrow> instant \<Rightarrow> duration \<Rightarrow> coordination_token body" where
  "seize_seat run worker seat database_now window =
    tx_bind (update_seats (seat_takeable run database_now)
      (\<lambda>s. s\<lparr>st_leader_worker_id := Some worker, st_leader_epoch := st_leader_epoch s + 1,
              st_leader_heartbeat_expires_at := Some (database_now + window),
              st_updated_at := database_now\<rparr>)) (\<lambda>cas.
    let t = \<lparr>ct_run_id = run, ct_worker_id = worker, ct_leader_epoch = st_leader_epoch seat + 1\<rparr> in
    tx_then (tx_assert (cas = 1) (NonResumableRunError run LEADER_LIVE))
   (tx_then (record_issued_deadline (leader_deadline_key t) (database_now + window) window)
     (tx_return t)))"

definition evict_deposed ::
  "ident \<Rightarrow> ident \<Rightarrow> seat_row \<Rightarrow> int \<Rightarrow> instant \<Rightarrow> string \<Rightarrow> unit body" where
  "evict_deposed run worker seat new_epoch database_now reason =
    (case st_leader_worker_id seat of
       None \<Rightarrow> tx_return ()
     | Some prior \<Rightarrow>
         if prior = worker then tx_return ()
         else tx_bind (update_workers (\<lambda>w. wk_worker_id w = prior \<and> wk_status w = Active)
                (\<lambda>w. w\<lparr>wk_status := Evicted, wk_evicted_at := Some database_now,
                        wk_evicted_by_worker_id := Some worker\<rparr>)) (\<lambda>evicted.
              if evicted = 1
              then record_coordination_event run WorkerEvict prior (Some new_epoch) database_now
                     (JObj [(''evicted_by_worker_id'', JStr worker), (''reason'', JStr reason)])
              else tx_return ()))"

definition register_successor ::
  "ident \<Rightarrow> ident \<Rightarrow> seat_row \<Rightarrow> int \<Rightarrow> duration \<Rightarrow> string \<Rightarrow> instant \<Rightarrow> unit body" where
  "register_successor run worker seat new_epoch window entry_point database_now =
    tx_then (insert_worker_row run worker Leader window entry_point database_now)
   (tx_then (record_coordination_event run WorkerRegister worker (Some new_epoch) database_now
       (JObj [(''role'', JStr ''leader''), (''entry_point'', JStr entry_point)]))
     (record_coordination_event run LeaderAcquire worker (Some new_epoch) database_now
       (JObj [(''entry_point'', JStr entry_point),
              (''deposed_leader_worker_id'', jopt JStr (st_leader_worker_id seat))])))"

definition acquire_run_leadership_on ::
  "ident \<Rightarrow> ident \<Rightarrow> duration \<Rightarrow> string \<Rightarrow> coordination_token body" where
  "acquire_run_leadership_on run worker window entry_point =
    tx_bind (select_tables (\<lambda>d. List.find (\<lambda>s. st_run_id s = run) (db_seats d))) (\<lambda>found.
    case found of
      None \<Rightarrow> tx_raise (AuditIntegrityError ''run without seat'')
    | Some seat \<Rightarrow>
        tx_bind read_landscape_decision_time (\<lambda>database_now.
        tx_bind (select_tables (run_status_of run)) (\<lambda>status.
        tx_then (tx_assert (\<not> in_statuses status immutable_success)
          (AuditIntegrityError ''successful terminal runs are immutable''))
       (tx_bind (seize_seat run worker seat database_now window) (\<lambda>t.
        tx_then (update_runs (\<lambda>r. run_run_id r = run \<and>
              run_run_status r \<in> set (takeover_flippable @ [RunRunning]))
            (\<lambda>r. r\<lparr>run_run_status := RunRunning, run_completed_at := None,
                    run_reproducibility_grade := None\<rparr>))
       (tx_then (evict_deposed run worker seat (ct_leader_epoch t) database_now
            ''deposed_leader_takeover'')
       (tx_then (register_successor run worker seat (ct_leader_epoch t) window entry_point database_now)
          (tx_return t))))))))"

text \<open>The workers of the run by registration time, for the diagnostic of a held
  write lock.\<close>

definition read_registered_workers :: "ident \<Rightarrow> db \<Rightarrow> registered_worker list" where
  "read_registered_workers run d =
    map (\<lambda>w. \<lparr>rg_worker_id = wk_worker_id w, rg_role = wk_role w, rg_status = wk_status w,
               rg_pid = wk_pid w, rg_hostname = wk_hostname w\<rparr>)
      (sort_key wk_registered_at (filter (\<lambda>w. wk_run_id w = run) (db_workers d)))"

fun report_held_lock :: "ident \<Rightarrow> 'a outcome \<Rightarrow> 'a outcome" where
  "report_held_lock run (Inl DatabaseLockedError, d) =
     (Inl (WriteLockHeldError run (read_registered_workers run d)), d)"
| "report_held_lock run r = r"

definition acquire_run_leadership ::
  "env \<Rightarrow> ident \<Rightarrow> ident \<Rightarrow> duration \<Rightarrow> string \<Rightarrow> db \<Rightarrow> coordination_token outcome" where
  "acquire_run_leadership e run worker window entry_point d =
    report_held_lock run (begin_write e
      (tx_bind (acquire_run_leadership_on run worker window entry_point) (\<lambda>t.
       tx_then (finalize_leader_registration_on t window) (tx_return t))) d)"

datatype terminal_purpose = ExportPurpose | ReconciliationPurpose

primrec purpose_value :: "terminal_purpose \<Rightarrow> string" where
  "purpose_value ExportPurpose = ''export''"
| "purpose_value ReconciliationPurpose = ''reconciliation''"

definition acquire_terminal_leadership_on ::
  "ident \<Rightarrow> ident \<Rightarrow> duration \<Rightarrow> terminal_purpose \<Rightarrow> run_status option \<Rightarrow> coordination_token body" where
  "acquire_terminal_leadership_on run worker window purpose expected_status =
    tx_bind (select_tables (\<lambda>d. List.find (\<lambda>s. st_run_id s = run) (db_seats d))) (\<lambda>found.
    case found of
      None \<Rightarrow> tx_raise (AuditIntegrityError ''run without seat'')
    | Some seat \<Rightarrow>
        tx_bind read_landscape_decision_time (\<lambda>database_now.
        tx_bind (select_tables (run_status_of run)) (\<lambda>status.
        tx_then (tx_assert (expected_status = None \<or> status = expected_status)
          (NonResumableRunError run TERMINAL_STATUS_CHANGED))
       (tx_then (tx_assert (status \<noteq> Some RunRunning) (NonResumableRunError run RUN_NOT_FINALIZED))
       (tx_then (tx_assert (in_statuses status export_seat_statuses)
          (AuditIntegrityError ''run is not terminal''))
       (tx_bind (seize_seat run worker seat database_now window) (\<lambda>t.
        tx_then (evict_deposed run worker seat (ct_leader_epoch t) database_now
            (''deposed_leader_'' @ purpose_value purpose @ ''_takeover''))
       (tx_then (register_successor run worker seat (ct_leader_epoch t) window
            (purpose_value purpose) database_now)
          (tx_return t)))))))))"

definition acquire_export_leadership ::
  "env \<Rightarrow> ident \<Rightarrow> ident \<Rightarrow> duration \<Rightarrow> db \<Rightarrow> coordination_token outcome" where
  "acquire_export_leadership e run worker window d =
    report_held_lock run (begin_write e
      (tx_bind (acquire_terminal_leadership_on run worker window ExportPurpose None) (\<lambda>t.
       tx_then (finalize_leader_registration_on t window) (tx_return t))) d)"

definition acquire_reconciliation_leadership ::
  "env \<Rightarrow> ident \<Rightarrow> ident \<Rightarrow> duration \<Rightarrow> run_status \<Rightarrow> db \<Rightarrow> coordination_token outcome" where
  "acquire_reconciliation_leadership e run worker window expected_status d =
    (if expected_status \<notin> set export_seat_statuses
     then (Inl (ValueError ''reconciliation requires a terminal status''), d)
     else report_held_lock run (begin_write e
      (tx_bind (acquire_terminal_leadership_on run worker window ReconciliationPurpose
         (Some expected_status)) (\<lambda>t.
       tx_then (finalize_leader_registration_on t window) (tx_return t))) d))"

section \<open>Seat release\<close>

datatype seat_release_outcome = Released | FenceRefused

definition release_seat_body :: "coordination_token \<Rightarrow> unit body" where
  "release_seat_body t =
    tx_bind read_landscape_decision_time (\<lambda>database_now.
    tx_bind (update_seats (holds_seat t)
      (\<lambda>s. s\<lparr>st_leader_worker_id := None, st_leader_heartbeat_expires_at := None,
              st_updated_at := database_now\<rparr>)) (\<lambda>released.
    tx_then (tx_assert (released = 1) (AuditIntegrityError ''vacate matched other than one row''))
   (tx_then (forget_issued_deadline (leader_deadline_key t))
   (tx_bind (update_workers (active_member (membership t))
      (\<lambda>w. w\<lparr>wk_status := Departed, wk_departed_at := Some database_now\<rparr>)) (\<lambda>departed.
    tx_then (tx_assert (departed = 1) (AuditIntegrityError ''leader without active membership''))
      (record_coordination_event (ct_run_id t) LeaderRelease (ct_worker_id t)
         (Some (ct_leader_epoch t)) database_now (JObj [(''worker_row_departed'', JBool True)])))))))"

definition release_seat :: "env \<Rightarrow> coordination_token \<Rightarrow> db \<Rightarrow> seat_release_outcome outcome" where
  "release_seat e t d =
    (case fenced_leader_transaction e t DEFAULT_RUN_LIVENESS_WINDOW ''release_seat''
            (release_seat_body t) d of
       (Inr _, d') \<Rightarrow> (Inr Released, d')
     | (Inl err, d') \<Rightarrow>
         if is_leadership_lost (Inl err :: error + unit) then (Inr FenceRefused, d')
         else (Inl err, d'))"

section \<open>Seat and registry reads, forensic events\<close>

record leader_info =
  li_run_id :: ident
  li_leader_worker_id :: ident
  li_leader_epoch :: int
  li_leader_heartbeat_expires_at :: "instant option"
  li_seat_live :: bool

definition seat_unexpired :: "instant \<Rightarrow> seat_row \<Rightarrow> bool" where
  "seat_unexpired database_now s =
    (case st_leader_heartbeat_expires_at s of None \<Rightarrow> False | Some t \<Rightarrow> database_now \<le> t)"

definition live_leader :: "env \<Rightarrow> ident \<Rightarrow> db \<Rightarrow> error + leader_info option" where
  "live_leader e run d = read_connection e
    (tx_bind read_landscape_decision_time (\<lambda>database_now.
     tx_bind (select_tables (\<lambda>d. List.find (\<lambda>s. st_run_id s = run) (db_seats d))) (\<lambda>found.
     tx_return (case found of
        None \<Rightarrow> None
      | Some s \<Rightarrow> map_option (\<lambda>w. \<lparr>li_run_id = run, li_leader_worker_id = w,
            li_leader_epoch = st_leader_epoch s,
            li_leader_heartbeat_expires_at = st_leader_heartbeat_expires_at s,
            li_seat_live = seat_unexpired database_now s\<rparr>) (st_leader_worker_id s))))) d"

definition record_fence_refusal ::
  "env \<Rightarrow> ident \<Rightarrow> ident \<Rightarrow> int \<Rightarrow> string \<Rightarrow> instant \<Rightarrow> db \<Rightarrow> db" where
  "record_fence_refusal e run worker epoch verb now d =
    snd (record_best_effort_event e run FenceRefusal worker (Some epoch) now
      (JObj [(''verb'', JStr verb)]) d)"

definition record_heartbeat_degraded ::
  "env \<Rightarrow> worker_membership_token \<Rightarrow> int \<Rightarrow> instant \<Rightarrow> db \<Rightarrow> db" where
  "record_heartbeat_degraded e m failures now d =
    snd (record_best_effort_event e (mt_run_id m) HeartbeatDegraded (mt_worker_id m) None now
      (JObj [(''consecutive_busy_failures'', JInt failures)]) d)"

definition dead_non_leader_workers ::
  "env \<Rightarrow> ident \<Rightarrow> ident \<Rightarrow> duration \<Rightarrow> db \<Rightarrow> error + ident list" where
  "dead_non_leader_workers e run leader_worker_id grace d = read_connection e
    (tx_bind read_landscape_decision_time (\<lambda>database_now.
     select_tables (\<lambda>d. map wk_worker_id
       (sort_key (\<lambda>w. (wk_registered_at w, wk_worker_id w))
         (filter (\<lambda>w. wk_run_id w = run \<and> wk_status w = Active \<and> wk_role w = Follower \<and>
            wk_worker_id w \<noteq> leader_worker_id \<and>
            wk_heartbeat_expires_at w < database_now - grace) (db_workers d)))))) d"

section \<open>Membership verbs\<close>

record coordination_snapshot =
  cs_leader_worker_id :: "ident option"
  cs_leader_epoch :: int
  cs_seat_live :: bool
  cs_worker_role :: worker_role

datatype heartbeat_result =
    Snapshot coordination_snapshot
  | WorkerMembershipLost worker_membership_token

definition worker_heartbeat_body ::
  "worker_membership_token \<Rightarrow> duration \<Rightarrow> coordination_snapshot body" where
  "worker_heartbeat_body m window =
    tx_bind (select_tables (\<lambda>d. List.find (\<lambda>w. wk_run_id w = mt_run_id m \<and>
        wk_worker_id w = mt_worker_id m) (db_workers d))) (\<lambda>found.
    case found of
      None \<Rightarrow> tx_raise NoResultFoundError
    | Some row \<Rightarrow>
        tx_bind read_landscape_decision_time (\<lambda>database_now.
        tx_bind (update_workers (\<lambda>w. wk_run_id w = mt_run_id m \<and> wk_worker_id w = mt_worker_id m)
          (\<lambda>w. w\<lparr>wk_heartbeat_expires_at := database_now + window\<rparr>)) (\<lambda>_.
        tx_then (record_issued_deadline (worker_deadline_key (mt_run_id m) (mt_worker_id m))
          (database_now + window) window)
       (tx_bind (if wk_role row = Leader
                 then update_seats (\<lambda>s. st_run_id s = mt_run_id m \<and>
                        st_leader_worker_id s = Some (mt_worker_id m))
                      (\<lambda>s. s\<lparr>st_leader_heartbeat_expires_at := Some (database_now + window),
                              st_updated_at := database_now\<rparr>)
                 else tx_return 0) (\<lambda>renewed.
        tx_bind (select_tables (\<lambda>d. List.find (\<lambda>s. st_run_id s = mt_run_id m) (db_seats d))) (\<lambda>found_seat.
        case found_seat of
          None \<Rightarrow> tx_raise (AuditIntegrityError ''run without seat'')
        | Some seat \<Rightarrow>
            tx_then (if renewed = 1
                     then record_issued_deadline
                            (LeaderDeadline (mt_run_id m) (mt_worker_id m) (st_leader_epoch seat))
                            (database_now + window) window
                     else tx_return ())
              (tx_return \<lparr>cs_leader_worker_id = st_leader_worker_id seat,
                 cs_leader_epoch = st_leader_epoch seat,
                 cs_seat_live = (st_leader_worker_id seat \<noteq> None \<and> seat_unexpired database_now seat),
                 cs_worker_role = wk_role row\<rparr>)))))))"

definition worker_heartbeat ::
  "env \<Rightarrow> worker_membership_token \<Rightarrow> duration \<Rightarrow> db \<Rightarrow> heartbeat_result outcome" where
  "worker_heartbeat e m window d =
    (case fenced_heartbeat_transaction e m ''worker_heartbeat'' (worker_heartbeat_body m window) d of
       (Inr snapshot, d') \<Rightarrow> (Inr (Snapshot snapshot), d')
     | (Inl err, d') \<Rightarrow>
         if is_membership_lost (Inl err :: error + unit)
         then (Inr (WorkerMembershipLost m), membership_refusal_event e m ''worker_heartbeat'' d')
         else (Inl err, d'))"

definition finalize_follower_admission_on :: "ident \<Rightarrow> ident \<Rightarrow> duration \<Rightarrow> unit body" where
  "finalize_follower_admission_on run worker window =
    tx_bind read_landscape_decision_time (\<lambda>database_now.
    tx_bind (select_tables (\<lambda>d. exists_where (\<lambda>s. st_run_id s = run \<and>
        st_leader_worker_id s \<noteq> None \<and> seat_unexpired database_now s) (db_seats d))) (\<lambda>live_seat.
    tx_then (tx_assert live_seat (JoinRefusedError run ''leader seat expired during follower admission''))
   (tx_bind (update_workers (\<lambda>w. wk_run_id w = run \<and> wk_worker_id w = worker \<and>
        wk_role w = Follower \<and> wk_status w = Active)
        (\<lambda>w. w\<lparr>wk_heartbeat_expires_at := database_now + window\<rparr>)) (\<lambda>renewed.
    tx_then (tx_assert (renewed = 1) (AuditIntegrityError ''follower membership missing''))
      (record_issued_deadline (worker_deadline_key run worker) (database_now + window) window)))))"

definition admit_follower_body ::
  "ident \<Rightarrow> ident \<Rightarrow> string \<Rightarrow> duration \<Rightarrow> worker_membership_token body" where
  "admit_follower_body run worker config_hash window =
    tx_bind read_landscape_decision_time (\<lambda>database_now.
    tx_bind (select_tables (\<lambda>d. List.find (\<lambda>r. run_run_id r = run) (db_runs d))) (\<lambda>found.
    case found of
      None \<Rightarrow> tx_raise (JoinRefusedError run ''run not found'')
    | Some r \<Rightarrow>
        tx_then (tx_assert (run_run_status r = RunRunning)
          (JoinRefusedError run (if run_run_status r = RunCompleted then ''a terminal run cannot be joined''
                                 else ''use elspeth resume'')))
       (tx_then (tx_assert (run_config_hash r = config_hash) (JoinRefusedError run ''config_hash mismatch''))
       (tx_bind (select_tables (\<lambda>d. List.find (\<lambda>s. st_run_id s = run) (db_seats d))) (\<lambda>seat.
        tx_then (tx_assert (case seat of None \<Rightarrow> False
                   | Some s \<Rightarrow> st_leader_worker_id s \<noteq> None \<and> seat_unexpired database_now s)
          (JoinRefusedError run ''no live leader''))
       (tx_then (insert_worker_row run worker Follower window ''join'' database_now)
       (tx_then (record_coordination_event run WorkerRegister worker None database_now
          (JObj [(''role'', JStr ''follower''), (''entry_point'', JStr ''join'')]))
       (tx_then (finalize_follower_admission_on run worker window)
          (tx_return \<lparr>mt_run_id = run, mt_worker_id = worker\<rparr>)))))))))"

definition admit_follower ::
  "env \<Rightarrow> ident \<Rightarrow> ident \<Rightarrow> string \<Rightarrow> duration \<Rightarrow> db \<Rightarrow> worker_membership_token outcome" where
  "admit_follower e run worker config_hash window =
    begin_write e (admit_follower_body run worker config_hash window)"

definition depart_worker_body :: "worker_membership_token \<Rightarrow> unit body" where
  "depart_worker_body m =
    tx_bind read_landscape_decision_time (\<lambda>database_now.
    tx_bind (update_workers (active_member m)
      (\<lambda>w. w\<lparr>wk_status := Departed, wk_departed_at := Some database_now\<rparr>)) (\<lambda>departed.
    tx_then (tx_assert (departed = 1) (AuditIntegrityError ''departure matched other than one row''))
      (record_coordination_event (mt_run_id m) WorkerDepart (mt_worker_id m) None database_now
         (JObj []))))"

definition depart_worker :: "env \<Rightarrow> worker_membership_token \<Rightarrow> db \<Rightarrow> unit outcome" where
  "depart_worker e m d =
    (case fenced_member_transaction e m ''depart_worker'' (depart_worker_body m) d of
       (Inr u, d') \<Rightarrow> (Inr u, d')
     | (Inl err, d') \<Rightarrow>
         if is_membership_lost (Inl err :: error + unit) then (Inr (), d') else (Inl err, d'))"

definition evictable :: "coordination_token \<Rightarrow> ident \<Rightarrow> worker_row \<Rightarrow> bool" where
  "evictable t target w \<longleftrightarrow> wk_worker_id w = target \<and> wk_run_id w = ct_run_id t \<and>
     wk_role w = Follower \<and> wk_worker_id w \<noteq> ct_worker_id t"

definition holds_unexpired_lease :: "ident \<Rightarrow> ident \<Rightarrow> instant \<Rightarrow> work_item \<Rightarrow> bool" where
  "holds_unexpired_lease run worker database_now w \<longleftrightarrow> wi_run_id w = run \<and> wi_status w = LEASED \<and>
     wi_lease_owner w = Some worker \<and>
     (case wi_lease_expires_at w of None \<Rightarrow> False | Some t \<Rightarrow> database_now \<le> t)"

definition evict_worker_body :: "coordination_token \<Rightarrow> ident \<Rightarrow> duration \<Rightarrow> bool body" where
  "evict_worker_body t target grace =
    tx_bind (select_tables (\<lambda>d. exists_where (evictable t target) (db_workers d))) (\<lambda>registered.
    if \<not> registered then tx_return False
    else tx_bind read_landscape_decision_time (\<lambda>database_now.
         tx_bind (select_tables (\<lambda>d. exists_where
           (holds_unexpired_lease (ct_run_id t) target database_now) (db_work_items d))) (\<lambda>live_lease.
         if live_lease then tx_return False
         else tx_bind (update_workers (\<lambda>w. evictable t target w \<and> wk_status w = Active \<and>
                  wk_heartbeat_expires_at w < database_now - grace)
                (\<lambda>w. w\<lparr>wk_status := Evicted, wk_evicted_at := Some database_now,
                        wk_evicted_by_worker_id := Some (ct_worker_id t)\<rparr>)) (\<lambda>evicted.
              if evicted \<noteq> 1 then tx_return False
              else tx_then (record_coordination_event (ct_run_id t) WorkerEvict target
                     (Some (ct_leader_epoch t)) database_now
                     (JObj [(''evicted_by_worker_id'', JStr (ct_worker_id t)),
                            (''reason'', JStr ''liveness_expired'')]))
                   (tx_return True)))))"

definition evict_worker ::
  "env \<Rightarrow> coordination_token \<Rightarrow> ident \<Rightarrow> duration \<Rightarrow> duration \<Rightarrow> db \<Rightarrow> bool outcome" where
  "evict_worker e t target grace window =
    fenced_leader_transaction e t window ''evict_worker'' (evict_worker_body t target grace)"

section \<open>Every coordination verb only moves history forward\<close>

named_theorems hist_verbs \<open>bodies and verbs that respect the history relation\<close>

lemmas evolves_defs = seat_evolves_def worker_evolves_def run_evolves_def item_evolves_def

lemma resp_record_coordination_event [hist_verbs]:
  "hist.resp (record_coordination_event run type worker epoch t ctx)"
  unfolding record_coordination_event_def by (intro hist_intros)

lemma resp_record_coordination_events [hist_verbs]: "hist.resp (record_coordination_events run evs)"
  unfolding record_coordination_events_def
  by (intro hist_intros) (auto split: prod.splits intro: hist_verbs)

lemma resp_renew_leader_deadline [hist_verbs]: "hist.resp (renew_leader_deadline_on t w v)"
  unfolding renew_leader_deadline_on_def
  by (intro hist_intros) (simp add: evolves_defs)

lemma resp_verify_and_extend [hist_verbs]: "hist.resp (verify_and_extend_leader_fence t w v)"
  unfolding verify_and_extend_leader_fence_def
  by (intro hist_intros hist_verbs) (simp add: evolves_defs)

lemma resp_verify_membership [hist_verbs]: "hist.resp (verify_membership_fence m v)"
  unfolding verify_membership_fence_def
  by (intro hist_intros) (simp add: evolves_defs active_member_def)

text \<open>The interface of the two fences: a preorder on databases that the statements of the fences
  and of the refusal event respect is respected by every fenced transaction whose body
  respects it.\<close>

locale fence_preorder = db_preorder R for R :: "db \<Rightarrow> db \<Rightarrow> bool" +
  assumes R_leader_fence: "resp (verify_and_extend_leader_fence t w v)"
    and R_renew: "resp (renew_leader_deadline_on t w v)"
    and R_membership_fence: "resp (verify_membership_fence m v)"
    and R_event: "resp (record_coordination_event run type worker epoch at ctx)"
begin

lemma best_effort_rel: "R d (snd (record_best_effort_event e run type worker epoch at ctx d))"
  using begin_write_resp [OF R_event, of d "e\<lparr>env_locked := env_refusal_locked e\<rparr>" run type worker epoch at ctx]
  by (auto simp: record_best_effort_event_def split: prod.splits sum.splits)

lemma fenced_leader_rel: "resp body \<Longrightarrow> R d (snd (fenced_leader_transaction e t w v body d))"
proof -
  assume "resp body"
  then have "resp (leader_fenced_body t w v body)"
    unfolding leader_fenced_body_def by (intro resp_intros R_leader_fence R_renew)
  then have "R d (snd (begin_write e (leader_fenced_body t w v body) d))"
    by (rule begin_write_resp)
  then show ?thesis
    by (auto simp: fenced_leader_transaction_def split: prod.splits intro: db_trans best_effort_rel)
qed

lemma fenced_member_rel: "resp body \<Longrightarrow> R d (snd (fenced_member_transaction e m v body d))"
proof -
  assume "resp body"
  then have "resp (tx_then (verify_membership_fence m v) body)"
    by (intro resp_intros R_membership_fence)
  then have "R d (snd (begin_write e (tx_then (verify_membership_fence m v) body) d))"
    by (rule begin_write_resp)
  then show ?thesis
    by (auto simp: fenced_member_transaction_def membership_refusal_event_def split: prod.splits
        intro: db_trans best_effort_rel)
qed

end

text \<open>A preorder that does not look at the coordination tables is respected by the fences.\<close>

locale coordination_blind = db_preorder R for R :: "db \<Rightarrow> db \<Rightarrow> bool" +
  assumes blind_seats: "R d (d\<lparr>db_seats := ss\<rparr>)"
    and blind_workers: "R d (d\<lparr>db_workers := ws\<rparr>)"
    and blind_coord_events: "R d (d\<lparr>db_coord_events := es\<rparr>)"
begin

lemma blind_statements:
  "resp (update_seats PS fs)" "resp (update_workers PW fw)" "resp (insert_seat s)"
  "resp (insert_worker w)" "resp (insert_coord_event ce)"
  by (rule tx_relI, auto simp: tx_inv blind_seats blind_workers blind_coord_events)+

lemma blind_leader_deadline: "resp (renew_leader_deadline_on t w v)"
  unfolding renew_leader_deadline_on_def by (intro resp_intros blind_statements)

lemma blind_leader_fence: "resp (verify_and_extend_leader_fence t w v)"
  unfolding verify_and_extend_leader_fence_def
  by (intro resp_intros blind_statements blind_leader_deadline)

lemma blind_membership_fence: "resp (verify_membership_fence m v)"
  unfolding verify_membership_fence_def by (intro resp_intros blind_statements)

lemma blind_event: "resp (record_coordination_event run type worker epoch at ctx)"
  unfolding record_coordination_event_def by (intro resp_intros blind_statements)

end

sublocale coordination_blind \<subseteq> fence_preorder R
  by unfold_locales
    (rule blind_leader_fence blind_leader_deadline blind_membership_fence blind_event)+

interpretation fhist: fence_preorder evolves
  by unfold_locales (rule hist_verbs)+

interpretation okhist: fence_preorder ok_evolves
proof unfold_locales
  show "ok_evolves d d" for d by (simp add: ok_evolves_def)
  show "ok_evolves d d''" if "ok_evolves d d'" "ok_evolves d' d''" for d d' d''
    using that by (auto simp: ok_evolves_def intro: evolves_trans evolves_ok)
qed (rule tx_rel_mono, rule hist_verbs, erule evolves_ok_evolves)+

lemma okhist_resp: "hist.resp m \<Longrightarrow> okhist.resp m"
  by (erule tx_rel_mono) (rule evolves_ok_evolves)

lemmas fenced_leader_transaction_evolves = fhist.fenced_leader_rel
lemmas fenced_member_transaction_evolves = fhist.fenced_member_rel
lemmas record_best_effort_event_evolves = fhist.best_effort_rel

lemma resp_insert_worker_row [hist_verbs]: "hist.resp (insert_worker_row run w r win ep now)"
  unfolding insert_worker_row_def by (intro hist_intros)

lemma resp_finalize_leader [hist_verbs]: "hist.resp (finalize_leader_registration_on t w)"
  unfolding finalize_leader_registration_on_def
  by (intro hist_intros) (simp_all add: evolves_defs)

lemma resp_register_run_leader [hist_verbs]: "hist.resp (register_run_leader_on run w win ep)"
  unfolding register_run_leader_on_def by (intro hist_intros hist_verbs)

lemma resp_seize_seat [hist_verbs]: "hist.resp (seize_seat run w seat now win)"
  unfolding seize_seat_def by (intro hist_intros) (simp add: evolves_defs)

lemma resp_evict_deposed [hist_verbs]: "hist.resp (evict_deposed run w seat ep now reason)"
  unfolding evict_deposed_def by (intro hist_intros hist_verbs) (simp add: evolves_defs)

lemma resp_register_successor [hist_verbs]: "hist.resp (register_successor run w seat ep win en now)"
  unfolding register_successor_def by (intro hist_intros hist_verbs)

lemma resp_acquire_run_leadership [hist_verbs]: "hist.resp (acquire_run_leadership_on run w win ep)"
  unfolding acquire_run_leadership_on_def
  by (intro hist_intros hist_verbs) (auto simp: evolves_defs takeover_flippable_def)

lemma resp_acquire_terminal [hist_verbs]: "hist.resp (acquire_terminal_leadership_on run w win p ex)"
  unfolding acquire_terminal_leadership_on_def by (intro hist_intros hist_verbs)

lemma report_held_lock_db [simp]: "snd (report_held_lock run r) = snd r"
  by (cases "(run, r)" rule: report_held_lock.cases) simp_all

lemma acquire_run_leadership_evolves [hist_verbs]:
  "evolves d (snd (acquire_run_leadership e run w win ep d))"
  unfolding acquire_run_leadership_def report_held_lock_db
  by (rule hist.begin_write_resp) (intro hist_intros hist_verbs)

lemma acquire_export_leadership_evolves [hist_verbs]:
  "evolves d (snd (acquire_export_leadership e run w win d))"
  unfolding acquire_export_leadership_def report_held_lock_db
  by (rule hist.begin_write_resp) (intro hist_intros hist_verbs)

lemma acquire_reconciliation_leadership_evolves [hist_verbs]:
  "evolves d (snd (acquire_reconciliation_leadership e run w win st d))"
  unfolding acquire_reconciliation_leadership_def
  by (simp, intro impI hist.begin_write_resp hist_intros hist_verbs)

lemma release_seat_evolves [hist_verbs]: "evolves d (snd (release_seat e t d))"
proof -
  have "hist.resp (release_seat_body t)"
    unfolding release_seat_body_def
    by (intro hist_intros hist_verbs) (auto simp: evolves_defs holds_seat_def active_member_def)
  from fenced_leader_transaction_evolves [OF this, of d e t DEFAULT_RUN_LIVENESS_WINDOW "''release_seat''"]
  show ?thesis by (auto simp: release_seat_def split: prod.splits sum.splits)
qed

lemma worker_heartbeat_evolves [hist_verbs]: "evolves d (snd (worker_heartbeat e m w d))"
proof -
  have body: "hist.resp (worker_heartbeat_body m w)"
    unfolding worker_heartbeat_body_def
    by (intro hist_intros hist_verbs) (auto simp: evolves_defs)
  have "evolves d (snd (fenced_heartbeat_transaction e m ''worker_heartbeat''
      (worker_heartbeat_body m w) d))"
    unfolding fenced_heartbeat_transaction_def
    by (rule hist.begin_write_resp) (intro hist_intros hist_verbs body)
  then show ?thesis
    by (auto simp: worker_heartbeat_def membership_refusal_event_def split: prod.splits sum.splits
        intro: evolves_trans record_best_effort_event_evolves)
qed

lemma admit_follower_evolves [hist_verbs]: "evolves d (snd (admit_follower e run w ch win d))"
  unfolding admit_follower_def admit_follower_body_def finalize_follower_admission_on_def
  by (rule hist.begin_write_resp) (intro hist_intros hist_verbs, auto simp: evolves_defs)

lemma depart_worker_evolves [hist_verbs]: "evolves d (snd (depart_worker e m d))"
proof -
  have "hist.resp (depart_worker_body m)"
    unfolding depart_worker_body_def
    by (intro hist_intros hist_verbs) (auto simp: evolves_defs active_member_def)
  from fenced_member_transaction_evolves [OF this, of d e m "''depart_worker''"]
  show ?thesis by (auto simp: depart_worker_def split: prod.splits sum.splits)
qed

lemma evict_worker_evolves [hist_verbs]: "evolves d (snd (evict_worker e t target grace win d))"
  unfolding evict_worker_def evict_worker_body_def
  by (rule fenced_leader_transaction_evolves)
    (intro hist_intros hist_verbs, auto simp: evolves_defs)

end
