(* ===== verification/Example_Run.thy ===== *)
theory Example_Run
  imports Landscape_Database
begin

text \<open>
  A small concrete run on which the witnesses evaluate the verbs: run \<open>r\<close> with two
  rows, one leader \<open>w1\<close>, one follower \<open>w2\<close>, and an environment whose clock starts
  at 100 seconds and advances one millisecond per reading.
\<close>

text \<open>A serialiser that tells the coordination events of one transaction apart.\<close>

fun demo_canonical_json :: "json \<Rightarrow> string" where
  "demo_canonical_json (JObj kvs) =
    (if map_of kvs ''event_type'' = Some (JStr ''leader_acquire'') then ''r:t1:n1:2''
     else if map_of kvs ''event_type'' = Some (JStr ''worker_register'') then ''''
     else ''abc'')"
| "demo_canonical_json _ = ''''"

definition demo_env :: env where
  "demo_env = \<lparr>env_dialect = Sqlite, env_clock = (\<lambda>n. 100000000 + int n * 1000),
     env_transaction_start = 100000000, env_process_clock = 100500000, env_locked = False, env_refusal_locked = False,
     env_canonical_json = demo_canonical_json, env_uuid4_hex = (\<lambda>n. ''0123456789abcdef''),
     env_pid = 42, env_hostname = ''host''\<rparr>"

definition demo_seat :: "ident option \<Rightarrow> int \<Rightarrow> instant option \<Rightarrow> seat_row" where
  "demo_seat leader epoch expires = \<lparr>st_run_id = ''r'', st_leader_worker_id = leader,
     st_leader_epoch = epoch, st_leader_heartbeat_expires_at = expires, st_updated_at = 20000000\<rparr>"

definition demo_worker :: "ident \<Rightarrow> worker_role \<Rightarrow> instant \<Rightarrow> worker_row" where
  "demo_worker w role hb = \<lparr>wk_worker_id = w, wk_run_id = ''r'', wk_role = role,
     wk_status = Active, wk_registered_at = 10000000, wk_heartbeat_expires_at = hb,
     wk_departed_at = None, wk_evicted_at = None, wk_evicted_by_worker_id = None,
     wk_pid = None, wk_hostname = None, wk_entry_point = Some ''run''\<rparr>"

definition demo_item :: "ident \<Rightarrow> ident \<Rightarrow> int \<Rightarrow> token_work_status \<Rightarrow> ident option \<Rightarrow> instant option \<Rightarrow> work_item" where
  "demo_item wid token seq status owner expires = \<lparr>wi_work_item_id = wid, wi_run_id = ''r'',
     wi_token_id = token, wi_row_id = ''row_'' @ token, wi_node_id = Some ''n1'', wi_step_index = 1,
     wi_ingest_sequence = seq, wi_row_payload_json = ''payload'', wi_status = status,
     wi_queue_key = None, wi_barrier_key = None, wi_on_success_sink = None,
     wi_pending_sink_name = None, wi_pending_outcome = None, wi_pending_path = None,
     wi_pending_error_hash = None, wi_pending_error_message = None, wi_join_group_id = None,
     wi_lineage_path = [], wi_coalesce_node_id = None, wi_coalesce_name = None,
     wi_row_union_name = None, wi_collector_name = None, wi_attempt = 1, wi_lease_owner = owner,
     wi_lease_expires_at = expires, wi_available_at = 30000000, wi_barrier_blocked_at = None,
     wi_barrier_adopted_epoch = None, wi_created_at = 30000000, wi_updated_at = 30000000\<rparr>"

definition demo_db :: "seat_row \<Rightarrow> worker_row list \<Rightarrow> work_item list \<Rightarrow> db" where
  "demo_db seat workers items = \<lparr>
     db_runs = [\<lparr>run_run_id = ''r'', run_run_status = RunRunning, run_config_hash = ''cfg'',
       run_completed_at = None, run_reproducibility_grade = None\<rparr>],
     db_nodes = [\<lparr>nd_node_id = ''n1'', nd_run_id = ''r'', nd_node_type = TRANSFORM\<rparr>],
     db_rows = [\<lparr>rw_row_id = ''row_t1'', rw_run_id = ''r'', rw_ingest_sequence = 0\<rparr>,
       \<lparr>rw_row_id = ''row_t2'', rw_run_id = ''r'', rw_ingest_sequence = 1\<rparr>],
     db_tokens = [\<lparr>tk_token_id = ''t1'', tk_row_id = ''row_t1'', tk_run_id = ''r''\<rparr>,
       \<lparr>tk_token_id = ''t2'', tk_row_id = ''row_t2'', tk_run_id = ''r''\<rparr>],
     db_outcomes = [], db_seats = [seat], db_workers = workers, db_coord_events = [],
     db_work_items = items, db_scheduler_events = [], db_group_losses = [],
     db_token_parents = [], db_lineage_frames = [], db_batches = [], db_batch_members = [],
     db_node_states = [], db_artifacts = [], db_sink_effects = [], db_sink_effect_members = []\<rparr>"

definition demo_token :: coordination_token where
  "demo_token = \<lparr>ct_run_id = ''r'', ct_worker_id = ''w1'', ct_leader_epoch = 1\<rparr>"

text \<open>The run with a dead leader (its seat expired at 90 s) and a live follower.\<close>

definition demo_orphaned :: db where
  "demo_orphaned = demo_db (demo_seat (Some ''w1'') 1 (Some 90000000))
     [demo_worker ''w1'' Leader 90000000, demo_worker ''w2'' Follower 150000000] []"

text \<open>The run with a live leader and a follower that stopped beating at 5 s.\<close>

definition demo_live :: "work_item list \<Rightarrow> db" where
  "demo_live items = demo_db (demo_seat (Some ''w1'') 1 (Some 150000000))
     [demo_worker ''w1'' Leader 150000000, demo_worker ''w2'' Follower 5000000] items"

lemma demo_orphaned_ok: "db_ok demo_orphaned"
  by code_simp

lemma demo_live_ok: "db_ok (demo_live [])"
  by code_simp

end
