(* ===== verification/Coordination_Fencing.thy ===== *)
theory Coordination_Fencing
  imports Run_Coordination Example_Run
begin

text \<open>
  What the fences of \<open>Run_Coordination\<close> guarantee: a transaction commits only while
  its token holds the seat (or its membership row is active), a refusal writes
  nothing but its own ledger row, and takeover, release, eviction, heartbeat and
  admission change exactly the rows they name.
\<close>

section \<open>Refused transactions\<close>

text \<open>Two images that differ only in rows appended to the coordination ledger.\<close>

definition same_but_ledger :: "db \<Rightarrow> db \<Rightarrow> bool" where
  "same_but_ledger d d' \<longleftrightarrow>
     (\<exists>evs. length evs \<le> 1 \<and> d' = d\<lparr>db_coord_events := db_coord_events d @ evs\<rparr>)"

lemma same_but_ledger_refl [simp]: "same_but_ledger d d"
  unfolding same_but_ledger_def by (rule exI [of _ "[]"]) simp

lemma same_but_ledger_append [simp]:
  "same_but_ledger d (d\<lparr>db_coord_events := db_coord_events d @ [ev]\<rparr>)"
  unfolding same_but_ledger_def by (rule exI [of _ "[ev]"]) simp

lemma best_effort_same_but_ledger:
  "same_but_ledger d (snd (record_best_effort_event e run type worker epoch t ctx d))"
proof (cases "begin_write (e\<lparr>env_locked := env_refusal_locked e\<rparr>)
                (record_coordination_event run type worker epoch t ctx) d")
  case (Pair r d')
  show ?thesis
  proof (cases r)
    case (Inl err)
    with Pair have "d' = d" using begin_write_error by metis
    then show ?thesis using Pair Inl by (simp add: record_best_effort_event_def)
  next
    case (Inr u)
    with Pair obtain c where
      "record_coordination_event run type worker epoch t ctx
         (open_conn (e\<lparr>env_locked := env_refusal_locked e\<rparr>) d) = Inr (u, c)" "tables c = d'"
      by (auto elim: begin_write_success)
    then have "\<exists>ev. d' = d\<lparr>db_coord_events := db_coord_events d @ [ev]\<rparr>"
      by (auto simp: record_coordination_event_def tx_inv)
    then show ?thesis
      using Pair Inr by (auto simp: record_best_effort_event_def)
  qed
qed

lemma fence_raises_without_seat:
  assumes "run_coordination_ok (db_seats (tables c))"
    and "\<not> exists_where (holds_seat t) (db_seats (tables c))"
  shows "verify_and_extend_leader_fence t w v c = Inl (leadership_lost t v)"
proof -
  have none: "\<forall>s \<in> set (db_seats (tables c)). \<not> holds_seat t s"
    using assms(2) by (simp add: exists_where_iff)
  then have "count_where (holds_seat t) (db_seats (tables c)) = 0"
    by (simp add: count_where_eq_0_iff)
  then show ?thesis
    using assms(1) none
    by (simp add: verify_and_extend_leader_fence_def update_seats_def select_tables_def tx_bind_def
        tx_then_def tx_gets_def put_table_def tx_assert_def update_where_none)
qed

lemma count_where_1_exists: "count_where P rs = 1 \<Longrightarrow> exists_where P rs"
  using count_where_pos_iff [of P rs] by (simp add: exists_where_iff)

lemma fence_passes_inv:
  "verify_and_extend_leader_fence t w v c = Inr (u, c') \<Longrightarrow>
   exists_where (holds_seat t) (db_seats (tables c))"
  by (rule count_where_1_exists) (simp add: verify_and_extend_leader_fence_def tx_inv)

lemma leader_transaction_refused:
  assumes "db_ok d" and "\<not> exists_where (holds_seat t) (db_seats d)"
  shows "fst (fenced_leader_transaction e t w v body d)
           = Inl (if env_locked e then DatabaseLockedError else leadership_lost t v)"
    and "same_but_ledger d (snd (fenced_leader_transaction e t w v body d))"
proof -
  have "verify_and_extend_leader_fence t w v (open_conn e d) = Inl (leadership_lost t v)"
    using assms fence_raises_without_seat [of "open_conn e d" t w v] by (simp add: db_ok_def)
  then have "begin_write e (leader_fenced_body t w v body) d =
      (Inl (if env_locked e then DatabaseLockedError else leadership_lost t v), d)"
    by (simp add: begin_write_def leader_fenced_body_def tx_bind_raises)
  then show "fst (fenced_leader_transaction e t w v body d)
           = Inl (if env_locked e then DatabaseLockedError else leadership_lost t v)"
    and "same_but_ledger d (snd (fenced_leader_transaction e t w v body d))"
    by (simp_all add: fenced_leader_transaction_def leadership_lost_def best_effort_same_but_ledger)
qed

lemma leader_transaction_rolled_back:
  assumes "fenced_leader_transaction e t w v body d = (Inl err, d')"
  shows "same_but_ledger d d'"
proof (cases "begin_write e (leader_fenced_body t w v body) d")
  case (Pair r d1)
  with assms obtain err' where "r = Inl err'" by (auto simp: fenced_leader_transaction_def split: if_splits)
  with Pair have "d1 = d" by (auto simp: begin_write_def split: if_splits sum.splits)
  with Pair assms best_effort_same_but_ledger [of d] show ?thesis
    by (auto simp: fenced_leader_transaction_def split: if_splits)
qed

lemma leader_transaction_committed:
  assumes "fenced_leader_transaction e t w v body d = (Inr x, d')"
  shows "exists_where (holds_seat t) (db_seats d)"
proof -
  from assms have "begin_write e (leader_fenced_body t w v body) d = (Inr x, d')"
    by (auto simp: fenced_leader_transaction_def split: prod.splits if_splits)
  then obtain c where "leader_fenced_body t w v body (open_conn e d) = Inr (x, c)"
    by (elim begin_write_success) simp
  then obtain u c' where "verify_and_extend_leader_fence t w v (open_conn e d) = Inr (u, c')"
    by (auto simp: leader_fenced_body_def tx_inv)
  then show ?thesis using fence_passes_inv by fastforce
qed

lemma member_fence_raises:
  assumes ok: "run_workers_ok (db_workers (tables c))"
    and row: "w \<in> set (db_workers (tables c))" "wk_worker_id w = mt_worker_id m"
      "wk_run_id w = mt_run_id m" and gone: "wk_status w \<noteq> Active"
  shows "verify_membership_fence m v c = Inl (RunMembershipLostError (mt_run_id m) (mt_worker_id m) v)"
proof -
  have keyed: "keyed wk_worker_id (db_workers (tables c))"
    using ok by (simp add: run_workers_ok_def)
  have none: "\<forall>x \<in> set (db_workers (tables c)). \<not> active_member m x"
  proof (intro ballI notI)
    fix x assume x: "x \<in> set (db_workers (tables c))" and act: "active_member m x"
    then have "x = w"
      using keyed_unique [OF keyed x row(1)] row by (simp add: active_member_def)
    then show False using act gone by (simp add: active_member_def)
  qed
  then have count: "count_where (active_member m) (db_workers (tables c)) = 0"
    by (simp add: count_where_eq_0_iff)
  have "List.find (\<lambda>x. wk_run_id x = mt_run_id m \<and> wk_worker_id x = mt_worker_id m)
          (db_workers (tables c)) \<noteq> None"
    using row by (auto simp: find_None_all)
  then show ?thesis
    using ok none count
    by (auto simp: verify_membership_fence_def update_workers_def select_tables_def tx_bind_def
        tx_gets_def put_table_def update_where_none tx_raise_def)
qed

lemma member_transaction_refused:
  assumes "db_ok d" and "w \<in> set (db_workers d)" "wk_worker_id w = mt_worker_id m"
    "wk_run_id w = mt_run_id m" "wk_status w \<noteq> Active"
  shows "fst (fenced_member_transaction e m v body d)
           = Inl (if env_locked e then DatabaseLockedError
                  else RunMembershipLostError (mt_run_id m) (mt_worker_id m) v)"
    and "same_but_ledger d (snd (fenced_member_transaction e m v body d))"
proof -
  have "verify_membership_fence m v (open_conn e d)
          = Inl (RunMembershipLostError (mt_run_id m) (mt_worker_id m) v)"
    using assms member_fence_raises [of "open_conn e d" w m v] by (simp add: db_ok_def)
  then have "begin_write e (tx_then (verify_membership_fence m v) body) d =
      (Inl (if env_locked e then DatabaseLockedError
            else RunMembershipLostError (mt_run_id m) (mt_worker_id m) v), d)"
    by (simp add: begin_write_def tx_bind_raises)
  then show "fst (fenced_member_transaction e m v body d)
           = Inl (if env_locked e then DatabaseLockedError
                  else RunMembershipLostError (mt_run_id m) (mt_worker_id m) v)"
    and "same_but_ledger d (snd (fenced_member_transaction e m v body d))"
    by (simp_all add: fenced_member_transaction_def membership_refusal_event_def
        best_effort_same_but_ledger)
qed

section \<open>Takeover\<close>

text \<open>The instant of the nth clock sample of a transaction.\<close>

definition sample :: "env \<Rightarrow> nat \<Rightarrow> instant" where
  "sample e n = decision_instant (env_dialect e) (env_clock e n)"

abbreviation evicted_by :: "ident \<Rightarrow> instant \<Rightarrow> worker_row \<Rightarrow> worker_row" where
  "evicted_by w now x \<equiv> x\<lparr>wk_status := Evicted, wk_evicted_at := Some now,
     wk_evicted_by_worker_id := Some w\<rparr>"

lemma record_coordination_event_inv [tx_inv]:
  "record_coordination_event run type worker epoch t ctx c = Inr r \<longleftrightarrow>
   run_exists (tables c) run \<and>
   run_coordination_events_ok (db_coord_events (tables c) @
      [coord_event (conn_env c) run type worker epoch t ctx]) \<and>
   r = ((), c\<lparr>tables := (tables c)\<lparr>db_coord_events := db_coord_events (tables c) @
          [coord_event (conn_env c) run type worker epoch t ctx]\<rparr>\<rparr>)"
  by (auto simp: record_coordination_event_def tx_inv coord_event_def)

lemma new_worker_row_simps [simp]:
  "wk_worker_id (new_worker_row e run worker role win ep now) = worker"
  "wk_run_id (new_worker_row e run worker role win ep now) = run"
  "wk_role (new_worker_row e run worker role win ep now) = role"
  "wk_status (new_worker_row e run worker role win ep now) = Active"
  by (simp_all add: new_worker_row_def)

abbreviation seized :: "ident \<Rightarrow> instant \<Rightarrow> duration \<Rightarrow> seat_row \<Rightarrow> seat_row" where
  "seized w now win \<equiv> \<lambda>s. s\<lparr>st_leader_worker_id := Some w, st_leader_epoch := st_leader_epoch s + 1,
     st_leader_heartbeat_expires_at := Some (now + win), st_updated_at := now\<rparr>"

lemma seize_seat_inv:
  assumes "seize_seat run w seat now win c = Inr (t, c')"
  shows "count_where (seat_takeable run now) (db_seats (tables c)) = 1"
    and "t = \<lparr>ct_run_id = run, ct_worker_id = w, ct_leader_epoch = st_leader_epoch seat + 1\<rparr>"
    and "tables c' = (tables c)\<lparr>db_seats := update_where (seat_takeable run now)
           (seized w now win) (db_seats (tables c))\<rparr>"
    and "conn_env c' = conn_env c" and "conn_clock_reads c' = conn_clock_reads c"
  using assms by (auto simp: seize_seat_def tx_inv Let_def)

lemma evict_deposed_inv:
  assumes "evict_deposed run w seat ep now reason c = Inr (u, c')"
  shows "db_workers (tables c') = update_where
        (\<lambda>x. st_leader_worker_id seat = Some (wk_worker_id x) \<and> wk_worker_id x \<noteq> w \<and>
             wk_status x = Active) (evicted_by w now) (db_workers (tables c))"
    and "\<exists>evs. tables c' = (tables c)\<lparr>db_workers := db_workers (tables c'),
           db_coord_events := db_coord_events (tables c) @ evs\<rparr>"
    and "conn_env c' = conn_env c" and "conn_clock_reads c' = conn_clock_reads c"
proof -
  show "db_workers (tables c') = update_where
        (\<lambda>x. st_leader_worker_id seat = Some (wk_worker_id x) \<and> wk_worker_id x \<noteq> w \<and>
             wk_status x = Active) (evicted_by w now) (db_workers (tables c))"
    using assms
    by (auto simp: evict_deposed_def tx_inv update_where_none split: option.splits if_splits
        intro!: update_where_cong)
  show "\<exists>evs. tables c' = (tables c)\<lparr>db_workers := db_workers (tables c'),
           db_coord_events := db_coord_events (tables c) @ evs\<rparr>"
    using assms
    by (auto simp: evict_deposed_def tx_inv split: option.splits if_splits
        intro: exI [of _ "[]"])
  show "conn_env c' = conn_env c" and "conn_clock_reads c' = conn_clock_reads c"
    using assms by (auto simp: evict_deposed_def tx_inv split: option.splits if_splits)
qed

lemma register_successor_inv:
  assumes "register_successor run w seat ep win entry now c = Inr (u, c')"
  shows "db_workers (tables c') =
           db_workers (tables c) @ [new_worker_row (conn_env c) run w Leader win entry now]"
    and "\<exists>evs. tables c' = (tables c)\<lparr>db_workers := db_workers (tables c'),
           db_coord_events := db_coord_events (tables c) @ evs\<rparr>"
    and "run_workers_ok (db_workers (tables c'))"
    and "conn_env c' = conn_env c" and "conn_clock_reads c' = conn_clock_reads c"
  using assms by (auto simp: register_successor_def insert_worker_row_def tx_inv)

abbreviation reopened :: "run_row \<Rightarrow> run_row" where
  "reopened \<equiv> \<lambda>r. r\<lparr>run_run_status := RunRunning, run_completed_at := None,
     run_reproducibility_grade := None\<rparr>"

abbreviation reopenable :: "ident \<Rightarrow> run_row \<Rightarrow> bool" where
  "reopenable run \<equiv> \<lambda>r. run_run_id r = run \<and> run_run_status r \<in> set (takeover_flippable @ [RunRunning])"

lemma acquire_run_leadership_on_inv:
  assumes "acquire_run_leadership_on run w win ep c = Inr (t, c')"
  defines "now \<equiv> sample (conn_env c) (conn_clock_reads c)"
  obtains seat where "List.find (\<lambda>s. st_run_id s = run) (db_seats (tables c)) = Some seat"
    "\<not> in_statuses (run_status_of run (tables c)) immutable_success"
    "count_where (seat_takeable run now) (db_seats (tables c)) = 1"
    "t = \<lparr>ct_run_id = run, ct_worker_id = w, ct_leader_epoch = st_leader_epoch seat + 1\<rparr>"
    "db_seats (tables c') = update_where (seat_takeable run now) (seized w now win) (db_seats (tables c))"
    "db_workers (tables c') = update_where
        (\<lambda>x. st_leader_worker_id seat = Some (wk_worker_id x) \<and> wk_worker_id x \<noteq> w \<and>
             wk_status x = Active) (evicted_by w now) (db_workers (tables c)) @
        [new_worker_row (conn_env c) run w Leader win ep now]"
    "db_runs (tables c') = update_where (reopenable run) reopened (db_runs (tables c))"
    "db_work_items (tables c') = db_work_items (tables c)"
    "db_scheduler_events (tables c') = db_scheduler_events (tables c)"
    "run_workers_ok (db_workers (tables c'))"
    "conn_env c' = conn_env c" "conn_clock_reads c' = Suc (conn_clock_reads c)"
proof -
  let ?c1 = "c\<lparr>conn_clock_reads := Suc (conn_clock_reads c)\<rparr>"
  from assms(1) obtain seat c2 c4 where
    seat: "List.find (\<lambda>s. st_run_id s = run) (db_seats (tables c)) = Some seat" and
    status: "\<not> in_statuses (run_status_of run (tables c)) immutable_success" and
    seize: "seize_seat run w seat now win ?c1 = Inr (t, c2)" and
    evict: "evict_deposed run w seat (ct_leader_epoch t) now ''deposed_leader_takeover''
      (c2\<lparr>tables := (tables c2)\<lparr>db_runs := update_where (reopenable run) reopened (db_runs (tables c2))\<rparr>\<rparr>)
        = Inr ((), c4)" and
    reg: "register_successor run w seat (ct_leader_epoch t) win ep now c4 = Inr ((), c')"
    unfolding acquire_run_leadership_on_def now_def sample_def
    by (auto simp: tx_inv split: option.splits)
  note facts = seize_seat_inv [OF seize] evict_deposed_inv [OF evict] register_successor_inv [OF reg]
  from facts(7) facts(11) obtain evs evs' where
    c4: "tables c4 = (tables c2)\<lparr>db_runs := update_where (reopenable run) reopened (db_runs (tables c2)),
      db_workers := db_workers (tables c4), db_coord_events := db_coord_events (tables c2) @ evs\<rparr>" and
    c': "tables c' = (tables c4)\<lparr>db_workers := db_workers (tables c'),
      db_coord_events := db_coord_events (tables c4) @ evs'\<rparr>"
    by auto
  have tabs: "db_seats (tables c') = db_seats (tables c2)" "db_work_items (tables c') = db_work_items (tables c2)"
    "db_scheduler_events (tables c') = db_scheduler_events (tables c2)"
    "db_runs (tables c') = update_where (reopenable run) reopened (db_runs (tables c2))"
    by (subst c', subst c4, simp)+
  show thesis
    by (rule that [of seat]) (use seat status facts tabs in simp_all)
qed

abbreviation renewed :: "instant \<Rightarrow> duration \<Rightarrow> seat_row \<Rightarrow> seat_row" where
  "renewed now win \<equiv> \<lambda>s. s\<lparr>st_leader_heartbeat_expires_at := Some (now + win), st_updated_at := now\<rparr>"

lemma finalize_leader_registration_inv:
  assumes "finalize_leader_registration_on t win c = Inr (u, c')"
  shows "count_where (holds_seat t) (db_seats (tables c)) = 1"
    and "count_where (\<lambda>x. active_member (membership t) x \<and> wk_role x = Leader) (db_workers (tables c)) = 1"
    and "tables c' = (tables c)\<lparr>
      db_seats := update_where (holds_seat t)
        (renewed (sample (conn_env c) (conn_clock_reads c)) win) (db_seats (tables c)),
      db_workers := update_where (\<lambda>x. active_member (membership t) x \<and> wk_role x = Leader)
        (\<lambda>x. x\<lparr>wk_heartbeat_expires_at := sample (conn_env c) (conn_clock_reads c) + win\<rparr>)
        (db_workers (tables c))\<rparr>"
  using assms unfolding finalize_leader_registration_on_def sample_def
  by (auto simp: tx_inv)

lemma report_held_lock_Inr: "report_held_lock run r = (Inr x, d) \<Longrightarrow> r = (Inr x, d)"
  by (cases "(run, r)" rule: report_held_lock.cases) auto

lemma acquire_run_leadership_inv:
  assumes "acquire_run_leadership e run w win ep d = (Inr t, d')"
  obtains c c' where "acquire_run_leadership_on run w win ep (open_conn e d) = Inr (t, c)"
    "finalize_leader_registration_on t win c = Inr ((), c')" "tables c' = d'"
proof -
  have "begin_write e (tx_bind (acquire_run_leadership_on run w win ep)
          (\<lambda>t. tx_then (finalize_leader_registration_on t win) (tx_return t))) d = (Inr t, d')"
    using assms unfolding acquire_run_leadership_def by (rule report_held_lock_Inr)
  then show thesis
    by (elim begin_write_success) (auto simp: tx_inv that)
qed

lemma update_where_seats_unique:
  "keyed key rs \<Longrightarrow> r \<in> set rs \<Longrightarrow> count_where P rs = 1 \<Longrightarrow> (\<And>x. P x \<Longrightarrow> key x = key r) \<Longrightarrow> P r"
  using count_where_1_exists [of P rs] keyed_unique [of key rs] by (auto simp: exists_where_iff)

lemma takeover_seat:
  assumes ok: "db_ok d" and on: "acquire_run_leadership_on run w win ep (open_conn e d) = Inr (t, c)"
    and fin: "finalize_leader_registration_on t win c = Inr ((), c')"
  obtains s where "s \<in> set (db_seats d)" "seat_takeable run (sample e 0) s"
    "t = \<lparr>ct_run_id = run, ct_worker_id = w, ct_leader_epoch = st_leader_epoch s + 1\<rparr>"
    "db_seats (tables c') = update_where (seat_takeable run (sample e 0))
       (\<lambda>s. s\<lparr>st_leader_worker_id := Some w, st_leader_epoch := st_leader_epoch s + 1,
          st_leader_heartbeat_expires_at := Some (sample e 1 + win), st_updated_at := sample e 1\<rparr>)
       (db_seats d)"
    "db_workers (tables c') = update_where (\<lambda>x. active_member (membership t) x \<and> wk_role x = Leader)
       (\<lambda>x. x\<lparr>wk_heartbeat_expires_at := sample e 1 + win\<rparr>)
       (update_where (\<lambda>x. st_leader_worker_id s = Some (wk_worker_id x) \<and> wk_worker_id x \<noteq> w \<and>
          wk_status x = Active) (evicted_by w (sample e 0)) (db_workers d) @
        [new_worker_row e run w Leader win ep (sample e 0)])"
    "db_runs (tables c') = update_where (reopenable run) reopened (db_runs d)"
    "\<not> in_statuses (run_status_of run d) immutable_success"
    "db_work_items (tables c') = db_work_items d"
    "db_scheduler_events (tables c') = db_scheduler_events d"
proof -
  from on obtain s where
    find: "List.find (\<lambda>s. st_run_id s = run) (db_seats d) = Some s" and
    status: "\<not> in_statuses (run_status_of run d) immutable_success" and
    count: "count_where (seat_takeable run (sample e 0)) (db_seats d) = 1" and
    t: "t = \<lparr>ct_run_id = run, ct_worker_id = w, ct_leader_epoch = st_leader_epoch s + 1\<rparr>" and
    seats: "db_seats (tables c) = update_where (seat_takeable run (sample e 0))
       (seized w (sample e 0) win) (db_seats d)" and
    rest: "db_workers (tables c) = update_where (\<lambda>x. st_leader_worker_id s = Some (wk_worker_id x) \<and>
          wk_worker_id x \<noteq> w \<and> wk_status x = Active) (evicted_by w (sample e 0)) (db_workers d) @
        [new_worker_row e run w Leader win ep (sample e 0)]"
      "db_runs (tables c) = update_where (reopenable run) reopened (db_runs d)"
      "db_work_items (tables c) = db_work_items d"
      "db_scheduler_events (tables c) = db_scheduler_events d"
      "conn_env c = e" "conn_clock_reads c = 1"
    by (rule acquire_run_leadership_on_inv) (simp add: sample_def)
  have keyed: "keyed st_run_id (db_seats d)"
    using ok by (simp add: db_ok_def run_coordination_ok_def)
  have mem: "s \<in> set (db_seats d)" and run: "st_run_id s = run"
    using find_Some_mem [OF find] by auto
  have takeable: "seat_takeable run (sample e 0) s"
    by (rule update_where_seats_unique [OF keyed mem count]) (simp add: run seat_takeable_def)
  have "db_seats (tables c') = update_where (holds_seat t) (renewed (sample e 1) win)
      (update_where (seat_takeable run (sample e 0)) (seized w (sample e 0) win) (db_seats d))"
    using finalize_leader_registration_inv(3) [OF fin] rest seats by simp
  also have "\<dots> = update_where (seat_takeable run (sample e 0))
       (\<lambda>s. s\<lparr>st_leader_worker_id := Some w, st_leader_epoch := st_leader_epoch s + 1,
          st_leader_heartbeat_expires_at := Some (sample e 1 + win), st_updated_at := sample e 1\<rparr>)
       (db_seats d)"
    unfolding update_where_def map_map
  proof (rule map_cong [OF refl])
    fix x assume x: "x \<in> set (db_seats d)"
    have "\<not> holds_seat t x" if "\<not> seat_takeable run (sample e 0) x"
      using keyed_unique [OF keyed x mem] that takeable run t by (auto simp: holds_seat_def)
    moreover have "holds_seat t (seized w (sample e 0) win x)" if "seat_takeable run (sample e 0) x"
      using keyed_unique [OF keyed x mem] that run t by (auto simp: holds_seat_def seat_takeable_def)
    ultimately show "((\<lambda>r. if holds_seat t r then renewed (sample e 1) win r else r) \<circ>
        (\<lambda>r. if seat_takeable run (sample e 0) r then seized w (sample e 0) win r else r)) x =
      (if seat_takeable run (sample e 0) x then x\<lparr>st_leader_worker_id := Some w,
         st_leader_epoch := st_leader_epoch x + 1,
         st_leader_heartbeat_expires_at := Some (sample e 1 + win), st_updated_at := sample e 1\<rparr> else x)"
      by simp
  qed
  finally show thesis
    using that [OF mem takeable t] finalize_leader_registration_inv(3) [OF fin] rest status by simp
qed

lemma reopened_runs:
  assumes "db_ok d" and "\<not> in_statuses (run_status_of run d) immutable_success"
  shows "\<forall>r \<in> set (update_where (reopenable run) reopened (db_runs d)).
           run_run_id r = run \<longrightarrow> run_run_status r = RunRunning"
proof -
  have "run_run_status r \<in> set (takeover_flippable @ [RunRunning])"
    if "r \<in> set (db_runs d)" "run_run_id r = run" for r
  proof -
    have "List.find (\<lambda>x. run_run_id x = run) (db_runs d) = Some r"
      using find_keyed [of run_run_id "db_runs d" r] assms(1) that by (simp add: db_ok_def)
    then have "run_run_status r \<notin> set immutable_success"
      using assms(2) by (simp add: run_status_of_def in_statuses_def)
    then show ?thesis
      by (cases "run_run_status r") (simp_all add: immutable_success_def takeover_flippable_def)
  qed
  note flip = this
  show ?thesis
  proof (intro ballI impI)
    fix x assume x: "x \<in> set (update_where (reopenable run) reopened (db_runs d))" "run_run_id x = run"
    from update_where_memD [OF x(1)] obtain r where
      r: "r \<in> set (db_runs d)" "x = (if reopenable run r then reopened r else r)" ..
    show "run_run_status x = RunRunning"
    proof (cases "reopenable run r")
      case True
      then show ?thesis using r(2) by simp
    next
      case False
      then have "x = r" using r(2) by (simp only: if_False)
      then show ?thesis using x(2) False flip [OF r(1)] by blast
    qed
  qed
qed

lemma successor_row_renewed:
  "\<exists>x \<in> set (update_where (\<lambda>x. active_member (membership \<lparr>ct_run_id = run, ct_worker_id = w,
        ct_leader_epoch = ep\<rparr>) x \<and> wk_role x = Leader) (\<lambda>x. x\<lparr>wk_heartbeat_expires_at := dl\<rparr>)
      (ws @ [new_worker_row e run w Leader win entry now])).
     active_member (membership \<lparr>ct_run_id = run, ct_worker_id = w, ct_leader_epoch = ep\<rparr>) x \<and>
     wk_role x = Leader \<and> wk_heartbeat_expires_at x = dl"
  by (rule bexI [OF _ mem_update_where [of "new_worker_row e run w Leader win entry now"]])
    (simp_all add: active_member_def membership_def)

lemma deposed_row_evicted:
  "\<forall>x \<in> set (update_where P (\<lambda>x. x\<lparr>wk_heartbeat_expires_at := dl\<rparr>)
      (update_where (\<lambda>x. prior = Some (wk_worker_id x) \<and> wk_worker_id x \<noteq> w \<and> wk_status x = Active)
         (evicted_by w now) ws @ [new_worker_row e run w Leader win entry now])).
     prior = Some (wk_worker_id x) \<longrightarrow> wk_worker_id x \<noteq> w \<longrightarrow> wk_status x \<noteq> Active"
proof -
  let ?Q = "\<lambda>x. prior = Some (wk_worker_id x) \<longrightarrow> wk_worker_id x \<noteq> w \<longrightarrow> wk_status x \<noteq> Active"
  have "\<forall>x \<in> set (update_where (\<lambda>x. prior = Some (wk_worker_id x) \<and> wk_worker_id x \<noteq> w \<and>
      wk_status x = Active) (evicted_by w now) ws @ [new_worker_row e run w Leader win entry now]). ?Q x"
    using update_where_all [of ws "\<lambda>x. prior = Some (wk_worker_id x) \<and> wk_worker_id x \<noteq> w \<and>
      wk_status x = Active" ?Q "evicted_by w now"] by auto
  then show ?thesis by (intro update_where_all) auto
qed

text \<open>C5. A committed takeover (\<open>acquire_run_leadership\<close>) found the seat vacant or expired, mints
  the next epoch for the caller, leaves the seat and the caller's new active leader row with one
  common deadline, evicts the deposed holder, returns the run to RUNNING, and touches no work item
  and no scheduler event.\<close>

theorem takeover_installs_one_leader:
  assumes "db_ok d" and "acquire_run_leadership e run w win ep d = (Inr t, d')"
  shows "(\<exists>s \<in> set (db_seats d). seat_takeable run (sample e 0) s \<and>
            t = \<lparr>ct_run_id = run, ct_worker_id = w, ct_leader_epoch = st_leader_epoch s + 1\<rparr> \<and>
            (\<forall>x \<in> set (db_workers d'). st_leader_worker_id s = Some (wk_worker_id x) \<longrightarrow>
               wk_worker_id x \<noteq> w \<longrightarrow> wk_status x \<noteq> Active)) \<and>
         (\<exists>s' \<in> set (db_seats d'). holds_seat t s' \<and>
            st_leader_heartbeat_expires_at s' = Some (sample e 1 + win)) \<and>
         (\<exists>x \<in> set (db_workers d'). active_member (membership t) x \<and> wk_role x = Leader \<and>
            wk_heartbeat_expires_at x = sample e 1 + win) \<and>
         (\<forall>r \<in> set (db_runs d'). run_run_id r = run \<longrightarrow> run_run_status r = RunRunning) \<and>
         db_work_items d' = db_work_items d \<and> db_scheduler_events d' = db_scheduler_events d"
proof -
  from assms(2) obtain c c' where on: "acquire_run_leadership_on run w win ep (open_conn e d) = Inr (t, c)"
    and fin: "finalize_leader_registration_on t win c = Inr ((), c')" and d': "tables c' = d'"
    by (rule acquire_run_leadership_inv)
  show ?thesis
  proof (rule takeover_seat [OF assms(1) on fin, unfolded d'])
    fix s
    assume s: "s \<in> set (db_seats d)" "seat_takeable run (sample e 0) s"
      "t = \<lparr>ct_run_id = run, ct_worker_id = w, ct_leader_epoch = st_leader_epoch s + 1\<rparr>"
    assume seats: "db_seats d' = update_where (seat_takeable run (sample e 0))
       (\<lambda>s. s\<lparr>st_leader_worker_id := Some w, st_leader_epoch := st_leader_epoch s + 1,
          st_leader_heartbeat_expires_at := Some (sample e 1 + win), st_updated_at := sample e 1\<rparr>)
       (db_seats d)"
    assume workers: "db_workers d' = update_where (\<lambda>x. active_member (membership t) x \<and> wk_role x = Leader)
       (\<lambda>x. x\<lparr>wk_heartbeat_expires_at := sample e 1 + win\<rparr>)
       (update_where (\<lambda>x. st_leader_worker_id s = Some (wk_worker_id x) \<and> wk_worker_id x \<noteq> w \<and>
          wk_status x = Active) (evicted_by w (sample e 0)) (db_workers d) @
        [new_worker_row e run w Leader win ep (sample e 0)])"
    assume runs: "db_runs d' = update_where (reopenable run) reopened (db_runs d)"
      "\<not> in_statuses (run_status_of run d) immutable_success"
      and rest: "db_work_items d' = db_work_items d" "db_scheduler_events d' = db_scheduler_events d"
    have "\<exists>s' \<in> set (db_seats d'). holds_seat t s' \<and>
        st_leader_heartbeat_expires_at s' = Some (sample e 1 + win)"
      unfolding seats using s(2)
      by (intro update_where_ex [OF s(1)]) (simp_all add: s(3) holds_seat_def seat_takeable_def)
    moreover have "\<exists>x \<in> set (db_workers d'). active_member (membership t) x \<and> wk_role x = Leader \<and>
        wk_heartbeat_expires_at x = sample e 1 + win"
      unfolding workers s(3) by (rule successor_row_renewed)
    moreover have "\<forall>x \<in> set (db_workers d'). st_leader_worker_id s = Some (wk_worker_id x) \<longrightarrow>
        wk_worker_id x \<noteq> w \<longrightarrow> wk_status x \<noteq> Active"
      unfolding workers by (rule deposed_row_evicted)
    moreover have "\<forall>r \<in> set (db_runs d'). run_run_id r = run \<longrightarrow> run_run_status r = RunRunning"
      unfolding runs(1) by (rule reopened_runs [OF assms(1) runs(2)])
    ultimately show ?thesis using s rest by blast
  qed
qed

theorem takeover_installs_one_leader_witness:
  "\<exists>x \<in> set (db_workers (snd (acquire_run_leadership demo_env ''r'' ''w9'' (seconds 80) ''resume''
       demo_orphaned))). active_member \<lparr>mt_run_id = ''r'', mt_worker_id = ''w9''\<rparr> x \<and>
     wk_heartbeat_expires_at x = 180001000"
proof -
  let ?r = "acquire_run_leadership demo_env ''r'' ''w9'' (seconds 80) ''resume'' demo_orphaned"
  let ?t = "\<lparr>ct_run_id = ''r'', ct_worker_id = ''w9'', ct_leader_epoch = 2\<rparr>"
  have "fst ?r = Inr ?t" by code_simp
  then have "?r = (Inr ?t, snd ?r)" by (metis prod.collapse)
  from takeover_installs_one_leader [OF demo_orphaned_ok this]
  show ?thesis by (auto simp: membership_def sample_def decision_instant_def demo_env_def)
qed

text \<open>C6. A takeover is refused and the database stays as it was in two cases: the run finished
  successfully, whatever its seat says; or its seat is occupied and the liveness clock of the seat has
  not passed at the decision instant.\<close>

theorem takeover_refused_while_live:
  assumes "db_ok d" and "s \<in> set (db_seats d)" and "st_run_id s = run" and "\<not> env_locked e"
    and "in_statuses (run_status_of run d) immutable_success \<or>
      (\<exists>h x. st_leader_worker_id s = Some h \<and> st_leader_heartbeat_expires_at s = Some x \<and> sample e 0 \<le> x)"
  shows "acquire_run_leadership e run w win ep d =
    (Inl (if in_statuses (run_status_of run d) immutable_success
          then AuditIntegrityError ''successful terminal runs are immutable''
          else NonResumableRunError run LEADER_LIVE), d)"
proof -
  have keyed: "keyed st_run_id (db_seats d)" and ok: "run_coordination_ok (db_seats d)"
    using assms(1) by (simp_all add: db_ok_def run_coordination_ok_def)
  have find: "List.find (\<lambda>s. st_run_id s = run) (db_seats d) = Some s"
    using find_keyed [OF keyed assms(2)] assms(3) by simp
  have none: "(\<forall>y \<in> set (db_seats d). \<not> seat_takeable run (sample e 0) y) \<and>
      count_where (seat_takeable run (sample e 0)) (db_seats d) = 0"
    if "\<not> in_statuses (run_status_of run d) immutable_success"
    using that keyed_unique [OF keyed _ assms(2)] assms(3,5)
    by (fastforce simp: seat_takeable_def count_where_eq_0_iff)
  have "acquire_run_leadership_on run w win ep (open_conn e d) =
      Inl (if in_statuses (run_status_of run d) immutable_success
          then AuditIntegrityError ''successful terminal runs are immutable''
          else NonResumableRunError run LEADER_LIVE)"
    using find none ok
    by (simp add: acquire_run_leadership_on_def seize_seat_def update_seats_def select_tables_def
        read_landscape_decision_time_def tx_bind_def tx_then_def tx_gets_def tx_assert_def put_table_def
        update_where_none sample_def Let_def)
  then show ?thesis
    using assms(4) by (simp add: acquire_run_leadership_def begin_write_def tx_bind_raises)
qed

text \<open>A run whose leader is alive, and a completed run whose seat is vacant.\<close>

definition demo_succeeded :: db where
  "demo_succeeded = demo_orphaned\<lparr>db_runs := map (\<lambda>r. r\<lparr>run_run_status := RunCompleted\<rparr>) (db_runs demo_orphaned),
     db_seats := [demo_seat None 1 None]\<rparr>"

theorem takeover_refused_while_live_witness:
  "acquire_run_leadership demo_env ''r'' ''w9'' (seconds 80) ''resume'' (demo_live []) =
     (Inl (NonResumableRunError ''r'' LEADER_LIVE), demo_live []) \<and>
   acquire_run_leadership demo_env ''r'' ''w9'' (seconds 80) ''resume'' demo_succeeded =
     (Inl (AuditIntegrityError ''successful terminal runs are immutable''), demo_succeeded)"
proof
  have "\<not> in_statuses (run_status_of ''r'' (demo_live [])) immutable_success" by code_simp
  then show "acquire_run_leadership demo_env ''r'' ''w9'' (seconds 80) ''resume'' (demo_live []) =
     (Inl (NonResumableRunError ''r'' LEADER_LIVE), demo_live [])"
    using takeover_refused_while_live [OF demo_live_ok, of "demo_seat (Some ''w1'') 1 (Some 150000000)" "''r''"
        demo_env "''w9''" "seconds 80" "''resume''"]
    by (simp add: demo_live_def demo_db_def demo_seat_def sample_def decision_instant_def demo_env_def)
  have "in_statuses (run_status_of ''r'' demo_succeeded) immutable_success" by code_simp
  moreover have "db_ok demo_succeeded" by code_simp
  ultimately show "acquire_run_leadership demo_env ''r'' ''w9'' (seconds 80) ''resume'' demo_succeeded =
     (Inl (AuditIntegrityError ''successful terminal runs are immutable''), demo_succeeded)"
    using takeover_refused_while_live [of demo_succeeded "demo_seat None 1 None" "''r''" demo_env "''w9''"
        "seconds 80" "''resume''"]
    by (simp add: demo_succeeded_def demo_seat_def demo_env_def)
qed

section \<open>The body of a leader-fenced transaction\<close>

lemma fenced_leader_inv:
  assumes "fenced_leader_transaction e t w v body d = (Inr x, d')"
  obtains c1 c2 ss where "exists_where (holds_seat t) (db_seats d)" "body c1 = Inr (x, c2)"
    "tables c1 = d\<lparr>db_seats := update_where (holds_seat t) (renewed (sample e 0) w) (db_seats d)\<rparr>"
    "conn_env c1 = e" "conn_clock_reads c1 = 1" "conn_uuid_reads c1 = 0"
    "d' = (tables c2)\<lparr>db_seats := ss\<rparr>"
    "map_of (conn_issued c2) (leader_deadline_key t) = None \<longrightarrow> d' = tables c2"
proof -
  have held: "exists_where (holds_seat t) (db_seats d)"
    using assms by (rule leader_transaction_committed)
  from assms have "begin_write e (leader_fenced_body t w v body) d = (Inr x, d')"
    by (auto simp: fenced_leader_transaction_def split: prod.splits if_splits)
  then obtain c where "leader_fenced_body t w v body (open_conn e d) = Inr (x, c)" "tables c = d'"
    by (elim begin_write_success) simp
  then obtain c1 c2 where fence: "verify_and_extend_leader_fence t w v (open_conn e d) = Inr ((), c1)"
    and body: "body c1 = Inr (x, c2)"
    and tail: "(if map_of (conn_issued c2) (leader_deadline_key t) \<noteq> None
                then renew_leader_deadline_on t w v else tx_return ()) c2 = Inr ((), c)"
    and tables: "tables c = d'"
    by (auto simp: leader_fenced_body_def tx_inv)
  have d': "\<exists>ss. d' = (tables c2)\<lparr>db_seats := ss\<rparr>"
    using tail tables exI [of "\<lambda>ss. tables c2 = (tables c2)\<lparr>db_seats := ss\<rparr>" "db_seats (tables c2)"]
    by (auto simp: renew_leader_deadline_on_def tx_inv split: if_splits)
  from fence have c1: "tables c1 = d\<lparr>db_seats := update_where (holds_seat t) (renewed (sample e 0) w) (db_seats d)\<rparr>"
    "conn_env c1 = e" "conn_clock_reads c1 = 1" "conn_uuid_reads c1 = 0"
    by (auto simp: verify_and_extend_leader_fence_def renew_leader_deadline_on_def tx_inv
        update_where_def sample_def)
  from d' obtain ss where ss: "d' = (tables c2)\<lparr>db_seats := ss\<rparr>" ..
  show thesis
    by (rule that [OF held body c1 ss]) (use tail tables in \<open>auto simp: tx_inv\<close>)
qed

section \<open>The body of a membership-fenced transaction\<close>

text \<open>The membership fence rewrites the worker's row with its own value.\<close>

lemma member_fence_identity: "update_where (active_member m) (\<lambda>w. w\<lparr>wk_status := Active\<rparr>) ws = ws"
  by (induction ws) (auto simp: active_member_def)

lemma fenced_member_inv:
  assumes "fenced_member_transaction e m v body d = (Inr x, d')"
  obtains c where "exists_where (active_member m) (db_workers d)" "body (open_conn e d) = Inr (x, c)"
    "tables c = d'"
    "\<forall>(key, dl) \<in> set (conn_issued c). dl_reserve dl < dl_expires_at dl -
       decision_instant (env_dialect (conn_env c)) (env_clock (conn_env c) (conn_clock_reads c))"
proof -
  from assms have "begin_write e (tx_then (verify_membership_fence m v) body) d = (Inr x, d')"
    by (auto simp: fenced_member_transaction_def split: prod.splits if_splits)
  then obtain c where c: "tx_then (verify_membership_fence m v) body (open_conn e d) = Inr (x, c)" "tables c = d'"
    "\<forall>(key, dl) \<in> set (conn_issued c). dl_reserve dl < dl_expires_at dl -
       decision_instant (env_dialect (conn_env c)) (env_clock (conn_env c) (conn_clock_reads c))"
    by (elim begin_write_success) simp
  then obtain c1 where fence: "verify_membership_fence m v (open_conn e d) = Inr ((), c1)"
    and body: "body c1 = Inr (x, c)"
    by (auto simp: tx_inv)
  from fence have "count_where (active_member m) (db_workers d) = 1" and "c1 = open_conn e d"
    by (auto simp: verify_membership_fence_def tx_inv member_fence_identity open_conn_def split: option.splits)
  then show thesis using that body c(2,3) count_where_1_exists by blast
qed

lemma fenced_member_body_error:
  assumes "exists_where (active_member m) (db_workers d)" and "run_workers_ok (db_workers d)" and "\<not> env_locked e"
    and "body (open_conn e d) = Inl err" and "\<not> is_membership_lost (Inl err :: error + 'a)"
  shows "fenced_member_transaction e m v (body :: 'a body) d = (Inl err, d)"
proof -
  have "keyed wk_worker_id (db_workers d)" using assms(2) by (simp add: run_workers_ok_def)
  then have "count_where (active_member m) (db_workers d) = 1"
    using assms(1) count_where_keyed_iff [of wk_worker_id "db_workers d" "active_member m" "mt_worker_id m"]
    by (auto simp: active_member_def exists_where_iff)
  then have "verify_membership_fence m v (open_conn e d) = Inr ((), open_conn e d)"
    using assms(2) by (simp add: verify_membership_fence_def tx_inv member_fence_identity open_conn_def)
  then have "begin_write e (tx_then (verify_membership_fence m v) body) d = (Inl err, d)"
    using assms(3,4) by (simp add: begin_write_def tx_bind_def tx_then_def)
  then show ?thesis using assms(5) by (simp add: fenced_member_transaction_def)
qed

end
