(* ===== verification/Coordination_Membership.thy ===== *)
theory Coordination_Membership
  imports Coordination_Fencing
begin

text \<open>
  The membership verbs of run coordination: eviction, release, heartbeat and
  admission, each with the exact rows it may change and the conditions under
  which it does.
\<close>

section \<open>Eviction\<close>

lemma evict_worker_body_inv:
  assumes "evict_worker_body t target grace c1 = Inr (b, c2)"
  defines "now \<equiv> sample (conn_env c1) (conn_clock_reads c1)"
  shows "db_work_items (tables c2) = db_work_items (tables c1)"
    and "\<not> b \<Longrightarrow> db_workers (tables c2) = db_workers (tables c1) \<or>
           count_where (\<lambda>w. evictable t target w \<and> wk_status w = Active \<and>
             wk_heartbeat_expires_at w < now - grace) (db_workers (tables c1)) \<noteq> 1"
    and "b \<Longrightarrow> \<not> exists_where (holds_unexpired_lease (ct_run_id t) target now) (db_work_items (tables c1))"
    and "b \<Longrightarrow> count_where (\<lambda>w. evictable t target w \<and> wk_status w = Active \<and>
             wk_heartbeat_expires_at w < now - grace) (db_workers (tables c1)) = 1"
    and "db_workers (tables c2) = db_workers (tables c1) \<or>
         db_workers (tables c2) = update_where (\<lambda>w. evictable t target w \<and> wk_status w = Active \<and>
             wk_heartbeat_expires_at w < now - grace) (evicted_by (ct_worker_id t) now)
             (db_workers (tables c1))"
    and "b \<Longrightarrow> db_workers (tables c2) = update_where (\<lambda>w. evictable t target w \<and> wk_status w = Active \<and>
             wk_heartbeat_expires_at w < now - grace) (evicted_by (ct_worker_id t) now)
             (db_workers (tables c1))"
  using assms unfolding evict_worker_body_def sample_def by (auto simp: tx_inv)

lemma evict_update_is_target_row:
  assumes "keyed wk_worker_id ws" and "P w" and "w \<in> set ws" and "\<And>x. P x \<Longrightarrow> wk_worker_id x = target"
  shows "update_where P f ws = update_where (\<lambda>x. wk_worker_id x = target) f ws"
proof (rule update_where_cong)
  fix x assume x: "x \<in> set ws"
  show "P x = (wk_worker_id x = target)"
    using keyed_unique [OF assms(1) x assms(3)] assms(2,4) by metis
qed simp

text \<open>C8. A leader's \<open>evict_worker\<close> that reports an eviction evicted exactly the target's row, and
  that row was an active follower of the leader's own run, other than the leader, whose heartbeat
  lapsed more than the grace period ago and which held no unexpired item lease; one that reports
  no eviction changed no registry row.  Either way the caller still held the seat and no work item
  changed.\<close>

theorem eviction_spares_live_workers:
  assumes "db_ok d" and "evict_worker e t target grace win d = (Inr b, d')"
  shows "exists_where (holds_seat t) (db_seats d) \<and> db_work_items d' = db_work_items d \<and>
    (if b then
       (\<exists>w \<in> set (db_workers d). wk_worker_id w = target \<and> wk_run_id w = ct_run_id t \<and>
          wk_role w = Follower \<and> target \<noteq> ct_worker_id t \<and> wk_status w = Active \<and>
          wk_heartbeat_expires_at w < sample e 1 - grace) \<and>
       \<not> exists_where (holds_unexpired_lease (ct_run_id t) target (sample e 1)) (db_work_items d) \<and>
       db_workers d' = update_where (\<lambda>w. wk_worker_id w = target)
         (evicted_by (ct_worker_id t) (sample e 1)) (db_workers d)
     else db_workers d' = db_workers d)"
proof -
  let ?P = "\<lambda>w. evictable t target w \<and> wk_status w = Active \<and>
             wk_heartbeat_expires_at w < sample e 1 - grace"
  from assms(2)[unfolded evict_worker_def] obtain c1 c2 ss where
    seat: "exists_where (holds_seat t) (db_seats d)" and
    body: "evict_worker_body t target grace c1 = Inr (b, c2)" and
    c1: "tables c1 = d\<lparr>db_seats := update_where (holds_seat t) (renewed (sample e 0) win) (db_seats d)\<rparr>"
      "conn_env c1 = e" "conn_clock_reads c1 = 1" and
    d': "d' = (tables c2)\<lparr>db_seats := ss\<rparr>"
    by (rule fenced_leader_inv)
  note inv = evict_worker_body_inv [OF body, unfolded c1(2,3)]
  have keyed: "keyed wk_worker_id (db_workers d)"
    using assms(1) by (simp add: db_ok_def run_workers_ok_def)
  show ?thesis
  proof (cases b)
    case True
    from inv(4) [OF True] have "exists_where ?P (db_workers d)"
      using count_where_1_exists [of ?P] c1(1) by simp
    then obtain w where w: "w \<in> set (db_workers d)" "?P w"
      by (auto simp: exists_where_iff)
    have "update_where ?P (evicted_by (ct_worker_id t) (sample e 1)) (db_workers d) =
        update_where (\<lambda>w. wk_worker_id w = target) (evicted_by (ct_worker_id t) (sample e 1)) (db_workers d)"
      by (rule evict_update_is_target_row [where P = ?P, OF keyed w(2,1)]) (simp add: evictable_def)
    then have "db_workers d' = update_where (\<lambda>w. wk_worker_id w = target)
         (evicted_by (ct_worker_id t) (sample e 1)) (db_workers d)"
      using inv(6) [OF True] d' c1(1) by simp
    then show ?thesis
      using True seat inv(1) inv(3) [OF True] w d' c1(1) by (force simp: evictable_def)
  next
    case False
    have "db_workers (tables c2) = db_workers d"
    proof (rule ccontr)
      assume changed: "db_workers (tables c2) \<noteq> db_workers d"
      then have count: "count_where ?P (db_workers d) \<noteq> 1"
        using inv(2) [OF False] c1(1) by auto
      then have "count_where ?P (db_workers d) = 0"
        using count_where_keyed_le_1 [OF keyed, of ?P target] by (fastforce simp: evictable_def)
      then show False
        using inv(5) changed c1(1) by (auto simp: count_where_eq_0_iff update_where_none)
    qed
    then show ?thesis using False seat inv(1) d' c1(1) by simp
  qed
qed

theorem eviction_spares_live_workers_witness:
  "\<exists>w \<in> set (db_workers (demo_live [])). wk_worker_id w = ''w2'' \<and> wk_role w = Follower \<and>
     fst (evict_worker demo_env demo_token ''w2'' (seconds 80) (seconds 80) (demo_live [])) = Inr True"
proof -
  let ?r = "evict_worker demo_env demo_token ''w2'' (seconds 80) (seconds 80) (demo_live [])"
  have "fst ?r = Inr True" by code_simp
  moreover from this have "?r = (Inr True, snd ?r)" by (metis prod.collapse)
  ultimately show ?thesis using eviction_spares_live_workers [OF demo_live_ok] by fastforce
qed

section \<open>Release\<close>

lemma release_seat_body_inv:
  assumes "release_seat_body t c1 = Inr (u, c2)"
  defines "now \<equiv> sample (conn_env c1) (conn_clock_reads c1)"
  shows "count_where (holds_seat t) (db_seats (tables c1)) = 1"
    and "count_where (active_member (membership t)) (db_workers (tables c1)) = 1"
    and "db_seats (tables c2) = update_where (holds_seat t) (\<lambda>s. s\<lparr>st_leader_worker_id := None,
           st_leader_heartbeat_expires_at := None, st_updated_at := now\<rparr>) (db_seats (tables c1))"
    and "db_workers (tables c2) = update_where (active_member (membership t))
           (\<lambda>w. w\<lparr>wk_status := Departed, wk_departed_at := Some now\<rparr>) (db_workers (tables c1))"
    and "map_of (conn_issued c2) (leader_deadline_key t) = None"
  using assms unfolding release_seat_body_def sample_def by (auto simp: tx_inv AList.delete_conv)

lemma release_refused:
  assumes "db_ok d" and "\<not> exists_where (holds_seat t) (db_seats d)" and "\<not> env_locked e"
  shows "fst (release_seat e t d) = Inr FenceRefused \<and> same_but_ledger d (snd (release_seat e t d))"
proof -
  let ?r = "fenced_leader_transaction e t DEFAULT_RUN_LIVENESS_WINDOW ''release_seat'' (release_seat_body t) d"
  have "fst ?r = Inl (leadership_lost t ''release_seat'')" and "same_but_ledger d (snd ?r)"
    using leader_transaction_refused [OF assms(1,2), of e DEFAULT_RUN_LIVENESS_WINDOW "''release_seat''"
        "release_seat_body t"] assms(3) by simp_all
  then show ?thesis
    by (cases ?r) (simp add: release_seat_def leadership_lost_def)
qed

text \<open>C12. A released seat is vacant at the epoch it was held under, its holder's registry row is
  departed, and releasing again with the same token reports the refusal and writes nothing but a
  ledger row.\<close>

theorem release_vacates_once:
  assumes ok: "db_ok d" and rel: "release_seat e t d = (Inr Released, d')" and "\<not> env_locked e'"
  shows "(\<exists>s \<in> set (db_seats d'). st_run_id s = ct_run_id t \<and> st_leader_worker_id s = None \<and>
            st_leader_epoch s = ct_leader_epoch t) \<and>
         (\<exists>w \<in> set (db_workers d'). wk_worker_id w = ct_worker_id t \<and> wk_run_id w = ct_run_id t \<and>
            wk_status w = Departed) \<and>
         fst (release_seat e' t d') = Inr FenceRefused \<and>
         same_but_ledger d' (snd (release_seat e' t d'))"
proof -
  from rel have "fenced_leader_transaction e t DEFAULT_RUN_LIVENESS_WINDOW ''release_seat''
      (release_seat_body t) d = (Inr (), d')"
    by (auto simp: release_seat_def split: prod.splits sum.splits if_splits)
  then obtain c1 c2 ss where "exists_where (holds_seat t) (db_seats d)" and
    body: "release_seat_body t c1 = Inr ((), c2)" and
    "tables c1 = d\<lparr>db_seats := update_where (holds_seat t)
       (renewed (sample e 0) DEFAULT_RUN_LIVENESS_WINDOW) (db_seats d)\<rparr>"
    "conn_env c1 = e" "conn_clock_reads c1 = 1" "conn_uuid_reads c1 = 0"
    "d' = (tables c2)\<lparr>db_seats := ss\<rparr>" and
    last: "map_of (conn_issued c2) (leader_deadline_key t) = None \<longrightarrow> d' = tables c2"
    by (rule fenced_leader_inv)
  note inv = release_seat_body_inv [OF body]
  have d': "d' = tables c2" using last inv(5) by blast
  from count_where_1_exists [OF inv(1)] obtain s where
    s: "s \<in> set (db_seats (tables c1))" "holds_seat t s" by (auto simp: exists_where_iff)
  from count_where_1_exists [OF inv(2)] obtain w where
    w: "w \<in> set (db_workers (tables c1))" "active_member (membership t) w" by (auto simp: exists_where_iff)
  have seat: "\<exists>s \<in> set (db_seats d'). st_run_id s = ct_run_id t \<and> st_leader_worker_id s = None \<and>
            st_leader_epoch s = ct_leader_epoch t"
    unfolding d' inv(3) using s(2) by (intro update_where_ex [OF s(1)]) (simp_all add: holds_seat_def)
  moreover have "\<exists>w \<in> set (db_workers d'). wk_worker_id w = ct_worker_id t \<and>
            wk_run_id w = ct_run_id t \<and> wk_status w = Departed"
    unfolding d' inv(4) using w(2)
    by (intro update_where_ex [OF w(1)]) (simp_all add: active_member_def membership_def)
  moreover have "\<not> exists_where (holds_seat t) (db_seats d')"
    unfolding d' inv(3) exists_where_iff bex_simps
    using update_where_all [of _ "holds_seat t" "\<lambda>s. \<not> holds_seat t s"] by (force simp: holds_seat_def)
  moreover have "db_ok d'"
    using release_seat_evolves [of d e t] rel ok by (simp add: evolves_def)
  ultimately show ?thesis using release_refused [of d' t e'] assms(3) by simp
qed

theorem release_vacates_once_witness:
  "fst (release_seat demo_env demo_token (snd (release_seat demo_env demo_token (demo_live []))))
     = Inr FenceRefused"
proof -
  let ?r = "release_seat demo_env demo_token (demo_live [])"
  have "fst ?r = Inr Released" by code_simp
  then have "?r = (Inr Released, snd ?r)" by (metis prod.collapse)
  moreover have "\<not> env_locked demo_env" by (simp add: demo_env_def)
  ultimately show ?thesis using release_vacates_once [OF demo_live_ok] by blast
qed

end
