(* ===== verification/Work_Items.thy ===== *)
theory Work_Items
  imports Run_Coordination
begin

text \<open>
  The plumbing the scheduler components share: \<open>scheduler/work_items.py\<close>
  (deterministic work-item identity, READY-row values, reference checks, the
  idempotent and the strict insert, the born-parked sink item),
  \<open>scheduler/events.py\<close> (the scheduler ledger), the payload scrub of
  \<open>scheduler/payload_codec.py\<close> and the carriers of \<open>contracts/scheduler.py\<close>.

  A dictionary of column values is the \<open>work_item\<close> it inserts; the two columns
  the dictionaries leave out (\<open>barrier_blocked_at\<close>, \<open>barrier_adopted_epoch\<close>) are
  NULL.  The text of an error message is not modelled beyond a label.
\<close>

section \<open>Carriers\<close>

text \<open>The keyword arguments of the enqueue verbs.\<close>

record continuation =
  cn_token_id :: ident
  cn_row_id :: ident
  cn_node_id :: "ident option"
  cn_step_index :: int
  cn_ingest_sequence :: int
  cn_row_payload_json :: string
  cn_attempt :: int
  cn_queue_key :: "string option"
  cn_barrier_key :: "string option"
  cn_on_success_sink :: "string option"
  cn_join_group_id :: "ident option"
  cn_lineage_path :: "lineage_frame list"
  cn_coalesce_node_id :: "ident option"
  cn_coalesce_name :: "string option"
  cn_row_union_name :: "string option"
  cn_collector_name :: "string option"

record barrier_emission =
  em_token_id :: ident
  em_row_payload_json :: string
  em_sink_name :: "string option"
  em_outcome :: "string option"
  em_path :: "string option"
  em_error_hash :: "string option"
  em_error_message :: "string option"
  em_row_id :: "ident option"
  em_node_id :: "ident option"
  em_step_index :: "int option"
  em_ingest_sequence :: "int option"
  em_queue_key :: "string option"
  em_barrier_key :: "string option"
  em_on_success_sink :: "string option"
  em_join_group_id :: "ident option"
  em_lineage_path :: "lineage_frame list"
  em_coalesce_node_id :: "ident option"
  em_coalesce_name :: "string option"
  em_row_union_name :: "string option"
  em_collector_name :: "string option"
  em_attempt :: int

text \<open>\<open>BarrierEmission.__post_init__\<close>: an emission that violates it cannot be built.\<close>

definition barrier_emission_valid :: "barrier_emission \<Rightarrow> bool" where
  "barrier_emission_valid em \<longleftrightarrow> 1 \<le> em_attempt em \<and>
     (case em_step_index em of None \<Rightarrow> True | Some i \<Rightarrow> 0 \<le> i) \<and>
     (case em_ingest_sequence em of None \<Rightarrow> True | Some i \<Rightarrow> 0 \<le> i)"

record scheduler_event_record =
  sr_event_type :: scheduler_event_type
  sr_run_id :: ident
  sr_token_id :: ident
  sr_work_item_id :: ident
  sr_node_id :: "ident option"
  sr_from_status :: "token_work_status option"
  sr_to_status :: token_work_status
  sr_from_lease_owner :: "ident option"
  sr_to_lease_owner :: "ident option"
  sr_from_attempt :: "int option"
  sr_to_attempt :: int
  sr_recorded_at :: instant
  sr_from_lease_expires_at :: "instant option"
  sr_to_lease_expires_at :: "instant option"
  sr_caller_owner :: "ident option"
  sr_context :: "json option"

section \<open>Identity\<close>

text \<open>The decimal text of an integer.\<close>

function digits :: "int \<Rightarrow> string" where
  "digits n = (if n < 10 then [char_of (48 + nat n)] else digits (n div 10) @ [char_of (48 + nat (n mod 10))])"
  by auto
termination by (relation "measure nat") auto

definition show_int :: "int \<Rightarrow> string" where
  "show_int i = (if i < 0 then ''-'' @ digits (- i) else digits i)"

definition work_item_raw :: "ident \<Rightarrow> ident \<Rightarrow> ident option \<Rightarrow> int \<Rightarrow> string" where
  "work_item_raw run token node attempt =
    run @ '':'' @ token @ '':'' @ (case node of None \<Rightarrow> ''<terminal>'' | Some n \<Rightarrow> n) @ '':'' @
    show_int attempt"

definition work_item_id :: "ident \<Rightarrow> ident \<Rightarrow> ident option \<Rightarrow> int \<Rightarrow> string" where
  "work_item_id run token node attempt = digest (work_item_raw run token node attempt)"

definition collector_barrier_key :: "string \<Rightarrow> ident \<Rightarrow> string" where
  "collector_barrier_key collector_name group_id = ''collector:'' @ collector_name @ '':'' @ group_id"

definition scrubbed_row_payload_json :: "env \<Rightarrow> string \<Rightarrow> string" where
  "scrubbed_row_payload_json e anchor =
    env_canonical_json e (JObj [(''row_payload'', JStr ''purged''), (''payload_hash'', JStr (digest anchor))])"

section \<open>READY rows and reference checks\<close>

definition ready_work_item_values :: "ident \<Rightarrow> continuation \<Rightarrow> instant \<Rightarrow> work_item" where
  "ready_work_item_values run cn available_at =
    \<lparr>wi_work_item_id = work_item_id run (cn_token_id cn) (cn_node_id cn) (cn_attempt cn),
     wi_run_id = run, wi_token_id = cn_token_id cn, wi_row_id = cn_row_id cn,
     wi_node_id = cn_node_id cn, wi_step_index = cn_step_index cn,
     wi_ingest_sequence = cn_ingest_sequence cn, wi_row_payload_json = cn_row_payload_json cn,
     wi_status = READY, wi_queue_key = cn_queue_key cn, wi_barrier_key = cn_barrier_key cn,
     wi_on_success_sink = cn_on_success_sink cn, wi_pending_sink_name = None,
     wi_pending_outcome = None, wi_pending_path = None, wi_pending_error_hash = None,
     wi_pending_error_message = None, wi_join_group_id = cn_join_group_id cn,
     wi_lineage_path = cn_lineage_path cn, wi_coalesce_node_id = cn_coalesce_node_id cn,
     wi_coalesce_name = cn_coalesce_name cn, wi_row_union_name = cn_row_union_name cn,
     wi_collector_name = cn_collector_name cn, wi_attempt = cn_attempt cn, wi_lease_owner = None,
     wi_lease_expires_at = None, wi_available_at = available_at, wi_barrier_blocked_at = None,
     wi_barrier_adopted_epoch = None, wi_created_at = available_at, wi_updated_at = available_at\<rparr>"

definition validate_node_cursor :: "ident \<Rightarrow> ident option \<Rightarrow> string \<Rightarrow> unit body" where
  "validate_node_cursor run node label =
    (case node of
       None \<Rightarrow> tx_return ()
     | Some n \<Rightarrow> tx_bind (select_tables (\<lambda>d. exists_where (\<lambda>x. nd_run_id x = run \<and> nd_node_id x = n)
                  (db_nodes d))) (\<lambda>exists. tx_assert exists (AuditIntegrityError label)))"

definition validate_work_item_references ::
  "ident \<Rightarrow> ident \<Rightarrow> ident \<Rightarrow> int \<Rightarrow> ident option \<Rightarrow> ident option \<Rightarrow> unit body" where
  "validate_work_item_references run token row ingest_sequence node coalesce_node =
    tx_bind (select_tables (\<lambda>d. List.find (\<lambda>t. tk_run_id t = run \<and> tk_token_id t = token) (db_tokens d))) (\<lambda>t.
    case t of
      None \<Rightarrow> tx_raise (AuditIntegrityError ''token outside run'')
    | Some t \<Rightarrow>
        tx_then (tx_assert (tk_row_id t = row) (AuditIntegrityError ''token belongs to another row''))
       (tx_bind (select_tables (\<lambda>d. List.find (\<lambda>r. rw_run_id r = run \<and> rw_row_id r = row) (db_rows d))) (\<lambda>r.
        case r of
          None \<Rightarrow> tx_raise (AuditIntegrityError ''row outside run'')
        | Some r \<Rightarrow>
            tx_then (tx_assert (rw_ingest_sequence r = ingest_sequence)
              (AuditIntegrityError ''row has another ingest_sequence''))
           (tx_then (validate_node_cursor run node ''node_id'')
              (validate_node_cursor run coalesce_node ''coalesce_node_id'')))))"

section \<open>Inserts\<close>

text \<open>The comparable fields of a replayed image: everything but the status, the lease, the
  instants and the barrier stamps.\<close>

definition comparable_fields where
  "comparable_fields w =
    ((wi_work_item_id w, wi_run_id w, wi_token_id w, wi_row_id w, wi_node_id w, wi_step_index w,
      wi_ingest_sequence w, wi_row_payload_json w),
     (wi_queue_key w, wi_barrier_key w, wi_on_success_sink w, wi_pending_sink_name w,
      wi_pending_outcome w, wi_pending_path w, wi_pending_error_hash w, wi_pending_error_message w),
     (wi_join_group_id w, wi_lineage_path w, wi_coalesce_node_id w, wi_coalesce_name w,
      wi_row_union_name w, wi_collector_name w, wi_attempt w))"

definition validate_replay :: "work_item \<Rightarrow> work_item \<Rightarrow> unit body" where
  "validate_replay v existing =
    tx_assert (comparable_fields existing = comparable_fields v)
      (LandscapeRecordError ''incompatible existing work item'')"

primrec collect_by_id :: "work_item list \<Rightarrow> work_item list \<Rightarrow> work_item list body" where
  "collect_by_id [] by_id = tx_return by_id"
| "collect_by_id (v # vs) by_id =
    (case List.find (\<lambda>x. wi_work_item_id x = wi_work_item_id v) by_id of
       Some x \<Rightarrow> tx_then (validate_replay v x) (collect_by_id vs by_id)
     | None \<Rightarrow> collect_by_id vs (by_id @ [v]))"

text \<open>\<open>INSERT ... ON CONFLICT (work_item_id) DO NOTHING RETURNING work_item_id\<close>, one row.\<close>

definition insert_or_ignore :: "work_item \<Rightarrow> ident list body" where
  "insert_or_ignore v =
    tx_bind (select_tables (\<lambda>d. exists_where (\<lambda>x. wi_work_item_id x = wi_work_item_id v) (db_work_items d))) (\<lambda>conflict.
      if conflict then tx_return []
      else tx_then (insert_work_item v) (tx_return [wi_work_item_id v]))"

definition insert_work_items_idempotent :: "work_item list \<Rightarrow> ident list body" where
  "insert_work_items_idempotent values =
    (if values = [] then tx_return []
     else tx_bind (collect_by_id values []) (\<lambda>by_id.
          tx_bind (refused_as_record_error ''database rejected audit write''
            (tx_bind (tx_each by_id insert_or_ignore) (\<lambda>ids. tx_return (concat ids)))) (\<lambda>inserted.
          tx_then (tx_assert (distinct inserted \<and> set inserted \<subseteq> set (map wi_work_item_id by_id))
            (LandscapeRecordError ''unexpected work_item_id''))
         (tx_bind (select_tables (\<lambda>d. filter (\<lambda>w. wi_work_item_id w \<in> set (map wi_work_item_id by_id))
            (db_work_items d))) (\<lambda>existing_rows.
          tx_then (tx_assert (length existing_rows = length by_id)
            (LandscapeRecordError ''no matching row could be read back''))
         (tx_then (tx_for existing_rows (\<lambda>row.
            if wi_work_item_id row \<in> set inserted then tx_return ()
            else tx_bind (the_row (List.find (\<lambda>x. wi_work_item_id x = wi_work_item_id row) by_id))
                   (\<lambda>v. validate_replay v row)))
          (tx_return inserted)))))))"

definition insert_work_item_idempotent :: "work_item \<Rightarrow> bool body" where
  "insert_work_item_idempotent v =
    tx_bind (insert_work_items_idempotent [v]) (\<lambda>inserted. tx_return (inserted \<noteq> []))"

definition insert_work_items :: "work_item list \<Rightarrow> unit body" where
  "insert_work_items values =
    (if values = [] then tx_return ()
     else tx_bind (refused_as_record_error ''database rejected audit write''
            (tx_each values (\<lambda>v. tx_then (insert_work_item v) (tx_return (wi_work_item_id v))))) (\<lambda>inserted.
          tx_assert (length inserted = length values \<and> set inserted = set (map wi_work_item_id values))
            (LandscapeRecordError ''unexpected work item identity set'')))"

section \<open>The scheduler ledger\<close>

definition event_values :: "env \<Rightarrow> scheduler_event_record \<Rightarrow> scheduler_event_row" where
  "event_values e r =
    (let context = (case sr_context r of None \<Rightarrow> JObj [] | Some ctx \<Rightarrow> ctx) in
     \<lparr>se_event_id = digest (env_canonical_json e (JObj
        [(''caller_owner'', jopt JStr (sr_caller_owner r)),
         (''context_json'', JStr (env_canonical_json e context)),
         (''event_type'', JStr (event_type_value (sr_event_type r))),
         (''from_attempt'', jopt JInt (sr_from_attempt r)),
         (''from_lease_expires_at'', jopt JTime (sr_from_lease_expires_at r)),
         (''from_lease_owner'', jopt JStr (sr_from_lease_owner r)),
         (''from_status'', jopt (\<lambda>s. JStr (status_value s)) (sr_from_status r)),
         (''node_id'', jopt JStr (sr_node_id r)),
         (''run_id'', JStr (sr_run_id r)),
         (''to_attempt'', JInt (sr_to_attempt r)),
         (''to_lease_expires_at'', jopt JTime (sr_to_lease_expires_at r)),
         (''to_lease_owner'', jopt JStr (sr_to_lease_owner r)),
         (''to_status'', JStr (status_value (sr_to_status r))),
         (''token_id'', JStr (sr_token_id r)),
         (''work_item_id'', JStr (sr_work_item_id r))])),
      se_run_id = sr_run_id r, se_token_id = sr_token_id r, se_work_item_id = sr_work_item_id r,
      se_node_id = sr_node_id r, se_event_type = sr_event_type r, se_from_status = sr_from_status r,
      se_to_status = sr_to_status r, se_from_lease_owner = sr_from_lease_owner r,
      se_to_lease_owner = sr_to_lease_owner r, se_from_lease_expires_at = sr_from_lease_expires_at r,
      se_to_lease_expires_at = sr_to_lease_expires_at r, se_from_attempt = sr_from_attempt r,
      se_to_attempt = sr_to_attempt r, se_recorded_at = sr_recorded_at r,
      se_caller_owner = sr_caller_owner r, se_context = context\<rparr>)"

definition record_event :: "scheduler_event_record \<Rightarrow> unit body" where
  "record_event r =
    tx_bind (tx_gets conn_env) (\<lambda>e.
      refused_as_record_error ''scheduler event'' (insert_scheduler_event (event_values e r)))"

definition record_many :: "scheduler_event_record list \<Rightarrow> unit body" where
  "record_many records = tx_for records record_event"

text \<open>The newest recovery event whose context names the previous work item; a context that is
  not an object, or a name that is not a string, is corruption.\<close>

fun recovery_event_in :: "ident \<Rightarrow> scheduler_event_row list \<Rightarrow> error + scheduler_event_row option" where
  "recovery_event_in previous [] = Inr None"
| "recovery_event_in previous (ev # evs) =
    (case se_context ev of
       JObj kvs \<Rightarrow>
         (case map_of kvs ''previous_work_item_id'' of
            None \<Rightarrow> recovery_event_in previous evs
          | Some (JStr p) \<Rightarrow> if p = previous then Inr (Some ev) else recovery_event_in previous evs
          | Some _ \<Rightarrow> Inl (AuditIntegrityError ''previous_work_item_id must be str''))
     | _ \<Rightarrow> Inl (AuditIntegrityError ''recovery event context''))"

definition recovery_event_for_previous_work_item ::
  "ident \<Rightarrow> ident \<Rightarrow> scheduler_event_row option body" where
  "recovery_event_for_previous_work_item run previous =
    tx_bind (select_tables (\<lambda>d. rev (filter (\<lambda>ev. se_run_id ev = run \<and>
        se_event_type ev = RECOVER_EXPIRED_LEASE) (db_scheduler_events d)))) (\<lambda>evs.
      case recovery_event_in previous evs of Inl err \<Rightarrow> tx_raise err | Inr r \<Rightarrow> tx_return r)"

section \<open>Born-parked sink items\<close>

definition fresh_pending_sink_values ::
  "ident \<Rightarrow> barrier_emission \<Rightarrow> ident \<Rightarrow> int \<Rightarrow> int \<Rightarrow> instant \<Rightarrow> ident option \<Rightarrow> work_item" where
  "fresh_pending_sink_values run em row step_index ingest_sequence database_now owner =
    \<lparr>wi_work_item_id = work_item_id run (em_token_id em) None (em_attempt em),
     wi_run_id = run, wi_token_id = em_token_id em, wi_row_id = row, wi_node_id = None,
     wi_step_index = step_index, wi_ingest_sequence = ingest_sequence,
     wi_row_payload_json = em_row_payload_json em, wi_status = PENDING_SINK,
     wi_queue_key = em_queue_key em, wi_barrier_key = em_barrier_key em,
     wi_on_success_sink = em_on_success_sink em, wi_pending_sink_name = em_sink_name em,
     wi_pending_outcome = em_outcome em, wi_pending_path = em_path em,
     wi_pending_error_hash = em_error_hash em, wi_pending_error_message = em_error_message em,
     wi_join_group_id = em_join_group_id em, wi_lineage_path = em_lineage_path em,
     wi_coalesce_node_id = em_coalesce_node_id em, wi_coalesce_name = em_coalesce_name em,
     wi_row_union_name = em_row_union_name em, wi_collector_name = em_collector_name em,
     wi_attempt = em_attempt em, wi_lease_owner = owner, wi_lease_expires_at = None,
     wi_available_at = database_now, wi_barrier_blocked_at = None, wi_barrier_adopted_epoch = None,
     wi_created_at = database_now, wi_updated_at = database_now\<rparr>"

definition prepare_fresh_pending_sink_item ::
  "ident \<Rightarrow> barrier_emission \<Rightarrow> json \<Rightarrow> instant \<Rightarrow> ident option \<Rightarrow>
   (work_item \<times> scheduler_event_record) body" where
  "prepare_fresh_pending_sink_item run em context database_now owner =
    tx_then (tx_assert (em_node_id em = None)
      (AuditIntegrityError ''fresh sink-bound emissions live on the terminal lane''))
   (case (em_row_id em, em_step_index em, em_ingest_sequence em) of
      (Some row, Some step_index, Some ingest_sequence) \<Rightarrow>
        tx_then (validate_work_item_references run (em_token_id em) row ingest_sequence None
          (em_coalesce_node_id em))
       (tx_return
         (fresh_pending_sink_values run em row step_index ingest_sequence database_now owner,
          \<lparr>sr_event_type = MARK_PENDING_SINK, sr_run_id = run, sr_token_id = em_token_id em,
           sr_work_item_id = work_item_id run (em_token_id em) None (em_attempt em),
           sr_node_id = None, sr_from_status = None, sr_to_status = PENDING_SINK,
           sr_from_lease_owner = None, sr_to_lease_owner = owner, sr_from_attempt = None,
           sr_to_attempt = em_attempt em, sr_recorded_at = database_now,
           sr_from_lease_expires_at = None, sr_to_lease_expires_at = None,
           sr_caller_owner = None, sr_context = Some context\<rparr>))
    | _ \<Rightarrow> tx_raise (AuditIntegrityError ''fresh emission is not a complete resume cursor''))"

section \<open>Shared bodies only move history forward\<close>

lemma resp_validate_node_cursor [hist_verbs]: "hist.resp (validate_node_cursor run node label)"
  unfolding validate_node_cursor_def by (intro hist_intros)

lemma resp_validate_references [hist_verbs]:
  "hist.resp (validate_work_item_references run token row seq node cnode)"
  unfolding validate_work_item_references_def by (intro hist_intros hist_verbs)

lemma resp_validate_replay [hist_verbs]: "hist.resp (validate_replay v w)"
  unfolding validate_replay_def by (intro hist_intros)

lemma resp_collect_by_id [hist_verbs]: "hist.resp (collect_by_id vs by_id)"
proof (induction vs arbitrary: by_id)
  case (Cons v vs)
  then show ?case unfolding collect_by_id.simps by (intro hist_intros hist_verbs)
qed (simp, intro hist_intros)

lemma resp_insert_work_items_idempotent [hist_verbs]: "hist.resp (insert_work_items_idempotent vs)"
  unfolding insert_work_items_idempotent_def insert_or_ignore_def
  by (intro hist_intros hist_verbs)

lemma resp_insert_work_item_idempotent [hist_verbs]: "hist.resp (insert_work_item_idempotent v)"
  unfolding insert_work_item_idempotent_def by (intro hist_intros hist_verbs)

lemma resp_insert_work_items [hist_verbs]: "hist.resp (insert_work_items vs)"
  unfolding insert_work_items_def by (intro hist_intros)

lemma resp_record_event [hist_verbs]: "hist.resp (record_event r)"
  unfolding record_event_def by (intro hist_intros)

lemma resp_record_many [hist_verbs]: "hist.resp (record_many rs)"
  unfolding record_many_def by (intro hist_intros hist_verbs)

lemma resp_recovery_event [hist_verbs]: "hist.resp (recovery_event_for_previous_work_item run w)"
  unfolding recovery_event_for_previous_work_item_def by (intro hist_intros)

lemma resp_prepare_fresh [hist_verbs]: "hist.resp (prepare_fresh_pending_sink_item run em ctx now owner)"
  unfolding prepare_fresh_pending_sink_item_def by (intro hist_intros hist_verbs)

section \<open>Inversion of the shared bodies\<close>

lemma validate_node_cursor_inv [tx_inv]:
  "validate_node_cursor run node label c = Inr r \<longleftrightarrow> node_exists (tables c) run node \<and> r = ((), c)"
  by (cases node)
    (auto simp: validate_node_cursor_def node_exists_def exists_where_iff tx_inv)

lemma validate_replay_inv [tx_inv]:
  "validate_replay v w c = Inr r \<longleftrightarrow> comparable_fields w = comparable_fields v \<and> r = ((), c)"
  by (simp add: validate_replay_def tx_inv)

lemma validate_references_inv:
  "validate_work_item_references run token row seq node cnode c = Inr r \<Longrightarrow>
   r = ((), c) \<and> token_exists (tables c) run token \<and> row_exists (tables c) run row \<and>
   node_exists (tables c) run node \<and> node_exists (tables c) run cnode"
  unfolding validate_work_item_references_def
  by (auto simp: tx_inv token_exists_def row_exists_def exists_where_iff
      split: option.splits dest!: find_Some_mem)

lemma record_event_inv [tx_inv]:
  "record_event ev c = Inr r \<longleftrightarrow>
     run_exists (tables c) (sr_run_id ev) \<and> token_exists (tables c) (sr_run_id ev) (sr_token_id ev) \<and>
     node_exists (tables c) (sr_run_id ev) (sr_node_id ev) \<and>
     scheduler_events_check (event_values (conn_env c) ev) \<and>
     r = ((), c\<lparr>tables := (tables c)\<lparr>db_scheduler_events :=
            db_scheduler_events (tables c) @ [event_values (conn_env c) ev]\<rparr>\<rparr>)"
  by (simp add: record_event_def tx_inv) (simp add: event_values_def Let_def)

lemma record_many_inv:
  "record_many evs c = Inr r \<Longrightarrow>
   r = ((), c\<lparr>tables := (tables c)\<lparr>db_scheduler_events :=
          db_scheduler_events (tables c) @ map (event_values (conn_env c)) evs\<rparr>\<rparr>)"
  unfolding record_many_def
proof (induction evs arbitrary: c)
  case (Cons ev evs)
  then have "tx_for evs record_event (c\<lparr>tables := (tables c)\<lparr>db_scheduler_events :=
      db_scheduler_events (tables c) @ [event_values (conn_env c) ev]\<rparr>\<rparr>) = Inr r"
    by (simp add: tx_inv)
  from Cons.IH [OF this] show ?case by simp
qed (simp add: tx_inv)

lemma recovery_event_inv:
  "recovery_event_for_previous_work_item run w c = Inr r \<Longrightarrow> snd r = c"
  unfolding recovery_event_for_previous_work_item_def
  by (auto simp: tx_inv split: sum.splits)

lemma insert_each_inv:
  "tx_each vs (\<lambda>v. tx_then (insert_work_item v) (tx_return (wi_work_item_id v))) c = Inr (ids, c') \<Longrightarrow>
   c' = c\<lparr>tables := (tables c)\<lparr>db_work_items := db_work_items (tables c) @ vs\<rparr>\<rparr>"
proof (induction vs arbitrary: c ids)
  case (Cons v vs)
  then obtain ids' where "tx_each vs (\<lambda>v. tx_then (insert_work_item v) (tx_return (wi_work_item_id v)))
      (c\<lparr>tables := (tables c)\<lparr>db_work_items := db_work_items (tables c) @ [v]\<rparr>\<rparr>) = Inr (ids', c')"
    by (auto simp: tx_inv)
  from Cons.IH [OF this] show ?case by simp
qed (simp add: tx_inv)

lemma insert_work_items_inv:
  "insert_work_items vs c = Inr r \<Longrightarrow>
   r = ((), c\<lparr>tables := (tables c)\<lparr>db_work_items := db_work_items (tables c) @ vs\<rparr>\<rparr>)"
  by (cases "vs = []") (auto simp: insert_work_items_def tx_inv dest!: insert_each_inv)

lemma collect_by_id_inv:
  "collect_by_id vs acc c = Inr (by_id, c') \<Longrightarrow> keyed wi_work_item_id acc \<Longrightarrow>
   c' = c \<and> keyed wi_work_item_id by_id \<and> set acc \<subseteq> set by_id \<and> set by_id \<subseteq> set acc \<union> set vs \<and>
   (\<forall>v \<in> set vs. \<exists>x \<in> set by_id. comparable_fields x = comparable_fields v)"
proof (induction vs arbitrary: acc)
  case (Cons v vs)
  show ?case
  proof (cases "List.find (\<lambda>x. wi_work_item_id x = wi_work_item_id v) acc")
    case None
    then have "keyed wi_work_item_id (acc @ [v])"
      using Cons.prems(2) by (auto simp: keyed_append_one exists_where_iff find_None_all)
    from Cons.IH [OF _ this] Cons.prems None show ?thesis by auto
  next
    case (Some x)
    from Cons.prems(1) Some have "collect_by_id vs acc c = Inr (by_id, c')"
      "comparable_fields x = comparable_fields v" by (auto simp: tx_inv)
    with Cons.IH [OF this(1) Cons.prems(2)] find_Some_mem [OF Some] show ?thesis by auto
  qed
qed (auto simp: tx_inv)

lemma insert_or_ignore_inv [tx_inv]:
  "insert_or_ignore v c = Inr r \<longleftrightarrow>
   (if exists_where (\<lambda>x. wi_work_item_id x = wi_work_item_id v) (db_work_items (tables c))
    then r = ([], c)
    else \<exists>c'. insert_work_item v c = Inr ((), c') \<and> r = ([wi_work_item_id v], c'))"
  by (auto simp: insert_or_ignore_def tx_inv)

lemma insert_or_ignore_each_inv:
  "tx_each vs insert_or_ignore c = Inr (ids, c') \<Longrightarrow>
   \<exists>new. c' = c\<lparr>tables := (tables c)\<lparr>db_work_items := db_work_items (tables c) @ new\<rparr>\<rparr> \<and>
         concat ids = map wi_work_item_id new \<and> set new \<subseteq> set vs \<and>
         (\<forall>v \<in> set vs. \<exists>x \<in> set (db_work_items (tables c) @ new). wi_work_item_id x = wi_work_item_id v)"
proof (induction vs arbitrary: c ids)
  case Nil
  then show ?case by (auto simp: tx_inv intro!: exI [of _ "[]"])
next
  case (Cons v vs)
  show ?case
  proof (cases "exists_where (\<lambda>x. wi_work_item_id x = wi_work_item_id v) (db_work_items (tables c))")
    case True
    with Cons.prems obtain ids' where ids': "ids = [] # ids'" "tx_each vs insert_or_ignore c = Inr (ids', c')"
      by (auto simp: tx_inv)
    from Cons.IH [OF ids'(2)] True show ?thesis
      unfolding exists_where_iff ids'(1) by (auto simp del: tx_each.simps)
  next
    case False
    with Cons.prems obtain ids' where ids': "ids = [wi_work_item_id v] # ids'"
      "tx_each vs insert_or_ignore
         (c\<lparr>tables := (tables c)\<lparr>db_work_items := db_work_items (tables c) @ [v]\<rparr>\<rparr>) = Inr (ids', c')"
      by (auto simp: tx_inv)
    from Cons.IH [OF ids'(2)] obtain new where
      "c' = c\<lparr>tables := (tables c)\<lparr>db_work_items := db_work_items (tables c) @ v # new\<rparr>\<rparr>"
      "concat ids' = map wi_work_item_id new" "set new \<subseteq> set vs"
      "\<forall>u \<in> set vs. \<exists>x \<in> set (db_work_items (tables c) @ v # new). wi_work_item_id x = wi_work_item_id u"
      by auto
    then show ?thesis unfolding ids'(1) by (intro exI [of _ "v # new"]) auto
  qed
qed

lemma replay_checks_inv:
  "tx_for rows (\<lambda>row. if wi_work_item_id row \<in> set inserted then tx_return ()
      else tx_bind (the_row (List.find (\<lambda>x. wi_work_item_id x = wi_work_item_id row) by_id))
             (\<lambda>v. validate_replay v row)) c = Inr r \<Longrightarrow>
   r = ((), c) \<and> (\<forall>row \<in> set rows. wi_work_item_id row \<notin> set inserted \<longrightarrow>
     (\<exists>v \<in> set by_id. wi_work_item_id v = wi_work_item_id row \<and>
        comparable_fields row = comparable_fields v))"
  by (induction rows) (auto simp: tx_inv split: if_splits dest!: find_Some_mem)

text \<open>What an accepted batch leaves: the rows it added, and for every offered value a stored row
  with the same comparable fields.\<close>

lemma insert_work_items_idempotent_inv:
  assumes "insert_work_items_idempotent vs c = Inr (inserted, c')"
  obtains new where
    "c' = c\<lparr>tables := (tables c)\<lparr>db_work_items := db_work_items (tables c) @ new\<rparr>\<rparr>"
    "inserted = map wi_work_item_id new" "set new \<subseteq> set vs"
    "\<forall>v \<in> set vs. \<exists>w \<in> set (db_work_items (tables c) @ new). comparable_fields w = comparable_fields v"
proof (cases "vs = []")
  case True
  then show ?thesis using assms that [of "[]"] by (simp add: insert_work_items_idempotent_def tx_inv)
next
  case False
  with assms obtain by_id ids c1 c2 where
    coll: "collect_by_id vs [] c = Inr (by_id, c1)" and
    each': "tx_each by_id insert_or_ignore c1 = Inr (ids, c2)" and ins: "inserted = concat ids" and
    chk: "tx_for (filter (\<lambda>w. wi_work_item_id w \<in> set (map wi_work_item_id by_id)) (db_work_items (tables c2)))
      (\<lambda>row. if wi_work_item_id row \<in> set (concat ids) then tx_return ()
         else tx_bind (the_row (List.find (\<lambda>x. wi_work_item_id x = wi_work_item_id row) by_id))
                (\<lambda>v. validate_replay v row)) c2 = Inr ((), c')"
    by (auto simp: insert_work_items_idempotent_def tx_inv)
  from replay_checks_inv [OF chk] have c2: "c2 = c'" by simp
  note each = each' [unfolded c2]
  have keyed: "keyed wi_work_item_id by_id" and c1: "c1 = c" and sub: "set by_id \<subseteq> set vs"
    and cov: "\<forall>v \<in> set vs. \<exists>x \<in> set by_id. comparable_fields x = comparable_fields v"
    using collect_by_id_inv [OF coll] by (simp_all add: keyed_def)
  from insert_or_ignore_each_inv [OF each [unfolded c1]] obtain new where new:
    "c' = c\<lparr>tables := (tables c)\<lparr>db_work_items := db_work_items (tables c) @ new\<rparr>\<rparr>"
    "concat ids = map wi_work_item_id new" "set new \<subseteq> set by_id"
    "\<forall>v \<in> set by_id. \<exists>x \<in> set (db_work_items (tables c) @ new). wi_work_item_id x = wi_work_item_id v"
    by blast
  have stored: "\<exists>w \<in> set (db_work_items (tables c) @ new). comparable_fields w = comparable_fields v"
    if v: "v \<in> set by_id" for v
  proof (cases "wi_work_item_id v \<in> wi_work_item_id ` set new")
    case True
    then have "v \<in> set new" using new(3) v keyed_unique [OF keyed, of v] by auto
    then show ?thesis by auto
  next
    case out: False
    from new(4) v obtain x where x: "x \<in> set (db_work_items (tables c) @ new)"
      "wi_work_item_id x = wi_work_item_id v" by blast
    then have "x \<in> set (filter (\<lambda>w. wi_work_item_id w \<in> set (map wi_work_item_id by_id))
        (db_work_items (tables c2)))" "wi_work_item_id x \<notin> set (concat ids)"
      using out v by (auto simp: c2 new(1,2))
    then have "\<exists>u \<in> set by_id. wi_work_item_id u = wi_work_item_id x \<and>
        comparable_fields x = comparable_fields u"
      using replay_checks_inv [OF chk] by blast
    then have "comparable_fields x = comparable_fields v"
      using keyed_unique [OF keyed _ v] x(2) by auto
    then show ?thesis using x(1) by blast
  qed
  show ?thesis
  proof (rule that [OF new(1)])
    show "\<forall>v \<in> set vs. \<exists>w \<in> set (db_work_items (tables c) @ new). comparable_fields w = comparable_fields v"
      using cov stored by metis
  qed (use new sub ins in auto)
qed

section \<open>One statement per row\<close>

text \<open>An UPDATE executed once per selected row, each matching that row by its identity, rewrites
  exactly the selected rows.\<close>

lemma update_one_item:
  assumes "update_work_items P g c = Inr (n, c')"
    and "token_work_items_ok (db_work_items (tables c))" and "row \<in> set (db_work_items (tables c))"
    and "\<And>w. P w \<Longrightarrow> wi_work_item_id w = wi_work_item_id row" and "P row"
  shows "c' = c\<lparr>tables := (tables c)\<lparr>db_work_items :=
           map (\<lambda>w. if w = row then g w else w) (db_work_items (tables c))\<rparr>\<rparr> \<and> n = 1 \<and>
         token_work_items_ok (map (\<lambda>w. if w = row then g w else w) (db_work_items (tables c)))"
proof -
  let ?ws = "db_work_items (tables c)"
  have keyed: "keyed wi_work_item_id ?ws" using assms(2) by (simp add: token_work_items_ok_def)
  then have "P w \<longleftrightarrow> w = row" if "w \<in> set ?ws" for w
    using that assms(3-5) keyed_unique [of wi_work_item_id ?ws] by blast
  then have "update_where P g ?ws = map (\<lambda>w. if w = row then g w else w) ?ws"
    unfolding update_where_def by (intro map_cong) auto
  moreover have "count_where P ?ws = 1"
    using count_where_keyed_iff [OF keyed, of P "wi_work_item_id row"] assms(3-5) by blast
  ultimately show ?thesis using assms(1) by (simp add: tx_inv)
qed

lemma execute_many_items:
  assumes "execute_many rows stmt c = Inr (n, c')"
    and "token_work_items_ok (db_work_items (tables c))"
    and "set rows \<subseteq> set (db_work_items (tables c))" and "distinct rows"
    and stmt: "\<And>row ws r. row \<in> set rows \<Longrightarrow>
        stmt row (c\<lparr>tables := (tables c)\<lparr>db_work_items := ws\<rparr>\<rparr>) = Inr r \<Longrightarrow>
        update_work_items (P row) (f row) (c\<lparr>tables := (tables c)\<lparr>db_work_items := ws\<rparr>\<rparr>) = Inr r"
    and "\<And>row w. row \<in> set rows \<Longrightarrow> P row w \<Longrightarrow> wi_work_item_id w = wi_work_item_id row"
    and "\<And>row. row \<in> set rows \<Longrightarrow> P row row"
    and "\<And>row. row \<in> set rows \<Longrightarrow> f row row \<notin> set rows"
  shows "c' = c\<lparr>tables := (tables c)\<lparr>db_work_items :=
           map (\<lambda>w. if w \<in> set rows then f w w else w) (db_work_items (tables c))\<rparr>\<rparr> \<and>
         n = length rows \<and>
         token_work_items_ok (map (\<lambda>w. if w \<in> set rows then f w w else w) (db_work_items (tables c)))"
  using assms
proof (induction rows arbitrary: c n)
  case Nil
  then show ?case by (simp add: tx_inv)
next
  case (Cons row rows)
  let ?ws = "db_work_items (tables c)"
  let ?ws1 = "map (\<lambda>w. if w = row then f row w else w) ?ws"
  let ?c1 = "c\<lparr>tables := (tables c)\<lparr>db_work_items := ?ws1\<rparr>\<rparr>"
  from Cons.prems(1) obtain k m c1 where
    one: "stmt row c = Inr (k, c1)" and more: "execute_many rows stmt c1 = Inr (m, c')" and n: "n = k + m"
    by (auto simp: tx_inv)
  have upd: "update_work_items (P row) (f row) c = Inr (k, c1)"
    using Cons.prems(5) [of row ?ws "(k, c1)"] one by simp
  have "row \<in> set ?ws" "P row row" using Cons.prems(3,7) by simp_all
  from update_one_item [OF upd Cons.prems(2) this(1) Cons.prems(6) this(2)]
  have c1: "c1 = ?c1" "k = 1" and ok: "token_work_items_ok ?ws1" by simp_all
  have ih: "c' = ?c1\<lparr>tables := (tables ?c1)\<lparr>db_work_items :=
      map (\<lambda>w. if w \<in> set rows then f w w else w) (db_work_items (tables ?c1))\<rparr>\<rparr> \<and> m = length rows \<and>
      token_work_items_ok (map (\<lambda>w. if w \<in> set rows then f w w else w) (db_work_items (tables ?c1)))"
  proof (rule Cons.IH)
    show "execute_many rows stmt ?c1 = Inr (m, c')" using more c1(1) by simp
    show "token_work_items_ok (db_work_items (tables ?c1))" using ok by simp
    have "r \<in> set ?ws1" if "r \<in> set rows" for r
    proof -
      have "r \<noteq> row" "r \<in> set ?ws" using that Cons.prems(3,4) by auto
      then show ?thesis by (simp add: image_iff)
    qed
    then show "set rows \<subseteq> set (db_work_items (tables ?c1))" by auto
    show "distinct rows" using Cons.prems(4) by simp
    show "wi_work_item_id w = wi_work_item_id r" if "r \<in> set rows" "P r w" for r w
      using Cons.prems(6) [OF _ that(2)] that(1) by (meson list.set_intros(2))
    show "P r r" if "r \<in> set rows" for r using Cons.prems(7) [of r] that by simp
    show "f r r \<notin> set rows" if "r \<in> set rows" for r using Cons.prems(8) [of r] that by simp
    show "update_work_items (P r) (f r) (?c1\<lparr>tables := (tables ?c1)\<lparr>db_work_items := ws\<rparr>\<rparr>) = Inr q"
      if "r \<in> set rows" "stmt r (?c1\<lparr>tables := (tables ?c1)\<lparr>db_work_items := ws\<rparr>\<rparr>) = Inr q" for r ws q
      using Cons.prems(5) [of r ws q] that by simp
  qed
  have ws1: "db_work_items (tables ?c1) = ?ws1" by simp
  have eq: "map (\<lambda>w. if w \<in> set rows then f w w else w) ?ws1
      = map (\<lambda>w. if w \<in> set (row # rows) then f w w else w) ?ws"
    using Cons.prems(4) Cons.prems(8) [of row] by (auto intro!: map_cong simp: comp_def)
  from ih [unfolded ws1 eq] c1(2) n show ?case by simp
qed

end
