(* ===== verification/Scheduler_Leases.thy ===== *)
theory Scheduler_Leases
  imports Work_Items
begin

text \<open>
  The lease lifecycle (\<open>scheduler/leases.py\<close>): the two claim verbs with their
  membership fences, the liveness-aware recovery sweep, the re-drive of undecided
  failed work, the resume coverage check, the lease heartbeat and the peer probe.

  Row locks (\<open>SELECT ... FOR UPDATE/SHARE\<close>, \<open>lock_worker_membership_row\<close>) change no
  row and a verb runs as one whole transaction, so a locking read is the read it
  performs.  Chunking an IN list by the bind budget reads the same rows.  No
  statement of a recovery sweep writes \<open>run_workers\<close>, so its correlated subqueries
  read one registry.  Text columns are compared bytewise.
\<close>

section \<open>Selection\<close>

text \<open>\<open>ORDER BY key LIMIT 1\<close>.\<close>

definition first_row :: "('r \<Rightarrow> 'k::linorder) \<Rightarrow> ('r \<Rightarrow> bool) \<Rightarrow> 'r list \<Rightarrow> 'r option" where
  "first_row key P rs = (case sort_key key (filter P rs) of [] \<Rightarrow> None | r # _ \<Rightarrow> Some r)"

definition claim_order :: "work_item \<Rightarrow> int \<times> int \<times> instant \<times> string" where
  "claim_order w = (wi_ingest_sequence w, wi_step_index w, wi_created_at w, wi_work_item_id w)"

definition sweep_order :: "work_item \<Rightarrow> int \<times> int \<times> string" where
  "sweep_order w = (wi_ingest_sequence w, wi_step_index w, wi_work_item_id w)"

definition item_of :: "ident \<Rightarrow> ident \<Rightarrow> db \<Rightarrow> work_item option" where
  "item_of run wid d = List.find (\<lambda>w. wi_work_item_id w = wid \<and> wi_run_id w = run) (db_work_items d)"

definition worker_status_of :: "ident \<Rightarrow> ident \<Rightarrow> db \<Rightarrow> worker_status option" where
  "worker_status_of run worker d =
    map_option wk_status (List.find (\<lambda>w. wk_worker_id w = worker \<and> wk_run_id w = run) (db_workers d))"

text \<open>The image a claim writes, and its event.\<close>

definition leased_image :: "ident \<Rightarrow> instant \<Rightarrow> instant \<Rightarrow> work_item \<Rightarrow> work_item" where
  "leased_image owner expires database_now w = w\<lparr>wi_status := LEASED, wi_lease_owner := Some owner,
     wi_lease_expires_at := Some expires, wi_updated_at := database_now\<rparr>"

definition claim_event ::
  "scheduler_event_type \<Rightarrow> token_work_status \<Rightarrow> ident \<Rightarrow> work_item \<Rightarrow> ident \<Rightarrow> instant \<Rightarrow> instant \<Rightarrow>
   scheduler_event_record" where
  "claim_event type from_status run row owner expires database_now =
    \<lparr>sr_event_type = type, sr_run_id = run, sr_token_id = wi_token_id row,
     sr_work_item_id = wi_work_item_id row, sr_node_id = wi_node_id row,
     sr_from_status = Some from_status, sr_to_status = LEASED,
     sr_from_lease_owner = wi_lease_owner row, sr_to_lease_owner = Some owner,
     sr_from_attempt = Some (wi_attempt row), sr_to_attempt = wi_attempt row,
     sr_recorded_at = database_now, sr_from_lease_expires_at = wi_lease_expires_at row,
     sr_to_lease_expires_at = Some expires, sr_caller_owner = Some owner, sr_context = None\<rparr>"

text \<open>The tail both claims share: the deadline, the event, and the row read back.\<close>

definition finish_claim ::
  "scheduler_event_type \<Rightarrow> token_work_status \<Rightarrow> ident \<Rightarrow> work_item \<Rightarrow> ident \<Rightarrow> int \<Rightarrow> instant \<Rightarrow>
   work_item option body" where
  "finish_claim type from_status run row owner lease_seconds database_now =
    tx_then (record_issued_deadline (ItemDeadline (wi_work_item_id row))
      (database_now + seconds lease_seconds) (seconds lease_seconds))
   (tx_then (record_event (claim_event type from_status run row owner
      (database_now + seconds lease_seconds) database_now))
   (tx_bind (select_tables (\<lambda>d. List.find (\<lambda>w. wi_work_item_id w = wi_work_item_id row \<and>
        wi_run_id w = run \<and> wi_status w = LEASED \<and> wi_lease_owner w = Some owner) (db_work_items d))) (\<lambda>claimed.
      case claimed of
        None \<Rightarrow> tx_raise (AuditIntegrityError ''leased row was not owned by the claimant'')
      | Some w \<Rightarrow> tx_return (Some w))))"

section \<open>Claiming READY work\<close>

definition claim_fence :: "bool \<Rightarrow> bool \<Rightarrow> ident \<Rightarrow> ident \<Rightarrow> db \<Rightarrow> bool" where
  "claim_fence membership_fenced strict_membership_fenced owner run d =
    (if strict_membership_fenced then active_worker_fence_clause d owner run
     else if membership_fenced then claim_verb_fence_clause d owner run else True)"

text \<open>No row matched: nothing to claim, or a refused claimant.\<close>

definition ready_claim_miss ::
  "bool \<Rightarrow> bool \<Rightarrow> ident \<Rightarrow> ident \<Rightarrow> ident \<Rightarrow> work_item option body" where
  "ready_claim_miss membership_fenced strict_membership_fenced wid run owner =
    (if strict_membership_fenced \<or> membership_fenced
     then tx_bind (select_tables (\<lambda>d. exists_where (\<lambda>w. wi_work_item_id w = wid \<and> wi_run_id w = run \<and>
            wi_status w = READY) (db_work_items d))) (\<lambda>still_ready.
          if \<not> still_ready then tx_return None
          else if strict_membership_fenced
          then tx_bind (select_tables (\<lambda>d. active_worker_fence_clause d owner run)) (\<lambda>active.
               if active then tx_return None else tx_raise (RunWorkerEvictedError owner run))
          else tx_bind (select_tables (worker_status_of run owner)) (\<lambda>status.
               case status of
                 None \<Rightarrow> tx_return None
               | Some st \<Rightarrow> if st \<noteq> Active then tx_raise (RunWorkerEvictedError owner run)
                            else tx_return None))
     else tx_return None)"

definition claim_ready_row ::
  "ident \<Rightarrow> ident \<Rightarrow> ident \<Rightarrow> int \<Rightarrow> bool \<Rightarrow> bool \<Rightarrow> work_item option body" where
  "claim_ready_row wid run owner lease_seconds membership_fenced strict_membership_fenced =
    tx_bind (select_tables (item_of run wid)) (\<lambda>locked_row.
    case locked_row of
      None \<Rightarrow> tx_return None
    | Some row \<Rightarrow>
        tx_bind read_landscape_decision_time (\<lambda>database_now.
        tx_bind (select_tables (claim_fence membership_fenced strict_membership_fenced owner run)) (\<lambda>fence.
        tx_bind (update_work_items
          (\<lambda>w. wi_work_item_id w = wi_work_item_id row \<and> wi_run_id w = run \<and> wi_status w = READY \<and>
               wi_available_at w \<le> database_now \<and> fence)
          (leased_image owner (database_now + seconds lease_seconds) database_now)) (\<lambda>rowcount.
        if rowcount = 0
        then ready_claim_miss membership_fenced strict_membership_fenced (wi_work_item_id row) run owner
        else tx_then (tx_assert (rowcount = 1) (AuditIntegrityError ''claim_ready lost race''))
               (finish_claim CLAIM_READY READY run row owner lease_seconds database_now)))))"

definition claim_ready_body :: "ident \<Rightarrow> ident \<Rightarrow> int \<Rightarrow> work_item option body" where
  "claim_ready_body run owner lease_seconds =
    tx_bind read_landscape_decision_time (\<lambda>database_now.
    tx_bind (select_tables (\<lambda>d. first_row claim_order (\<lambda>w. wi_run_id w = run \<and> wi_status w = READY \<and>
        wi_available_at w \<le> database_now) (db_work_items d))) (\<lambda>found.
    case found of
      None \<Rightarrow> tx_return None
    | Some row \<Rightarrow> claim_ready_row (wi_work_item_id row) run owner lease_seconds True False))"

definition claim_ready ::
  "env \<Rightarrow> worker_membership_token \<Rightarrow> ident \<Rightarrow> int \<Rightarrow> db \<Rightarrow> work_item option outcome" where
  "claim_ready e m owner lease_seconds d =
    (if owner \<noteq> mt_worker_id m
     then (Inl (ValueError ''lease owner must match authority token''), d)
     else fenced_member_transaction e m ''claim_ready''
            (claim_ready_body (mt_run_id m) owner lease_seconds) d)"

section \<open>Claiming sink-bound work\<close>

definition incomplete_bundle_error :: error where
  "incomplete_bundle_error = AuditIntegrityError ''incomplete durable sink bundle''"

definition sink_claim_miss :: "ident \<Rightarrow> ident \<Rightarrow> ident \<Rightarrow> work_item option body" where
  "sink_claim_miss wid run owner =
    tx_bind (select_tables (\<lambda>d. List.find (\<lambda>w. wi_work_item_id w = wid \<and> wi_run_id w = run \<and>
        wi_status w = PENDING_SINK) (db_work_items d))) (\<lambda>still_pending.
    case still_pending of
      None \<Rightarrow> tx_return None
    | Some w \<Rightarrow>
        tx_then (tx_assert (pending_sink_bundle_clause w) incomplete_bundle_error)
       (tx_bind (select_tables (worker_status_of run owner)) (\<lambda>status.
        case status of
          None \<Rightarrow> tx_return None
        | Some st \<Rightarrow> if st \<noteq> Active then tx_raise (RunWorkerEvictedError owner run)
                     else tx_return None)))"

definition claim_pending_sink_body :: "ident \<Rightarrow> ident \<Rightarrow> int \<Rightarrow> work_item option body" where
  "claim_pending_sink_body run owner lease_seconds =
    tx_bind (select_tables (\<lambda>d. first_row claim_order (\<lambda>w. wi_run_id w = run \<and>
        wi_status w = PENDING_SINK) (db_work_items d))) (\<lambda>found.
    case found of
      None \<Rightarrow> tx_return None
    | Some candidate \<Rightarrow>
        tx_then (tx_assert (pending_sink_bundle_clause candidate) incomplete_bundle_error)
       (tx_bind (select_tables (item_of run (wi_work_item_id candidate))) (\<lambda>locked_row.
        case locked_row of
          None \<Rightarrow> tx_return None
        | Some row \<Rightarrow>
            tx_bind read_landscape_decision_time (\<lambda>database_now.
            tx_bind (select_tables (\<lambda>d. claim_verb_fence_clause d owner run)) (\<lambda>fence.
            tx_bind (update_work_items
              (\<lambda>w. wi_work_item_id w = wi_work_item_id row \<and> wi_run_id w = run \<and>
                   wi_status w = PENDING_SINK \<and> pending_sink_bundle_clause w \<and> fence)
              (leased_image owner (database_now + seconds lease_seconds) database_now)) (\<lambda>rowcount.
            if rowcount = 0 then sink_claim_miss (wi_work_item_id row) run owner
            else tx_then (tx_assert (rowcount = 1) (AuditIntegrityError ''claim_pending_sink lost race''))
                   (finish_claim CLAIM_PENDING_SINK PENDING_SINK run row owner lease_seconds database_now)))))))"

text \<open>\<open>fencing.fenced_write\<close>: the leader fence with the default liveness window.\<close>

definition fenced_write ::
  "env \<Rightarrow> coordination_token \<Rightarrow> string \<Rightarrow> 'a body \<Rightarrow> db \<Rightarrow> 'a outcome" where
  "fenced_write e t verb = fenced_leader_transaction e t DEFAULT_RUN_LIVENESS_WINDOW verb"

definition claim_pending_sink ::
  "env \<Rightarrow> coordination_token \<Rightarrow> ident \<Rightarrow> int \<Rightarrow> db \<Rightarrow> work_item option outcome" where
  "claim_pending_sink e t owner lease_seconds d =
    (if owner \<noteq> ct_worker_id t
     then (Inl (ValueError ''lease owner must match authority token''), d)
     else fenced_write e t ''claim_pending_sink''
            (claim_pending_sink_body (ct_run_id t) owner lease_seconds) d)"

section \<open>Recovering expired leases\<close>

definition lease_owner_not_caller :: "ident \<Rightarrow> work_item \<Rightarrow> bool" where
  "lease_owner_not_caller caller w = (case wi_lease_owner w of None \<Rightarrow> True | Some o' \<Rightarrow> o' \<noteq> caller)"

definition sink_redrive_shaped :: "work_item \<Rightarrow> bool" where
  "sink_redrive_shaped w \<longleftrightarrow> wi_pending_sink_name w \<noteq> None \<or> wi_pending_outcome w \<noteq> None \<or>
     wi_pending_path w \<noteq> None \<or> wi_pending_error_hash w \<noteq> None \<or> wi_pending_error_message w \<noteq> None"

definition lease_expires_before :: "instant \<Rightarrow> work_item \<Rightarrow> bool" where
  "lease_expires_before t w = (case wi_lease_expires_at w of None \<Rightarrow> False | Some x \<Rightarrow> x < t)"

definition owner_registry_dead :: "worker_row list \<Rightarrow> instant \<Rightarrow> work_item \<Rightarrow> bool" where
  "owner_registry_dead workers grace_threshold w \<longleftrightarrow>
     \<not> exists_where (\<lambda>k. wi_lease_owner w = Some (wk_worker_id k) \<and> wk_status k = Active \<and>
         grace_threshold \<le> wk_heartbeat_expires_at k) workers"

definition lease_owner_in :: "ident list \<Rightarrow> work_item \<Rightarrow> bool" where
  "lease_owner_in owners w = (case wi_lease_owner w of None \<Rightarrow> True | Some o' \<Rightarrow> o' \<in> set owners)"

text \<open>The predicate of the sweep's reads and writes, at the decision instant.\<close>

definition rotation_filter ::
  "ident \<Rightarrow> ident \<Rightarrow> instant \<Rightarrow> duration \<Rightarrow> duration \<Rightarrow> worker_row list \<Rightarrow> work_item \<Rightarrow> bool" where
  "rotation_filter run caller database_now grace stall workers w \<longleftrightarrow>
     wi_run_id w = run \<and> wi_status w = LEASED \<and> lease_expires_before database_now w \<and>
     lease_owner_not_caller caller w \<and>
     (owner_registry_dead workers (database_now - grace) w \<or> lease_expires_before (database_now - stall) w)"

definition next_attempt :: "work_item \<Rightarrow> int" where
  "next_attempt row = (if sink_redrive_shaped row then wi_attempt row else wi_attempt row + 1)"

definition next_work_item_id :: "ident \<Rightarrow> work_item \<Rightarrow> ident" where
  "next_work_item_id run row =
    (if sink_redrive_shaped row then wi_work_item_id row
     else work_item_id run (wi_token_id row) (wi_node_id row) (next_attempt row))"

definition next_status :: "work_item \<Rightarrow> token_work_status" where
  "next_status row = (if sink_redrive_shaped row then PENDING_SINK else READY)"

definition parked_image :: "instant \<Rightarrow> work_item \<Rightarrow> work_item" where
  "parked_image database_now w = w\<lparr>wi_status := PENDING_SINK, wi_lease_owner := None,
     wi_lease_expires_at := None, wi_updated_at := database_now\<rparr>"

definition rotated_image :: "ident \<Rightarrow> int \<Rightarrow> instant \<Rightarrow> work_item \<Rightarrow> work_item" where
  "rotated_image next_id attempt database_now w = w\<lparr>wi_work_item_id := next_id, wi_attempt := attempt,
     wi_status := READY, wi_lease_owner := None, wi_lease_expires_at := None,
     wi_updated_at := database_now\<rparr>"

definition recovery_event :: "ident \<Rightarrow> ident \<Rightarrow> instant \<Rightarrow> work_item \<Rightarrow> scheduler_event_record" where
  "recovery_event run caller database_now row =
    \<lparr>sr_event_type = RECOVER_EXPIRED_LEASE, sr_run_id = run, sr_token_id = wi_token_id row,
     sr_work_item_id = next_work_item_id run row, sr_node_id = wi_node_id row,
     sr_from_status = Some LEASED, sr_to_status = next_status row,
     sr_from_lease_owner = wi_lease_owner row, sr_to_lease_owner = None,
     sr_from_attempt = Some (wi_attempt row), sr_to_attempt = next_attempt row,
     sr_recorded_at = database_now, sr_from_lease_expires_at = wi_lease_expires_at row,
     sr_to_lease_expires_at = None, sr_caller_owner = Some caller,
     sr_context = (if next_work_item_id run row \<noteq> wi_work_item_id row
       then Some (JObj [(''previous_work_item_id'', JStr (wi_work_item_id row))]) else None)\<rparr>"

text \<open>\<open>UPDATE ... RETURNING work_item_id\<close>.\<close>

definition update_returning ::
  "(work_item \<Rightarrow> bool) \<Rightarrow> (work_item \<Rightarrow> work_item) \<Rightarrow> ident list body" where
  "update_returning P f =
    tx_bind (select_tables (\<lambda>d. map (\<lambda>w. wi_work_item_id (f w)) (filter P (db_work_items d)))) (\<lambda>ids.
    tx_then (update_work_items P f) (tx_return ids))"

definition rotate_sink_items ::
  "(work_item \<Rightarrow> bool) \<Rightarrow> instant \<Rightarrow> ident list \<Rightarrow> instant \<Rightarrow> ident list \<Rightarrow> ident list body" where
  "rotate_sink_items rotation discovery_now owners database_now sink_ids =
    tx_bind (update_returning
      (\<lambda>w. rotation w \<and> lease_expires_before discovery_now w \<and> lease_owner_in owners w \<and>
           sink_redrive_shaped w \<and> pending_sink_bundle_clause w) (parked_image database_now)) (\<lambda>sink_changed.
    tx_then (tx_assert (set sink_changed \<subseteq> set sink_ids)
      (AuditIntegrityError ''rotated a pending-sink item it had not selected''))
      (tx_return sink_changed))"

definition rotate_transform_items ::
  "ident \<Rightarrow> (work_item \<Rightarrow> bool) \<Rightarrow> instant \<Rightarrow> work_item list \<Rightarrow> ident list body" where
  "rotate_transform_items run rotation database_now rows =
    (if rows = [] then tx_return []
     else tx_bind (execute_many rows (\<lambda>row. update_work_items
            (\<lambda>w. rotation w \<and> wi_work_item_id w = wi_work_item_id row \<and> \<not> sink_redrive_shaped w)
            (rotated_image (next_work_item_id run row) (next_attempt row) database_now))) (\<lambda>rotated.
          tx_bind (select_tables (\<lambda>d. map wi_work_item_id (filter (\<lambda>w. wi_run_id w = run \<and>
            wi_work_item_id w \<in> set (map (next_work_item_id run) rows)) (db_work_items d)))) (\<lambda>present.
          tx_then (tx_assert (length (remdups present) = rotated)
            (AuditIntegrityError ''rotated items and fresh identities differ''))
            (tx_return present))))"

text \<open>A selected row that did not rotate: refused when it now carries a broken sink bundle.\<close>

definition check_missed :: "ident \<Rightarrow> work_item list \<Rightarrow> unit body" where
  "check_missed run missed =
    tx_bind (select_tables (\<lambda>d. d)) (\<lambda>d.
    tx_for missed (\<lambda>row.
      case item_of run (wi_work_item_id row) d of
        None \<Rightarrow> tx_return ()
      | Some current \<Rightarrow>
          tx_assert (\<not> (wi_status current = LEASED \<and> \<not> pending_sink_bundle_clause current \<and>
              (sink_redrive_shaped row \<or> sink_redrive_shaped current))) incomplete_bundle_error))"

definition stalled_events ::
  "coordination_token \<Rightarrow> worker_row list \<Rightarrow> instant \<Rightarrow> duration \<Rightarrow> work_item list \<Rightarrow>
   (coord_event_type \<times> ident \<times> int option \<times> instant \<times> json) list" where
  "stalled_events t workers database_now grace rows =
    concat (map (\<lambda>row. case wi_lease_owner row of
        None \<Rightarrow> []
      | Some owner \<Rightarrow>
          if owner_registry_dead workers (database_now - grace) row then []
          else [(WorkerStalled, owner, Some (ct_leader_epoch t), database_now,
                 JObj [(''reaped_work_item_id'', JStr (wi_work_item_id row)),
                       (''previous_work_item_id'', JStr (wi_work_item_id row)),
                       (''reason'', JStr ''item_stall_budget'')])]) rows)"

definition rotate_selected ::
  "coordination_token \<Rightarrow> duration \<Rightarrow> duration \<Rightarrow> worker_row list \<Rightarrow> instant \<Rightarrow> ident list \<Rightarrow> instant \<Rightarrow>
   work_item list \<Rightarrow> nat body" where
  "rotate_selected t grace stall workers discovery_now owners database_now expired =
    (let run = ct_run_id t;
         rotation = rotation_filter run (ct_worker_id t) database_now grace stall workers
     in
     tx_then (tx_for expired (\<lambda>row. tx_assert (sink_redrive_shaped row \<longrightarrow> pending_sink_bundle_clause row)
       incomplete_bundle_error))
    (tx_bind (rotate_sink_items rotation discovery_now owners database_now
       (map wi_work_item_id (filter sink_redrive_shaped expired))) (\<lambda>sink_changed.
     tx_bind (rotate_transform_items run rotation database_now
       (filter (\<lambda>row. \<not> sink_redrive_shaped row) expired)) (\<lambda>transform_changed.
     let changed = sink_changed @ transform_changed;
         missed = filter (\<lambda>row. next_work_item_id run row \<notin> set changed) expired;
         recovered = filter (\<lambda>row. next_work_item_id run row \<in> set changed) expired
     in
     tx_then (check_missed run missed)
    (tx_then (record_many (map (recovery_event run (ct_worker_id t) database_now) recovered))
    (tx_then (record_coordination_events run (stalled_events t workers database_now grace recovered))
       (tx_return (length (remdups changed)))))))))"

definition rotate_expired_leases :: "coordination_token \<Rightarrow> duration \<Rightarrow> duration \<Rightarrow> nat body" where
  "rotate_expired_leases t grace stall =
    tx_bind read_landscape_decision_time (\<lambda>discovery_now.
    tx_bind (select_tables (\<lambda>d. filter (\<lambda>w. wi_run_id w = ct_run_id t \<and> wi_status w = LEASED \<and>
        lease_expires_before discovery_now w \<and> lease_owner_not_caller (ct_worker_id t) w)
        (db_work_items d))) (\<lambda>candidates.
    if candidates = [] then tx_return 0
    else
      let owners = List.map_filter wi_lease_owner candidates in
      tx_bind read_landscape_decision_time (\<lambda>database_now.
      tx_bind (select_tables db_workers) (\<lambda>workers.
      tx_bind (select_tables (\<lambda>d. sort_key sweep_order (filter (\<lambda>w.
          wi_work_item_id w \<in> set (map wi_work_item_id candidates) \<and> lease_owner_in owners w \<and>
          rotation_filter (ct_run_id t) (ct_worker_id t) database_now grace stall workers w)
          (db_work_items d)))) (\<lambda>expired.
      if expired = [] then tx_return 0
      else rotate_selected t grace stall workers discovery_now owners database_now expired)))))"

definition recover_expired_leases ::
  "env \<Rightarrow> coordination_token \<Rightarrow> duration \<Rightarrow> duration \<Rightarrow> db \<Rightarrow> nat outcome" where
  "recover_expired_leases e t grace stall =
    fenced_write e t ''recover_expired_leases'' (rotate_expired_leases t grace stall)"

section \<open>Re-driving undecided failed work\<close>

definition requeue_event :: "ident \<Rightarrow> ident \<Rightarrow> instant \<Rightarrow> work_item \<Rightarrow> scheduler_event_record" where
  "requeue_event run caller database_now row =
    \<lparr>sr_event_type = RESUME_REQUEUE_FAILED, sr_run_id = run, sr_token_id = wi_token_id row,
     sr_work_item_id = work_item_id run (wi_token_id row) (wi_node_id row) (wi_attempt row + 1),
     sr_node_id = wi_node_id row, sr_from_status = Some FAILED, sr_to_status = READY,
     sr_from_lease_owner = None, sr_to_lease_owner = None,
     sr_from_attempt = Some (wi_attempt row), sr_to_attempt = wi_attempt row + 1,
     sr_recorded_at = database_now, sr_from_lease_expires_at = None, sr_to_lease_expires_at = None,
     sr_caller_owner = Some caller,
     sr_context = Some (JObj [(''previous_work_item_id'', JStr (wi_work_item_id row))])\<rparr>"

definition requeue_body :: "coordination_token \<Rightarrow> nat body" where
  "requeue_body t =
    tx_bind (tx_gets conn_env) (\<lambda>e.
    tx_bind (select_tables (\<lambda>d. sort_key sweep_order (filter (\<lambda>w. wi_run_id w = ct_run_id t \<and>
        undecided_failed_work_clause d w) (db_work_items d)))) (\<lambda>undecided.
    if undecided = [] then tx_return 0
    else
      tx_then (tx_assert (list_all (\<lambda>row. wi_row_payload_json row \<noteq>
          scrubbed_row_payload_json e (wi_work_item_id row)) undecided)
        (AuditIntegrityError ''row payload was purged''))
     (tx_bind (select_tables (\<lambda>d. exists_where (\<lambda>g. gl_run_id g = ct_run_id t \<and>
          gl_token_id g \<in> set (map wi_token_id undecided)) (db_group_losses d))) (\<lambda>lost.
      tx_then (tx_assert (\<not> lost) (AuditIntegrityError ''a group-loss record already names the token''))
     (tx_bind read_landscape_decision_time (\<lambda>database_now.
      tx_bind (execute_many undecided (\<lambda>row. tx_bind (select_tables (\<lambda>d. d)) (\<lambda>d.
         update_work_items (\<lambda>w. wi_run_id w = ct_run_id t \<and> wi_work_item_id w = wi_work_item_id row \<and>
             undecided_failed_work_clause d w)
           (\<lambda>w. rotated_image (work_item_id (ct_run_id t) (wi_token_id row) (wi_node_id row)
             (wi_attempt row + 1)) (wi_attempt w + 1) database_now w)))) (\<lambda>changed.
      tx_then (tx_assert (changed = length undecided) (AuditIntegrityError ''re-drive rotated other items''))
     (tx_then (record_many (map (requeue_event (ct_run_id t) (ct_worker_id t) database_now) undecided))
        (tx_return (length undecided))))))))))"

definition requeue_undecided_failed_work :: "env \<Rightarrow> coordination_token \<Rightarrow> db \<Rightarrow> nat outcome" where
  "requeue_undecided_failed_work e t =
    fenced_write e t ''requeue_undecided_failed_work'' (requeue_body t)"

section \<open>Resume coverage\<close>

record resume_coverage_refusal =
  rf_token_count :: int
  rf_first_token_ids :: "ident list"

definition RESUME_REFUSAL_TOKEN_ID_LIMIT :: nat where
  "RESUME_REFUSAL_TOKEN_ID_LIMIT = 10"

definition decided_or_abandoned :: "db \<Rightarrow> token_row \<Rightarrow> bool" where
  "decided_or_abandoned d tk \<longleftrightarrow>
     exists_where (\<lambda>out. to_run_id out = tk_run_id tk \<and> to_token_id out = tk_token_id tk \<and>
       (to_completed out \<or> to_path out = ABANDONED)) (db_outcomes d)"

definition has_item_in :: "token_work_status list \<Rightarrow> db \<Rightarrow> ident \<Rightarrow> ident \<Rightarrow> bool" where
  "has_item_in statuses d run token \<longleftrightarrow>
     exists_where (\<lambda>w. wi_run_id w = run \<and> wi_token_id w = token \<and> wi_status w \<in> set statuses)
       (db_work_items d)"

definition producer_open :: "db \<Rightarrow> token_row \<Rightarrow> bool" where
  "producer_open d tk \<longleftrightarrow>
     exists_where (\<lambda>p. tp_run_id p = tk_run_id tk \<and> tp_token_id p = tk_token_id tk \<and>
       has_item_in [READY, LEASED, BLOCKED] d (tp_run_id p) (tp_parent_token_id p)) (db_token_parents d)"

definition uncovered :: "ident \<Rightarrow> db \<Rightarrow> ident list" where
  "uncovered run d = map tk_token_id (filter (\<lambda>tk. tk_run_id tk = run \<and> \<not> decided_or_abandoned d tk \<and>
     \<not> has_item_in [READY, LEASED, BLOCKED, PENDING_SINK] d (tk_run_id tk) (tk_token_id tk) \<and>
     \<not> producer_open d tk) (db_tokens d))"

definition verify_resume_coverage_body ::
  "coordination_token \<Rightarrow> resume_coverage_refusal option body" where
  "verify_resume_coverage_body t =
    tx_bind (select_tables (uncovered (ct_run_id t))) (\<lambda>tokens.
    if tokens = [] then tx_return None
    else
      let refusal = \<lparr>rf_token_count = int (length tokens),
            rf_first_token_ids = take RESUME_REFUSAL_TOKEN_ID_LIMIT (sort tokens)\<rparr> in
      tx_bind read_landscape_decision_time (\<lambda>database_now.
      tx_then (record_coordination_event (ct_run_id t) ResumeRefused (ct_worker_id t)
        (Some (ct_leader_epoch t)) database_now
        (JObj [(''cause'', JStr ''uncovered_undecided_tokens''),
               (''token_count'', JInt (rf_token_count refusal)),
               (''first_token_ids'', JArr (map JStr (rf_first_token_ids refusal)))]))
        (tx_return (Some refusal))))"

definition verify_resume_coverage ::
  "env \<Rightarrow> coordination_token \<Rightarrow> db \<Rightarrow> resume_coverage_refusal option outcome" where
  "verify_resume_coverage e t =
    fenced_write e t ''verify_resume_coverage'' (verify_resume_coverage_body t)"

section \<open>Lease heartbeat and peer probe\<close>

definition lease_lost_event ::
  "ident \<Rightarrow> ident \<Rightarrow> ident \<Rightarrow> instant \<Rightarrow> work_item \<Rightarrow> scheduler_event_record" where
  "lease_lost_event run wid owner database_now current =
    \<lparr>sr_event_type = LEASE_LOST, sr_run_id = run, sr_token_id = wi_token_id current,
     sr_work_item_id = wid, sr_node_id = wi_node_id current, sr_from_status = Some LEASED,
     sr_to_status = wi_status current, sr_from_lease_owner = Some owner,
     sr_to_lease_owner = wi_lease_owner current, sr_from_attempt = Some (wi_attempt current),
     sr_to_attempt = wi_attempt current, sr_recorded_at = database_now,
     sr_from_lease_expires_at = None, sr_to_lease_expires_at = wi_lease_expires_at current,
     sr_caller_owner = Some owner,
     sr_context = Some (JObj [(''reason'', JStr ''heartbeat_cas_miss'')])\<rparr>"

definition recovered_lease_lost_event ::
  "ident \<Rightarrow> ident \<Rightarrow> ident \<Rightarrow> instant \<Rightarrow> scheduler_event_row \<Rightarrow> scheduler_event_record" where
  "recovered_lease_lost_event run wid owner database_now recovery =
    \<lparr>sr_event_type = LEASE_LOST, sr_run_id = run, sr_token_id = se_token_id recovery,
     sr_work_item_id = wid, sr_node_id = se_node_id recovery, sr_from_status = Some LEASED,
     sr_to_status = se_to_status recovery, sr_from_lease_owner = Some owner,
     sr_to_lease_owner = se_to_lease_owner recovery, sr_from_attempt = se_from_attempt recovery,
     sr_to_attempt = se_to_attempt recovery, sr_recorded_at = database_now,
     sr_from_lease_expires_at = se_from_lease_expires_at recovery,
     sr_to_lease_expires_at = se_to_lease_expires_at recovery, sr_caller_owner = Some owner,
     sr_context = Some (JObj
       [(''reason'', JStr ''heartbeat_cas_miss_after_recovery''),
        (''recovered_work_item_id'', JStr (se_work_item_id recovery)),
        (''recovery_event_id'', JStr (se_event_id recovery))])\<rparr>"

text \<open>The body returns None when the lease is lost: the transaction commits its LEASE_LOST
  event and the verb raises afterwards.\<close>

definition heartbeat_lease_body :: "ident \<Rightarrow> ident \<Rightarrow> ident \<Rightarrow> int \<Rightarrow> instant option body" where
  "heartbeat_lease_body run wid owner lease_seconds =
    tx_bind read_landscape_decision_time (\<lambda>database_now.
    let new_expires_at = database_now + seconds lease_seconds in
    tx_bind (update_work_items (\<lambda>w. wi_work_item_id w = wid \<and> wi_run_id w = run \<and>
        wi_status w = LEASED \<and> wi_lease_owner w = Some owner)
      (\<lambda>w. w\<lparr>wi_lease_expires_at := Some new_expires_at, wi_updated_at := database_now\<rparr>)) (\<lambda>rowcount.
    if rowcount = 1
    then tx_then (record_issued_deadline (ItemDeadline wid) new_expires_at (seconds lease_seconds))
           (tx_return (Some new_expires_at))
    else tx_bind (select_tables (item_of run wid)) (\<lambda>found.
         tx_bind (case found of
             Some current \<Rightarrow> tx_return [lease_lost_event run wid owner database_now current]
           | None \<Rightarrow> tx_bind (recovery_event_for_previous_work_item run wid) (\<lambda>recovery.
               tx_return (case recovery of
                   None \<Rightarrow> []
                 | Some ev \<Rightarrow> [recovered_lease_lost_event run wid owner database_now ev]))) (\<lambda>lost.
         tx_then (record_many lost) (tx_return None)))))"

definition heartbeat_lease ::
  "env \<Rightarrow> worker_membership_token \<Rightarrow> ident \<Rightarrow> ident \<Rightarrow> int \<Rightarrow> db \<Rightarrow> instant outcome" where
  "heartbeat_lease e m wid owner lease_seconds d =
    (if owner \<noteq> mt_worker_id m
     then (Inl (ValueError ''lease owner must match authority token''), d)
     else case fenced_member_transaction e m ''heartbeat_lease''
                 (heartbeat_lease_body (mt_run_id m) wid owner lease_seconds) d of
            (Inl err, d') \<Rightarrow> (Inl err, d')
          | (Inr None, d') \<Rightarrow> (Inl (SchedulerLeaseLostError wid owner (mt_run_id m)), d')
          | (Inr (Some expires), d') \<Rightarrow> (Inr expires, d'))"

definition peer_active_leases :: "env \<Rightarrow> ident \<Rightarrow> ident \<Rightarrow> db \<Rightarrow> error + ident list" where
  "peer_active_leases e run caller d = read_connection e
    (tx_bind read_landscape_decision_time (\<lambda>database_now.
     select_tables (\<lambda>d. sort (remdups (List.map_filter wi_lease_owner (filter (\<lambda>w. wi_run_id w = run \<and>
       wi_status w = LEASED \<and> wi_lease_owner w \<noteq> Some caller \<and>
       (case wi_lease_expires_at w of None \<Rightarrow> False | Some x \<Rightarrow> database_now < x)) (db_work_items d))))))) d"

section \<open>Every lease verb only moves history forward\<close>

lemmas image_defs = leased_image_def parked_image_def rotated_image_def

lemma resp_finish_claim [hist_verbs]: "hist.resp (finish_claim type st run row owner secs now)"
  unfolding finish_claim_def by (intro hist_intros hist_verbs)

lemma resp_claim_ready_row [hist_verbs]: "hist.resp (claim_ready_row wid run owner secs fenced strict)"
  unfolding claim_ready_row_def ready_claim_miss_def
  by (intro hist_intros hist_verbs) (auto simp: item_evolves_def image_defs)

lemma claim_ready_evolves [hist_verbs]: "evolves d (snd (claim_ready e m owner secs d))"
  unfolding claim_ready_def claim_ready_body_def
  by (simp, intro impI fenced_member_transaction_evolves hist_intros hist_verbs)

lemma fenced_write_evolves: "hist.resp body \<Longrightarrow> evolves d (snd (fenced_write e t v body d))"
  unfolding fenced_write_def by (rule fenced_leader_transaction_evolves)

lemma claim_pending_sink_evolves [hist_verbs]: "evolves d (snd (claim_pending_sink e t owner secs d))"
  unfolding claim_pending_sink_def claim_pending_sink_body_def sink_claim_miss_def
  by (simp, intro impI fenced_write_evolves hist_intros hist_verbs)
    (auto simp: item_evolves_def image_defs)

lemma verify_resume_coverage_evolves [hist_verbs]:
  "evolves d (snd (verify_resume_coverage e t d))"
  unfolding verify_resume_coverage_def verify_resume_coverage_body_def
  by (intro fenced_write_evolves hist_intros hist_verbs)

lemma heartbeat_lease_evolves [hist_verbs]: "evolves d (snd (heartbeat_lease e m wid owner secs d))"
proof -
  have "hist.resp (heartbeat_lease_body (mt_run_id m) wid owner secs)"
    unfolding heartbeat_lease_body_def
    by (intro hist_intros hist_verbs) (auto simp: item_evolves_def)
  from fenced_member_transaction_evolves [OF this, of d e m "''heartbeat_lease''"]
  show ?thesis by (auto simp: heartbeat_lease_def split: prod.splits sum.splits option.splits)
qed

end
