(* ===== verification/Lease_Recovery.thy ===== *)
theory Lease_Recovery
  imports Scheduler_Leases
begin

text \<open>
  What the recovery sweep and the re-drive of failed work leave behind: the exact
  table and ledger after \<open>recover_expired_leases\<close> and \<open>requeue_undecided_failed_work\<close>.
\<close>

section \<open>The statements of the sweep\<close>

lemma record_coordination_events_inv:
  "record_coordination_events run evs c = Inr r \<Longrightarrow>
   \<exists>new. r = ((), c\<lparr>tables := (tables c)\<lparr>db_coord_events := db_coord_events (tables c) @ new\<rparr>\<rparr>) \<and>
         length new = length evs"
proof (induction evs arbitrary: c)
  case Nil
  then show ?case by (simp add: record_coordination_events_def tx_inv)
next
  case (Cons ev evs)
  then obtain row where "record_coordination_events run evs (c\<lparr>tables := (tables c)\<lparr>db_coord_events :=
      db_coord_events (tables c) @ [row]\<rparr>\<rparr>) = Inr r"
    by (auto simp: record_coordination_events_def record_coordination_event_def tx_inv split: prod.splits)
  from Cons.IH [OF this] obtain new where
    "r = ((), c\<lparr>tables := (tables c)\<lparr>db_coord_events := db_coord_events (tables c) @ row # new\<rparr>\<rparr>)"
    "length new = length evs" by auto
  then show ?case by (intro exI [of _ "row # new"]) simp
qed

lemma check_missed_inv: "check_missed run missed c = Inr r \<Longrightarrow> r = ((), c)"
proof -
  have "tx_for missed (\<lambda>row. case item_of run (wi_work_item_id row) d of
        None \<Rightarrow> tx_return ()
      | Some current \<Rightarrow> tx_assert (P row current) err) c = Inr r \<Longrightarrow> r = ((), c)" for P err d
    by (induction missed) (auto simp: tx_inv split: option.splits)
  then show "check_missed run missed c = Inr r \<Longrightarrow> r = ((), c)"
    unfolding check_missed_def by (auto simp: tx_inv)
qed

lemma update_returning_inv [tx_inv]:
  "update_returning P f c = Inr r \<longleftrightarrow>
   token_work_items_ok (update_where P f (db_work_items (tables c))) \<and>
   r = (map (\<lambda>w. wi_work_item_id (f w)) (filter P (db_work_items (tables c))),
        c\<lparr>tables := (tables c)\<lparr>db_work_items := update_where P f (db_work_items (tables c))\<rparr>\<rparr>)"
  by (auto simp: update_returning_def tx_inv)

lemma shaped_images [simp]:
  "sink_redrive_shaped (parked_image now w) = sink_redrive_shaped w"
  "sink_redrive_shaped (rotated_image i a now w) = sink_redrive_shaped w"
  by (simp_all add: sink_redrive_shaped_def parked_image_def rotated_image_def)

text \<open>The transform rows of a sweep: each takes its fresh identity, and the identities read back
  are exactly theirs.\<close>

lemma rotate_transform_items_inv:
  assumes body: "rotate_transform_items run rot now rows c = Inr (present, c')"
    and ok: "token_work_items_ok (db_work_items (tables c))"
    and sub: "set rows \<subseteq> set (db_work_items (tables c))" and dist: "distinct rows"
    and rows: "\<And>w. w \<in> set rows \<Longrightarrow>
      rot w \<and> \<not> sink_redrive_shaped w \<and> wi_status w = LEASED \<and> wi_run_id w = run"
  defines "f \<equiv> \<lambda>w. rotated_image (next_work_item_id run w) (next_attempt w) now w"
  defines "ws \<equiv> map (\<lambda>w. if w \<in> set rows then f w else w) (db_work_items (tables c))"
  shows "c' = c\<lparr>tables := (tables c)\<lparr>db_work_items := ws\<rparr>\<rparr> \<and> token_work_items_ok ws \<and>
    set present = next_work_item_id run ` set rows \<and> distinct present \<and> length present = length rows"
proof (cases "rows = []")
  case True
  then show ?thesis using body ok by (simp add: rotate_transform_items_def ws_def tx_inv)
next
  case False
  with body obtain n where
    exec: "execute_many rows (\<lambda>row. update_work_items
            (\<lambda>w. rot w \<and> wi_work_item_id w = wi_work_item_id row \<and> \<not> sink_redrive_shaped w)
            (rotated_image (next_work_item_id run row) (next_attempt row) now)) c = Inr (n, c')"
    and present: "present = map wi_work_item_id (filter (\<lambda>w. wi_run_id w = run \<and>
            wi_work_item_id w \<in> set (map (next_work_item_id run) rows)) (db_work_items (tables c')))"
    and n: "length (remdups present) = n"
    by (auto simp: rotate_transform_items_def tx_inv)
  have fresh: "rotated_image (next_work_item_id run r) (next_attempt r) now r \<notin> set rows" for r
    using rows [of "rotated_image (next_work_item_id run r) (next_attempt r) now r"]
    by (auto simp: rotated_image_def)
  have step: "c' = c\<lparr>tables := (tables c)\<lparr>db_work_items := ws\<rparr>\<rparr> \<and> n = length rows \<and> token_work_items_ok ws"
    unfolding ws_def f_def
    by (rule execute_many_items [where f = "\<lambda>r. rotated_image (next_work_item_id run r) (next_attempt r) now"
        and P = "\<lambda>r w. rot w \<and> wi_work_item_id w = wi_work_item_id r \<and> \<not> sink_redrive_shaped w",
        OF exec ok sub dist]) (use rows fresh in simp_all)
  have dp: "distinct present"
    using step unfolding present token_work_items_ok_def keyed_def by (simp add: distinct_map_filter)
  have "f r \<in> set ws" "wi_work_item_id (f r) = next_work_item_id run r" "wi_run_id (f r) = run"
    if "r \<in> set rows" for r
    using that sub rows [OF that] by (auto simp: ws_def f_def rotated_image_def)
  then have "next_work_item_id run ` set rows \<subseteq> set present"
    unfolding present using step by force
  moreover have "set present \<subseteq> next_work_item_id run ` set rows"
    unfolding present by auto
  ultimately show ?thesis using step dp n by (simp add: distinct_remdups_id)
qed

section \<open>The sweep as a whole\<close>

text \<open>The rows a sweep takes: expired at both readings of the clock, not the caller's own, and
  either abandoned by a dead owner or stalled beyond the budget.\<close>

definition swept ::
  "coordination_token \<Rightarrow> duration \<Rightarrow> duration \<Rightarrow> worker_row list \<Rightarrow> instant \<Rightarrow> instant \<Rightarrow> work_item \<Rightarrow> bool" where
  "swept t grace stall workers discovery_now database_now w \<longleftrightarrow>
     wi_run_id w = ct_run_id t \<and> wi_status w = LEASED \<and> wi_lease_owner w \<noteq> Some (ct_worker_id t) \<and>
     (case wi_lease_expires_at w of
        None \<Rightarrow> False
      | Some x \<Rightarrow> x < discovery_now \<and> x < database_now \<and>
          (x < database_now - stall \<or>
           \<not> (\<exists>k \<in> set workers. wi_lease_owner w = Some (wk_worker_id k) \<and> wk_status k = Active \<and>
               database_now \<le> wk_heartbeat_expires_at k + grace)))"

definition recovered_image :: "ident \<Rightarrow> instant \<Rightarrow> work_item \<Rightarrow> work_item" where
  "recovered_image run database_now w =
    (if sink_redrive_shaped w
     then w\<lparr>wi_status := PENDING_SINK, wi_lease_owner := None, wi_lease_expires_at := None,
            wi_updated_at := database_now\<rparr>
     else w\<lparr>wi_work_item_id := work_item_id run (wi_token_id w) (wi_node_id w) (wi_attempt w + 1),
            wi_attempt := wi_attempt w + 1, wi_status := READY, wi_lease_owner := None,
            wi_lease_expires_at := None, wi_updated_at := database_now\<rparr>)"

lemma recovered_image_iff:
  "recovered_image run database_now w =
    (if sink_redrive_shaped w then parked_image database_now w
     else rotated_image (next_work_item_id run w) (next_attempt w) database_now w)"
  by (simp add: recovered_image_def parked_image_def rotated_image_def next_work_item_id_def
      next_attempt_def)

lemma swept_iff:
  "swept t g st ws t1 t2 w \<longleftrightarrow>
     rotation_filter (ct_run_id t) (ct_worker_id t) t2 g st ws w \<and> lease_expires_before t1 w"
  by (auto simp: swept_def rotation_filter_def lease_expires_before_def lease_owner_not_caller_def
      owner_registry_dead_def exists_where_iff algebra_simps split: option.splits)

lemma swept_leased: "swept t g st ws t1 t2 w \<Longrightarrow> wi_status w = LEASED \<and> wi_run_id w = ct_run_id t"
  by (simp add: swept_iff rotation_filter_def)

lemma rotate_tables:
  fixes t g st ws t1 t2 c
  defines "S \<equiv> swept t g st ws t1 t2" and "items \<equiv> db_work_items (tables c)"
  defines "expired \<equiv> sort_key sweep_order (filter S items)"
  defines "rot \<equiv> rotation_filter (ct_run_id t) (ct_worker_id t) t2 g st ws"
  assumes ok: "token_work_items_ok items"
    and PS: "\<forall>w \<in> set items. (rot w \<and> lease_expires_before t1 w \<and> lease_owner_in owners w \<and>
        sink_redrive_shaped w \<and> pending_sink_bundle_clause w) = (S w \<and> sink_redrive_shaped w)"
    and sink: "rotate_sink_items rot t1 owners t2 ids c = Inr (sinks, c1)"
    and tr: "rotate_transform_items (ct_run_id t) rot t2
        (filter (\<lambda>row. \<not> sink_redrive_shaped row) expired) c1 = Inr (present, c2)"
  shows "c2 = c\<lparr>tables := (tables c)\<lparr>db_work_items :=
           map (\<lambda>w. if S w then recovered_image (ct_run_id t) t2 w else w) items\<rparr>\<rparr>"
    and "set (sinks @ present) = next_work_item_id (ct_run_id t) ` set expired"
    and "length (remdups (sinks @ present)) = length expired"
proof -
  let ?run = "ct_run_id t"
  let ?rows = "filter (\<lambda>row. \<not> sink_redrive_shaped row) expired"
  let ?T = "\<lambda>w. S w \<and> sink_redrive_shaped w"
  let ?f = "\<lambda>w. rotated_image (next_work_item_id ?run w) (next_attempt w) t2 w"
  let ?ws1 = "update_where ?T (parked_image t2) items"
  let ?ws2 = "map (\<lambda>w. if w \<in> set ?rows then ?f w else w) ?ws1"
  have set_expired: "set expired = {w \<in> set items. S w}" by (simp add: expired_def)
  have keyed: "keyed wi_work_item_id items" using ok by (simp add: token_work_items_ok_def)
  then have dist: "distinct ?rows" by (simp add: expired_def keyed_def distinct_map)
  have "update_where (\<lambda>w. rot w \<and> lease_expires_before t1 w \<and> lease_owner_in owners w \<and>
        sink_redrive_shaped w \<and> pending_sink_bundle_clause w) (parked_image t2) items = ?ws1"
    by (rule update_where_cong) (use PS in auto)
  moreover have "filter (\<lambda>w. rot w \<and> lease_expires_before t1 w \<and> lease_owner_in owners w \<and>
        sink_redrive_shaped w \<and> pending_sink_bundle_clause w) items = filter ?T items"
    by (rule filter_cong) (use PS in auto)
  ultimately have c1: "c1 = c\<lparr>tables := (tables c)\<lparr>db_work_items := ?ws1\<rparr>\<rparr>" "token_work_items_ok ?ws1"
    "sinks = map wi_work_item_id (filter ?T items)"
    using sink by (simp_all add: rotate_sink_items_def tx_inv items_def parked_image_def)
  have sub: "set ?rows \<subseteq> set (db_work_items (tables c1))"
    unfolding c1(1) using set_expired by (auto simp: set_update_where image_iff)
  have rowsP: "rot w \<and> \<not> sink_redrive_shaped w \<and> wi_status w = LEASED \<and> wi_run_id w = ?run"
    if "w \<in> set ?rows" for w
    using that unfolding set_filter set_expired S_def swept_iff rot_def rotation_filter_def by simp
  have ws1: "db_work_items (tables c1) = ?ws1" by (simp add: c1(1))
  have ok1: "token_work_items_ok (db_work_items (tables c1))" using c1(2) ws1 by simp
  have rt: "c2 = c1\<lparr>tables := (tables c1)\<lparr>db_work_items := ?ws2\<rparr>\<rparr>" "token_work_items_ok ?ws2"
    "set present = next_work_item_id ?run ` set ?rows" "distinct present" "length present = length ?rows"
    using rotate_transform_items_inv [OF tr ok1 sub dist rowsP] unfolding ws1 by blast+
  have ws2: "?ws2 = map (\<lambda>w. if S w then recovered_image ?run t2 w else w) items"
    unfolding update_where_def map_map comp_def
    by (rule map_cong) (auto simp: set_expired recovered_image_iff)
  show "c2 = c\<lparr>tables := (tables c)\<lparr>db_work_items :=
           map (\<lambda>w. if S w then recovered_image ?run t2 w else w) items\<rparr>\<rparr>"
    unfolding rt(1) c1(1) ws2 by simp
  have nid: "next_work_item_id ?run w = wi_work_item_id w" if "sink_redrive_shaped w" for w
    using that by (simp add: next_work_item_id_def)
  have sinks: "set sinks = next_work_item_id ?run ` {w \<in> set expired. sink_redrive_shaped w}"
    unfolding c1(3) set_expired using nid by (auto simp: image_iff) 
  then show "set (sinks @ present) = next_work_item_id ?run ` set expired"
    unfolding set_append rt(3) by auto
  have in2: "recovered_image ?run t2 w \<in> set ?ws2" if "w \<in> set expired" for w
    using that unfolding ws2 set_expired by auto
  have k2: "keyed wi_work_item_id ?ws2" using rt(2) by (simp add: token_work_items_ok_def)
  have "wi_work_item_id w \<noteq> next_work_item_id ?run r"
    if w: "w \<in> set expired" "sink_redrive_shaped w" and r: "r \<in> set expired" "\<not> sink_redrive_shaped r" for w r
  proof
    assume "wi_work_item_id w = next_work_item_id ?run r"
    then have "wi_work_item_id (recovered_image ?run t2 w) = wi_work_item_id (recovered_image ?run t2 r)"
      using w r by (simp add: recovered_image_iff parked_image_def rotated_image_def)
    from keyed_unique [OF k2 in2 [OF w(1)] in2 [OF r(1)] this]
    have "sink_redrive_shaped (recovered_image ?run t2 w) = sink_redrive_shaped (recovered_image ?run t2 r)"
      by simp
    then show False using w r by (simp add: recovered_image_iff)
  qed
  then have "set sinks \<inter> set present = {}"
    unfolding rt(3) c1(3) by (auto simp: set_expired)
  moreover have "distinct sinks"
    unfolding c1(3) using keyed by (simp add: keyed_def distinct_map_filter)
  ultimately have "remdups (sinks @ present) = sinks @ present"
    using rt(4) by (simp add: distinct_remdups_id)
  moreover have "length sinks = length (filter sink_redrive_shaped expired)"
    unfolding c1(3) expired_def filter_sort by (simp add: conj_commute)
  moreover have "length expired = length (filter sink_redrive_shaped expired) + length ?rows"
    by (simp add: sum_length_filter_compl)
  ultimately show "length (remdups (sinks @ present)) = length expired"
    using rt(5) by (simp only: length_append)
qed

lemma rotate_selected_inv:
  fixes t g st ws t1 t2 c
  defines "S \<equiv> swept t g st ws t1 t2" and "items \<equiv> db_work_items (tables c)"
  defines "expired \<equiv> sort_key sweep_order (filter S items)"
  assumes body: "rotate_selected t g st ws t1 owners t2 expired c = Inr (n, c')"
    and ok: "token_work_items_ok items"
    and own: "\<And>w. w \<in> set items \<Longrightarrow> S w \<Longrightarrow> lease_owner_in owners w"
  shows "(\<exists>evs. tables c' = (tables c)\<lparr>
      db_work_items := map (\<lambda>w. if S w then recovered_image (ct_run_id t) t2 w else w) items,
      db_scheduler_events := db_scheduler_events (tables c) @
        map (\<lambda>w. event_values (conn_env c) (recovery_event (ct_run_id t) (ct_worker_id t) t2 w)) expired,
      db_coord_events := db_coord_events (tables c) @ evs\<rparr>) \<and>
    n = length expired \<and> (\<forall>w \<in> set expired. sink_redrive_shaped w \<longrightarrow> pending_sink_bundle_clause w)"
proof -
  let ?run = "ct_run_id t"
  let ?rot = "rotation_filter ?run (ct_worker_id t) t2 g st ws"
  let ?rows = "filter (\<lambda>row. \<not> sink_redrive_shaped row) expired"
  let ?rec = "\<lambda>changed. filter (\<lambda>row. next_work_item_id ?run row \<in> set changed) expired"
  from body have bundles: "\<forall>w \<in> set expired. sink_redrive_shaped w \<longrightarrow> pending_sink_bundle_clause w"
    unfolding rotate_selected_def Let_def by (auto simp: tx_inv tx_for_assert_inv list_all_iff)
  have PS: "\<forall>w \<in> set items. (?rot w \<and> lease_expires_before t1 w \<and> lease_owner_in owners w \<and>
      sink_redrive_shaped w \<and> pending_sink_bundle_clause w) = (S w \<and> sink_redrive_shaped w)"
    using own bundles by (auto simp: S_def swept_iff expired_def)
  from body obtain sinks present c1 c2 c3 c4 c5 where
    sink: "rotate_sink_items ?rot t1 owners t2 (map wi_work_item_id (filter sink_redrive_shaped expired)) c
      = Inr (sinks, c1)" and
    tr: "rotate_transform_items ?run ?rot t2 ?rows c1 = Inr (present, c2)" and
    miss: "check_missed ?run (filter (\<lambda>row. next_work_item_id ?run row \<notin> set (sinks @ present)) expired) c2
      = Inr ((), c3)" and
    ev: "record_many (map (recovery_event ?run (ct_worker_id t) t2) (?rec (sinks @ present))) c3 = Inr ((), c4)" and
    co: "record_coordination_events ?run (stalled_events t ws t2 g (?rec (sinks @ present))) c4 = Inr ((), c5)" and
    n: "n = length (remdups (sinks @ present))" "c' = c5"
    unfolding rotate_selected_def Let_def tx_then_inv tx_bind_inv tx_for_assert_inv tx_return_inv by auto
  note tabs = rotate_tables [OF ok [unfolded items_def] PS [unfolded S_def items_def] sink
      tr [unfolded expired_def S_def items_def], folded S_def items_def, folded expired_def]
  have all: "?rec (sinks @ present) = expired"
    using tabs(2) by (auto simp: filter_id_conv)
  have c3: "c3 = c2" using check_missed_inv [OF miss] by simp
  have c4: "c4 = c2\<lparr>tables := (tables c2)\<lparr>db_scheduler_events := db_scheduler_events (tables c2) @
      map (event_values (conn_env c2)) (map (recovery_event ?run (ct_worker_id t) t2) expired)\<rparr>\<rparr>"
    using record_many_inv [OF ev] unfolding c3 all by simp
  obtain evs where "c5 = c4\<lparr>tables := (tables c4)\<lparr>db_coord_events := db_coord_events (tables c4) @ evs\<rparr>\<rparr>"
    using record_coordination_events_inv [OF co] by auto
  then have "tables c' = (tables c)\<lparr>
      db_work_items := map (\<lambda>w. if S w then recovered_image ?run t2 w else w) items,
      db_scheduler_events := db_scheduler_events (tables c) @
        map (\<lambda>w. event_values (conn_env c) (recovery_event ?run (ct_worker_id t) t2 w)) expired,
      db_coord_events := db_coord_events (tables c) @ evs\<rparr>"
    unfolding n(2) c4 tabs(1) by (simp add: comp_def)
  then show ?thesis using bundles n(1) tabs(3) by blast
qed

text \<open>The sweep reads the clock twice: once to bound its candidates and once to decide.\<close>

definition sweep_time :: "conn \<Rightarrow> nat \<Rightarrow> instant" where
  "sweep_time c k = decision_instant (env_dialect (conn_env c)) (env_clock (conn_env c) (conn_clock_reads c + k))"

definition sweep_candidates :: "coordination_token \<Rightarrow> conn \<Rightarrow> work_item list" where
  "sweep_candidates t c = filter (\<lambda>w. wi_run_id w = ct_run_id t \<and> wi_status w = LEASED \<and>
     lease_expires_before (sweep_time c 0) w \<and> lease_owner_not_caller (ct_worker_id t) w)
     (db_work_items (tables c))"

abbreviation sweep_owners :: "coordination_token \<Rightarrow> conn \<Rightarrow> ident list" where
  "sweep_owners t c \<equiv> List.map_filter wi_lease_owner (sweep_candidates t c)"

abbreviation sweep_selects :: "coordination_token \<Rightarrow> duration \<Rightarrow> duration \<Rightarrow> conn \<Rightarrow> work_item \<Rightarrow> bool" where
  "sweep_selects t g st c \<equiv> swept t g st (db_workers (tables c)) (sweep_time c 0) (sweep_time c 1)"

lemma rotate_expired_unfold:
  "rotate_expired_leases t g st c =
    (let expired = filter (\<lambda>w. wi_work_item_id w \<in> set (map wi_work_item_id (sweep_candidates t c)) \<and>
           lease_owner_in (sweep_owners t c) w \<and>
           rotation_filter (ct_run_id t) (ct_worker_id t) (sweep_time c 1) g st (db_workers (tables c)) w)
           (db_work_items (tables c))
     in if sweep_candidates t c = [] then Inr (0, c\<lparr>conn_clock_reads := Suc (conn_clock_reads c)\<rparr>)
        else if expired = [] then Inr (0, c\<lparr>conn_clock_reads := Suc (Suc (conn_clock_reads c))\<rparr>)
        else rotate_selected t g st (db_workers (tables c)) (sweep_time c 0) (sweep_owners t c) (sweep_time c 1)
               (sort_key sweep_order expired) (c\<lparr>conn_clock_reads := Suc (Suc (conn_clock_reads c))\<rparr>))"
  by (simp add: rotate_expired_leases_def sweep_candidates_def sweep_time_def Let_def tx_bind_def
      tx_return_def select_tables_def tx_gets_def read_landscape_decision_time_def)

lemma sweep_candidates_select:
  "w \<in> set (db_work_items (tables c)) \<Longrightarrow> sweep_selects t g st c w \<Longrightarrow>
   w \<in> set (sweep_candidates t c) \<and> lease_owner_in (sweep_owners t c) w"
  by (force simp: sweep_candidates_def swept_iff rotation_filter_def lease_owner_in_def
      List.map_filter_def split: option.splits)

lemma sweep_expired_eq:
  assumes "token_work_items_ok (db_work_items (tables c))"
  shows "filter (\<lambda>w. wi_work_item_id w \<in> set (map wi_work_item_id (sweep_candidates t c)) \<and>
           lease_owner_in (sweep_owners t c) w \<and>
           rotation_filter (ct_run_id t) (ct_worker_id t) (sweep_time c 1) g st (db_workers (tables c)) w)
           (db_work_items (tables c))
         = filter (sweep_selects t g st c) (db_work_items (tables c))"
proof (rule filter_cong [OF refl])
  fix w assume w: "w \<in> set (db_work_items (tables c))"
  have keyed: "keyed wi_work_item_id (db_work_items (tables c))"
    using assms by (simp add: token_work_items_ok_def)
  have "wi_work_item_id w \<in> set (map wi_work_item_id (sweep_candidates t c)) \<longleftrightarrow> w \<in> set (sweep_candidates t c)"
    using keyed_unique [OF keyed w] by (auto simp: sweep_candidates_def)
  then show "(wi_work_item_id w \<in> set (map wi_work_item_id (sweep_candidates t c)) \<and>
      lease_owner_in (sweep_owners t c) w \<and>
      rotation_filter (ct_run_id t) (ct_worker_id t) (sweep_time c 1) g st (db_workers (tables c)) w)
      = sweep_selects t g st c w"
    using sweep_candidates_select [OF w] by (auto simp: swept_iff sweep_candidates_def)
qed

lemma rotate_expired_inv:
  fixes t g st c
  defines "S \<equiv> sweep_selects t g st c" and "items \<equiv> db_work_items (tables c)"
  assumes body: "rotate_expired_leases t g st c = Inr (n, c')" and ok: "token_work_items_ok items"
  shows "(\<exists>evs. tables c' = (tables c)\<lparr>
      db_work_items := map (\<lambda>w. if S w then recovered_image (ct_run_id t) (sweep_time c 1) w else w) items,
      db_scheduler_events := db_scheduler_events (tables c) @
        map (\<lambda>w. event_values (conn_env c) (recovery_event (ct_run_id t) (ct_worker_id t) (sweep_time c 1) w))
          (sort_key sweep_order (filter S items)),
      db_coord_events := db_coord_events (tables c) @ evs\<rparr>) \<and>
    n = length (filter S items) \<and>
    (\<forall>w \<in> set (filter S items). sink_redrive_shaped w \<longrightarrow> pending_sink_bundle_clause w)"
proof -
  note eq = sweep_expired_eq [OF ok [unfolded items_def], of t g st, folded S_def items_def]
  note body' = body [unfolded rotate_expired_unfold Let_def, folded items_def, unfolded eq]
  show ?thesis
  proof (cases "filter S items = []")
    case True
    with body' have "tables c' = tables c \<and> n = 0" by (auto split: if_splits)
    moreover have "map (\<lambda>w. if S w then recovered_image (ct_run_id t) (sweep_time c 1) w else w) items = items"
      using True by (simp add: filter_empty_conv map_idI)
    ultimately show ?thesis using True by (auto simp: items_def intro!: exI [of _ "[]"])
  next
    case False
    let ?c = "c\<lparr>conn_clock_reads := Suc (Suc (conn_clock_reads c))\<rparr>"
    from False obtain w where "w \<in> set items" "S w" unfolding filter_empty_conv by blast
    then have "sweep_candidates t c \<noteq> []"
      using sweep_candidates_select [of w c t g st] unfolding S_def items_def by force
    with body' False have sel: "rotate_selected t g st (db_workers (tables c)) (sweep_time c 0)
        (sweep_owners t c) (sweep_time c 1) (sort_key sweep_order (filter S items)) ?c = Inr (n, c')" by simp
    have tab: "tables ?c = tables c" "conn_env ?c = conn_env c" by simp_all
    show ?thesis
      using rotate_selected_inv [of t g st "db_workers (tables c)" "sweep_time c 0" "sweep_owners t c"
          "sweep_time c 1" ?c n c', unfolded tab, folded S_def items_def, OF sel ok]
        sweep_candidates_select [of _ c t g st, folded S_def items_def] by simp
  qed
qed

section \<open>The sweep moves history forward\<close>

lemma rows_evolve_map:
  "(\<And>r. r \<in> set rs \<Longrightarrow> Q r (f r)) \<Longrightarrow> rows_evolve Q rs (map f rs)"
  by (auto simp: rows_evolve_def)

text \<open>A body that rewrites work items one by one, appends to the two ledgers and keeps the
  constraints moves history forward.\<close>

lemma evolves_items:
  assumes "d' = d\<lparr>db_work_items := map f (db_work_items d),
      db_scheduler_events := db_scheduler_events d @ es, db_coord_events := db_coord_events d @ cs\<rparr>"
    and "\<And>w. w \<in> set (db_work_items d) \<Longrightarrow> item_evolves w (f w)" and "keeps_ok d d'"
  shows "evolves d d'"
proof -
  have "rows_evolve item_evolves (db_work_items d) (map f (db_work_items d))"
    by (rule rows_evolve_map) (rule assms(2))
  then show ?thesis
    using assms(3) unfolding evolves_def keeps_ok_def by (simp add: assms(1) rows_evolve_refl)
qed

lemma okp_events:
  "okp.resp (record_coordination_events run evs)" "okp.resp (record_many rs)"
  unfolding record_coordination_events_def record_coordination_event_def record_many_def record_event_def
  by (intro okp_intros)+

lemma okp_rotate: "okp.resp (rotate_expired_leases t g st)"
  unfolding rotate_expired_leases_def rotate_selected_def rotate_sink_items_def update_returning_def
    rotate_transform_items_def check_missed_def
  by (intro okp_intros okp_events)

lemma recovered_image_evolves: "swept t g st ws t1 t2 w \<Longrightarrow> item_evolves w (recovered_image run t2 w)"
  by (auto simp: item_evolves_def recovered_image_iff parked_image_def rotated_image_def next_attempt_def
      dest: swept_leased)

lemma recover_expired_leases_evolves: "db_ok d \<Longrightarrow> evolves d (snd (recover_expired_leases e t g st d))"
proof -
  have "okhist.resp (rotate_expired_leases t g st)"
  proof (rule tx_relI)
    fix c n c' assume body: "rotate_expired_leases t g st c = Inr (n, c')"
    have "evolves (tables c) (tables c')" if ok: "db_ok (tables c)"
    proof -
      from ok have "token_work_items_ok (db_work_items (tables c))" by (simp add: db_ok_def)
      from rotate_expired_inv [OF body this, THEN conjunct1] obtain evs where
        "tables c' = (tables c)\<lparr>
          db_work_items := map (\<lambda>w. if sweep_selects t g st c w
             then recovered_image (ct_run_id t) (sweep_time c 1) w else w) (db_work_items (tables c)),
          db_scheduler_events := db_scheduler_events (tables c) @
            map (\<lambda>w. event_values (conn_env c) (recovery_event (ct_run_id t) (ct_worker_id t) (sweep_time c 1) w))
              (sort_key sweep_order (filter (sweep_selects t g st c) (db_work_items (tables c)))),
          db_coord_events := db_coord_events (tables c) @ evs\<rparr>" ..
      then show ?thesis
        by (rule evolves_items) (simp_all add: recovered_image_evolves tx_relD [OF okp_rotate body])
    qed
    then show "ok_evolves (tables c) (tables c')" by (simp add: ok_evolves_def)
  qed
  from okhist.fenced_leader_rel [OF this, of d e t DEFAULT_RUN_LIVENESS_WINDOW "''recover_expired_leases''"]
  show "db_ok d \<Longrightarrow> evolves d (snd (recover_expired_leases e t g st d))"
    by (simp add: recover_expired_leases_def fenced_write_def ok_evolves_def)
qed

section \<open>The re-drive of undecided failed work\<close>

definition requeued_image :: "ident \<Rightarrow> instant \<Rightarrow> work_item \<Rightarrow> work_item" where
  "requeued_image run database_now w =
    w\<lparr>wi_work_item_id := work_item_id run (wi_token_id w) (wi_node_id w) (wi_attempt w + 1),
      wi_attempt := wi_attempt w + 1, wi_status := READY, wi_lease_owner := None,
      wi_lease_expires_at := None, wi_updated_at := database_now\<rparr>"

lemma requeued_image_iff:
  "requeued_image run database_now w =
    rotated_image (work_item_id run (wi_token_id w) (wi_node_id w) (wi_attempt w + 1)) (wi_attempt w + 1)
      database_now w"
  by (simp add: requeued_image_def rotated_image_def)

abbreviation requeue_selects :: "coordination_token \<Rightarrow> conn \<Rightarrow> work_item \<Rightarrow> bool" where
  "requeue_selects t c \<equiv> (\<lambda>w. wi_run_id w = ct_run_id t \<and> undecided_failed_work_clause (tables c) w)"

lemma undecided_clause_items [simp]:
  "undecided_failed_work_clause (d\<lparr>db_work_items := ws\<rparr>) = undecided_failed_work_clause d"
  by (rule ext) (simp add: undecided_failed_work_clause_def work_item_token_decided_clause_def decided_def)

lemma requeue_inv:
  fixes t c
  defines "U \<equiv> requeue_selects t c" and "items \<equiv> db_work_items (tables c)"
  assumes body: "requeue_body t c = Inr (n, c')" and ok: "token_work_items_ok items"
  shows "tables c' = (tables c)\<lparr>
      db_work_items := map (\<lambda>w. if U w then requeued_image (ct_run_id t) (sweep_time c 0) w else w) items,
      db_scheduler_events := db_scheduler_events (tables c) @
        map (\<lambda>w. event_values (conn_env c) (requeue_event (ct_run_id t) (ct_worker_id t) (sweep_time c 0) w))
          (sort_key sweep_order (filter U items))\<rparr> \<and> n = length (filter U items) \<and>
    (\<forall>w \<in> set (filter U items). wi_row_payload_json w \<noteq> scrubbed_row_payload_json (conn_env c) (wi_work_item_id w) \<and>
       \<not> exists_where (\<lambda>g. gl_run_id g = ct_run_id t \<and> gl_token_id g = wi_token_id w) (db_group_losses (tables c)))"
proof (cases "filter U items = []")
  case True
  then have "c' = c \<and> n = 0" using body
    unfolding requeue_body_def U_def items_def by (auto simp: tx_inv split: if_splits)
  moreover have "map (\<lambda>w. if U w then requeued_image (ct_run_id t) (sweep_time c 0) w else w) items = items"
    using True by (simp add: filter_empty_conv map_idI)
  ultimately show ?thesis using True by (simp add: items_def)
next
  case False
  let ?run = "ct_run_id t"
  let ?now = "sweep_time c 0"
  let ?rows = "sort_key sweep_order (filter U items)"
  let ?c1 = "c\<lparr>conn_clock_reads := Suc (conn_clock_reads c)\<rparr>"
  let ?nid = "\<lambda>row. work_item_id ?run (wi_token_id row) (wi_node_id row) (wi_attempt row + 1)"
  have now: "decision_instant (env_dialect (conn_env c)) (env_clock (conn_env c) (conn_clock_reads c)) = ?now"
    by (simp add: sweep_time_def)
  from False body obtain c2 c3 where
    pur: "list_all (\<lambda>row. wi_row_payload_json row \<noteq> scrubbed_row_payload_json (conn_env c) (wi_work_item_id row)) ?rows"
    and lost: "\<not> exists_where (\<lambda>g. gl_run_id g = ?run \<and> gl_token_id g \<in> set (map wi_token_id ?rows))
        (db_group_losses (tables c))"
    and exec: "execute_many ?rows (\<lambda>row. tx_bind (select_tables (\<lambda>d. d)) (\<lambda>d.
         update_work_items (\<lambda>w. wi_run_id w = ?run \<and> wi_work_item_id w = wi_work_item_id row \<and>
             undecided_failed_work_clause d w) (\<lambda>w. rotated_image (?nid row) (wi_attempt w + 1) ?now w))) ?c1
         = Inr (length ?rows, c2)"
    and rec: "record_many (map (requeue_event ?run (ct_worker_id t) ?now) ?rows) c2 = Inr ((), c3)"
    and res: "n = length ?rows" "c' = c3"
    unfolding requeue_body_def U_def items_def
    by (auto simp: tx_inv now list_all_iff exists_where_iff)
  have rows: "set ?rows = {w \<in> set items. U w}" by simp
  have c2: "c2 = ?c1\<lparr>tables := (tables ?c1)\<lparr>db_work_items :=
      map (\<lambda>w. if w \<in> set ?rows then rotated_image (?nid w) (wi_attempt w + 1) ?now w else w)
        (db_work_items (tables ?c1))\<rparr>\<rparr>"
  proof (rule execute_many_items [where f = "\<lambda>row w. rotated_image (?nid row) (wi_attempt w + 1) ?now w"
        and P = "\<lambda>row w. wi_run_id w = ?run \<and> wi_work_item_id w = wi_work_item_id row \<and>
             undecided_failed_work_clause (tables c) w", OF exec, THEN conjunct1])
    show "token_work_items_ok (db_work_items (tables ?c1))" using ok by (simp add: items_def)
    show "set ?rows \<subseteq> set (db_work_items (tables ?c1))" unfolding rows by (auto simp: items_def)
    show "distinct ?rows" using ok by (simp add: token_work_items_ok_def keyed_def distinct_map)
    show "wi_run_id r = ?run \<and> wi_work_item_id r = wi_work_item_id r \<and> undecided_failed_work_clause (tables c) r"
      if "r \<in> set ?rows" for r using that unfolding rows U_def by simp
    show "rotated_image (?nid r) (wi_attempt r + 1) ?now r \<notin> set ?rows" if "r \<in> set ?rows" for r
      unfolding rows U_def by (simp add: rotated_image_def undecided_failed_work_clause_def)
  qed (simp_all add: tx_bind_def select_tables_def tx_gets_def)
  have img: "map (\<lambda>w. if w \<in> set ?rows then rotated_image (?nid w) (wi_attempt w + 1) ?now w else w) items
      = map (\<lambda>w. if U w then requeued_image ?run ?now w else w) items"
    unfolding rows requeued_image_iff by (rule map_cong) simp_all
  have c2': "c2 = ?c1\<lparr>tables := (tables c)\<lparr>db_work_items :=
      map (\<lambda>w. if U w then requeued_image ?run ?now w else w) items\<rparr>\<rparr>"
    unfolding c2 img [symmetric] by (simp add: items_def)
  have "c3 = c2\<lparr>tables := (tables c2)\<lparr>db_scheduler_events := db_scheduler_events (tables c2) @
      map (event_values (conn_env c2)) (map (requeue_event ?run (ct_worker_id t) ?now) ?rows)\<rparr>\<rparr>"
    using record_many_inv [OF rec] by simp
  then have "tables c' = (tables c)\<lparr>
      db_work_items := map (\<lambda>w. if U w then requeued_image ?run ?now w else w) items,
      db_scheduler_events := db_scheduler_events (tables c) @
        map (\<lambda>w. event_values (conn_env c) (requeue_event ?run (ct_worker_id t) ?now w)) ?rows\<rparr>"
    unfolding res(2) c2' by (simp add: comp_def)
  then show ?thesis using pur lost res(1) by (auto simp: list_all_iff exists_where_iff)
qed

lemma okp_requeue: "okp.resp (requeue_body t)"
  unfolding requeue_body_def by (intro okp_intros okp_events)

lemma requeue_evolves: "db_ok d \<Longrightarrow> evolves d (snd (requeue_undecided_failed_work e t d))"
proof -
  have "okhist.resp (requeue_body t)"
  proof (rule tx_relI)
    fix c n c' assume body: "requeue_body t c = Inr (n, c')"
    have "evolves (tables c) (tables c')" if "db_ok (tables c)"
    proof -
      from that have "token_work_items_ok (db_work_items (tables c))" by (simp add: db_ok_def)
      note eq = requeue_inv [OF body this, THEN conjunct1]
      show ?thesis
      proof (rule evolves_items [where cs = "[]"])
        show "tables c' = (tables c)\<lparr>
          db_work_items := map (\<lambda>w. if requeue_selects t c w
            then requeued_image (ct_run_id t) (sweep_time c 0) w else w) (db_work_items (tables c)),
          db_scheduler_events := db_scheduler_events (tables c) @
            map (\<lambda>w. event_values (conn_env c) (requeue_event (ct_run_id t) (ct_worker_id t) (sweep_time c 0) w))
              (sort_key sweep_order (filter (requeue_selects t c) (db_work_items (tables c)))),
          db_coord_events := db_coord_events (tables c) @ []\<rparr>" using eq by simp
        show "keeps_ok (tables c) (tables c')" by (rule tx_relD [OF okp_requeue body])
      qed (auto simp: requeued_image_iff rotated_image_def item_evolves_def undecided_failed_work_clause_def)
    qed
    then show "ok_evolves (tables c) (tables c')" by (simp add: ok_evolves_def)
  qed
  from okhist.fenced_leader_rel [OF this, of d e t DEFAULT_RUN_LIVENESS_WINDOW "''requeue_undecided_failed_work''"]
  show "db_ok d \<Longrightarrow> evolves d (snd (requeue_undecided_failed_work e t d))"
    by (simp add: requeue_undecided_failed_work_def fenced_write_def ok_evolves_def)
qed

end
