(* ===== verification/Lease_Properties.thy ===== *)
theory Lease_Properties
  imports Lease_Recovery Coordination_Fencing
begin

text \<open>
  What the lease verbs guarantee once their fence has admitted them: the recovery sweep and the
  re-drive rewrite exactly the rows their predicates name and append exactly one ledger row for
  each.
\<close>

section \<open>A concrete queue\<close>

text \<open>The lease of the dead \<open>w2\<close> expired at 50 s; the leader's own lease expired too.\<close>

definition demo_expired :: db where
  "demo_expired = demo_live
     [demo_item ''i1'' ''t1'' 0 LEASED (Some ''w2'') (Some 50000000),
      demo_item ''i2'' ''t2'' 1 LEASED (Some ''w1'') (Some 50000000)]"

definition demo_failed :: db where
  "demo_failed = demo_live
     [demo_item ''i1'' ''t1'' 0 FAILED None None, demo_item ''i2'' ''t2'' 1 READY None None]"

lemma demo_queues_ok: "db_ok demo_expired" "db_ok demo_failed"
  by code_simp+

section \<open>Recovery\<close>

text \<open>C1. A committed recovery sweep rewrites exactly the items that were leased in the leader's
  run to somebody else, whose lease had expired at both of its clock readings, and whose owner is
  dead in the registry beyond the grace period or stalled beyond the budget.  An item with sink
  columns carries a complete sink bundle and returns to PENDING_SINK under its own identity; every
  other item gets a fresh identity, the next attempt and READY.  The ledger grows by one event
  for each in sweep order, the reported count is their number, and every other row, the registry
  included, is untouched.\<close>

theorem recovery_sweep_is_exact:
  assumes "db_ok d" and "recover_expired_leases e t grace stall d = (Inr n, d')"
  defines "S \<equiv> swept t grace stall (db_workers d) (sample e 1) (sample e 2)"
  shows "exists_where (holds_seat t) (db_seats d) \<and>
    db_work_items d' =
      map (\<lambda>w. if S w then recovered_image (ct_run_id t) (sample e 2) w else w) (db_work_items d) \<and>
    db_scheduler_events d' = db_scheduler_events d @
      map (\<lambda>w. event_values e (recovery_event (ct_run_id t) (ct_worker_id t) (sample e 2) w))
        (sort_key sweep_order (filter S (db_work_items d))) \<and>
    n = count_where S (db_work_items d) \<and> db_workers d' = db_workers d \<and>
    (\<forall>w \<in> set (db_work_items d). S w \<and> sink_redrive_shaped w \<longrightarrow> pending_sink_bundle_clause w)"
proof -
  from assms(2) [unfolded recover_expired_leases_def fenced_write_def] obtain c1 c2 ss where
    held: "exists_where (holds_seat t) (db_seats d)"
    and body: "rotate_expired_leases t grace stall c1 = Inr (n, c2)"
    and c1: "tables c1 = d\<lparr>db_seats := update_where (holds_seat t) (renewed (sample e 0) DEFAULT_RUN_LIVENESS_WINDOW) (db_seats d)\<rparr>"
      "conn_env c1 = e" "conn_clock_reads c1 = 1"
    and d': "d' = (tables c2)\<lparr>db_seats := ss\<rparr>"
    by (elim fenced_leader_inv)
  have "token_work_items_ok (db_work_items (tables c1))"
    using assms(1) c1(1) by (simp add: db_ok_def)
  note inv = rotate_expired_inv [OF body this]
  have times: "sweep_time c1 0 = sample e 1" "sweep_time c1 1 = sample e 2"
    using c1 by (simp_all add: sweep_time_def sample_def numeral_2_eq_2)
  have tabs: "db_work_items (tables c1) = db_work_items d" "db_workers (tables c1) = db_workers d"
    "db_scheduler_events (tables c1) = db_scheduler_events d"
    using c1(1) by simp_all
  note inv' = inv [unfolded times tabs c1(2), folded S_def]
  from inv' obtain evs where tc2: "tables c2 = (tables c1)\<lparr>
      db_work_items := map (\<lambda>w. if S w then recovered_image (ct_run_id t) (sample e 2) w else w) (db_work_items d),
      db_scheduler_events := db_scheduler_events d @
        map (\<lambda>w. event_values e (recovery_event (ct_run_id t) (ct_worker_id t) (sample e 2) w))
          (sort_key sweep_order (filter S (db_work_items d))),
      db_coord_events := db_coord_events (tables c1) @ evs\<rparr>" by blast
  show ?thesis
    using held inv' tabs(2) by (simp add: d' tc2 count_where_def)
qed

theorem recovery_sweep_is_exact_witness:
  "fst (recover_expired_leases demo_env demo_token 0 (seconds 600) demo_expired) = Inr 1 \<and>
   map (\<lambda>w. (wi_token_id w, wi_status w, wi_attempt w, wi_lease_owner w))
     (db_work_items (snd (recover_expired_leases demo_env demo_token 0 (seconds 600) demo_expired)))
     = [(''t1'', READY, 2, None), (''t2'', LEASED, 1, Some ''w1'')]"
proof -
  let ?r = "recover_expired_leases demo_env demo_token 0 (seconds 600) demo_expired"
  have f: "fst ?r = Inr 1" by code_simp
  then have r: "?r = (Inr 1, snd ?r)" by (metis prod.collapse)
  have items: "db_work_items (snd ?r) = map (\<lambda>w.
      if swept demo_token 0 (seconds 600) (db_workers demo_expired) (sample demo_env 1) (sample demo_env 2) w
      then recovered_image (ct_run_id demo_token) (sample demo_env 2) w else w) (db_work_items demo_expired)"
    using recovery_sweep_is_exact [OF demo_queues_ok(1) r] by blast
  have "map (\<lambda>w. (wi_token_id w, wi_status w, wi_attempt w, wi_lease_owner w)) (db_work_items (snd ?r))
      = [(''t1'', READY, 2, None), (''t2'', LEASED, 1, Some ''w1'')]"
    unfolding items by code_simp
  with f show ?thesis by simp
qed

section \<open>Re-drive\<close>

text \<open>C2. A committed resume re-drive returns to READY exactly the failed items of the leader's run
  whose token has no completed outcome, each with the next attempt and the identity of that attempt,
  and appends one event naming the previous identity for each.  None of them had its payload
  purged or its token named by a group loss, the reported count is their number, and every
  other item is untouched.\<close>

theorem redrive_is_exact:
  assumes "db_ok d" and "requeue_undecided_failed_work e t d = (Inr n, d')"
  defines "U \<equiv> (\<lambda>w. wi_run_id w = ct_run_id t \<and> undecided_failed_work_clause d w)"
  shows "db_work_items d' =
      map (\<lambda>w. if U w then requeued_image (ct_run_id t) (sample e 1) w else w) (db_work_items d) \<and>
    db_scheduler_events d' = db_scheduler_events d @
      map (\<lambda>w. event_values e (requeue_event (ct_run_id t) (ct_worker_id t) (sample e 1) w))
        (sort_key sweep_order (filter U (db_work_items d))) \<and>
    n = count_where U (db_work_items d) \<and>
    (\<forall>w \<in> set (filter U (db_work_items d)).
       wi_row_payload_json w \<noteq> scrubbed_row_payload_json e (wi_work_item_id w) \<and>
       \<not> exists_where (\<lambda>g. gl_run_id g = ct_run_id t \<and> gl_token_id g = wi_token_id w) (db_group_losses d))"
proof -
  from assms(2) [unfolded requeue_undecided_failed_work_def fenced_write_def] obtain c1 c2 ss where
    body: "requeue_body t c1 = Inr (n, c2)"
    and c1: "tables c1 = d\<lparr>db_seats := update_where (holds_seat t) (renewed (sample e 0) DEFAULT_RUN_LIVENESS_WINDOW) (db_seats d)\<rparr>"
      "conn_env c1 = e" "conn_clock_reads c1 = 1"
    and d': "d' = (tables c2)\<lparr>db_seats := ss\<rparr>"
    by (elim fenced_leader_inv)
  have "token_work_items_ok (db_work_items (tables c1))"
    using assms(1) c1(1) by (simp add: db_ok_def)
  note inv = requeue_inv [OF body this]
  have times: "sweep_time c1 0 = sample e 1"
    using c1 by (simp add: sweep_time_def sample_def)
  have tabs: "db_work_items (tables c1) = db_work_items d" "db_group_losses (tables c1) = db_group_losses d"
    "db_scheduler_events (tables c1) = db_scheduler_events d"
    "undecided_failed_work_clause (tables c1) = undecided_failed_work_clause d"
    using c1(1) by (simp_all add: fun_eq_iff undecided_failed_work_clause_def
        work_item_token_decided_clause_def decided_def)
  show ?thesis
    unfolding U_def using inv [unfolded times tabs c1(2)] by (simp add: d' count_where_def)
qed

theorem redrive_is_exact_witness:
  "fst (requeue_undecided_failed_work demo_env demo_token demo_failed) = Inr 1 \<and>
   map (\<lambda>w. (wi_token_id w, wi_status w, wi_attempt w))
     (db_work_items (snd (requeue_undecided_failed_work demo_env demo_token demo_failed)))
     = [(''t1'', READY, 2), (''t2'', READY, 1)]"
proof -
  let ?r = "requeue_undecided_failed_work demo_env demo_token demo_failed"
  have f: "fst ?r = Inr 1" by code_simp
  then have r: "?r = (Inr 1, snd ?r)" by (metis prod.collapse)
  have items: "db_work_items (snd ?r) = map (\<lambda>w.
      if wi_run_id w = ct_run_id demo_token \<and> undecided_failed_work_clause demo_failed w
      then requeued_image (ct_run_id demo_token) (sample demo_env 1) w else w) (db_work_items demo_failed)"
    using redrive_is_exact [OF demo_queues_ok(2) r] by blast
  have "map (\<lambda>w. (wi_token_id w, wi_status w, wi_attempt w)) (db_work_items (snd ?r))
      = [(''t1'', READY, 2), (''t2'', READY, 1)]"
    unfolding items by code_simp
  with f show ?thesis by simp
qed

end
