(* ===== verification/Group_Losses.thy ===== *)
theory Group_Losses
  imports Work_Items
begin

text \<open>
  The group-loss ledger (\<open>scheduler/group_losses.py\<close>): the in-transaction batch
  writer that rides every lossy disposition, the adoption-context guard, the reads
  and the two leader verbs of the repository.  A logged reason change is tolerated
  and leaves no trace in the database.
\<close>

record group_loss_spec =
  ls_closer_name :: string
  ls_group_id :: ident
  ls_member_key :: ident
  ls_token_id :: ident
  ls_reason :: string

definition REASON_MAX_LENGTH :: nat where
  "REASON_MAX_LENGTH = 64"

definition loss_key :: "group_loss_spec \<Rightarrow> string \<times> ident \<times> ident" where
  "loss_key s = (ls_closer_name s, ls_group_id s, ls_member_key s)"

definition row_key :: "group_loss_row \<Rightarrow> string \<times> ident \<times> ident" where
  "row_key g = (gl_closer_name g, gl_group_id g, gl_member_key g)"

section \<open>Recording\<close>

text \<open>The specs of a batch by natural key, first wins; a key claimed by two tokens is refused.\<close>

primrec collect_by_key :: "group_loss_spec list \<Rightarrow> group_loss_spec list \<Rightarrow> group_loss_spec list body" where
  "collect_by_key [] by_key = tx_return by_key"
| "collect_by_key (s # ss) by_key =
    tx_then (tx_assert (length (ls_reason s) \<le> REASON_MAX_LENGTH)
      (AuditIntegrityError ''group-loss reason is too long''))
   (case List.find (\<lambda>x. loss_key x = loss_key s) by_key of
      Some x \<Rightarrow> tx_then (tx_assert (ls_token_id x = ls_token_id s)
          (AuditIntegrityError ''two distinct tokens cannot lose the same member''))
        (collect_by_key ss by_key)
    | None \<Rightarrow> collect_by_key ss (by_key @ [s]))"

definition loss_values :: "ident \<Rightarrow> ident \<Rightarrow> instant \<Rightarrow> group_loss_spec \<Rightarrow> group_loss_row body" where
  "loss_values run recorded_by now s =
    tx_bind generate_id (\<lambda>uid.
    tx_return \<lparr>gl_loss_id = ''loss_'' @ take 12 uid, gl_run_id = run,
      gl_closer_name = ls_closer_name s, gl_group_id = ls_group_id s, gl_member_key = ls_member_key s,
      gl_token_id = ls_token_id s, gl_reason = ls_reason s, gl_recorded_by = recorded_by,
      gl_recorded_at = now, gl_adopted_epoch = None\<rparr>)"

text \<open>\<open>INSERT ... ON CONFLICT (run_id, closer_name, group_id, member_key) DO NOTHING\<close>, one row.\<close>

definition insert_loss_or_ignore :: "group_loss_row \<Rightarrow> ident list body" where
  "insert_loss_or_ignore g =
    tx_bind (select_tables (\<lambda>d. exists_where (\<lambda>x. group_loss_natural x = group_loss_natural g)
      (db_group_losses d))) (\<lambda>conflict.
      if conflict then tx_return []
      else tx_then (insert_group_loss g) (tx_return [gl_loss_id g]))"

definition record_group_losses ::
  "ident \<Rightarrow> group_loss_spec list \<Rightarrow> ident \<Rightarrow> instant \<Rightarrow> nat body" where
  "record_group_losses run specs recorded_by now =
    (if specs = [] then tx_return 0
     else tx_bind (collect_by_key specs []) (\<lambda>by_key.
          tx_bind (tx_each by_key (loss_values run recorded_by now)) (\<lambda>values.
          tx_bind (tx_each values insert_loss_or_ignore) (\<lambda>ids.
          let inserted = concat ids in
          tx_then (tx_assert (set inserted \<subseteq> set (map gl_loss_id values) \<and> distinct inserted)
            (AuditIntegrityError ''unexpected loss_id''))
         (tx_bind (select_tables (\<lambda>d. filter (\<lambda>g. gl_run_id g = run \<and>
              row_key g \<in> set (map loss_key by_key)) (db_group_losses d))) (\<lambda>existing_rows.
          tx_then (tx_assert (length (remdups (map row_key existing_rows)) = length by_key)
            (AuditIntegrityError ''a natural key is missing''))
         (tx_then (tx_for specs (\<lambda>s.
            tx_bind (the_row (List.find (\<lambda>g. row_key g = loss_key s) existing_rows)) (\<lambda>existing.
            tx_assert (gl_token_id existing = ls_token_id s)
              (AuditIntegrityError ''two distinct tokens cannot lose the same member''))))
          (tx_return (length inserted)))))))))"

definition record_group_loss :: "ident \<Rightarrow> group_loss_spec \<Rightarrow> ident \<Rightarrow> instant \<Rightarrow> bool body" where
  "record_group_loss run spec recorded_by now =
    tx_bind (record_group_losses run [spec] recorded_by now) (\<lambda>n. tx_return (n = 1))"

section \<open>Adoption and escalation\<close>

definition authenticate_adoption_loss ::
  "ident \<Rightarrow> group_loss_spec \<Rightarrow> frame_kind \<Rightarrow> ident list option \<Rightarrow> unit body" where
  "authenticate_adoption_loss run spec kind declared_roster =
    (case kind of
       FORK \<Rightarrow>
         (case declared_roster of
            None \<Rightarrow> tx_raise (AuditIntegrityError ''no declared roster'')
          | Some roster \<Rightarrow> tx_assert (ls_member_key spec \<in> set roster)
              (AuditIntegrityError ''no durable roster authority witness''))
     | EXPAND \<Rightarrow>
         tx_bind (select_tables (\<lambda>d. exists_where (\<lambda>f. lf_run_id f = run \<and>
           lf_group_id f = ls_group_id spec \<and> lf_member_key f = ls_member_key spec) (db_lineage_frames d))) (\<lambda>witnessed.
         tx_assert witnessed (AuditIntegrityError ''no durable roster authority witness'')))"

definition loss_order :: "group_loss_row \<Rightarrow> instant \<times> ident" where
  "loss_order g = (gl_recorded_at g, gl_loss_id g)"

definition list_unadopted_group_losses :: "ident \<Rightarrow> db \<Rightarrow> group_loss_row list" where
  "list_unadopted_group_losses run d =
    sort_key loss_order (filter (\<lambda>g. gl_run_id g = run \<and> gl_adopted_epoch g = None) (db_group_losses d))"

definition list_group_losses :: "ident \<Rightarrow> string list option \<Rightarrow> db \<Rightarrow> group_loss_row list" where
  "list_group_losses run closer_names d =
    sort_key loss_order (filter (\<lambda>g. gl_run_id g = run \<and>
      (case closer_names of None \<Rightarrow> True | Some names \<Rightarrow> gl_closer_name g \<in> set names)) (db_group_losses d))"

definition adopt_group_losses :: "env \<Rightarrow> ident list \<Rightarrow> coordination_token \<Rightarrow> db \<Rightarrow> nat outcome" where
  "adopt_group_losses e loss_ids t d =
    (if loss_ids = [] then (Inr 0, d)
     else fenced_leader_transaction e t DEFAULT_RUN_LIVENESS_WINDOW ''adopt_group_losses''
       (execute_many loss_ids (\<lambda>i. update_group_losses
          (\<lambda>g. gl_run_id g = ct_run_id t \<and> gl_loss_id g = i \<and> gl_adopted_epoch g = None)
          (\<lambda>g. g\<lparr>gl_adopted_epoch := Some (ct_leader_epoch t)\<rparr>))) d)"

definition stage_escalation_loss ::
  "env \<Rightarrow> group_loss_spec \<Rightarrow> frame_kind \<Rightarrow> ident list option \<Rightarrow> ident \<Rightarrow> coordination_token \<Rightarrow> db \<Rightarrow> bool outcome" where
  "stage_escalation_loss e spec kind declared_roster recorded_by t =
    fenced_leader_transaction e t DEFAULT_RUN_LIVENESS_WINDOW ''stage_escalation_loss''
      (tx_then (authenticate_adoption_loss (ct_run_id t) spec kind declared_roster)
      (tx_bind read_landscape_transaction_time (\<lambda>now.
       record_group_loss (ct_run_id t) spec recorded_by now)))"

section \<open>Every ledger verb only moves history forward\<close>

lemma resp_collect_by_key [hist_verbs]: "hist.resp (collect_by_key ss by_key)"
proof (induction ss arbitrary: by_key)
  case (Cons s ss)
  then show ?case unfolding collect_by_key.simps by (intro hist_intros)
qed (simp, intro hist_intros)

lemma resp_record_group_losses [hist_verbs]: "hist.resp (record_group_losses run specs by now)"
  unfolding record_group_losses_def loss_values_def insert_loss_or_ignore_def
  by (intro hist_intros hist_verbs)

lemma resp_authenticate [hist_verbs]: "hist.resp (authenticate_adoption_loss run spec kind roster)"
  unfolding authenticate_adoption_loss_def
  by (cases kind; simp; intro hist_intros)

lemma adopt_group_losses_evolves [hist_verbs]: "evolves d (snd (adopt_group_losses e ids t d))"
  unfolding adopt_group_losses_def
  by (simp, intro impI fenced_leader_transaction_evolves hist_intros)
    (simp add: loss_evolves_def group_loss_natural_def)

lemma stage_escalation_loss_evolves [hist_verbs]:
  "evolves d (snd (stage_escalation_loss e spec kind roster by t d))"
  unfolding stage_escalation_loss_def record_group_loss_def
  by (intro fenced_leader_transaction_evolves hist_intros hist_verbs)

end
