(* ===== verification/Scheduler_Dispositions.thy ===== *)
theory Scheduler_Dispositions
  imports Scheduler_Leases Group_Losses
begin

text \<open>
  Dispositions (\<open>scheduler/dispositions.py\<close>): the lease-owner compare-and-swap behind
  every \<open>mark_*\<close> verb, its variant that enqueues child continuations in the same
  transaction, the strict terminalizers of sink-bound work and the crash repair.

  The dictionary of child events by identity is an association list in insertion
  order.  The diagnostic reads of a refused transition feed only its message.
\<close>

section \<open>Images\<close>

datatype disposition_image =
    BlockedImage "string option" "string option" string
  | TerminalImage string
  | FailedImage string
  | PendingSinkImage string string string string "string option" "string option" ident

text \<open>The column values of a disposition.  A failed item keeps its payload unless its token is
  already decided.\<close>

fun disposition_values ::
  "token_work_status \<Rightarrow> instant \<Rightarrow> db \<Rightarrow> disposition_image \<Rightarrow> work_item \<Rightarrow> work_item" where
  "disposition_values status database_now d (BlockedImage queue_key barrier_key payload) w =
    w\<lparr>wi_status := status, wi_updated_at := database_now, wi_queue_key := queue_key,
      wi_barrier_key := barrier_key, wi_row_payload_json := payload,
      wi_barrier_blocked_at := Some database_now, wi_lease_owner := None, wi_lease_expires_at := None\<rparr>"
| "disposition_values status database_now d (TerminalImage payload) w =
    w\<lparr>wi_status := status, wi_updated_at := database_now, wi_row_payload_json := payload,
      wi_lease_owner := None, wi_lease_expires_at := None\<rparr>"
| "disposition_values status database_now d (FailedImage purged) w =
    w\<lparr>wi_status := status, wi_updated_at := database_now,
      wi_row_payload_json := (if work_item_token_decided_clause d w then purged else wi_row_payload_json w),
      wi_lease_owner := None, wi_lease_expires_at := None\<rparr>"
| "disposition_values status database_now d
     (PendingSinkImage payload sink outcome path error_hash error_message owner) w =
    w\<lparr>wi_status := status, wi_updated_at := database_now, wi_row_payload_json := payload,
      wi_pending_sink_name := Some sink, wi_pending_outcome := Some outcome, wi_pending_path := Some path,
      wi_pending_error_hash := error_hash, wi_pending_error_message := error_message,
      wi_lease_owner := Some owner, wi_lease_expires_at := None\<rparr>"

fun next_lease_owner :: "disposition_image \<Rightarrow> ident option" where
  "next_lease_owner (PendingSinkImage _ _ _ _ _ _ owner) = Some owner"
| "next_lease_owner _ = None"

fun TRANSITION_EVENT_TYPES :: "token_work_status \<Rightarrow> scheduler_event_type option" where
  "TRANSITION_EVENT_TYPES BLOCKED = Some MARK_BLOCKED"
| "TRANSITION_EVENT_TYPES TERMINAL = Some MARK_TERMINAL"
| "TRANSITION_EVENT_TYPES FAILED = Some MARK_FAILED"
| "TRANSITION_EVENT_TYPES PENDING_SINK = Some MARK_PENDING_SINK"
| "TRANSITION_EVENT_TYPES _ = None"

text \<open>A dictionary subscript.\<close>

definition lookup :: "string \<Rightarrow> 'a option \<Rightarrow> 'a body" where
  "lookup label v = (case v of None \<Rightarrow> tx_raise (KeyError label) | Some x \<Rightarrow> tx_return x)"

section \<open>The compare-and-swap\<close>

definition transition_predicate ::
  "ident \<Rightarrow> token_work_status list \<Rightarrow> ident option \<Rightarrow> ident \<Rightarrow> work_item \<Rightarrow> bool" where
  "transition_predicate wid expected_statuses expected_owner run w \<longleftrightarrow>
     wi_work_item_id w = wid \<and> wi_run_id w = run \<and> wi_status w \<in> set expected_statuses \<and>
     wi_pending_sink_name w = None \<and>
     (case expected_owner of None \<Rightarrow> True | Some owner \<Rightarrow> wi_lease_owner w = Some owner)"

definition transition_event ::
  "scheduler_event_type \<Rightarrow> token_work_status \<Rightarrow> ident option \<Rightarrow> instant \<Rightarrow> ident option \<Rightarrow> work_item \<Rightarrow>
   scheduler_event_record" where
  "transition_event type status next_owner database_now expected_owner before =
    \<lparr>sr_event_type = type, sr_run_id = wi_run_id before, sr_token_id = wi_token_id before,
     sr_work_item_id = wi_work_item_id before, sr_node_id = wi_node_id before,
     sr_from_status = Some (wi_status before), sr_to_status = status,
     sr_from_lease_owner = wi_lease_owner before, sr_to_lease_owner = next_owner,
     sr_from_attempt = Some (wi_attempt before), sr_to_attempt = wi_attempt before,
     sr_recorded_at = database_now, sr_from_lease_expires_at = wi_lease_expires_at before,
     sr_to_lease_expires_at = None, sr_caller_owner = expected_owner, sr_context = None\<rparr>"

definition find_item :: "ident \<Rightarrow> db \<Rightarrow> work_item option" where
  "find_item wid d = List.find (\<lambda>w. wi_work_item_id w = wid) (db_work_items d)"

definition transition_on ::
  "ident \<Rightarrow> token_work_status \<Rightarrow> disposition_image \<Rightarrow> token_work_status list \<Rightarrow> ident option \<Rightarrow>
   group_loss_spec list \<Rightarrow> worker_membership_token \<Rightarrow> bool \<Rightarrow> work_item body" where
  "transition_on wid status img expected_statuses expected_owner losses m require_bundle =
    tx_bind read_landscape_transaction_time (\<lambda>database_now.
    tx_bind (select_tables (find_item wid)) (\<lambda>before.
    tx_bind (select_tables (\<lambda>d. d)) (\<lambda>d.
    tx_bind (update_work_items (transition_predicate wid expected_statuses expected_owner (mt_run_id m))
      (disposition_values status database_now d img)) (\<lambda>rowcount.
    tx_then (tx_assert (rowcount = 1) (AuditIntegrityError ''transition affected no transform-lease row''))
   (tx_bind (tx_bind (select_tables (find_item wid)) the_row) (\<lambda>after.
    tx_then (tx_assert (require_bundle \<longrightarrow> pending_sink_bundle_clause after) incomplete_bundle_error)
   (case before of
      None \<Rightarrow> tx_raise (AuditIntegrityError ''audit transition history cannot be proven'')
    | Some row \<Rightarrow>
        tx_bind (lookup ''transition event type'' (TRANSITION_EVENT_TYPES status)) (\<lambda>type.
        tx_then (record_event (transition_event type status (next_lease_owner img) database_now
          expected_owner row))
       (tx_then (record_group_losses (mt_run_id m) losses (mt_worker_id m) database_now)
          (tx_return after)))))))))) "

definition transition ::
  "env \<Rightarrow> ident \<Rightarrow> token_work_status \<Rightarrow> disposition_image \<Rightarrow> ident \<Rightarrow> group_loss_spec list \<Rightarrow>
   worker_membership_token \<Rightarrow> bool \<Rightarrow> db \<Rightarrow> work_item outcome" where
  "transition e wid status img expected_owner losses m require_bundle d =
    (if expected_owner \<noteq> mt_worker_id m
     then (Inl (ValueError ''disposition lease owner must match membership token''), d)
     else fenced_member_transaction e m ''_transition''
            (transition_on wid status img [LEASED] (Some expected_owner) losses m require_bundle) d)"

section \<open>Children\<close>

definition emission_continuation :: "barrier_emission \<Rightarrow> ident \<Rightarrow> int \<Rightarrow> int \<Rightarrow> continuation" where
  "emission_continuation em row step_index ingest_sequence =
    \<lparr>cn_token_id = em_token_id em, cn_row_id = row, cn_node_id = em_node_id em,
     cn_step_index = step_index, cn_ingest_sequence = ingest_sequence,
     cn_row_payload_json = em_row_payload_json em, cn_attempt = em_attempt em,
     cn_queue_key = em_queue_key em, cn_barrier_key = em_barrier_key em,
     cn_on_success_sink = em_on_success_sink em, cn_join_group_id = em_join_group_id em,
     cn_lineage_path = em_lineage_path em, cn_coalesce_node_id = em_coalesce_node_id em,
     cn_coalesce_name = em_coalesce_name em, cn_row_union_name = em_row_union_name em,
     cn_collector_name = em_collector_name em\<rparr>"

definition enqueue_event ::
  "ident \<Rightarrow> ident \<Rightarrow> ident \<Rightarrow> ident option \<Rightarrow> int \<Rightarrow> instant \<Rightarrow> json option \<Rightarrow> scheduler_event_record" where
  "enqueue_event run token wid node attempt recorded_at context =
    \<lparr>sr_event_type = ENQUEUE, sr_run_id = run, sr_token_id = token, sr_work_item_id = wid,
     sr_node_id = node, sr_from_status = None, sr_to_status = READY, sr_from_lease_owner = None,
     sr_to_lease_owner = None, sr_from_attempt = None, sr_to_attempt = attempt,
     sr_recorded_at = recorded_at, sr_from_lease_expires_at = None, sr_to_lease_expires_at = None,
     sr_caller_owner = None, sr_context = context\<rparr>"

definition prepare_ready_emission_on ::
  "ident \<Rightarrow> barrier_emission \<Rightarrow> (work_item \<times> scheduler_event_record) body" where
  "prepare_ready_emission_on run em =
    (case (em_row_id em, em_step_index em, em_ingest_sequence em) of
       (Some row, Some step_index, Some ingest_sequence) \<Rightarrow>
         tx_then (validate_work_item_references run (em_token_id em) row ingest_sequence (em_node_id em)
           (em_coalesce_node_id em))
        (tx_bind read_landscape_transaction_time (\<lambda>available_at.
         let v = ready_work_item_values run (emission_continuation em row step_index ingest_sequence) available_at
         in tx_return (v, enqueue_event run (em_token_id em) (wi_work_item_id v) (em_node_id em)
              (em_attempt em) available_at None)))
     | _ \<Rightarrow> tx_raise (AuditIntegrityError ''child enqueue requires row_id, step_index and ingest_sequence''))"

definition events_by_id :: "scheduler_event_record list \<Rightarrow> (ident \<times> scheduler_event_record) list" where
  "events_by_id evs = foldl (\<lambda>acc ev. AList.update (sr_work_item_id ev) ev acc) [] evs"

definition enqueue_children_on ::
  "ident \<Rightarrow> barrier_emission list \<Rightarrow> work_item list body" where
  "enqueue_children_on run emitted_ready =
    tx_bind (tx_each emitted_ready (prepare_ready_emission_on run)) (\<lambda>children.
    tx_bind (insert_work_items_idempotent (map fst children)) (\<lambda>inserted_ids.
    let by_id = events_by_id (map snd children) in
    tx_then (record_many (map snd (filter (\<lambda>(i, ev). i \<in> set inserted_ids) by_id)))
   (tx_bind (select_tables (\<lambda>d. filter (\<lambda>w. wi_run_id w = run \<and> wi_work_item_id w \<in> set (map fst by_id))
      (db_work_items d))) (\<lambda>persisted_children.
    tx_each children (\<lambda>(v, ev). lookup ''child row''
      (List.find (\<lambda>w. wi_work_item_id w = sr_work_item_id ev) persisted_children))))))"

definition transition_with_ready_children ::
  "env \<Rightarrow> ident \<Rightarrow> barrier_emission list \<Rightarrow> token_work_status \<Rightarrow> disposition_image \<Rightarrow> ident \<Rightarrow>
   group_loss_spec list \<Rightarrow> worker_membership_token \<Rightarrow> bool \<Rightarrow> db \<Rightarrow> (work_item \<times> work_item list) outcome" where
  "transition_with_ready_children e wid emitted_ready status img expected_owner losses m require_bundle d =
    (if emitted_ready = []
     then (Inl (ValueError ''atomic child disposition requires at least one READY emission''), d)
     else if expected_owner \<noteq> mt_worker_id m
     then (Inl (ValueError ''disposition lease owner must match membership token''), d)
     else fenced_member_transaction e m ''_transition_with_ready_children''
       (tx_bind (enqueue_children_on (mt_run_id m) emitted_ready) (\<lambda>child_rows.
        tx_bind (transition_on wid status img [LEASED] (Some expected_owner) losses m require_bundle) (\<lambda>parent_row.
        tx_return (parent_row, child_rows)))) d)"

section \<open>The disposition verbs\<close>

definition mark_blocked ::
  "env \<Rightarrow> worker_membership_token \<Rightarrow> ident \<Rightarrow> string option \<Rightarrow> string option \<Rightarrow> string \<Rightarrow> ident \<Rightarrow> db \<Rightarrow>
   work_item outcome" where
  "mark_blocked e m wid queue_key barrier_key payload expected_owner d =
    (if queue_key = None \<and> barrier_key = None
     then (Inl (AuditIntegrityError ''the work item would be unreleasable on resume''), d)
     else transition e wid BLOCKED (BlockedImage queue_key barrier_key payload) expected_owner [] m False d)"

definition mark_terminal ::
  "env \<Rightarrow> worker_membership_token \<Rightarrow> ident \<Rightarrow> ident \<Rightarrow> group_loss_spec list \<Rightarrow> db \<Rightarrow> work_item outcome" where
  "mark_terminal e m wid expected_owner losses =
    transition e wid TERMINAL (TerminalImage (scrubbed_row_payload_json e wid)) expected_owner losses m False"

definition mark_terminal_with_ready_children ::
  "env \<Rightarrow> worker_membership_token \<Rightarrow> ident \<Rightarrow> barrier_emission list \<Rightarrow> ident \<Rightarrow> group_loss_spec list \<Rightarrow> db \<Rightarrow>
   (work_item \<times> work_item list) outcome" where
  "mark_terminal_with_ready_children e m wid emitted_ready expected_owner losses =
    transition_with_ready_children e wid emitted_ready TERMINAL
      (TerminalImage (scrubbed_row_payload_json e wid)) expected_owner losses m False"

definition mark_failed ::
  "env \<Rightarrow> worker_membership_token \<Rightarrow> ident \<Rightarrow> ident \<Rightarrow> group_loss_spec list \<Rightarrow> db \<Rightarrow> work_item outcome" where
  "mark_failed e m wid expected_owner losses =
    transition e wid FAILED (FailedImage (scrubbed_row_payload_json e wid)) expected_owner losses m False"

definition mark_failed_with_ready_children ::
  "env \<Rightarrow> worker_membership_token \<Rightarrow> ident \<Rightarrow> barrier_emission list \<Rightarrow> ident \<Rightarrow> group_loss_spec list \<Rightarrow> db \<Rightarrow>
   (work_item \<times> work_item list) outcome" where
  "mark_failed_with_ready_children e m wid emitted_ready expected_owner losses =
    transition_with_ready_children e wid emitted_ready FAILED
      (FailedImage (scrubbed_row_payload_json e wid)) expected_owner losses m False"

text \<open>The sink bundle a park carries.\<close>

record sink_bundle =
  sb_row_payload_json :: string
  sb_sink_name :: string
  sb_outcome :: string
  sb_path :: string
  sb_error_hash :: "string option"
  sb_error_message :: "string option"

definition pending_sink_image :: "sink_bundle \<Rightarrow> ident \<Rightarrow> disposition_image" where
  "pending_sink_image b owner = PendingSinkImage (sb_row_payload_json b) (sb_sink_name b) (sb_outcome b)
     (sb_path b) (sb_error_hash b) (sb_error_message b) owner"

definition mark_pending_sink ::
  "env \<Rightarrow> worker_membership_token \<Rightarrow> ident \<Rightarrow> sink_bundle \<Rightarrow> ident \<Rightarrow> group_loss_spec list \<Rightarrow> db \<Rightarrow>
   work_item outcome" where
  "mark_pending_sink e m wid b expected_owner losses =
    transition e wid PENDING_SINK (pending_sink_image b expected_owner) expected_owner losses m True"

definition mark_pending_sink_with_ready_children ::
  "env \<Rightarrow> worker_membership_token \<Rightarrow> ident \<Rightarrow> barrier_emission list \<Rightarrow> sink_bundle \<Rightarrow> ident \<Rightarrow>
   group_loss_spec list \<Rightarrow> db \<Rightarrow> (work_item \<times> work_item list) outcome" where
  "mark_pending_sink_with_ready_children e m wid emitted_ready b expected_owner losses =
    transition_with_ready_children e wid emitted_ready PENDING_SINK (pending_sink_image b expected_owner)
      expected_owner losses m True"

section \<open>Terminalizing sink-bound work\<close>

definition terminalized_image :: "string \<Rightarrow> instant \<Rightarrow> work_item \<Rightarrow> work_item" where
  "terminalized_image payload database_now w = w\<lparr>wi_status := TERMINAL, wi_row_payload_json := payload,
     wi_lease_owner := None, wi_lease_expires_at := None, wi_updated_at := database_now\<rparr>"

definition sink_terminal_event :: "ident \<Rightarrow> ident \<Rightarrow> instant \<Rightarrow> work_item \<Rightarrow> scheduler_event_record" where
  "sink_terminal_event run caller database_now row =
    \<lparr>sr_event_type = MARK_PENDING_SINK_TERMINAL, sr_run_id = run, sr_token_id = wi_token_id row,
     sr_work_item_id = wi_work_item_id row, sr_node_id = wi_node_id row,
     sr_from_status = Some (wi_status row), sr_to_status = TERMINAL,
     sr_from_lease_owner = wi_lease_owner row, sr_to_lease_owner = None,
     sr_from_attempt = Some (wi_attempt row), sr_to_attempt = wi_attempt row,
     sr_recorded_at = database_now, sr_from_lease_expires_at = wi_lease_expires_at row,
     sr_to_lease_expires_at = None, sr_caller_owner = Some caller, sr_context = None\<rparr>"

definition sink_terminal_predicate :: "ident \<Rightarrow> ident \<Rightarrow> ident \<Rightarrow> work_item \<Rightarrow> bool" where
  "sink_terminal_predicate run token owner w \<longleftrightarrow>
     wi_run_id w = run \<and> wi_token_id w = token \<and> wi_status w \<in> {PENDING_SINK, LEASED} \<and>
     wi_pending_sink_name w \<noteq> None \<and> wi_lease_owner w = Some owner"

definition mark_pending_sink_terminal_body :: "ident \<Rightarrow> ident \<Rightarrow> ident \<Rightarrow> nat body" where
  "mark_pending_sink_terminal_body run token owner =
    tx_bind (tx_gets conn_env) (\<lambda>e.
    tx_bind read_landscape_transaction_time (\<lambda>database_now.
    tx_bind (select_tables (\<lambda>d. sort_key wi_work_item_id
      (filter (sink_terminal_predicate run token owner) (db_work_items d)))) (\<lambda>rows.
    tx_then (tx_assert (rows \<noteq> []) PendingSinkTerminalMiss)
   (tx_bind (update_returning (\<lambda>w. wi_work_item_id w \<in> set (map wi_work_item_id rows) \<and>
        sink_terminal_predicate run token owner w)
      (terminalized_image (scrubbed_row_payload_json e token) database_now)) (\<lambda>changed.
    tx_then (tx_assert (length (remdups changed) = length rows) PendingSinkTerminalMiss)
   (tx_then (record_many (map (sink_terminal_event run owner database_now)
      (filter (\<lambda>row. wi_work_item_id row \<in> set changed) rows)))
      (tx_return (length (remdups changed)))))))))"

text \<open>A miss rolls the transaction back and is reported as zero.\<close>

definition mark_pending_sink_terminal ::
  "env \<Rightarrow> ident \<Rightarrow> ident \<Rightarrow> coordination_token \<Rightarrow> db \<Rightarrow> nat outcome" where
  "mark_pending_sink_terminal e token owner t d =
    (case fenced_leader_transaction e t DEFAULT_RUN_LIVENESS_WINDOW ''mark_pending_sink_terminal''
            (mark_pending_sink_terminal_body (ct_run_id t) token owner) d of
       (Inl PendingSinkTerminalMiss, d') \<Rightarrow> (Inr 0, d')
     | r \<Rightarrow> r)"

text \<open>One requested token of a batch: exactly one complete bundle of the expected owner.\<close>

definition check_batch_token :: "ident \<Rightarrow> work_item list \<Rightarrow> ident \<Rightarrow> unit body" where
  "check_batch_token owner rows token =
    (let matching_rows = filter (\<lambda>w. wi_token_id w = token) rows in
     tx_then (tx_assert (matching_rows \<noteq> []) (AuditIntegrityError ''batch terminalization is missing a token''))
    (tx_then (tx_assert (length matching_rows = 1) (AuditIntegrityError ''expected exactly one matching row''))
    (tx_then (tx_assert (pending_sink_bundle_clause (hd matching_rows)) incomplete_bundle_error)
       (tx_assert (wi_lease_owner (hd matching_rows) = Some owner)
          (AuditIntegrityError ''strict owner CAS'')))))"

definition sink_bound :: "ident \<Rightarrow> ident list \<Rightarrow> work_item \<Rightarrow> bool" where
  "sink_bound run token_ids w \<longleftrightarrow> wi_run_id w = run \<and> wi_token_id w \<in> set token_ids \<and>
     wi_status w \<in> {PENDING_SINK, LEASED} \<and> wi_pending_sink_name w \<noteq> None"

definition batch_cas :: "ident \<Rightarrow> ident \<Rightarrow> work_item \<Rightarrow> work_item \<Rightarrow> bool" where
  "batch_cas run owner row w \<longleftrightarrow> wi_run_id w = run \<and> wi_status w = wi_status row \<and>
     wi_token_id w = wi_token_id row \<and> wi_pending_sink_name w \<noteq> None \<and> wi_lease_owner w = Some owner \<and>
     pending_sink_bundle_clause w"

definition mark_pending_sink_terminal_many_body :: "ident \<Rightarrow> ident list \<Rightarrow> ident \<Rightarrow> nat body" where
  "mark_pending_sink_terminal_many_body run token_ids owner =
    tx_bind (tx_gets conn_env) (\<lambda>e.
    tx_bind read_landscape_transaction_time (\<lambda>database_now.
    tx_bind (select_tables (\<lambda>d. sort_key sweep_order (filter (sink_bound run token_ids) (db_work_items d)))) (\<lambda>rows.
    tx_then (tx_for token_ids (check_batch_token owner rows))
   (if rows = [] then tx_return 0
    else
      tx_bind (execute_many rows (\<lambda>row. update_work_items (\<lambda>w. wi_work_item_id w = wi_work_item_id row \<and>
          batch_cas run owner row w)
        (terminalized_image (scrubbed_row_payload_json e (wi_token_id row)) database_now))) (\<lambda>changed.
      tx_then (tx_assert (changed = length rows)
        (AuditIntegrityError ''batch CAS missed a complete owner-matched member''))
     (tx_then (record_many (map (sink_terminal_event run owner database_now) rows))
        (tx_return changed)))))))"

definition mark_pending_sink_terminal_many ::
  "env \<Rightarrow> ident list \<Rightarrow> ident \<Rightarrow> coordination_token \<Rightarrow> db \<Rightarrow> nat outcome" where
  "mark_pending_sink_terminal_many e token_ids owner t d =
    (if token_ids = [] then (Inr 0, d)
     else if \<not> distinct token_ids
     then (Inl (AuditIntegrityError ''batch terminalization received a duplicate token''), d)
     else fenced_leader_transaction e t DEFAULT_RUN_LIVENESS_WINDOW ''mark_pending_sink_terminal_many''
            (mark_pending_sink_terminal_many_body (ct_run_id t) token_ids owner) d)"

definition sink_parked :: "ident \<Rightarrow> work_item \<Rightarrow> bool" where
  "sink_parked run w \<longleftrightarrow> wi_run_id w = run \<and> wi_status w = PENDING_SINK \<and> wi_pending_sink_name w \<noteq> None"

definition repairable :: "ident \<Rightarrow> db \<Rightarrow> work_item \<Rightarrow> bool" where
  "repairable run d w \<longleftrightarrow> sink_parked run w \<and> decided d run (wi_token_id w)"

definition terminalize_pending_sinks_body :: "ident \<Rightarrow> ident \<Rightarrow> nat body" where
  "terminalize_pending_sinks_body run caller =
    tx_bind (tx_gets conn_env) (\<lambda>e.
    tx_bind read_landscape_transaction_time (\<lambda>database_now.
    tx_bind (select_tables (\<lambda>d. sort_key sweep_order (filter (repairable run d) (db_work_items d)))) (\<lambda>rows.
    if rows = [] then tx_return 0
    else
      tx_bind (execute_many rows (\<lambda>row. update_work_items (\<lambda>w. wi_work_item_id w = wi_work_item_id row \<and>
          sink_parked run w)
        (terminalized_image (scrubbed_row_payload_json e (wi_token_id row)) database_now))) (\<lambda>changed.
      tx_then (tx_assert (changed = length rows) (AuditIntegrityError ''refusing partial repair''))
     (tx_then (record_many (map (\<lambda>row. (sink_terminal_event run caller database_now row)
        \<lparr>sr_from_status := Some PENDING_SINK\<rparr>) rows))
        (tx_return changed))))))"

definition terminalize_pending_sinks_with_terminal_outcomes ::
  "env \<Rightarrow> ident \<Rightarrow> coordination_token \<Rightarrow> db \<Rightarrow> nat outcome" where
  "terminalize_pending_sinks_with_terminal_outcomes e caller t =
    fenced_write e t ''terminalize_pending_sinks_with_terminal_outcomes''
      (terminalize_pending_sinks_body (ct_run_id t) caller)"

section \<open>Every disposition only moves history forward\<close>

lemma resp_lookup [hist_verbs]: "hist.resp (lookup label v)"
  unfolding lookup_def by (intro hist_intros)

lemma disposition_item_evolves:
  "transition_predicate wid sts owner run w \<Longrightarrow> TERMINAL \<notin> set sts \<Longrightarrow>
   item_evolves w (disposition_values st now d img w)"
  by (cases img) (auto simp: item_evolves_def transition_predicate_def)

lemma resp_transition_on [hist_verbs]:
  "hist.resp (transition_on wid st img [LEASED] owner losses m req)"
  unfolding transition_on_def
  by (intro hist_intros hist_verbs, rule disposition_item_evolves) auto

lemma transition_evolves: "evolves d (snd (transition e wid st img owner losses m req d))"
  unfolding transition_def by (simp, intro impI fenced_member_transaction_evolves hist_verbs)

lemma resp_prepare_ready [hist_verbs]: "hist.resp (prepare_ready_emission_on run em)"
  unfolding prepare_ready_emission_on_def by (intro hist_intros hist_verbs)

lemma resp_enqueue_children [hist_verbs]: "hist.resp (enqueue_children_on run ems)"
  unfolding enqueue_children_on_def by (intro hist_intros hist_verbs)

lemma transition_with_children_evolves:
  "evolves d (snd (transition_with_ready_children e wid ems st img owner losses m req d))"
  unfolding transition_with_ready_children_def
  by (auto intro!: fenced_member_transaction_evolves hist_intros hist_verbs)

lemma dispositions_evolve [hist_verbs]:
  "evolves d (snd (mark_blocked e m wid q b p owner d))"
  "evolves d (snd (mark_terminal e m wid owner losses d))"
  "evolves d (snd (mark_terminal_with_ready_children e m wid ems owner losses d))"
  "evolves d (snd (mark_failed e m wid owner losses d))"
  "evolves d (snd (mark_failed_with_ready_children e m wid ems owner losses d))"
  "evolves d (snd (mark_pending_sink e m wid sb owner losses d))"
  "evolves d (snd (mark_pending_sink_with_ready_children e m wid ems sb owner losses d))"
  by (simp_all add: mark_blocked_def mark_terminal_def mark_terminal_with_ready_children_def
      mark_failed_def mark_failed_with_ready_children_def mark_pending_sink_def
      mark_pending_sink_with_ready_children_def transition_evolves transition_with_children_evolves)

lemma terminalized_evolves:
  "wi_status w \<noteq> TERMINAL \<Longrightarrow> item_evolves w (terminalized_image p now w)"
  by (simp add: item_evolves_def terminalized_image_def)

lemma mark_pending_sink_terminal_evolves [hist_verbs]:
  "evolves d (snd (mark_pending_sink_terminal e token owner t d))"
proof -
  have "hist.resp (mark_pending_sink_terminal_body (ct_run_id t) token owner)"
    unfolding mark_pending_sink_terminal_body_def update_returning_def
    by (intro hist_intros hist_verbs terminalized_evolves) (auto simp: sink_terminal_predicate_def)
  from fenced_leader_transaction_evolves [OF this, of d e t DEFAULT_RUN_LIVENESS_WINDOW
      "''mark_pending_sink_terminal''"]
  show ?thesis unfolding mark_pending_sink_terminal_def by (auto split: prod.splits sum.splits error.splits)
qed

lemma check_batch_token_reads [hist_verbs]: "hist.resp (check_batch_token owner rows token)"
  unfolding check_batch_token_def by (intro hist_intros)

lemma resp_terminal_many: "hist.resp (mark_pending_sink_terminal_many_body run tokens owner)"
  unfolding mark_pending_sink_terminal_many_body_def
  by (rule hist.rel_bind, rule hist.rel_gets, rule hist.rel_bind, rule hist.resp_transaction_clock,
      rule hist.resp_select_bind, intro hist_intros hist_verbs terminalized_evolves)
    (auto simp: sink_bound_def batch_cas_def)

lemma mark_pending_sink_terminal_many_evolves [hist_verbs]:
  "evolves d (snd (mark_pending_sink_terminal_many e tokens owner t d))"
  unfolding mark_pending_sink_terminal_many_def
  by (simp add: fenced_leader_transaction_evolves resp_terminal_many)

lemma terminalize_pending_sinks_evolves [hist_verbs]:
  "evolves d (snd (terminalize_pending_sinks_with_terminal_outcomes e caller t d))"
  unfolding terminalize_pending_sinks_with_terminal_outcomes_def terminalize_pending_sinks_body_def
  by (intro fenced_write_evolves hist_intros hist_verbs terminalized_evolves) (auto simp: sink_parked_def)

end
