(* ===== verification/Scheduler_Queue.thy ===== *)
theory Scheduler_Queue
  imports Scheduler_Dispositions
begin

text \<open>
  Queue intake (\<open>scheduler/queue.py\<close>): the idempotent enqueue of a READY
  continuation, the enqueue that claims in the same transaction, and the born-parked
  hand-off of a source-quarantined row.  The two fenced ingest verbs compose these with
  the row, token and node-state writers of other repositories and are not modelled.
\<close>

definition continuation_event :: "ident \<Rightarrow> continuation \<Rightarrow> instant \<Rightarrow> scheduler_event_record" where
  "continuation_event run cn available_at =
    enqueue_event run (cn_token_id cn) (work_item_id run (cn_token_id cn) (cn_node_id cn) (cn_attempt cn))
      (cn_node_id cn) (cn_attempt cn) available_at None"

definition enqueue_ready_body :: "ident \<Rightarrow> continuation \<Rightarrow> work_item body" where
  "enqueue_ready_body run cn =
    tx_bind read_landscape_transaction_time (\<lambda>available_at.
    let wid = work_item_id run (cn_token_id cn) (cn_node_id cn) (cn_attempt cn);
        v = ready_work_item_values run cn available_at in
    tx_then (validate_work_item_references run (cn_token_id cn) (cn_row_id cn) (cn_ingest_sequence cn)
      (cn_node_id cn) (cn_coalesce_node_id cn))
   (tx_bind (insert_work_item_idempotent v) (\<lambda>inserted.
    tx_then (if inserted then record_event (continuation_event run cn available_at) else tx_return ())
   (tx_bind (select_tables (find_item wid)) the_row))))"

definition enqueue_ready :: "env \<Rightarrow> worker_membership_token \<Rightarrow> continuation \<Rightarrow> db \<Rightarrow> work_item outcome" where
  "enqueue_ready e m cn =
    fenced_member_transaction e m ''enqueue_ready'' (enqueue_ready_body (mt_run_id m) cn)"

text \<open>\<open>worker_id=None\<close> is the ingest, whose fence is the leader epoch.\<close>

definition enqueue_ready_claimed_on ::
  "ident \<Rightarrow> continuation \<Rightarrow> ident \<Rightarrow> int \<Rightarrow> ident option \<Rightarrow> work_item body" where
  "enqueue_ready_claimed_on run cn owner lease_seconds worker =
    tx_bind read_landscape_transaction_time (\<lambda>available_at.
    let wid = work_item_id run (cn_token_id cn) (cn_node_id cn) (cn_attempt cn);
        v = ready_work_item_values run cn available_at in
    tx_then (case worker of
        None \<Rightarrow> tx_return ()
      | Some k \<Rightarrow> tx_bind (select_tables (\<lambda>d. active_worker_fence_clause d k run)) (\<lambda>fence_holds.
          tx_assert fence_holds (RunWorkerEvictedError k run)))
   (tx_then (validate_work_item_references run (cn_token_id cn) (cn_row_id cn) (cn_ingest_sequence cn)
      (cn_node_id cn) (cn_coalesce_node_id cn))
   (tx_bind (insert_work_item_idempotent v) (\<lambda>inserted.
    tx_then (if inserted then record_event (continuation_event run cn available_at) else tx_return ())
   (tx_bind (tx_bind (select_tables (find_item wid)) the_row) (\<lambda>row.
    if wi_status row = READY
    then tx_bind (claim_ready_row (wi_work_item_id row) run owner lease_seconds False (worker \<noteq> None)) (\<lambda>claimed.
         tx_return (case claimed of None \<Rightarrow> row | Some c \<Rightarrow> c))
    else tx_return row)))))) "

definition enqueue_ready_claimed ::
  "env \<Rightarrow> worker_membership_token \<Rightarrow> continuation \<Rightarrow> ident \<Rightarrow> int \<Rightarrow> db \<Rightarrow> work_item outcome" where
  "enqueue_ready_claimed e m cn owner lease_seconds d =
    (if owner \<noteq> mt_worker_id m
     then (Inl (ValueError ''enqueue lease owner must match membership token''), d)
     else fenced_member_transaction e m ''enqueue_ready_claimed''
            (enqueue_ready_claimed_on (mt_run_id m) cn owner lease_seconds (Some (mt_worker_id m))) d)"

definition park_source_quarantine_on :: "ident \<Rightarrow> barrier_emission \<Rightarrow> ident \<Rightarrow> work_item body" where
  "park_source_quarantine_on run em parked_owner =
    tx_bind read_landscape_transaction_time (\<lambda>database_now.
    tx_bind (prepare_fresh_pending_sink_item run em
      (JObj [(''reason'', JStr ''source_quarantine_ingest'')]) database_now (Some parked_owner)) (\<lambda>(v, ev).
    tx_then (insert_work_items [v])
   (tx_then (record_many [ev])
   (tx_bind (tx_bind (select_tables (find_item (wi_work_item_id v))) the_row) (\<lambda>row.
    tx_then (tx_assert (pending_sink_bundle_clause row) incomplete_bundle_error)
      (tx_return row))))))"

section \<open>Intake only moves history forward\<close>

lemma resp_enqueue_claimed_on [hist_verbs]: "hist.resp (enqueue_ready_claimed_on run cn owner secs worker)"
  unfolding enqueue_ready_claimed_on_def by (intro hist_intros hist_verbs)

lemma enqueue_ready_evolves [hist_verbs]: "evolves d (snd (enqueue_ready e m cn d))"
  unfolding enqueue_ready_def enqueue_ready_body_def
  by (intro fenced_member_transaction_evolves hist_intros hist_verbs)

lemma enqueue_ready_claimed_evolves [hist_verbs]:
  "evolves d (snd (enqueue_ready_claimed e m cn owner secs d))"
  unfolding enqueue_ready_claimed_def
  by (simp, intro impI fenced_member_transaction_evolves hist_verbs)

lemma resp_park_quarantine [hist_verbs]: "hist.resp (park_source_quarantine_on run em owner)"
  unfolding park_source_quarantine_on_def by (intro hist_intros hist_verbs)

end
