(* ===== verification/Outcome_Contract.thy ===== *)
theory Outcome_Contract
  imports Landscape_Schema
begin

text \<open>
  The two-axis outcome contract: which discriminator columns an (outcome, path) pair requires,
  pins and forbids (\<open>contracts/audit.py\<close>), and the four places that enforce it: the recorder's
  \<open>_validate_outcome_fields\<close> (\<open>data_flow/outcomes.py\<close>), the loader (\<open>model_loaders.py\<close>) with
  \<open>validate_token_outcome_persisted_fields\<close> and \<open>TokenOutcome.__post_init__\<close>, and the accounting
  census \<open>_outcome_shape_violation\<close> (\<open>web/execution/accounting.py\<close>).

  A stored scalar that Python inspects by type is a \<open>sql_value\<close>.  A violation is the text of its
  kind; the identifiers and previews the messages interpolate are left out.
\<close>

section \<open>Column constraints of a pair\<close>

datatype outcome_field = FieldSinkName | FieldBatchId | FieldErrorHash

record terminal_pair_field_constraints =
  pc_required :: "outcome_field list"
  pc_exact :: "(outcome_field \<times> string) list"
  pc_forbidden :: "outcome_field list"

definition DISCARD_SINK_NAME :: string where
  "DISCARD_SINK_NAME = ''__discard__''"

definition DISCRIMINATOR_FIELDS :: "outcome_field list" where
  "DISCRIMINATOR_FIELDS = [FieldSinkName, FieldBatchId, FieldErrorHash]"

definition forbid_except :: "outcome_field list \<Rightarrow> outcome_field list" where
  "forbid_except allowed = filter (\<lambda>f. f \<notin> set allowed) DISCRIMINATOR_FIELDS"

definition pair_rule ::
  "outcome_field list \<Rightarrow> (outcome_field \<times> string) list \<Rightarrow> outcome_field list \<Rightarrow>
   terminal_pair_field_constraints" where
  "pair_rule required exact forbidden =
    \<lparr>pc_required = required, pc_exact = exact, pc_forbidden = forbidden\<rparr>"

definition TERMINAL_PAIR_FIELD_CONSTRAINTS ::
  "((terminal_outcome option \<times> terminal_path) \<times> terminal_pair_field_constraints) list" where
  "TERMINAL_PAIR_FIELD_CONSTRAINTS =
    [((Some SUCCESS, DEFAULT_FLOW), pair_rule [FieldSinkName] [] (forbid_except [FieldSinkName])),
     ((Some SUCCESS, GATE_ROUTED), pair_rule [FieldSinkName] [] (forbid_except [FieldSinkName])),
     ((Some SUCCESS, GATE_DISCARDED), pair_rule [] [] DISCRIMINATOR_FIELDS),
     ((Some FAILURE, GATE_ERROR_DISCARDED),
       pair_rule [FieldErrorHash] [] (forbid_except [FieldErrorHash])),
     ((Some FAILURE, ON_ERROR_ROUTED),
       pair_rule [FieldSinkName, FieldErrorHash] [] (forbid_except [FieldSinkName, FieldErrorHash])),
     ((Some SUCCESS, FILTER_DROPPED), pair_rule [] [] DISCRIMINATOR_FIELDS),
     ((Some SUCCESS, COALESCED), pair_rule [] [] (forbid_except [FieldSinkName])),
     ((Some FAILURE, UNROUTED), pair_rule [FieldErrorHash] [] (forbid_except [FieldErrorHash])),
     ((Some FAILURE, QUARANTINED_AT_SOURCE),
       pair_rule [FieldErrorHash] [] (forbid_except [FieldSinkName, FieldErrorHash])),
     ((Some TRANSIENT, SINK_FALLBACK_TO_FAILSINK),
       pair_rule [FieldSinkName, FieldErrorHash] [] (forbid_except [FieldSinkName, FieldErrorHash])),
     ((Some FAILURE, SINK_DISCARDED),
       pair_rule [FieldSinkName, FieldErrorHash] [(FieldSinkName, DISCARD_SINK_NAME)]
         (forbid_except [FieldSinkName, FieldErrorHash])),
     ((Some TRANSIENT, FORK_PARENT), pair_rule [] [] DISCRIMINATOR_FIELDS),
     ((Some TRANSIENT, EXPAND_PARENT), pair_rule [] [] DISCRIMINATOR_FIELDS),
     ((Some TRANSIENT, BATCH_CONSUMED), pair_rule [FieldBatchId] [] (forbid_except [FieldBatchId])),
     ((None, BUFFERED), pair_rule [FieldBatchId] [] (forbid_except [FieldBatchId])),
     ((None, ABANDONED), pair_rule [] [] DISCRIMINATOR_FIELDS)]"

text \<open>The \<open>field_values\<close> dictionary.\<close>

primrec field_value ::
  "string option \<Rightarrow> string option \<Rightarrow> string option \<Rightarrow> outcome_field \<Rightarrow> string option" where
  "field_value sink batch err FieldSinkName = sink"
| "field_value sink batch err FieldBatchId = batch"
| "field_value sink batch err FieldErrorHash = err"

section \<open>The recorder\<close>

definition validate_outcome_fields ::
  "terminal_outcome option \<Rightarrow> terminal_path \<Rightarrow> string option \<Rightarrow> string option \<Rightarrow> string option \<Rightarrow>
   string option" where
  "validate_outcome_fields outcome path sink batch err =
    (case map_of TERMINAL_PAIR_FIELD_CONSTRAINTS (outcome, path) of
       None \<Rightarrow> Some ''unhandled (outcome, path) pair''
     | Some constraints \<Rightarrow>
         let field_values = field_value sink batch err in
         if list_ex (\<lambda>f. field_values f = None) (pc_required constraints)
         then Some ''outcome requires a field''
         else if list_ex (\<lambda>(f, expected). field_values f \<noteq> Some expected) (pc_exact constraints)
         then Some ''outcome requires an exact value''
         else if list_ex (\<lambda>f. field_values f \<noteq> None) (pc_forbidden constraints)
         then Some ''outcome forbids a field''
         else None)"

section \<open>The loader\<close>

definition validate_token_outcome_persisted_fields ::
  "terminal_outcome option \<Rightarrow> terminal_path \<Rightarrow> bool \<Rightarrow> string option \<Rightarrow> string option \<Rightarrow> string option \<Rightarrow>
   string option" where
  "validate_token_outcome_persisted_fields outcome path completed sink batch err =
    (if completed \<noteq> (outcome \<noteq> None) then Some ''completed must be true iff outcome is non-NULL''
     else if completed \<and> (case outcome of None \<Rightarrow> True | Some oc \<Rightarrow> (oc, path) \<notin> set legal_terminal_pairs)
     then Some ''not a legal terminal pair''
     else if \<not> completed \<and> path \<notin> set non_terminal_paths
     then Some ''completed=False requires a non-terminal path''
     else case map_of TERMINAL_PAIR_FIELD_CONSTRAINTS (outcome, path) of
       None \<Rightarrow> Some ''KeyError''
     | Some constraints \<Rightarrow>
         let field_values = field_value sink batch err in
         if list_ex (\<lambda>f. field_values f = None) (pc_required constraints)
         then Some ''requires a field but DB has NULL''
         else if list_ex (\<lambda>(f, expected). field_values f \<noteq> Some expected) (pc_exact constraints)
         then Some ''requires an exact value''
         else if list_ex (\<lambda>f. field_values f \<noteq> None) (pc_forbidden constraints)
         then Some ''forbids a field''
         else None)"

text \<open>\<open>TokenOutcome.__post_init__\<close>: the carrier's own two-axis checks.\<close>

definition token_outcome_post_init :: "terminal_outcome option \<Rightarrow> terminal_path \<Rightarrow> bool \<Rightarrow> string option" where
  "token_outcome_post_init outcome path completed =
    (if completed \<and> outcome = None then Some ''completed=True requires non-NULL outcome''
     else if \<not> completed \<and> outcome \<noteq> None then Some ''completed=False requires outcome=None''
     else if completed
     then (case outcome of
             None \<Rightarrow> Some ''AssertionError''
           | Some oc \<Rightarrow> if (oc, path) \<in> set legal_terminal_pairs then None
                        else Some ''not in legal terminal pairs'')
     else if path \<notin> set non_terminal_paths then Some ''completed=False requires a non-terminal path''
     else None)"

text \<open>A column as the driver returns it.\<close>

datatype sql_value = SqlNull | SqlInt int | SqlText string | SqlOther

definition terminal_outcome_of :: "string \<Rightarrow> terminal_outcome option" where
  "terminal_outcome_of v = List.find (\<lambda>oc. outcome_value oc = v) all_terminal_outcomes"

definition terminal_path_of :: "string \<Rightarrow> terminal_path option" where
  "terminal_path_of v = List.find (\<lambda>p. path_value p = v) all_terminal_paths"

record raw_outcome =
  ro_outcome_id :: ident
  ro_run_id :: ident
  ro_token_id :: ident
  ro_recorded_at :: instant
  ro_context :: "json option"
  ro_completed :: sql_value
  ro_outcome :: sql_value
  ro_path :: sql_value
  ro_sink_name :: "string option"
  ro_batch_id :: "string option"
  ro_error_hash :: "string option"

text \<open>The enum call \<open>TerminalOutcome(value)\<close> on any scalar.\<close>

fun parse_outcome :: "sql_value \<Rightarrow> terminal_outcome option" where
  "parse_outcome (SqlText v) = terminal_outcome_of v"
| "parse_outcome _ = None"

fun parse_path :: "sql_value \<Rightarrow> terminal_path option" where
  "parse_path (SqlText v) = terminal_path_of v"
| "parse_path _ = None"

text \<open>\<open>TokenOutcomeLoader.load\<close>.  The \<open>TokenOutcome\<close> it builds has the fields of the typed row.\<close>

definition token_outcome_load :: "raw_outcome \<Rightarrow> string + token_outcome_row" where
  "token_outcome_load row =
    (if ro_completed row \<noteq> SqlInt 0 \<and> ro_completed row \<noteq> SqlInt 1 then Inl ''invalid completed''
     else let completed = (ro_completed row = SqlInt 1) in
       if ro_outcome row \<noteq> SqlNull \<and> parse_outcome (ro_outcome row) = None then Inl ''invalid outcome''
       else let outcome = parse_outcome (ro_outcome row) in
         if ro_path row = SqlNull then Inl ''path is NULL''
         else case parse_path (ro_path row) of
           None \<Rightarrow> Inl ''invalid path''
         | Some path \<Rightarrow>
             (case validate_token_outcome_persisted_fields outcome path completed
                     (ro_sink_name row) (ro_batch_id row) (ro_error_hash row) of
                Some violation \<Rightarrow> Inl violation
              | None \<Rightarrow>
                  (case token_outcome_post_init outcome path completed of
                     Some violation \<Rightarrow> Inl violation
                   | None \<Rightarrow>
                       Inr \<lparr>to_outcome_id = ro_outcome_id row, to_run_id = ro_run_id row, to_token_id = ro_token_id row,
                         to_outcome = outcome, to_path = path, to_completed = completed,
                         to_recorded_at = ro_recorded_at row, to_sink_name = ro_sink_name row,
                         to_batch_id = ro_batch_id row, to_error_hash = ro_error_hash row,
                         to_context = ro_context row\<rparr>)))"

section \<open>The accounting census\<close>

text \<open>The census sees the value of \<open>sink_name\<close> and, of the other columns, only their presence.\<close>

primrec evidence_present :: "string option \<Rightarrow> bool \<Rightarrow> bool \<Rightarrow> outcome_field \<Rightarrow> bool" where
  "evidence_present sink has_batch has_err FieldSinkName = (sink \<noteq> None)"
| "evidence_present sink has_batch has_err FieldBatchId = has_batch"
| "evidence_present sink has_batch has_err FieldErrorHash = has_err"

definition outcome_shape_violation ::
  "sql_value \<Rightarrow> sql_value \<Rightarrow> sql_value \<Rightarrow> string option \<Rightarrow> (outcome_field \<Rightarrow> bool) \<Rightarrow> string option" where
  "outcome_shape_violation completed outcome path sink present =
    (if completed \<noteq> SqlInt 0 \<and> completed \<noteq> SqlInt 1 then Some ''non-boolean completed''
     else case parse_path path of
       None \<Rightarrow> Some ''unknown path''
     | Some parsed_path \<Rightarrow>
         if completed = SqlInt 0
         then if outcome \<noteq> SqlNull then Some ''completed=0 with an outcome''
              else if parsed_path \<notin> set non_terminal_paths then Some ''completed=0 on a terminal path''
              else None
         else if outcome = SqlNull then Some ''completed=1 but outcome NULL''
         else case parse_outcome outcome of
           None \<Rightarrow> Some ''unknown outcome''
         | Some parsed_outcome \<Rightarrow>
             if (parsed_outcome, parsed_path) \<notin> set legal_terminal_pairs
             then Some ''not a legal terminal pair''
             else case map_of TERMINAL_PAIR_FIELD_CONSTRAINTS (Some parsed_outcome, parsed_path) of
               None \<Rightarrow> Some ''KeyError''
             | Some constraints \<Rightarrow>
                 if list_ex (\<lambda>f. \<not> present f) (pc_required constraints) then Some ''missing required field''
                 else if list_ex (\<lambda>(f, expected). sink \<noteq> Some expected) (pc_exact constraints)
                 then Some ''requiring an exact value''
                 else if list_ex present (pc_forbidden constraints) then Some ''pair forbids a field''
                 else None)"

definition census_violation :: "raw_outcome \<Rightarrow> string option" where
  "census_violation row = outcome_shape_violation (ro_completed row) (ro_outcome row) (ro_path row)
     (ro_sink_name row)
     (evidence_present (ro_sink_name row) (ro_batch_id row \<noteq> None) (ro_error_hash row \<noteq> None))"

text \<open>The columns of a typed row as the driver returns them: enum members by value, the flag as an
  integer.\<close>

definition stored_outcome :: "token_outcome_row \<Rightarrow> raw_outcome" where
  "stored_outcome t =
    \<lparr>ro_outcome_id = to_outcome_id t, ro_run_id = to_run_id t, ro_token_id = to_token_id t,
     ro_recorded_at = to_recorded_at t, ro_context = to_context t,
     ro_completed = SqlInt (if to_completed t then 1 else 0),
     ro_outcome = (case to_outcome t of None \<Rightarrow> SqlNull | Some oc \<Rightarrow> SqlText (outcome_value oc)),
     ro_path = SqlText (path_value (to_path t)),
     ro_sink_name = to_sink_name t, ro_batch_id = to_batch_id t, ro_error_hash = to_error_hash t\<rparr>"

section \<open>The vocabulary is closed\<close>

lemma all_terminal_outcomes_UNIV: "set all_terminal_outcomes = UNIV"
  by (auto simp: all_terminal_outcomes_def intro: terminal_outcome.exhaust)

lemma all_terminal_paths_UNIV: "set all_terminal_paths = UNIV"
  by (auto simp: all_terminal_paths_def intro: terminal_path.exhaust)

lemma terminal_outcome_of_value [simp]: "terminal_outcome_of (outcome_value oc) = Some oc"
  by (cases oc) (simp_all add: terminal_outcome_of_def all_terminal_outcomes_def)

lemma terminal_path_of_value [simp]: "terminal_path_of (path_value p) = Some p"
  by (cases p) (simp_all add: terminal_path_of_def all_terminal_paths_def)

text \<open>The constraint table names exactly the legal pairs and the two non-terminal ones.\<close>

lemma constrained_pairs:
  "map_of TERMINAL_PAIR_FIELD_CONSTRAINTS (outcome, path) \<noteq> None \<longleftrightarrow>
   (case outcome of Some oc \<Rightarrow> (oc, path) \<in> set legal_terminal_pairs
      | None \<Rightarrow> path \<in> set non_terminal_paths)"
proof (cases outcome)
  case None
  then show ?thesis
    by (cases path) (simp_all add: TERMINAL_PAIR_FIELD_CONSTRAINTS_def non_terminal_paths_def)
next
  case (Some oc)
  then show ?thesis
    by (cases oc; cases path) (simp_all add: TERMINAL_PAIR_FIELD_CONSTRAINTS_def legal_terminal_pairs_def)
qed

lemma constrained_pair_legal:
  "map_of TERMINAL_PAIR_FIELD_CONSTRAINTS (Some oc, path) = Some k \<Longrightarrow> (oc, path) \<in> set legal_terminal_pairs"
  using constrained_pairs [of "Some oc" path] by simp

text \<open>Only \<open>sink_name\<close> carries an exact constraint.\<close>

lemma exact_only_sink:
  "map_of TERMINAL_PAIR_FIELD_CONSTRAINTS pair = Some k \<Longrightarrow> (f, v) \<in> set (pc_exact k) \<Longrightarrow> f = FieldSinkName"
  by (drule map_of_SomeD)
    (auto simp: TERMINAL_PAIR_FIELD_CONSTRAINTS_def pair_rule_def)

section \<open>The enforcers agree\<close>

lemma persisted_fields_iff:
  "validate_token_outcome_persisted_fields outcome path completed sink batch err = None \<longleftrightarrow>
   completed = (outcome \<noteq> None) \<and> validate_outcome_fields outcome path sink batch err = None"
  using constrained_pairs [of outcome path]
  unfolding validate_token_outcome_persisted_fields_def validate_outcome_fields_def Let_def
  by (cases "map_of TERMINAL_PAIR_FIELD_CONSTRAINTS (outcome, path)") (auto split: option.splits)

lemma post_init_of_persisted:
  "validate_token_outcome_persisted_fields outcome path completed sink batch err = None \<Longrightarrow>
   token_outcome_post_init outcome path completed = None"
  using constrained_pairs [of outcome path]
  unfolding validate_token_outcome_persisted_fields_def token_outcome_post_init_def
  by (auto split: option.splits if_splits)

lemma load_inv:
  "token_outcome_load row = Inr t \<longleftrightarrow>
   ro_completed row = SqlInt (if to_completed t then 1 else 0) \<and>
   (ro_outcome row = SqlNull \<and> to_outcome t = None \<or>
    to_outcome t \<noteq> None \<and> parse_outcome (ro_outcome row) = to_outcome t) \<and>
   parse_path (ro_path row) = Some (to_path t) \<and>
   validate_token_outcome_persisted_fields (to_outcome t) (to_path t) (to_completed t)
     (ro_sink_name row) (ro_batch_id row) (ro_error_hash row) = None \<and>
   to_outcome_id t = ro_outcome_id row \<and> to_run_id t = ro_run_id row \<and> to_token_id t = ro_token_id row \<and>
   to_recorded_at t = ro_recorded_at row \<and> to_sink_name t = ro_sink_name row \<and> to_batch_id t = ro_batch_id row \<and>
   to_error_hash t = ro_error_hash row \<and> to_context t = ro_context row"
  by (cases t; cases "ro_outcome row"; cases "ro_path row")
    (auto simp: token_outcome_load_def Let_def post_init_of_persisted split: option.splits)

lemma accepted_iff:
  "(\<exists>t. token_outcome_load row = Inr t) \<longleftrightarrow>
   (\<exists>outcome path. ro_completed row = SqlInt (if outcome \<noteq> None then 1 else 0) \<and>
      (ro_outcome row = SqlNull \<and> outcome = None \<or> outcome \<noteq> None \<and> parse_outcome (ro_outcome row) = outcome) \<and>
      parse_path (ro_path row) = Some path \<and>
      validate_outcome_fields outcome path (ro_sink_name row) (ro_batch_id row) (ro_error_hash row) = None)"
    (is "?load \<longleftrightarrow> (\<exists>outcome path. ?ok outcome path)")
proof
  assume ?load
  then obtain t where "token_outcome_load row = Inr t" ..
  then have "?ok (to_outcome t) (to_path t)" by (simp add: load_inv persisted_fields_iff)
  then show "\<exists>outcome path. ?ok outcome path" by blast
next
  assume "\<exists>outcome path. ?ok outcome path"
  then obtain outcome path where "?ok outcome path" by blast
  then have "token_outcome_load row = Inr \<lparr>to_outcome_id = ro_outcome_id row, to_run_id = ro_run_id row,
      to_token_id = ro_token_id row, to_outcome = outcome, to_path = path, to_completed = (outcome \<noteq> None),
      to_recorded_at = ro_recorded_at row, to_sink_name = ro_sink_name row, to_batch_id = ro_batch_id row,
      to_error_hash = ro_error_hash row, to_context = ro_context row\<rparr>"
    by (simp add: load_inv persisted_fields_iff)
  then show ?load by blast
qed

lemma stored_outcome_loads:
  "token_outcome_load (stored_outcome t) = Inr r \<longleftrightarrow> to_completed t = (to_outcome t \<noteq> None) \<and>
   validate_outcome_fields (to_outcome t) (to_path t) (to_sink_name t) (to_batch_id t) (to_error_hash t) = None \<and> r = t"
  by (cases t; cases r; cases "to_outcome t") (auto simp: load_inv stored_outcome_def persisted_fields_iff)

lemma evidence_present_iff:
  "evidence_present sink (batch \<noteq> None) (err \<noteq> None) f \<longleftrightarrow> field_value sink batch err f \<noteq> None"
  by (cases f) simp_all

text \<open>C10. What the accounting census accepts, against the loader: it accepts every row the loader accepts,
  and of the rows the loader refuses it accepts exactly the open ones that have no outcome and a
  non-terminal path but whose discriminator columns break the constraints of that path, which it does
  not check.  On rows marked completed the two agree.\<close>

theorem census_agrees_with_loader:
  "census_violation row = None \<longleftrightarrow>
   (\<exists>t. token_outcome_load row = Inr t) \<or>
   (\<exists>path. ro_completed row = SqlInt 0 \<and> ro_outcome row = SqlNull \<and> parse_path (ro_path row) = Some path \<and>
      path \<in> set non_terminal_paths \<and>
      (\<exists>violation. validate_outcome_fields None path (ro_sink_name row) (ro_batch_id row) (ro_error_hash row)
         = Some violation))"
proof -
  have exact: "list_ex (\<lambda>(f, v). ro_sink_name row \<noteq> Some v) (pc_exact k) \<longleftrightarrow>
      list_ex (\<lambda>(f, v). field_value (ro_sink_name row) (ro_batch_id row) (ro_error_hash row) f \<noteq> Some v) (pc_exact k)"
    if "map_of TERMINAL_PAIR_FIELD_CONSTRAINTS pair = Some k" for k pair
    unfolding list_ex_iff by (rule bex_cong [OF refl]) (clarsimp dest!: exact_only_sink [OF that])
  show ?thesis
  proof (cases "ro_completed row = SqlInt 0")
    case True
    then show ?thesis
      using constrained_pairs [of None]
      unfolding census_violation_def outcome_shape_violation_def accepted_iff
      by (cases "parse_path (ro_path row)")
        (auto simp: validate_outcome_fields_def Let_def split: option.splits if_splits)
  next
    case False
    then show ?thesis
      using constrained_pairs exact
      unfolding census_violation_def outcome_shape_violation_def accepted_iff
        validate_outcome_fields_def Let_def evidence_present_iff
      by (cases "parse_path (ro_path row)"; cases "ro_outcome row"; cases "parse_outcome (ro_outcome row)")
        (auto split: option.splits dest: constrained_pair_legal)
  qed
qed

text \<open>A buffered row without its batch: the census accepts it, the loader does not.\<close>

definition demo_unbatched :: raw_outcome where
  "demo_unbatched = \<lparr>ro_outcome_id = ''o1'', ro_run_id = ''r'', ro_token_id = ''t1'', ro_recorded_at = 0,
     ro_context = None, ro_completed = SqlInt 0, ro_outcome = SqlNull, ro_path = SqlText (path_value BUFFERED),
     ro_sink_name = None, ro_batch_id = None, ro_error_hash = None\<rparr>"

theorem census_agrees_with_loader_witness:
  "census_violation demo_unbatched = None \<and> (\<forall>t. token_outcome_load demo_unbatched \<noteq> Inr t) \<and>
   census_violation (demo_unbatched\<lparr>ro_completed := SqlInt 1\<rparr>) \<noteq> None"
proof (intro conjI)
  have fields: "validate_outcome_fields None BUFFERED None None None = Some ''outcome requires a field''" by code_simp
  have path: "parse_path (SqlText (path_value BUFFERED)) = Some BUFFERED" by code_simp
  have refused: "token_outcome_load demo_unbatched = Inl ''requires a field but DB has NULL''" by code_simp
  then show "\<forall>t. token_outcome_load demo_unbatched \<noteq> Inr t" by simp
  show "census_violation demo_unbatched = None"
    unfolding census_agrees_with_loader
    by (rule disjI2, rule exI [of _ BUFFERED])
      (simp add: demo_unbatched_def non_terminal_paths_def fields path [unfolded parse_path.simps path_value.simps])
  have "token_outcome_load (demo_unbatched\<lparr>ro_completed := SqlInt 1\<rparr>)
      = Inl ''completed must be true iff outcome is non-NULL''" by code_simp
  then show "census_violation (demo_unbatched\<lparr>ro_completed := SqlInt 1\<rparr>) \<noteq> None"
    unfolding census_agrees_with_loader by (simp add: demo_unbatched_def)
qed

end
