(* ===== verification/Token_Outcomes.thy ===== *)
theory Token_Outcomes
  imports Run_Coordination Outcome_Contract Example_Run
begin

text \<open>
  The recorders of token outcomes: \<open>data_flow/outcomes.py\<close> with the ownership guards of
  \<open>data_flow/ownership.py\<close>, the item fence of \<open>item_fencing.py\<close>, and the batch-membership
  primitive of \<open>execution/batches.py\<close> that the aggregation barrier uses.

  PostgreSQL row locks change no row; the refusals the lock reads can raise are kept.  The
  process clock \<open>now()\<close> is read once per transaction.  The context of an outcome is the value whose
  canonical JSON the column stores.
\<close>

section \<open>Ownership\<close>

record token_ref =
  ref_token_id :: ident
  ref_run_id :: ident

definition resolve_token_ownership :: "ident \<Rightarrow> (ident \<times> ident) body" where
  "resolve_token_ownership token =
    tx_bind (select_tables (\<lambda>d. List.find (\<lambda>t. tk_token_id t = token) (db_tokens d))) (\<lambda>result.
    case result of
      None \<Rightarrow> tx_raise (AuditIntegrityError ''token does not exist'')
    | Some t \<Rightarrow>
        tx_bind (select_tables (\<lambda>d. List.find (\<lambda>r. rw_row_id r = tk_row_id t) (db_rows d))) (\<lambda>row.
        case row of
          None \<Rightarrow> tx_raise (AuditIntegrityError ''token references a missing row'')
        | Some r \<Rightarrow>
            tx_then (tx_assert (tk_run_id t = rw_run_id r)
              (AuditIntegrityError ''token and row belong to different runs''))
              (tx_return (tk_row_id t, rw_run_id r))))"

definition validate_token_run_ownership :: "token_ref \<Rightarrow> unit body" where
  "validate_token_run_ownership ref =
    tx_bind (resolve_token_ownership (ref_token_id ref)) (\<lambda>(row, actual_run).
      tx_assert (actual_run = ref_run_id ref) (AuditIntegrityError ''cross-run contamination prevented''))"

section \<open>Cross-table witnesses\<close>

text \<open>\<open>_execute_fetchone\<close>: at most one row, or the query is ambiguous.\<close>

definition fetchone :: "(db \<Rightarrow> 'r list) \<Rightarrow> 'r option body" where
  "fetchone q = tx_bind (select_tables q) (\<lambda>rows.
     case rows of
       [] \<Rightarrow> tx_return None
     | r # rest \<Rightarrow> if rest = [] then tx_return (Some r)
                   else tx_raise (LandscapeRecordError ''execute_fetchone matched multiple rows''))"

definition completed_sink_states :: "ident \<Rightarrow> ident \<Rightarrow> db \<Rightarrow> node_state_row list" where
  "completed_sink_states run token d =
    [s. s \<leftarrow> db_node_states d, n \<leftarrow> db_nodes d,
        ns_node_id s = nd_node_id n \<and> ns_run_id s = nd_run_id n \<and>
        ns_token_id s = token \<and> ns_run_id s = run \<and> ns_status s = STATE_COMPLETED \<and>
        nd_node_type n = SINK]"

definition state_artifacts :: "ident \<Rightarrow> ident \<Rightarrow> ident \<Rightarrow> db \<Rightarrow> artifact_row list" where
  "state_artifacts run artifact sink_node d =
    [a. a \<leftarrow> db_artifacts d, s \<leftarrow> db_node_states d, n \<leftarrow> db_nodes d,
        ar_produced_by_state_id a = Some (ns_state_id s) \<and> ar_run_id a = ns_run_id s \<and>
        ns_node_id s = nd_node_id n \<and> ns_run_id s = nd_run_id n \<and>
        ar_artifact_id a = artifact \<and> ar_run_id a = run \<and> ar_sink_node_id a = sink_node \<and>
        ns_node_id s = sink_node \<and> ns_status s = STATE_COMPLETED \<and> nd_node_type n = SINK]"

definition effect_artifacts :: "ident \<Rightarrow> ident \<Rightarrow> ident \<Rightarrow> ident \<Rightarrow> db \<Rightarrow> artifact_row list" where
  "effect_artifacts run token artifact sink_node d =
    [a. a \<leftarrow> db_artifacts d, f \<leftarrow> db_sink_effects d, m \<leftarrow> db_sink_effect_members d,
        ar_sink_effect_id a = Some (sf_effect_id f) \<and> ar_run_id a = sf_run_id f \<and>
        ar_sink_node_id a = sf_sink_node_id f \<and> sm_effect_id m = sf_effect_id f \<and>
        ar_artifact_id a = artifact \<and> ar_run_id a = run \<and> ar_sink_node_id a = sink_node \<and>
        sm_token_id m = token \<and> sm_run_id m = run]"

definition artifact_present :: "ident \<Rightarrow> ident \<Rightarrow> db \<Rightarrow> bool" where
  "artifact_present run artifact d \<longleftrightarrow>
     exists_where (\<lambda>a. ar_artifact_id a = artifact \<and> ar_run_id a = run) (db_artifacts d)"

text \<open>The lock reads of PostgreSQL refuse an artifact that is not there.\<close>

definition lock_cross_table_witnesses ::
  "token_ref \<Rightarrow> terminal_outcome option \<Rightarrow> terminal_path \<Rightarrow> ident option \<Rightarrow> unit body" where
  "lock_cross_table_witnesses ref outcome path artifact =
    tx_bind (tx_gets (\<lambda>c. env_dialect (conn_env c))) (\<lambda>dl.
    if dl \<noteq> Postgresql then tx_return ()
    else if (outcome, path) \<notin> {(Some TRANSIENT, SINK_FALLBACK_TO_FAILSINK), (Some FAILURE, SINK_DISCARDED)}
    then tx_return ()
    else case artifact of
           None \<Rightarrow> tx_return ()
         | Some a \<Rightarrow> tx_bind (select_tables (artifact_present (ref_run_id ref) a)) (\<lambda>present.
             tx_assert present (AuditIntegrityError ''I1c: artifact did not exist'')))"

definition validate_failsink_witness :: "token_ref \<Rightarrow> ident option \<Rightarrow> ident option \<Rightarrow> unit body" where
  "validate_failsink_witness ref sink_node artifact =
    (case sink_node of
       None \<Rightarrow> tx_raise (AuditIntegrityError ''I1c: exact failsink node_id witness required'')
     | Some sn \<Rightarrow>
         (case artifact of
            None \<Rightarrow> tx_raise (AuditIntegrityError ''I1c: exact failsink artifact_id witness required'')
          | Some a \<Rightarrow>
              tx_bind (fetchone (\<lambda>d. filter (\<lambda>s. ns_node_id s = sn)
                (completed_sink_states (ref_run_id ref) (ref_token_id ref) d))) (\<lambda>state.
              tx_then (tx_assert (state \<noteq> None) (AuditIntegrityError ''I1c: no COMPLETED sink node_state''))
             (tx_bind (fetchone (state_artifacts (ref_run_id ref) a sn)) (\<lambda>legacy.
              tx_bind (if legacy = None
                       then fetchone (effect_artifacts (ref_run_id ref) (ref_token_id ref) a sn)
                       else tx_return legacy) (\<lambda>artifact_row.
              tx_assert (artifact_row \<noteq> None) (AuditIntegrityError ''I1c: no artifact witness'')))))))"

definition validate_discard_witness :: "token_ref \<Rightarrow> string option \<Rightarrow> unit body" where
  "validate_discard_witness ref sink =
    tx_then (tx_assert (sink = Some DISCARD_SINK_NAME) (AuditIntegrityError ''I3: discard sink name''))
   (tx_bind (fetchone (completed_sink_states (ref_run_id ref) (ref_token_id ref))) (\<lambda>state.
    tx_assert (state = None) (AuditIntegrityError ''I3: discard contradicts a COMPLETED sink node_state'')))"

definition validate_cross_table_invariants ::
  "token_ref \<Rightarrow> terminal_outcome option \<Rightarrow> terminal_path \<Rightarrow> string option \<Rightarrow> ident option \<Rightarrow>
   ident option \<Rightarrow> bool \<Rightarrow> unit body" where
  "validate_cross_table_invariants ref outcome path sink sink_node artifact lock_witnesses =
    tx_then (if lock_witnesses then lock_cross_table_witnesses ref outcome path artifact else tx_return ())
   (tx_then (if (outcome, path) = (Some TRANSIENT, SINK_FALLBACK_TO_FAILSINK)
             then validate_failsink_witness ref sink_node artifact else tx_return ())
     (if (outcome, path) = (Some FAILURE, SINK_DISCARDED)
      then validate_discard_witness ref sink else tx_return ()))"

definition abandonment_contradiction :: "token_ref \<Rightarrow> terminal_path \<Rightarrow> token_outcome_row \<Rightarrow> bool" where
  "abandonment_contradiction ref path t \<longleftrightarrow> to_run_id t = ref_run_id ref \<and> to_token_id t = ref_token_id ref \<and>
     (if path = ABANDONED then to_completed t else to_path t = ABANDONED)"

definition refuse_abandonment_contradiction :: "token_ref \<Rightarrow> terminal_path \<Rightarrow> unit body" where
  "refuse_abandonment_contradiction ref path =
    tx_bind (select_tables (\<lambda>d. exists_where (abandonment_contradiction ref path) (db_outcomes d))) (\<lambda>existing.
    tx_assert (\<not> existing) (AuditIntegrityError ''decided-plus-abandoned history is forbidden''))"

section \<open>Recording\<close>

record token_outcome_write =
  ow_ref :: token_ref
  ow_outcome :: "terminal_outcome option"
  ow_path :: terminal_path
  ow_sink_name :: "string option"
  ow_sink_node_id :: "ident option"
  ow_artifact_id :: "ident option"
  ow_batch_id :: "ident option"
  ow_error_hash :: "string option"
  ow_context :: "json option"

definition outcome_fields_error :: "token_outcome_write \<Rightarrow> string option" where
  "outcome_fields_error w =
    validate_outcome_fields (ow_outcome w) (ow_path w) (ow_sink_name w) (ow_batch_id w) (ow_error_hash w)"

definition check_outcome_fields :: "token_outcome_write \<Rightarrow> unit body" where
  "check_outcome_fields w =
    (case outcome_fields_error w of
       None \<Rightarrow> tx_return ()
     | Some violation \<Rightarrow> tx_raise (ValueError violation))"

definition outcome_row :: "ident \<Rightarrow> instant \<Rightarrow> token_outcome_write \<Rightarrow> token_outcome_row" where
  "outcome_row uid recorded_at w =
    \<lparr>to_outcome_id = ''out_'' @ take 12 uid, to_run_id = ref_run_id (ow_ref w),
     to_token_id = ref_token_id (ow_ref w), to_outcome = ow_outcome w, to_path = ow_path w,
     to_completed = (ow_outcome w \<noteq> None), to_recorded_at = recorded_at, to_sink_name = ow_sink_name w,
     to_batch_id = ow_batch_id w, to_error_hash = ow_error_hash w, to_context = ow_context w\<rparr>"

definition process_now :: "instant body" where
  "process_now = tx_gets (\<lambda>c. env_process_clock (conn_env c))"

definition record_token_outcome_on :: "token_outcome_write \<Rightarrow> bool \<Rightarrow> ident body" where
  "record_token_outcome_on w dependencies_prelocked =
    tx_then (check_outcome_fields w)
   (tx_then (validate_token_run_ownership (ow_ref w))
   (tx_then (refuse_abandonment_contradiction (ow_ref w) (ow_path w))
   (tx_then (validate_cross_table_invariants (ow_ref w) (ow_outcome w) (ow_path w) (ow_sink_name w)
      (ow_sink_node_id w) (ow_artifact_id w) (\<not> dependencies_prelocked))
   (tx_bind generate_id (\<lambda>uid.
    tx_bind process_now (\<lambda>now.
    tx_then (refused_as_record_error ''record_token_outcome'' (insert_outcome (outcome_row uid now w)))
      (tx_return (to_outcome_id (outcome_row uid now w)))))))))"

text \<open>The batch writer checks every item against the stored rows and the earlier items of the
  batch, and inserts them together.\<close>

definition check_batch_item ::
  "ident \<Rightarrow> bool \<Rightarrow> ident list \<Rightarrow> ident list \<Rightarrow> token_outcome_write \<Rightarrow> token_outcome_row body" where
  "check_batch_item run dependencies_prelocked abandoned completed w =
    tx_then (tx_assert (ref_run_id (ow_ref w) = run) (AuditIntegrityError ''outcome belongs to another run''))
   (tx_then (check_outcome_fields w)
   (tx_then (validate_token_run_ownership (ow_ref w))
   (tx_then (refuse_abandonment_contradiction (ow_ref w) (ow_path w))
   (tx_then (tx_assert (ref_token_id (ow_ref w) \<notin> set (if ow_path w = ABANDONED then completed else abandoned))
      (AuditIntegrityError ''decided-plus-abandoned history is forbidden''))
   (tx_then (validate_cross_table_invariants (ow_ref w) (ow_outcome w) (ow_path w) (ow_sink_name w)
      (ow_sink_node_id w) (ow_artifact_id w) (\<not> dependencies_prelocked))
   (tx_bind generate_id (\<lambda>uid. tx_bind process_now (\<lambda>now.
    tx_return ((outcome_row uid now w)\<lparr>to_run_id := run\<rparr>)))))))))"

primrec check_batch_items ::
  "ident \<Rightarrow> bool \<Rightarrow> token_outcome_write list \<Rightarrow> ident list \<Rightarrow> ident list \<Rightarrow> token_outcome_row list body" where
  "check_batch_items run prelocked [] abandoned completed = tx_return []"
| "check_batch_items run prelocked (w # ws) abandoned completed =
    tx_bind (check_batch_item run prelocked abandoned completed w) (\<lambda>row.
    tx_bind (check_batch_items run prelocked ws
      (if ow_path w = ABANDONED then ref_token_id (ow_ref w) # abandoned else abandoned)
      (if ow_outcome w \<noteq> None then ref_token_id (ow_ref w) # completed else completed)) (\<lambda>rows.
    tx_return (row # rows)))"

definition record_token_outcomes_on ::
  "ident \<Rightarrow> token_outcome_write list \<Rightarrow> bool \<Rightarrow> ident list body" where
  "record_token_outcomes_on run outcomes dependencies_prelocked =
    (if outcomes = [] then tx_return []
     else tx_bind (check_batch_items run dependencies_prelocked outcomes [] []) (\<lambda>values.
          tx_then (refused_as_record_error ''record_token_outcomes_on'' (tx_for values insert_outcome))
            (tx_return (map to_outcome_id values))))"

record parent_disposition =
  pd_parent_ref :: token_ref
  pd_outcome :: "terminal_outcome option"
  pd_path :: terminal_path
  pd_error_hash :: "string option"

definition record_parent_outcomes_on :: "ident \<Rightarrow> parent_disposition list \<Rightarrow> ident option \<Rightarrow> unit body" where
  "record_parent_outcomes_on run dispositions batch =
    tx_then (record_token_outcomes_on run (map (\<lambda>item.
      \<lparr>ow_ref = pd_parent_ref item, ow_outcome = pd_outcome item, ow_path = pd_path item,
       ow_sink_name = None, ow_sink_node_id = None, ow_artifact_id = None,
       ow_batch_id = (if pd_path item = BATCH_CONSUMED then batch else None),
       ow_error_hash = pd_error_hash item, ow_context = None\<rparr>) dispositions) True) (tx_return ())"

section \<open>Fenced recorders\<close>

text \<open>\<open>except SQLAlchemyError\<close> at the transaction boundary.\<close>

fun boundary_error :: "string \<Rightarrow> error \<Rightarrow> error" where
  "boundary_error msg (IntegrityError t) = LandscapeRecordError msg"
| "boundary_error msg DatabaseLockedError = LandscapeRecordError msg"
| "boundary_error msg NoResultFoundError = LandscapeRecordError msg"
| "boundary_error msg err = err"

definition at_boundary :: "string \<Rightarrow> 'a outcome \<Rightarrow> 'a outcome" where
  "at_boundary msg r = (case fst r of Inl err \<Rightarrow> Inl (boundary_error msg err) | Inr x \<Rightarrow> Inr x, snd r)"

definition item_fence :: "worker_membership_token \<Rightarrow> work_item \<Rightarrow> unit body" where
  "item_fence m item =
    tx_bind (update_work_items (\<lambda>w. wi_run_id w = mt_run_id m \<and> wi_work_item_id w = wi_work_item_id item \<and>
        wi_attempt w = wi_attempt item \<and> wi_token_id w = wi_token_id item \<and> wi_row_id w = wi_row_id item \<and>
        wi_lease_owner w = Some (mt_worker_id m) \<and> wi_status w = LEASED)
      (\<lambda>w. w\<lparr>wi_status := LEASED\<rparr>)) (\<lambda>rowcount.
    tx_assert (rowcount = 1)
      (SchedulerLeaseLostError (wi_work_item_id item) (mt_worker_id m) (mt_run_id m)))"

definition fenced_item_transaction ::
  "env \<Rightarrow> worker_membership_token \<Rightarrow> work_item \<Rightarrow> string \<Rightarrow> 'a body \<Rightarrow> db \<Rightarrow> 'a outcome" where
  "fenced_item_transaction e m item verb body d =
    (if wi_run_id item \<noteq> mt_run_id m \<or> wi_lease_owner item \<noteq> Some (mt_worker_id m)
     then (Inl (AuditIntegrityError ''item authority must belong to the admitted worker and run''), d)
     else if wi_status item \<noteq> LEASED
     then (Inl (AuditIntegrityError ''item authority must be a claimed LEASED work item''), d)
     else fenced_member_transaction e m verb (tx_then (item_fence m item) body) d)"

definition record_token_outcome ::
  "env \<Rightarrow> worker_membership_token \<Rightarrow> work_item \<Rightarrow> token_outcome_write \<Rightarrow> db \<Rightarrow> ident outcome" where
  "record_token_outcome e m item w d =
    (if ref_run_id (ow_ref w) \<noteq> mt_run_id m \<or> ref_token_id (ow_ref w) \<noteq> wi_token_id item
     then (Inl (AuditIntegrityError ''token reference does not belong to the claimed work item''), d)
     else case outcome_fields_error w of
       Some violation \<Rightarrow> (Inl (ValueError violation), d)
     | None \<Rightarrow> at_boundary ''record_token_outcome transaction boundary''
         (fenced_item_transaction e m item ''record_token_outcome'' (record_token_outcome_on w False) d))"

definition record_token_outcome_leader ::
  "env \<Rightarrow> coordination_token \<Rightarrow> token_outcome_write \<Rightarrow> db \<Rightarrow> ident outcome" where
  "record_token_outcome_leader e t w d =
    (if ref_run_id (ow_ref w) \<noteq> ct_run_id t
     then (Inl (AuditIntegrityError ''token reference does not belong to the run of the authority''), d)
     else case outcome_fields_error w of
       Some violation \<Rightarrow> (Inl (ValueError violation), d)
     | None \<Rightarrow> at_boundary ''record_token_outcome_leader transaction boundary''
         (fenced_leader_transaction e t DEFAULT_RUN_LIVENESS_WINDOW ''record_token_outcome_leader''
            (record_token_outcome_on w False) d))"

section \<open>The barrier's writers\<close>

record barrier_terminal_outcome =
  bo_token_id :: ident
  bo_outcome :: terminal_outcome
  bo_path :: terminal_path
  bo_error_hash :: "string option"

definition buffered_write :: "ident \<Rightarrow> ident \<Rightarrow> ident \<Rightarrow> json option \<Rightarrow> token_outcome_write" where
  "buffered_write run token batch context =
    \<lparr>ow_ref = \<lparr>ref_token_id = token, ref_run_id = run\<rparr>, ow_outcome = None, ow_path = BUFFERED,
     ow_sink_name = None, ow_sink_node_id = None, ow_artifact_id = None, ow_batch_id = Some batch,
     ow_error_hash = None, ow_context = context\<rparr>"

definition record_buffered_outcome_guarded ::
  "ident \<Rightarrow> ident \<Rightarrow> ident \<Rightarrow> instant \<Rightarrow> json option \<Rightarrow> ident body" where
  "record_buffered_outcome_guarded run token batch recorded_at context =
    (let w = buffered_write run token batch context in
     tx_then (check_outcome_fields w)
    (tx_bind generate_id (\<lambda>uid.
     tx_then (refused_as_record_error ''record_buffered_outcome_guarded''
       (insert_outcome (outcome_row uid recorded_at w)))
       (tx_return (to_outcome_id (outcome_row uid recorded_at w))))))"

definition terminal_write :: "ident \<Rightarrow> barrier_terminal_outcome \<Rightarrow> token_outcome_write" where
  "terminal_write run item =
    \<lparr>ow_ref = \<lparr>ref_token_id = bo_token_id item, ref_run_id = run\<rparr>, ow_outcome = Some (bo_outcome item),
     ow_path = bo_path item, ow_sink_name = None, ow_sink_node_id = None, ow_artifact_id = None,
     ow_batch_id = None, ow_error_hash = bo_error_hash item, ow_context = None\<rparr>"

definition record_terminal_outcomes_guarded ::
  "ident \<Rightarrow> barrier_terminal_outcome list \<Rightarrow> instant \<Rightarrow> ident list body" where
  "record_terminal_outcomes_guarded run outcomes recorded_at =
    tx_bind (tx_each outcomes (\<lambda>item.
      tx_then (check_outcome_fields (terminal_write run item))
     (tx_bind generate_id (\<lambda>uid. tx_return (outcome_row uid recorded_at (terminal_write run item)))))) (\<lambda>values.
    if values = [] then tx_return []
    else tx_then (refused_as_record_error ''record_terminal_outcomes_guarded'' (tx_for values insert_outcome))
           (tx_return (map to_outcome_id values)))"

text \<open>\<open>execution/batches.add_batch_member_guarded\<close>: the conditional INSERT and its post-mortem.  On
  PostgreSQL the checks of the batch also run before the INSERT, on the row it locks.\<close>

definition batch_of :: "ident \<Rightarrow> db \<Rightarrow> batch_row option" where
  "batch_of batch d = List.find (\<lambda>b. bt_batch_id b = batch) (db_batches d)"

definition require_mutable_batch :: "ident option \<Rightarrow> batch_row option \<Rightarrow> batch_row body" where
  "require_mutable_batch expected_run found =
    (case found of
       None \<Rightarrow> tx_raise (AuditIntegrityError ''batch not found'')
     | Some b \<Rightarrow>
         tx_then (tx_assert (case expected_run of None \<Rightarrow> True | Some r \<Rightarrow> bt_run_id b = r)
           (AuditIntegrityError ''batch belongs to another run''))
        (tx_then (tx_assert (bt_status b = DRAFT) (AuditIntegrityError ''batch membership is immutable''))
           (tx_return b)))"

definition member_source :: "ident \<Rightarrow> ident \<Rightarrow> int \<Rightarrow> ident option \<Rightarrow> db \<Rightarrow> batch_member_row list" where
  "member_source batch token ordinal expected_run d =
    [\<lparr>bm_batch_id = batch, bm_run_id = bt_run_id b, bm_token_id = tk_token_id t, bm_ordinal = ordinal\<rparr>.
       b \<leftarrow> db_batches d, t \<leftarrow> db_tokens d,
       tk_run_id t = bt_run_id b \<and> bt_batch_id b = batch \<and> bt_status b = DRAFT \<and> tk_token_id t = token \<and>
       (case expected_run of None \<Rightarrow> True | Some r \<Rightarrow> bt_run_id b = r)]"

definition add_batch_member_guarded ::
  "ident \<Rightarrow> ident \<Rightarrow> int \<Rightarrow> ident option \<Rightarrow> batch_member_row body" where
  "add_batch_member_guarded batch token ordinal expected_run =
    tx_bind (tx_gets (\<lambda>c. env_dialect (conn_env c))) (\<lambda>dl.
    tx_then (if dl = Sqlite then tx_return ()
             else tx_bind (select_tables (batch_of batch)) (\<lambda>found.
                  tx_then (require_mutable_batch expected_run found) (tx_return ())))
   (tx_bind (select_tables (member_source batch token ordinal expected_run)) (\<lambda>source.
    tx_then (tx_for source insert_batch_member)
   (case source of
      member # _ \<Rightarrow> tx_return member
    | [] \<Rightarrow>
        tx_bind (select_tables (batch_of batch)) (\<lambda>found.
        tx_bind (require_mutable_batch expected_run found) (\<lambda>b.
        tx_bind (select_tables (\<lambda>d. List.find (\<lambda>t. tk_token_id t = token) (db_tokens d))) (\<lambda>tok.
        case tok of
          None \<Rightarrow> tx_raise (AuditIntegrityError ''token not found'')
        | Some t \<Rightarrow>
            if tk_run_id t \<noteq> bt_run_id b then tx_raise (AuditIntegrityError ''token belongs to another run'')
            else tx_raise (AuditIntegrityError ''conditional INSERT returned no row''))))))))"

section \<open>Reads and the deferred sweep\<close>

definition find_orphaned_transient_parents :: "ident \<Rightarrow> db \<Rightarrow> (ident \<times> terminal_path) list" where
  "find_orphaned_transient_parents run d =
    map (\<lambda>t. (to_token_id t, to_path t)) (filter (\<lambda>t. to_run_id t = run \<and>
      to_path t \<in> {FORK_PARENT, EXPAND_PARENT} \<and> to_outcome t = Some TRANSIENT \<and>
      \<not> exists_where (\<lambda>p. tp_parent_token_id p = to_token_id t \<and> tp_run_id p = run \<and>
          exists_where (\<lambda>c. to_token_id c = tp_token_id p \<and> to_run_id c = run) (db_outcomes d))
        (db_token_parents d)) (db_outcomes d))"

definition find_orphaned_batch_consumptions :: "ident \<Rightarrow> db \<Rightarrow> ident option list" where
  "find_orphaned_batch_consumptions run d =
    remdups (map to_batch_id (filter (\<lambda>t. to_run_id t = run \<and> to_path t = BATCH_CONSUMED \<and>
      to_outcome t = Some TRANSIENT \<and>
      \<not> exists_where (\<lambda>b. to_batch_id t = Some (bt_batch_id b) \<and> bt_run_id b = run \<and>
          bt_status b = BATCH_COMPLETED) (db_batches d)) (db_outcomes d)))"

definition sweep_deferred_invariants_or_crash :: "ident \<Rightarrow> db \<Rightarrow> error + unit" where
  "sweep_deferred_invariants_or_crash run d =
    (if find_orphaned_transient_parents run d \<noteq> []
     then Inl (AuditIntegrityError ''I1a: parents with no child outcomes'')
     else if find_orphaned_batch_consumptions run d \<noteq> []
     then Inl (AuditIntegrityError ''I1b: consumed batches that never completed'')
     else Inr ())"

text \<open>\<open>ORDER BY completed DESC, recorded_at DESC LIMIT 1\<close>; the loader is \<open>Outcome_Contract\<close>'s.\<close>

definition get_token_outcome :: "ident \<Rightarrow> db \<Rightarrow> token_outcome_row option" where
  "get_token_outcome token d =
    (case sort_key (\<lambda>t. (\<not> to_completed t, - to_recorded_at t))
            (filter (\<lambda>t. to_token_id t = token) (db_outcomes d)) of
       [] \<Rightarrow> None | t # _ \<Rightarrow> Some t)"

definition get_token_outcomes_for_row :: "ident \<Rightarrow> ident \<Rightarrow> db \<Rightarrow> token_outcome_row list" where
  "get_token_outcomes_for_row run row d =
    sort_key to_recorded_at [t. t \<leftarrow> db_outcomes d, k \<leftarrow> db_tokens d,
      to_token_id t = tk_token_id k \<and> tk_row_id k = row \<and> to_run_id t = run]"

section \<open>Checks read, and inserts append\<close>

lemma check_outcome_fields_inv [tx_inv]:
  "check_outcome_fields w c = Inr r \<longleftrightarrow> outcome_fields_error w = None \<and> r = ((), c)"
  by (auto simp: check_outcome_fields_def tx_inv split: option.splits)

interpretation ro: db_preorder "(=)"
  by unfold_locales simp_all

lemma checks_read_only:
  "ro.resp (check_outcome_fields w)" "ro.resp (validate_token_run_ownership ref)"
  "ro.resp (refuse_abandonment_contradiction ref path)"
  "ro.resp (validate_cross_table_invariants ref oc path sink sn art lock)"
  unfolding check_outcome_fields_def validate_token_run_ownership_def resolve_token_ownership_def
    refuse_abandonment_contradiction_def validate_cross_table_invariants_def
    lock_cross_table_witnesses_def validate_failsink_witness_def validate_discard_witness_def fetchone_def
  by (intro ro.resp_intros | auto split: list.splits intro!: ro.resp_intros)+

lemma refuse_abandonment_inv [tx_inv]:
  "refuse_abandonment_contradiction ref path c = Inr r \<longleftrightarrow>
   \<not> exists_where (abandonment_contradiction ref path) (db_outcomes (tables c)) \<and> r = ((), c)"
  by (auto simp: refuse_abandonment_contradiction_def tx_inv)

lemma record_token_outcome_on_inv:
  assumes "record_token_outcome_on w prelocked c = Inr (oid, c')"
  obtains uid now where "outcome_fields_error w = None"
    "\<not> exists_where (abandonment_contradiction (ow_ref w) (ow_path w)) (db_outcomes (tables c))"
    "token_outcomes_ok (db_outcomes (tables c) @ [outcome_row uid now w])"
    "tables c' = (tables c)\<lparr>db_outcomes := db_outcomes (tables c) @ [outcome_row uid now w]\<rparr>"
proof -
  from assms obtain c1 c2 where
    steps: "validate_token_run_ownership (ow_ref w) c = Inr ((), c1)"
      "validate_cross_table_invariants (ow_ref w) (ow_outcome w) (ow_path w) (ow_sink_name w)
         (ow_sink_node_id w) (ow_artifact_id w) (\<not> prelocked) c1 = Inr ((), c2)"
    and rest: "outcome_fields_error w = None"
      "\<not> exists_where (abandonment_contradiction (ow_ref w) (ow_path w)) (db_outcomes (tables c1))"
      "token_outcomes_ok (db_outcomes (tables c2) @
         [outcome_row (env_uuid4_hex (conn_env c2) (conn_uuid_reads c2)) (env_process_clock (conn_env c2)) w])"
      "tables c' = (tables c2)\<lparr>db_outcomes := db_outcomes (tables c2) @
         [outcome_row (env_uuid4_hex (conn_env c2) (conn_uuid_reads c2)) (env_process_clock (conn_env c2)) w]\<rparr>"
    by (auto simp: record_token_outcome_on_def process_now_def tx_inv)
  have "tables c1 = tables c" "tables c2 = tables c1"
    using tx_relD [OF checks_read_only(2) steps(1)] tx_relD [OF checks_read_only(4) steps(2)] by simp_all
  with rest that show thesis by auto
qed

lemma insert_outcomes_inv:
  "tx_for values insert_outcome c = Inr ((), c') \<Longrightarrow>
   tables c' = (tables c)\<lparr>db_outcomes := db_outcomes (tables c) @ values\<rparr>"
  by (induction "values" arbitrary: c) (auto simp: tx_inv)

section \<open>Every stored outcome satisfies the contract\<close>

definition outcome_row_valid :: "token_outcome_row \<Rightarrow> bool" where
  "outcome_row_valid t \<longleftrightarrow> to_completed t = (to_outcome t \<noteq> None) \<and>
     validate_outcome_fields (to_outcome t) (to_path t) (to_sink_name t) (to_batch_id t) (to_error_hash t) = None"

definition outcomes_wf :: "db \<Rightarrow> bool" where
  "outcomes_wf d \<longleftrightarrow> list_all outcome_row_valid (db_outcomes d)"

definition keeps_outcomes :: "db \<Rightarrow> db \<Rightarrow> bool" where
  "keeps_outcomes d d' \<longleftrightarrow> (outcomes_wf d \<longrightarrow> outcomes_wf d')"

lemma outcome_row_valid_row:
  "outcome_row_valid (outcome_row uid now w) \<longleftrightarrow> outcome_fields_error w = None"
  by (simp add: outcome_row_valid_def outcome_row_def outcome_fields_error_def)

text \<open>C9. The row the recorders build for a write loads exactly when the writer's field check accepts the
  write, and what is loaded is the write itself: identity, outcome, path, completion flag, timestamp,
  discriminator columns and context.\<close>

theorem recorded_outcome_loads:
  "token_outcome_load (stored_outcome (outcome_row uid recorded_at w)) = Inr r \<longleftrightarrow>
   validate_outcome_fields (ow_outcome w) (ow_path w) (ow_sink_name w) (ow_batch_id w) (ow_error_hash w) = None \<and>
   r = \<lparr>to_outcome_id = ''out_'' @ take 12 uid, to_run_id = ref_run_id (ow_ref w),
     to_token_id = ref_token_id (ow_ref w), to_outcome = ow_outcome w, to_path = ow_path w,
     to_completed = (ow_outcome w \<noteq> None), to_recorded_at = recorded_at, to_sink_name = ow_sink_name w,
     to_batch_id = ow_batch_id w, to_error_hash = ow_error_hash w, to_context = ow_context w\<rparr>"
  by (simp add: stored_outcome_loads outcome_row_def)

interpretation wfp: coordination_blind keeps_outcomes
  by unfold_locales (auto simp: keeps_outcomes_def outcomes_wf_def)

lemma keeps_outcomes_statements:
  "wfp.resp (update_runs PR fr)" "wfp.resp (update_work_items PI fi)" "wfp.resp (update_group_losses PG fg)"
  "wfp.resp (insert_work_item i)" "wfp.resp (insert_scheduler_event se)"
  "wfp.resp (insert_group_loss g)" "wfp.resp (insert_batch_member m)"
  by (rule tx_relI, auto simp: tx_inv keeps_outcomes_def outcomes_wf_def)+

lemmas wfp_intros = wfp.resp_intros wfp.blind_statements keeps_outcomes_statements

lemma wfp_record_on: "wfp.resp (record_token_outcome_on w prelocked)"
proof (rule tx_relI)
  fix c oid c' assume "record_token_outcome_on w prelocked c = Inr (oid, c')"
  then show "keeps_outcomes (tables c) (tables c')"
    by (rule record_token_outcome_on_inv)
      (simp add: keeps_outcomes_def outcomes_wf_def outcome_row_valid_row)
qed

lemma check_batch_items_inv:
  "check_batch_items run prelocked ws abandoned completed c = Inr (rows, c') \<Longrightarrow>
   list_all outcome_row_valid rows \<and> tables c' = tables c"
proof (induction ws arbitrary: abandoned completed c rows)
  case (Cons w ws)
  from Cons.prems obtain row rows' c1 ab co where
    item: "check_batch_item run prelocked abandoned completed w c = Inr (row, c1)"
    and rest: "check_batch_items run prelocked ws ab co c1 = Inr (rows', c')"
    and rows: "rows = row # rows'"
    unfolding check_batch_items.simps tx_bind_inv tx_return_inv by blast
  from item obtain c2 c3 where
    steps: "validate_token_run_ownership (ow_ref w) c = Inr ((), c2)"
      "validate_cross_table_invariants (ow_ref w) (ow_outcome w) (ow_path w) (ow_sink_name w)
         (ow_sink_node_id w) (ow_artifact_id w) (\<not> prelocked) c2 = Inr ((), c3)"
    and row: "outcome_fields_error w = None" "tables c1 = tables c3"
      "row = (outcome_row (env_uuid4_hex (conn_env c3) (conn_uuid_reads c3)) (env_process_clock (conn_env c3)) w)
         \<lparr>to_run_id := run\<rparr>"
    by (auto simp: check_batch_item_def process_now_def tx_inv)
  have "tables c3 = tables c"
    using tx_relD [OF checks_read_only(2) steps(1)] tx_relD [OF checks_read_only(4) steps(2)] by simp
  moreover have "outcome_row_valid row"
    using row(1,3) outcome_row_valid_row [of _ _ w] by (simp add: outcome_row_valid_def)
  ultimately show ?case using Cons.IH rest rows row(2) by auto
qed (simp add: tx_inv)

lemma wfp_record_many_on: "wfp.resp (record_token_outcomes_on run ws prelocked)"
proof (rule tx_relI)
  fix c ids c' assume "record_token_outcomes_on run ws prelocked c = Inr (ids, c')"
  then have "tables c' = tables c \<or> (\<exists>rows c1. check_batch_items run prelocked ws [] [] c = Inr (rows, c1) \<and>
      tx_for rows insert_outcome c1 = Inr ((), c'))"
    by (auto simp: record_token_outcomes_on_def tx_inv split: if_splits)
  then show "keeps_outcomes (tables c) (tables c')"
    by (auto simp: keeps_outcomes_def outcomes_wf_def dest!: check_batch_items_inv insert_outcomes_inv)
qed

lemma wfp_buffered: "wfp.resp (record_buffered_outcome_guarded run token batch at ctx)"
  by (rule tx_relI)
    (auto simp: record_buffered_outcome_guarded_def Let_def tx_inv keeps_outcomes_def outcomes_wf_def
      outcome_row_valid_row)

definition terminal_row_of :: "ident \<Rightarrow> instant \<Rightarrow> barrier_terminal_outcome \<Rightarrow> token_outcome_row \<Rightarrow> bool" where
  "terminal_row_of run recorded_at item t \<longleftrightarrow>
     (\<exists>uid. t = outcome_row uid recorded_at (terminal_write run item)) \<and> outcome_row_valid t"

lemma terminal_rows_inv:
  "tx_each outcomes (\<lambda>item. tx_then (check_outcome_fields (terminal_write run item))
     (tx_bind generate_id (\<lambda>uid. tx_return (outcome_row uid recorded_at (terminal_write run item))))) c
     = Inr (rows, c') \<Longrightarrow>
   list_all2 (terminal_row_of run recorded_at) outcomes rows \<and> tables c' = tables c"
  by (erule tx_each_reads [rotated]) (auto simp: terminal_row_of_def tx_inv outcome_row_valid_row)

lemma terminal_rows_valid: "list_all2 (terminal_row_of run at) outcomes rows \<Longrightarrow> list_all outcome_row_valid rows"
  by (induction rule: list_all2_induct) (auto simp: terminal_row_of_def)

lemma wfp_terminal: "wfp.resp (record_terminal_outcomes_guarded run outcomes at)"
proof (rule tx_relI)
  fix c ids c' assume "record_terminal_outcomes_guarded run outcomes at c = Inr (ids, c')"
  then show "keeps_outcomes (tables c) (tables c')"
    unfolding record_terminal_outcomes_guarded_def
    by (auto simp: tx_inv keeps_outcomes_def outcomes_wf_def
        dest!: terminal_rows_inv insert_outcomes_inv terminal_rows_valid)
qed

lemma at_boundary_db [simp]: "snd (at_boundary msg r) = snd r"
  by (simp add: at_boundary_def)

section \<open>Every outcome verb only moves history forward\<close>

lemma hist_checks [hist_verbs]:
  "hist.resp (check_outcome_fields w)" "hist.resp (validate_token_run_ownership ref)"
  "hist.resp (refuse_abandonment_contradiction ref path)"
  "hist.resp (validate_cross_table_invariants ref oc path sink sn art lock)"
  by (rule tx_rel_mono, rule checks_read_only, simp)+

lemma hist_process_now [hist_verbs]: "hist.resp process_now"
  unfolding process_now_def by (intro hist_intros)

lemma hist_record_on [hist_verbs]: "hist.resp (record_token_outcome_on w prelocked)"
  unfolding record_token_outcome_on_def by (intro hist_intros hist_verbs)

lemma hist_check_batch_items [hist_verbs]:
  "hist.resp (check_batch_items run prelocked ws abandoned completed)"
  by (rule tx_relI) (auto dest!: check_batch_items_inv)

lemma hist_record_many_on [hist_verbs]: "hist.resp (record_token_outcomes_on run ws prelocked)"
  unfolding record_token_outcomes_on_def by (intro hist_intros hist_verbs)

lemma hist_barrier_outcomes [hist_verbs]:
  "hist.resp (record_buffered_outcome_guarded run token batch at ctx)"
  "hist.resp (record_terminal_outcomes_guarded run outcomes at)"
  unfolding record_buffered_outcome_guarded_def record_terminal_outcomes_guarded_def
  by (intro hist_intros hist_verbs)+

lemma hist_batch_member [hist_verbs]: "hist.resp (add_batch_member_guarded batch token ord expected)"
  unfolding add_batch_member_guarded_def require_mutable_batch_def
  by (intro hist_intros | auto split: list.splits intro!: hist_intros)+

lemma hist_item_fence [hist_verbs]: "hist.resp (item_fence m item)"
  unfolding item_fence_def by (intro hist_intros) (auto simp: item_evolves_def)

lemma fenced_item_evolves:
  "hist.resp body \<Longrightarrow> evolves d (snd (fenced_item_transaction e m item v body d))"
  unfolding fenced_item_transaction_def
  by (simp, intro impI fenced_member_transaction_evolves hist_intros hist_verbs)

lemma record_token_outcome_evolves [hist_verbs]: "evolves d (snd (record_token_outcome e m item w d))"
  unfolding record_token_outcome_def
  by (auto split: option.splits intro!: fenced_item_evolves hist_verbs)

lemma record_token_outcome_leader_evolves [hist_verbs]:
  "evolves d (snd (record_token_outcome_leader e t w d))"
  unfolding record_token_outcome_leader_def
  by (auto split: option.splits intro!: fenced_leader_transaction_evolves hist_verbs)

section \<open>Decided and abandoned never meet\<close>

definition contradiction_free :: "db \<Rightarrow> bool" where
  "contradiction_free d \<longleftrightarrow> list_all (\<lambda>a. list_all (\<lambda>b.
     to_run_id a = to_run_id b \<and> to_token_id a = to_token_id b \<and> to_completed a \<longrightarrow> to_path b \<noteq> ABANDONED)
       (db_outcomes d)) (db_outcomes d)"

definition keeps_apart :: "db \<Rightarrow> db \<Rightarrow> bool" where
  "keeps_apart d d' \<longleftrightarrow> (contradiction_free d \<longrightarrow> contradiction_free d')"

interpretation apart: coordination_blind keeps_apart
  by unfold_locales (auto simp: keeps_apart_def contradiction_free_def)

lemma abandoned_not_decided: "outcome_fields_error w = None \<Longrightarrow> ow_path w = ABANDONED \<Longrightarrow> ow_outcome w = None"
  unfolding outcome_fields_error_def validate_outcome_fields_def
  by (cases "ow_outcome w")
    (auto simp: legal_terminal_pairs_def split: option.splits dest: constrained_pair_legal)

lemma apart_record_on: "apart.resp (record_token_outcome_on w prelocked)"
proof (rule tx_relI)
  fix c oid c' assume "record_token_outcome_on w prelocked c = Inr (oid, c')"
  then show "keeps_apart (tables c) (tables c')"
  proof (rule record_token_outcome_on_inv)
    fix uid now
    let ?t = "outcome_row uid now w"
    assume valid: "outcome_fields_error w = None"
      and free: "\<not> exists_where (abandonment_contradiction (ow_ref w) (ow_path w)) (db_outcomes (tables c))"
      and c': "tables c' = (tables c)\<lparr>db_outcomes := db_outcomes (tables c) @ [?t]\<rparr>"
    have "\<not> (to_completed ?t \<and> to_path ?t = ABANDONED)"
      using abandoned_not_decided [OF valid] by (auto simp: outcome_row_def)
    with free show "keeps_apart (tables c) (tables c')"
      by (auto simp: keeps_apart_def contradiction_free_def c' exists_where_iff abandonment_contradiction_def
          list_all_iff outcome_row_def split: if_splits)
  qed
qed

lemma apart_item_fence: "apart.resp (item_fence m item)"
  unfolding item_fence_def
  by (intro apart.resp_intros)
    (rule tx_relI, auto simp: tx_inv keeps_apart_def contradiction_free_def)

text \<open>C11. Neither outcome recorder ever makes a token both decided and abandoned: if no token of
  the audit trail is, none is after a worker's or a leader's recording, whether it commits or is
  refused.\<close>

theorem recorders_keep_decided_and_abandoned_apart:
  assumes "contradiction_free d"
  shows "contradiction_free (snd (record_token_outcome e m item w d)) \<and>
         contradiction_free (snd (record_token_outcome_leader e t w d))"
proof -
  have "keeps_apart d (snd (record_token_outcome e m item w d))"
    unfolding record_token_outcome_def fenced_item_transaction_def
    by (auto simp: apart.db_refl split: option.splits
        intro!: apart.fenced_member_rel apart.rel_then apart_item_fence apart_record_on)
  moreover have "keeps_apart d (snd (record_token_outcome_leader e t w d))"
    unfolding record_token_outcome_leader_def
    by (auto simp: apart.db_refl split: option.splits intro!: apart.fenced_leader_rel apart_record_on)
  ultimately show ?thesis using assms by (simp add: keeps_apart_def)
qed

text \<open>The leader of the example run decides a token it had not abandoned, and is refused once it
  has.\<close>

definition demo_outcome :: "terminal_outcome option \<Rightarrow> terminal_path \<Rightarrow> token_outcome_write" where
  "demo_outcome oc path = \<lparr>ow_ref = \<lparr>ref_token_id = ''t1'', ref_run_id = ''r''\<rparr>, ow_outcome = oc,
     ow_path = path, ow_sink_name = None, ow_sink_node_id = None, ow_artifact_id = None,
     ow_batch_id = None, ow_error_hash = None, ow_context = None\<rparr>"

theorem recorders_keep_decided_and_abandoned_apart_witness:
  "(let d = snd (record_token_outcome_leader demo_env demo_token (demo_outcome (Some SUCCESS) FILTER_DROPPED)
              (demo_live [])) in
    map to_path (db_outcomes d) = [FILTER_DROPPED] \<and> contradiction_free d \<and>
    fst (record_token_outcome_leader demo_env demo_token (demo_outcome None ABANDONED) d)
      = Inl (AuditIntegrityError ''decided-plus-abandoned history is forbidden''))"
proof -
  let ?d = "snd (record_token_outcome_leader demo_env demo_token (demo_outcome (Some SUCCESS) FILTER_DROPPED)
              (demo_live []))"
  have "contradiction_free (demo_live [])" by code_simp
  from recorders_keep_decided_and_abandoned_apart [OF this] have "contradiction_free ?d" by blast
  moreover have "map to_path (db_outcomes ?d) = [FILTER_DROPPED]" by code_simp
  moreover have "fst (record_token_outcome_leader demo_env demo_token (demo_outcome None ABANDONED) ?d)
      = Inl (AuditIntegrityError ''decided-plus-abandoned history is forbidden'')" by code_simp
  ultimately show ?thesis by (simp add: Let_def)
qed

end
