(* ===== verification/Barrier_Journal.thy ===== *)
theory Barrier_Journal
  imports Scheduler_Dispositions Token_Outcomes
begin

text \<open>
  The barrier journal (\<open>scheduler/barrier.py\<close>): the atomic completion of a barrier
  (consume the BLOCKED inputs, emit sink-bound and READY outputs, record outcomes and
  losses, all in one transaction), its two partial-release wrappers, the fenced
  adoption of a hold, the reset of an adoption marker, and the reads of the holds.

  The keyword arguments of a completion are the fields of a record.  An intake
  snapshot is a list read as a set; the dictionary of adoption-marker ids only removes
  duplicates, whose order no update depends on.
\<close>

record barrier_completion =
  bc_barrier_key :: string
  bc_consumed :: "ident list"
  bc_pending_sink :: "barrier_emission list"
  bc_ready :: "barrier_emission list"
  bc_exhaustive :: bool
  bc_scope_row_id :: "ident option"
  bc_snapshot :: "ident list option"
  bc_release_context :: "(string \<times> json) list option"
  bc_lease_owner :: "ident option"
  bc_group_losses :: "group_loss_spec list"
  bc_terminal_outcomes :: "barrier_terminal_outcome list"

section \<open>Refusals before the transaction\<close>

text \<open>The first condition of a list that holds, as the error it raises.\<close>

fun first_refusal :: "(bool \<times> string) list \<Rightarrow> error option" where
  "first_refusal [] = None"
| "first_refusal ((refused, label) # rest) =
    (if refused then Some (AuditIntegrityError label) else first_refusal rest)"

definition bundle_missing :: "barrier_emission \<Rightarrow> bool" where
  "bundle_missing em \<longleftrightarrow> em_sink_name em = None \<or> em_outcome em = None \<or> em_path em = None"

definition outside_scope :: "ident option \<Rightarrow> barrier_emission \<Rightarrow> bool" where
  "outside_scope scope em =
    (case scope of None \<Rightarrow> False
     | Some row \<Rightarrow> em_row_id em \<noteq> None \<and> em_row_id em \<noteq> Some row)"

definition completion_refusal :: "barrier_completion \<Rightarrow> error option" where
  "completion_refusal b =
    (let consumed = bc_consumed b;
         pending = map em_token_id (bc_pending_sink b);
         outcomes = map bo_token_id (bc_terminal_outcomes b) in
     first_refusal
      [(bc_scope_row_id b \<noteq> None \<and> \<not> bc_exhaustive b, ''scope on the partial-release arm''),
       (bc_snapshot b \<noteq> None \<and> \<not> bc_exhaustive b, ''snapshot on the partial-release arm''),
       (\<not> distinct consumed, ''duplicate live token_ids''),
       (\<not> distinct pending, ''duplicate pending-sink emissions''),
       (\<not> distinct (map em_token_id (bc_ready b)), ''duplicate ready emissions''),
       (\<not> distinct outcomes, ''duplicate terminal outcomes''),
       (\<not> set outcomes \<subseteq> set consumed, ''terminal outcomes outside the consumed set''),
       (set consumed \<inter> set pending \<noteq> {}, ''consumed and emitted to pending-sink''),
       (list_ex bundle_missing (bc_pending_sink b), ''emission requires sink_name, outcome and path''),
       (case bc_snapshot b of None \<Rightarrow> False | Some ids \<Rightarrow> \<not> set consumed \<subseteq> set ids,
        ''consumed outside the intake snapshot''),
       (list_ex (outside_scope (bc_scope_row_id b)) (bc_pending_sink b @ bc_ready b),
        ''emission outside the scoped group'')])"

section \<open>Checks inside the transaction\<close>

definition check_terminal_outcomes :: "ident \<Rightarrow> ident list \<Rightarrow> unit body" where
  "check_terminal_outcomes run token_ids =
    (if token_ids = [] then tx_return ()
     else tx_bind (select_tables (\<lambda>d. map (\<lambda>t. (tk_token_id t, tk_run_id t))
            (filter (\<lambda>t. tk_token_id t \<in> set token_ids) (db_tokens d)))) (\<lambda>locked_tokens.
          tx_then (tx_assert (set locked_tokens = set (map (\<lambda>i. (i, run)) token_ids))
            (AuditIntegrityError ''terminal outcome for a missing or foreign token''))
         (tx_bind (select_tables (\<lambda>d. exists_where (\<lambda>t. to_run_id t = run \<and>
            to_token_id t \<in> set token_ids \<and> to_completed t) (db_outcomes d))) (\<lambda>existing.
          tx_assert (\<not> existing) (AuditIntegrityError ''would duplicate terminal outcomes'')))))"

definition blocked_under :: "ident \<Rightarrow> string \<Rightarrow> ident option \<Rightarrow> work_item \<Rightarrow> bool" where
  "blocked_under run key scope w \<longleftrightarrow>
     wi_run_id w = run \<and> wi_barrier_key w = Some key \<and> wi_status w = BLOCKED \<and>
     (case scope of None \<Rightarrow> True | Some row \<Rightarrow> wi_row_id w = row)"

definition durable_ids :: "work_item list \<Rightarrow> ident list" where
  "durable_ids rows = remdups (map wi_token_id rows)"

definition check_snapshot ::
  "ident \<Rightarrow> string \<Rightarrow> ident option \<Rightarrow> ident list option \<Rightarrow> ident list \<Rightarrow> unit body" where
  "check_snapshot run key scope snapshot durable =
    (case snapshot of
       None \<Rightarrow> tx_return ()
     | Some ids \<Rightarrow>
         if set ids \<subseteq> set durable then tx_return ()
         else tx_bind (case scope of
                None \<Rightarrow> tx_return False
              | Some row \<Rightarrow> select_tables (\<lambda>d. exists_where (\<lambda>w. blocked_under run key None w \<and>
                  wi_token_id w \<in> set ids - set durable \<and> wi_row_id w \<noteq> row) (db_work_items d))) (\<lambda>cross_group.
              if cross_group then tx_raise (AuditIntegrityError ''snapshot token of a different row group'')
              else tx_raise (AuditIntegrityError ''snapshot token with no durable BLOCKED row'')))"

text \<open>Whether an emission hands off a buffered token (its BLOCKED row) or inserts a fresh one.\<close>

definition classify_emission :: "bool \<Rightarrow> work_item list \<Rightarrow> barrier_emission \<Rightarrow> bool body" where
  "classify_emission exhaustive rows em =
    (let matching_rows = filter (\<lambda>w. wi_token_id w = em_token_id em) rows in
     if matching_rows = []
     then (if exhaustive then tx_return False
           else tx_raise (AuditIntegrityError ''refusing partial sink handoff''))
     else tx_then (tx_assert (length matching_rows = 1) (AuditIntegrityError ''expected exactly one matching row''))
            (tx_return True))"

definition late_arrivals :: "ident list option \<Rightarrow> ident list \<Rightarrow> ident list" where
  "late_arrivals snapshot durable =
    (case snapshot of None \<Rightarrow> [] | Some ids \<Rightarrow> sort (filter (\<lambda>i. i \<notin> set ids) durable))"

definition required_ids :: "ident list option \<Rightarrow> ident list \<Rightarrow> ident list" where
  "required_ids snapshot durable =
    (case snapshot of None \<Rightarrow> durable | Some ids \<Rightarrow> filter (\<lambda>i. i \<in> set ids) durable)"

definition check_exhaustive ::
  "barrier_completion \<Rightarrow> ident list \<Rightarrow> barrier_emission list \<Rightarrow> unit body" where
  "check_exhaustive b durable passthrough =
    (let handed_off = map em_token_id passthrough in
     if \<not> bc_exhaustive b then tx_return ()
     else tx_then (tx_assert (case bc_snapshot b of None \<Rightarrow> True | Some ids \<Rightarrow> set handed_off \<subseteq> set ids)
            (AuditIntegrityError ''handed off outside the intake snapshot''))
         (tx_assert (set (required_ids (bc_snapshot b) durable) \<subseteq> set (bc_consumed b) \<union> set handed_off)
            (AuditIntegrityError ''the completion would orphan blocked tokens'')))"

definition emission_context :: "barrier_completion \<Rightarrow> ident list \<Rightarrow> json" where
  "emission_context b durable =
    JObj ((''barrier_key'', JStr (bc_barrier_key b)) #
      (if bc_exhaustive b
       then (''consumed_count'', JInt (int (length (bc_consumed b)))) #
            (if late_arrivals (bc_snapshot b) durable = [] then []
             else [(''late_arrival_token_ids'', JArr (map JStr (late_arrivals (bc_snapshot b) durable)))])
       else []))"

section \<open>The writes of a completion\<close>

definition barrier_terminal_event ::
  "ident \<Rightarrow> json \<Rightarrow> instant \<Rightarrow> work_item \<Rightarrow> scheduler_event_record" where
  "barrier_terminal_event run context database_now row =
    \<lparr>sr_event_type = MARK_BLOCKED_BARRIER_TERMINAL, sr_run_id = run, sr_token_id = wi_token_id row,
     sr_work_item_id = wi_work_item_id row, sr_node_id = wi_node_id row,
     sr_from_status = Some BLOCKED, sr_to_status = TERMINAL,
     sr_from_lease_owner = wi_lease_owner row, sr_to_lease_owner = None,
     sr_from_attempt = Some (wi_attempt row), sr_to_attempt = wi_attempt row,
     sr_recorded_at = database_now, sr_from_lease_expires_at = wi_lease_expires_at row,
     sr_to_lease_expires_at = None, sr_caller_owner = None, sr_context = Some context\<rparr>"

text \<open>\<open>dict.update\<close>.\<close>

definition merged :: "(string \<times> json) list \<Rightarrow> (string \<times> json) list \<Rightarrow> json" where
  "merged base extra = JObj (AList.updates (map fst extra) (map snd extra) base)"

definition terminalize_consumed_barrier_rows ::
  "ident \<Rightarrow> string \<Rightarrow> ident list \<Rightarrow> work_item list \<Rightarrow> instant \<Rightarrow> (string \<times> json) list option \<Rightarrow> nat body" where
  "terminalize_consumed_barrier_rows run key consumed rows database_now release_context =
    tx_bind (tx_gets conn_env) (\<lambda>e.
    let context = merged [(''barrier_key'', JStr key)]
          (case release_context of None \<Rightarrow> [] | Some extra \<Rightarrow> extra);
        candidate_rows = sort_key (\<lambda>w. (wi_token_id w, wi_work_item_id w))
          (filter (\<lambda>w. wi_token_id w \<in> set consumed) rows) in
    if candidate_rows = [] then tx_return 0
    else
      tx_bind (execute_many candidate_rows (\<lambda>row. update_work_items (\<lambda>w.
          wi_work_item_id w = wi_work_item_id row \<and> wi_run_id w = run \<and> wi_barrier_key w = Some key \<and>
          wi_status w = BLOCKED \<and> wi_token_id w = wi_token_id row)
        (terminalized_image (scrubbed_row_payload_json e key) database_now))) (\<lambda>terminalized.
      tx_then (tx_assert (terminalized = length (remdups consumed) \<and> terminalized = length candidate_rows)
        (AuditIntegrityError ''barrier terminalization mismatch''))
     (tx_then (record_many (map (barrier_terminal_event run context database_now) candidate_rows))
        (tx_return terminalized))))"

definition handoff_image :: "barrier_emission \<Rightarrow> ident option \<Rightarrow> instant \<Rightarrow> work_item \<Rightarrow> work_item" where
  "handoff_image em owner database_now w = w\<lparr>wi_status := PENDING_SINK,
     wi_row_payload_json := em_row_payload_json em, wi_pending_sink_name := em_sink_name em,
     wi_pending_outcome := em_outcome em, wi_pending_path := em_path em,
     wi_pending_error_hash := em_error_hash em, wi_pending_error_message := em_error_message em,
     wi_lease_owner := owner, wi_lease_expires_at := None, wi_updated_at := database_now\<rparr>"

definition handoff_event ::
  "ident \<Rightarrow> ident option \<Rightarrow> json \<Rightarrow> instant \<Rightarrow> work_item \<Rightarrow> scheduler_event_record" where
  "handoff_event run owner context database_now row =
    \<lparr>sr_event_type = MARK_PENDING_SINK, sr_run_id = run, sr_token_id = wi_token_id row,
     sr_work_item_id = wi_work_item_id row, sr_node_id = wi_node_id row,
     sr_from_status = Some BLOCKED, sr_to_status = PENDING_SINK,
     sr_from_lease_owner = wi_lease_owner row, sr_to_lease_owner = owner,
     sr_from_attempt = Some (wi_attempt row), sr_to_attempt = wi_attempt row,
     sr_recorded_at = database_now, sr_from_lease_expires_at = wi_lease_expires_at row,
     sr_to_lease_expires_at = None, sr_caller_owner = None, sr_context = Some context\<rparr>"

definition transition_passthrough_pending_sink ::
  "ident \<Rightarrow> string \<Rightarrow> work_item list \<Rightarrow> barrier_emission list \<Rightarrow> json \<Rightarrow> instant \<Rightarrow> ident option \<Rightarrow> unit body" where
  "transition_passthrough_pending_sink run key rows passthrough context database_now owner =
    (if passthrough = [] then tx_return ()
     else
       let candidates = filter (\<lambda>w. wi_token_id w \<in> set (map em_token_id passthrough)) rows in
       tx_bind (refused_as_record_error ''barrier pending-sink handoff'' (execute_many candidates (\<lambda>row.
         tx_bind (lookup ''emission'' (List.find (\<lambda>em. em_token_id em = wi_token_id row) passthrough)) (\<lambda>em.
         update_work_items (\<lambda>w. wi_work_item_id w = wi_work_item_id row \<and> wi_run_id w = run \<and>
             wi_token_id w = wi_token_id row \<and> wi_barrier_key w = Some key \<and> wi_status w = BLOCKED)
           (handoff_image em owner database_now))))) (\<lambda>transitioned.
       tx_then (tx_assert (transitioned = length passthrough)
         (AuditIntegrityError ''barrier pending-sink handoff mismatch''))
         (record_many (map (handoff_event run owner context database_now) candidates))))"

definition prepare_ready_emission ::
  "ident \<Rightarrow> json \<Rightarrow> instant \<Rightarrow> instant \<Rightarrow> barrier_emission \<Rightarrow> (work_item \<times> scheduler_event_record) body" where
  "prepare_ready_emission run context database_now claim_order_at em =
    (case (em_row_id em, em_step_index em, em_ingest_sequence em) of
       (Some row, Some step_index, Some ingest_sequence) \<Rightarrow>
         tx_then (validate_work_item_references run (em_token_id em) row ingest_sequence (em_node_id em)
           (em_coalesce_node_id em))
        (tx_bind read_landscape_transaction_time (\<lambda>available_at.
         let v = (ready_work_item_values run (emission_continuation em row step_index ingest_sequence) available_at)
                   \<lparr>wi_created_at := claim_order_at\<rparr>
         in tx_return (v, enqueue_event run (em_token_id em) (wi_work_item_id v) (em_node_id em)
              (em_attempt em) database_now (Some context))))
     | _ \<Rightarrow> tx_raise (AuditIntegrityError ''ready emission is not a complete resume cursor''))"

definition claim_order_at :: "instant \<Rightarrow> nat \<Rightarrow> nat \<Rightarrow> instant" where
  "claim_order_at database_now n i = database_now - (int n - int i - 1)"

definition emit_barrier_outputs ::
  "barrier_completion \<Rightarrow> ident \<Rightarrow> json \<Rightarrow> instant \<Rightarrow> barrier_emission list \<Rightarrow> unit body" where
  "emit_barrier_outputs b run context database_now fresh =
    tx_bind (tx_each fresh (\<lambda>em.
      prepare_fresh_pending_sink_item run em context database_now (bc_lease_owner b))) (\<lambda>pending.
    tx_bind (tx_each (enumerate 0 (bc_ready b)) (\<lambda>(i, em).
      prepare_ready_emission run context database_now
        (claim_order_at database_now (length (bc_ready b)) i) em)) (\<lambda>ready.
    tx_then (insert_work_items (map fst (pending @ ready)))
      (record_many (map snd (pending @ ready)))))"

definition complete_barrier_body :: "barrier_completion \<Rightarrow> coordination_token \<Rightarrow> nat body" where
  "complete_barrier_body b t =
    (let run = ct_run_id t; key = bc_barrier_key b in
     tx_bind read_landscape_transaction_time (\<lambda>database_now.
     tx_then (check_terminal_outcomes run (map bo_token_id (bc_terminal_outcomes b)))
    (tx_bind (select_tables (\<lambda>d. sort_key sweep_order
       (filter (blocked_under run key (bc_scope_row_id b)) (db_work_items d)))) (\<lambda>rows.
     let durable = durable_ids rows in
     tx_then (tx_assert (set (bc_consumed b) \<subseteq> set durable)
       (AuditIntegrityError ''consumed token with no durable BLOCKED row''))
    (tx_then (check_snapshot run key (bc_scope_row_id b) (bc_snapshot b) durable)
    (tx_bind (tx_each (bc_pending_sink b) (classify_emission (bc_exhaustive b) rows)) (\<lambda>kinds.
     let passthrough = map fst (filter snd (zip (bc_pending_sink b) kinds));
         fresh = map fst (filter (\<lambda>p. \<not> snd p) (zip (bc_pending_sink b) kinds));
         context = emission_context b durable in
     tx_then (check_exhaustive b durable passthrough)
    (tx_bind (terminalize_consumed_barrier_rows run key (bc_consumed b) rows database_now
       (bc_release_context b)) (\<lambda>terminalized.
     tx_then (record_terminal_outcomes_guarded run (bc_terminal_outcomes b) database_now)
    (tx_then (transition_passthrough_pending_sink run key rows passthrough context database_now
       (bc_lease_owner b))
    (tx_then (emit_barrier_outputs b run context database_now fresh)
    (tx_then (record_group_losses run (bc_group_losses b) (ct_worker_id t) database_now)
       (tx_return terminalized)))))))))))))"

definition complete_barrier ::
  "env \<Rightarrow> barrier_completion \<Rightarrow> coordination_token \<Rightarrow> db \<Rightarrow> nat outcome" where
  "complete_barrier e b t d =
    (case completion_refusal b of
       Some err \<Rightarrow> (Inl err, d)
     | None \<Rightarrow> fenced_write e t ''complete_barrier'' (complete_barrier_body b t) d)"

section \<open>Partial-release wrappers\<close>

definition handoff_emission :: "ident \<times> sink_bundle \<Rightarrow> barrier_emission" where
  "handoff_emission h =
    \<lparr>em_token_id = fst h, em_row_payload_json = sb_row_payload_json (snd h),
     em_sink_name = Some (sb_sink_name (snd h)), em_outcome = Some (sb_outcome (snd h)),
     em_path = Some (sb_path (snd h)), em_error_hash = sb_error_hash (snd h),
     em_error_message = sb_error_message (snd h), em_row_id = None, em_node_id = None,
     em_step_index = None, em_ingest_sequence = None, em_queue_key = None, em_barrier_key = None,
     em_on_success_sink = None, em_join_group_id = None, em_lineage_path = [],
     em_coalesce_node_id = None, em_coalesce_name = None, em_row_union_name = None,
     em_collector_name = None, em_attempt = 1\<rparr>"

definition mark_blocked_barrier_pending_sink_many ::
  "env \<Rightarrow> string \<Rightarrow> (ident \<times> sink_bundle) list \<Rightarrow> coordination_token \<Rightarrow> ident option \<Rightarrow> db \<Rightarrow> nat outcome" where
  "mark_blocked_barrier_pending_sink_many e key handoffs t owner d =
    (if handoffs = [] then (Inr 0, d)
     else case complete_barrier e
         \<lparr>bc_barrier_key = key, bc_consumed = [], bc_pending_sink = map handoff_emission handoffs,
          bc_ready = [], bc_exhaustive = False, bc_scope_row_id = None, bc_snapshot = None,
          bc_release_context = None, bc_lease_owner = owner, bc_group_losses = [],
          bc_terminal_outcomes = []\<rparr> t d of
       (Inl err, d') \<Rightarrow> (Inl err, d')
     | (Inr _, d') \<Rightarrow> (Inr (length handoffs), d'))"

definition mark_blocked_barrier_terminal ::
  "env \<Rightarrow> string \<Rightarrow> ident list \<Rightarrow> coordination_token \<Rightarrow> (string \<times> json) list option \<Rightarrow>
   group_loss_spec list \<Rightarrow> db \<Rightarrow> nat outcome" where
  "mark_blocked_barrier_terminal e key token_ids t release_context losses d =
    (if token_ids = []
     then (Inl (AuditIntegrityError ''barrier terminalization requires live barrier evidence''), d)
     else complete_barrier e
         \<lparr>bc_barrier_key = key, bc_consumed = token_ids, bc_pending_sink = [], bc_ready = [],
          bc_exhaustive = False, bc_scope_row_id = None, bc_snapshot = None,
          bc_release_context = release_context, bc_lease_owner = None, bc_group_losses = losses,
          bc_terminal_outcomes = []\<rparr> t d)"

section \<open>Adoption\<close>

record batch_membership_spec =
  bs_batch_id :: ident
  bs_ordinal :: int

record buffered_outcome_spec =
  us_batch_id :: ident
  us_context :: "(string \<times> json) list option"

record barrier_adoption_result =
  ba_adopted :: bool
  ba_barrier_adopted_epoch :: int
  ba_outcome_id :: "ident option"

definition hold_of :: "ident \<Rightarrow> string \<Rightarrow> work_item \<Rightarrow> bool" where
  "hold_of token key w \<longleftrightarrow> wi_status w = BLOCKED \<and> wi_token_id w = token \<and> wi_barrier_key w = Some key"

definition adoption_miss :: "ident \<Rightarrow> ident \<Rightarrow> ident \<Rightarrow> string \<Rightarrow> barrier_adoption_result body" where
  "adoption_miss run wid token key =
    tx_bind (select_tables (item_of run wid)) (\<lambda>found.
    case found of
      None \<Rightarrow> tx_raise (AuditIntegrityError ''adoption CAS: journal row is missing'')
    | Some w \<Rightarrow>
        (case wi_barrier_adopted_epoch w of
           Some epoch \<Rightarrow>
             if hold_of token key w
             then tx_return \<lparr>ba_adopted = False, ba_barrier_adopted_epoch = epoch, ba_outcome_id = None\<rparr>
             else tx_raise (AuditIntegrityError ''adoption CAS: journal row mutated'')
         | None \<Rightarrow> tx_raise (AuditIntegrityError ''adoption CAS: journal row mutated'')))"

definition record_adopted_outcome ::
  "ident \<Rightarrow> ident \<Rightarrow> ident \<Rightarrow> buffered_outcome_spec \<Rightarrow> int \<Rightarrow> instant \<Rightarrow> ident body" where
  "record_adopted_outcome run wid token spec epoch database_now =
    tx_bind (tx_bind (select_tables (find_item wid)) the_row) (\<lambda>row.
    case wi_barrier_blocked_at row of
      None \<Rightarrow> tx_raise (AuditIntegrityError ''BLOCKED barrier hold with no arrival stamp'')
    | Some blocked_at \<Rightarrow>
        record_buffered_outcome_guarded run token (us_batch_id spec) blocked_at
          (Some (merged (case us_context spec of None \<Rightarrow> [] | Some kvs \<Rightarrow> kvs)
            [(''adopted_epoch'', JInt epoch), (''adopted_at'', JTime database_now)])))"

definition adopt_body ::
  "ident \<Rightarrow> ident \<Rightarrow> string \<Rightarrow> batch_membership_spec option \<Rightarrow> buffered_outcome_spec option \<Rightarrow>
   coordination_token \<Rightarrow> barrier_adoption_result body" where
  "adopt_body wid token key member buffered t =
    (let run = ct_run_id t; epoch = ct_leader_epoch t in
     tx_bind read_landscape_transaction_time (\<lambda>database_now.
     tx_bind (update_work_items (\<lambda>w. wi_work_item_id w = wid \<and> wi_run_id w = run \<and> hold_of token key w \<and>
         wi_barrier_adopted_epoch w = None)
       (\<lambda>w. w\<lparr>wi_barrier_adopted_epoch := Some epoch, wi_updated_at := database_now\<rparr>)) (\<lambda>rowcount.
     if rowcount \<noteq> 1 then adoption_miss run wid token key
     else
       tx_then (case member of
           None \<Rightarrow> tx_return ()
         | Some s \<Rightarrow> tx_then (add_batch_member_guarded (bs_batch_id s) token (bs_ordinal s) (Some run))
             (tx_return ()))
      (tx_bind (case buffered of
           None \<Rightarrow> tx_return None
         | Some s \<Rightarrow> tx_bind (record_adopted_outcome run wid token s epoch database_now)
             (\<lambda>oid. tx_return (Some oid))) (\<lambda>outcome_id.
       tx_return \<lparr>ba_adopted = True, ba_barrier_adopted_epoch = epoch, ba_outcome_id = outcome_id\<rparr>)))))"

definition adopt_blocked_barrier_item ::
  "env \<Rightarrow> ident \<Rightarrow> ident \<Rightarrow> string \<Rightarrow> batch_membership_spec option \<Rightarrow> buffered_outcome_spec option \<Rightarrow>
   coordination_token \<Rightarrow> db \<Rightarrow> barrier_adoption_result outcome" where
  "adopt_blocked_barrier_item e wid token key member buffered t d =
    (if (member = None) \<noteq> (buffered = None)
     then (Inl (AuditIntegrityError ''mixed adoption specs''), d)
     else if (case (member, buffered) of (Some s, Some u) \<Rightarrow> bs_batch_id s \<noteq> us_batch_id u | _ \<Rightarrow> False)
     then (Inl (AuditIntegrityError ''one adoption belongs to exactly one batch''), d)
     else fenced_leader_transaction e t DEFAULT_RUN_LIVENESS_WINDOW ''adopt_blocked_barrier_item''
            (adopt_body wid token key member buffered t) d)"

definition reset_adoption_marker_to_pending ::
  "env \<Rightarrow> ident list \<Rightarrow> coordination_token \<Rightarrow> db \<Rightarrow> nat outcome" where
  "reset_adoption_marker_to_pending e work_item_ids t d =
    (if work_item_ids = [] then (Inr 0, d)
     else fenced_leader_transaction e t DEFAULT_RUN_LIVENESS_WINDOW ''reset_adoption_marker_to_pending''
       (execute_many (remdups work_item_ids) (\<lambda>i. update_work_items
          (\<lambda>w. wi_run_id w = ct_run_id t \<and> wi_work_item_id w = i \<and> wi_status w = BLOCKED)
          (\<lambda>w. w\<lparr>wi_barrier_adopted_epoch := None\<rparr>))) d)"

section \<open>Reads\<close>

definition hold_order :: "work_item \<Rightarrow> string option \<times> int \<times> ident" where
  "hold_order w = (wi_barrier_key w, wi_ingest_sequence w, wi_work_item_id w)"

definition list_blocked_barrier_items :: "ident \<Rightarrow> db \<Rightarrow> work_item list" where
  "list_blocked_barrier_items run d =
    sort_key hold_order (filter (\<lambda>w. wi_run_id w = run \<and> blocked_barrier_hold_clause w) (db_work_items d))"

definition count_blocked_barrier_items :: "ident \<Rightarrow> db \<Rightarrow> nat" where
  "count_blocked_barrier_items run d =
    count_where (\<lambda>w. wi_run_id w = run \<and> blocked_barrier_hold_clause w) (db_work_items d)"

definition list_pending_blocked_barrier_items :: "ident \<Rightarrow> db \<Rightarrow> work_item list" where
  "list_pending_blocked_barrier_items run d =
    sort_key hold_order (filter (\<lambda>w. wi_run_id w = run \<and> blocked_barrier_hold_clause w \<and>
      wi_barrier_adopted_epoch w = None) (db_work_items d))"

section \<open>Every barrier verb only moves history forward\<close>

lemma resp_terminalize_consumed [hist_verbs]:
  "hist.resp (terminalize_consumed_barrier_rows run key consumed rows now ctx)"
  unfolding terminalize_consumed_barrier_rows_def
  by (intro hist_intros hist_verbs terminalized_evolves) auto

lemma resp_passthrough [hist_verbs]:
  "hist.resp (transition_passthrough_pending_sink run key rows ems ctx now owner)"
  unfolding transition_passthrough_pending_sink_def
  by (intro hist_intros hist_verbs) (simp add: item_evolves_def handoff_image_def)

lemma resp_prepare_emission [hist_verbs]: "hist.resp (prepare_ready_emission run ctx now at em)"
  unfolding prepare_ready_emission_def by (intro hist_intros hist_verbs)

lemma resp_emit [hist_verbs]: "hist.resp (emit_barrier_outputs b run ctx now fresh)"
  unfolding emit_barrier_outputs_def by (intro hist_intros hist_verbs)

lemma resp_completion_checks [hist_verbs]:
  "hist.resp (check_terminal_outcomes run ids)" "hist.resp (check_snapshot run key scope snapshot durable)"
  "hist.resp (classify_emission exhaustive rows em)" "hist.resp (check_exhaustive b durable ems)"
  unfolding check_terminal_outcomes_def check_snapshot_def classify_emission_def check_exhaustive_def
  by (intro hist_intros)+

lemma complete_barrier_evolves [hist_verbs]: "evolves d (snd (complete_barrier e b t d))"
proof -
  have "hist.resp (complete_barrier_body b t)"
    unfolding complete_barrier_body_def by (intro hist_intros hist_verbs)
  then show ?thesis
    unfolding complete_barrier_def by (simp add: fenced_write_evolves split: option.splits)
qed

lemma barrier_wrappers_evolve [hist_verbs]:
  "evolves d (snd (mark_blocked_barrier_pending_sink_many e key hs t owner d))"
  "evolves d (snd (mark_blocked_barrier_terminal e key ids t ctx losses d))"
  by (auto simp: mark_blocked_barrier_pending_sink_many_def mark_blocked_barrier_terminal_def
      complete_barrier_evolves split: prod.splits sum.splits)
    (metis complete_barrier_evolves snd_conv)+

lemma adopt_evolves [hist_verbs]:
  "evolves d (snd (adopt_blocked_barrier_item e wid token key member buffered t d))"
proof -
  have "hist.resp (adopt_body wid token key member buffered t)"
    unfolding adopt_body_def adoption_miss_def record_adopted_outcome_def
    by (intro hist_intros hist_verbs) (auto simp: item_evolves_def hold_of_def)
  then show ?thesis
    unfolding adopt_blocked_barrier_item_def by (simp add: fenced_leader_transaction_evolves)
qed

lemma reset_marker_evolves [hist_verbs]:
  "evolves d (snd (reset_adoption_marker_to_pending e ids t d))"
  unfolding reset_adoption_marker_to_pending_def
  by (simp, intro impI fenced_leader_transaction_evolves hist_intros) (auto simp: item_evolves_def)

end
