(* ===== verification/Run_Histories.thy ===== *)
theory Run_Histories
  imports Coordination_Membership Lease_Properties Scheduler_Queue Barrier_Journal
begin

text \<open>
  Histories of a multi-worker run.  Every write of a worker is one whole verb on
  the shared database, so what any number of workers do together is a sequence of
  verbs, each with its own environment.  The relation \<open>later\<close> holds between an
  image and every image such a sequence can lead to; whatever \<open>evolves\<close> promises
  of a verb holds along it by rule induction.
\<close>

text \<open>Membership, the seat and its ledger.\<close>

datatype coordination_verb =
    AcquireRunLeadership ident ident duration string
  | AcquireExportLeadership ident ident duration
  | AcquireReconciliationLeadership ident ident duration run_status
  | ReleaseSeat coordination_token
  | WorkerHeartbeat worker_membership_token duration
  | AdmitFollower ident ident string duration
  | DepartWorker worker_membership_token
  | EvictWorker coordination_token ident duration duration
  | RecordFenceRefusal ident ident int string instant
  | RecordHeartbeatDegraded worker_membership_token int instant

primrec exec_coordination :: "env \<Rightarrow> coordination_verb \<Rightarrow> db \<Rightarrow> db" where
  "exec_coordination e (AcquireRunLeadership run w win ep) d =
     snd (acquire_run_leadership e run w win ep d)"
| "exec_coordination e (AcquireExportLeadership run w win) d =
     snd (acquire_export_leadership e run w win d)"
| "exec_coordination e (AcquireReconciliationLeadership run w win st) d =
     snd (acquire_reconciliation_leadership e run w win st d)"
| "exec_coordination e (ReleaseSeat t) d =
     snd (release_seat e t d)"
| "exec_coordination e (WorkerHeartbeat m win) d =
     snd (worker_heartbeat e m win d)"
| "exec_coordination e (AdmitFollower run w ch win) d =
     snd (admit_follower e run w ch win d)"
| "exec_coordination e (DepartWorker m) d =
     snd (depart_worker e m d)"
| "exec_coordination e (EvictWorker t target grace win) d =
     snd (evict_worker e t target grace win d)"
| "exec_coordination e (RecordFenceRefusal run w ep v now) d =
     record_fence_refusal e run w ep v now d"
| "exec_coordination e (RecordHeartbeatDegraded m n now) d =
     record_heartbeat_degraded e m n now d"

text \<open>Leases and group losses.\<close>

datatype lease_verb =
    ClaimReady worker_membership_token ident int
  | ClaimPendingSink coordination_token ident int
  | RecoverExpiredLeases coordination_token duration duration
  | RequeueUndecidedFailedWork coordination_token
  | VerifyResumeCoverage coordination_token
  | HeartbeatLease worker_membership_token ident ident int
  | AdoptGroupLosses "ident list" coordination_token
  | StageEscalationLoss group_loss_spec frame_kind "ident list option" ident coordination_token

primrec exec_lease :: "env \<Rightarrow> lease_verb \<Rightarrow> db \<Rightarrow> db" where
  "exec_lease e (ClaimReady m w secs) d =
     snd (claim_ready e m w secs d)"
| "exec_lease e (ClaimPendingSink t w secs) d =
     snd (claim_pending_sink e t w secs d)"
| "exec_lease e (RecoverExpiredLeases t grace stall) d =
     snd (recover_expired_leases e t grace stall d)"
| "exec_lease e (RequeueUndecidedFailedWork t) d =
     snd (requeue_undecided_failed_work e t d)"
| "exec_lease e (VerifyResumeCoverage t) d =
     snd (verify_resume_coverage e t d)"
| "exec_lease e (HeartbeatLease m wid w secs) d =
     snd (heartbeat_lease e m wid w secs d)"
| "exec_lease e (AdoptGroupLosses ids t) d =
     snd (adopt_group_losses e ids t d)"
| "exec_lease e (StageEscalationLoss spec kind roster by t) d =
     snd (stage_escalation_loss e spec kind roster by t d)"

text \<open>Intake and dispositions; a disposition with children is the atomic child variant of its verb.\<close>

datatype disposition_verb =
    EnqueueReady worker_membership_token continuation
  | EnqueueReadyClaimed worker_membership_token continuation ident int
  | MarkBlocked worker_membership_token ident "string option" "string option" string ident
  | MarkTerminal worker_membership_token ident "barrier_emission list option" ident "group_loss_spec list"
  | MarkFailed worker_membership_token ident "barrier_emission list option" ident "group_loss_spec list"
  | MarkPendingSink worker_membership_token ident "barrier_emission list option" sink_bundle ident "group_loss_spec list"
  | MarkPendingSinkTerminal ident ident coordination_token
  | MarkPendingSinkTerminalMany "ident list" ident coordination_token
  | TerminalizePendingSinks ident coordination_token

primrec exec_disposition :: "env \<Rightarrow> disposition_verb \<Rightarrow> db \<Rightarrow> db" where
  "exec_disposition e (EnqueueReady m cn) d =
     snd (enqueue_ready e m cn d)"
| "exec_disposition e (EnqueueReadyClaimed m cn owner secs) d =
     snd (enqueue_ready_claimed e m cn owner secs d)"
| "exec_disposition e (MarkBlocked m wid q b payload owner) d =
     snd (mark_blocked e m wid q b payload owner d)"
| "exec_disposition e (MarkTerminal m wid children owner losses) d =
     (case children of
        None \<Rightarrow> snd (mark_terminal e m wid owner losses d)
      | Some ems \<Rightarrow> snd (mark_terminal_with_ready_children e m wid ems owner losses d))"
| "exec_disposition e (MarkFailed m wid children owner losses) d =
     (case children of
        None \<Rightarrow> snd (mark_failed e m wid owner losses d)
      | Some ems \<Rightarrow> snd (mark_failed_with_ready_children e m wid ems owner losses d))"
| "exec_disposition e (MarkPendingSink m wid children b owner losses) d =
     (case children of
        None \<Rightarrow> snd (mark_pending_sink e m wid b owner losses d)
      | Some ems \<Rightarrow> snd (mark_pending_sink_with_ready_children e m wid ems b owner losses d))"
| "exec_disposition e (MarkPendingSinkTerminal token owner t) d =
     snd (mark_pending_sink_terminal e token owner t d)"
| "exec_disposition e (MarkPendingSinkTerminalMany tokens owner t) d =
     snd (mark_pending_sink_terminal_many e tokens owner t d)"
| "exec_disposition e (TerminalizePendingSinks caller t) d =
     snd (terminalize_pending_sinks_with_terminal_outcomes e caller t d)"

text \<open>The barrier journal and the outcome recorders.\<close>

datatype barrier_verb =
    CompleteBarrier barrier_completion coordination_token
  | MarkBlockedBarrierPendingSinkMany string "(ident \<times> sink_bundle) list" coordination_token "ident option"
  | MarkBlockedBarrierTerminal string "ident list" coordination_token "(string \<times> json) list option" "group_loss_spec list"
  | AdoptBlockedBarrierItem ident ident string "batch_membership_spec option" "buffered_outcome_spec option" coordination_token
  | ResetAdoptionMarker "ident list" coordination_token
  | RecordTokenOutcome worker_membership_token work_item token_outcome_write
  | RecordTokenOutcomeLeader coordination_token token_outcome_write

primrec exec_barrier :: "env \<Rightarrow> barrier_verb \<Rightarrow> db \<Rightarrow> db" where
  "exec_barrier e (CompleteBarrier b t) d =
     snd (complete_barrier e b t d)"
| "exec_barrier e (MarkBlockedBarrierPendingSinkMany key hs t owner) d =
     snd (mark_blocked_barrier_pending_sink_many e key hs t owner d)"
| "exec_barrier e (MarkBlockedBarrierTerminal key ids t ctx losses) d =
     snd (mark_blocked_barrier_terminal e key ids t ctx losses d)"
| "exec_barrier e (AdoptBlockedBarrierItem wid token key member buffered t) d =
     snd (adopt_blocked_barrier_item e wid token key member buffered t d)"
| "exec_barrier e (ResetAdoptionMarker ids t) d =
     snd (reset_adoption_marker_to_pending e ids t d)"
| "exec_barrier e (RecordTokenOutcome m item w) d =
     snd (record_token_outcome e m item w d)"
| "exec_barrier e (RecordTokenOutcomeLeader t w) d =
     snd (record_token_outcome_leader e t w d)"

datatype verb =
    CoordinationVerb coordination_verb
  | LeaseVerb lease_verb
  | DispositionVerb disposition_verb
  | BarrierVerb barrier_verb

primrec exec_verb :: "env \<Rightarrow> verb \<Rightarrow> db \<Rightarrow> db" where
  "exec_verb e (CoordinationVerb v) d = exec_coordination e v d"
| "exec_verb e (LeaseVerb v) d = exec_lease e v d"
| "exec_verb e (DispositionVerb v) d = exec_disposition e v d"
| "exec_verb e (BarrierVerb v) d = exec_barrier e v d"

inductive later :: "db \<Rightarrow> db \<Rightarrow> bool" where
  later_refl: "later d d"
| later_step: "later d d' \<Longrightarrow> later d (exec_verb e v d')"

inductive_cases later_stepE: "later d d'"

lemma exec_coordination_evolves: "evolves d (exec_coordination e v d)"
  by (cases v)
    (simp_all add: hist_verbs record_fence_refusal_def record_heartbeat_degraded_def
      record_best_effort_event_evolves)

lemma exec_lease_evolves: "db_ok d \<Longrightarrow> evolves d (exec_lease e v d)"
  by (cases v) (simp_all add: hist_verbs recover_expired_leases_evolves requeue_evolves)

lemma exec_disposition_evolves: "evolves d (exec_disposition e v d)"
  by (cases v) (simp_all add: hist_verbs split: option.splits)

lemma exec_barrier_evolves: "evolves d (exec_barrier e v d)"
  by (cases v) (simp_all add: hist_verbs)

lemma exec_verb_evolves: "db_ok d \<Longrightarrow> evolves d (exec_verb e v d)"
  by (cases v)
    (simp_all add: exec_coordination_evolves exec_lease_evolves exec_disposition_evolves exec_barrier_evolves)

lemma exec_verb_ok: "db_ok d \<Longrightarrow> db_ok (exec_verb e v d)"
  using evolves_ok exec_verb_evolves by blast

lemma later_evolves: "later d d' \<Longrightarrow> db_ok d \<Longrightarrow> evolves d d'"
  by (induction rule: later.induct) (auto intro: evolves_trans exec_verb_evolves evolves_ok)

lemma later_trans: "later d' d'' \<Longrightarrow> later d d' \<Longrightarrow> later d d''"
  by (induction rule: later.induct) (auto intro: later_step)

section \<open>Reading a history through the fences\<close>

lemma evolves_seat:
  assumes "evolves d d'" and "s \<in> set (db_seats d)"
  obtains s' where "s' \<in> set (db_seats d')" "seat_evolves s s'"
  using assms unfolding evolves_def rows_evolve_def by blast

lemma evolves_worker:
  assumes "evolves d d'" and "w \<in> set (db_workers d)"
  obtains w' where "w' \<in> set (db_workers d')" "worker_evolves w w'"
  using assms unfolding evolves_def rows_evolve_def by blast

text \<open>A token the seat has moved past: a later epoch, or the same epoch without it.\<close>

definition superseded :: "coordination_token \<Rightarrow> seat_row \<Rightarrow> bool" where
  "superseded t s \<longleftrightarrow> st_run_id s = ct_run_id t \<and>
     (ct_leader_epoch t < st_leader_epoch s \<or>
      ct_leader_epoch t = st_leader_epoch s \<and> st_leader_worker_id s \<noteq> Some (ct_worker_id t))"

lemma superseded_evolves: "superseded t s \<Longrightarrow> seat_evolves s s' \<Longrightarrow> superseded t s'"
  by (auto simp: superseded_def seat_evolves_def)

lemma superseded_not_held:
  assumes "db_ok d" and "s \<in> set (db_seats d)" and "superseded t s"
  shows "\<not> exists_where (holds_seat t) (db_seats d)"
proof
  assume "exists_where (holds_seat t) (db_seats d)"
  then obtain x where x: "x \<in> set (db_seats d)" "holds_seat t x"
    by (auto simp: exists_where_iff)
  have "keyed st_run_id (db_seats d)"
    using assms(1) by (simp add: db_ok_def run_coordination_ok_def)
  then have "x = s"
    using keyed_unique [of st_run_id _ x s] x assms(2,3) by (simp add: superseded_def holds_seat_def)
  then show False using x assms(3) by (auto simp: superseded_def holds_seat_def)
qed

end
