(* ===== verification/Disposition_Properties.thy ===== *)
theory Disposition_Properties
  imports Coordination_Fencing Scheduler_Queue
begin

text \<open>
  What the disposition verbs do: the exact effect of a committed compare-and-swap, the
  refusal of a worker that no longer holds the lease, the all-or-nothing sink
  terminalizers, and the crash repair.  The statements name the rows of the database
  before the verb and give the table after it.
\<close>

section \<open>Frames\<close>

text \<open>The instant \<open>CURRENT_TIMESTAMP\<close> gives at the n-th clock reading of a transaction.\<close>

definition stamp :: "env \<Rightarrow> nat \<Rightarrow> instant" where
  "stamp e n = transaction_instant e (env_clock e n)"

text \<open>Only rows satisfying \<open>P\<close> are appended to the group losses.\<close>

definition only_losses :: "(group_loss_row \<Rightarrow> bool) \<Rightarrow> db \<Rightarrow> db \<Rightarrow> bool" where
  "only_losses P d d' \<longleftrightarrow> (\<exists>gs. d' = d\<lparr>db_group_losses := db_group_losses d @ gs\<rparr> \<and> (\<forall>g \<in> set gs. P g))"

interpretation lossp: db_preorder "only_losses P" for P
proof
  show "only_losses P d d" for d
    unfolding only_losses_def by (rule exI [of _ "[]"]) simp
  show "only_losses P d d''" if "only_losses P d d'" "only_losses P d' d''" for d d' d''
  proof -
    from that obtain gs gs' where "d' = d\<lparr>db_group_losses := db_group_losses d @ gs\<rparr>" "\<forall>g \<in> set gs. P g"
      "d'' = d'\<lparr>db_group_losses := db_group_losses d' @ gs'\<rparr>" "\<forall>g \<in> set gs'. P g"
      unfolding only_losses_def by blast
    then show ?thesis unfolding only_losses_def by (intro exI [of _ "gs @ gs'"]) auto
  qed
qed

lemma only_losses_insert: "P g \<Longrightarrow> lossp.resp P (insert_group_loss g)"
  by (rule tx_relI) (auto simp: tx_inv only_losses_def)

lemma collect_by_key_subset:
  "collect_by_key ss by_key c = Inr (r, c') \<Longrightarrow> set r \<subseteq> set by_key \<union> set ss \<and> c' = c"
proof (induction ss arbitrary: by_key)
  case (Cons s ss)
  then show ?case by (fastforce simp: tx_inv split: option.splits)
qed (simp add: tx_inv)

text \<open>The row the ledger stores for a spec.\<close>

definition loss_row :: "ident \<Rightarrow> ident \<Rightarrow> instant \<Rightarrow> group_loss_spec \<Rightarrow> ident \<Rightarrow> group_loss_row" where
  "loss_row run recorded_by now s loss_id =
    \<lparr>gl_loss_id = loss_id, gl_run_id = run, gl_closer_name = ls_closer_name s, gl_group_id = ls_group_id s,
     gl_member_key = ls_member_key s, gl_token_id = ls_token_id s, gl_reason = ls_reason s,
     gl_recorded_by = recorded_by, gl_recorded_at = now, gl_adopted_epoch = None\<rparr>"

lemma record_group_losses_frame:
  assumes "record_group_losses run specs recorded_by now c = Inr (n, c')"
  shows "only_losses (\<lambda>g. \<exists>s \<in> set specs. \<exists>i. g = loss_row run recorded_by now s i) (tables c) (tables c')"
    (is "only_losses ?P _ _")
proof (cases "specs = []")
  case True
  with assms show ?thesis by (simp add: record_group_losses_def tx_inv lossp.db_refl)
next
  case False
  define insert where "insert by_key vs =
    tx_bind (tx_each vs insert_loss_or_ignore) (\<lambda>ids.
     let inserted = concat ids in
     tx_then (tx_assert (set inserted \<subseteq> set (map gl_loss_id vs) \<and> distinct inserted)
       (AuditIntegrityError ''unexpected loss_id''))
    (tx_bind (select_tables (\<lambda>d. filter (\<lambda>g. gl_run_id g = run \<and> row_key g \<in> set (map loss_key by_key))
       (db_group_losses d))) (\<lambda>existing_rows.
     tx_then (tx_assert (length (remdups (map row_key existing_rows)) = length by_key)
       (AuditIntegrityError ''a natural key is missing''))
    (tx_then (tx_for specs (\<lambda>s. tx_bind (the_row (List.find (\<lambda>g. row_key g = loss_key s) existing_rows)) (\<lambda>existing.
       tx_assert (gl_token_id existing = ls_token_id s)
         (AuditIntegrityError ''two distinct tokens cannot lose the same member''))))
     (tx_return (length inserted))))))" for by_key :: "group_loss_spec list" and vs
  from False assms obtain by_key c1 vs c2 where keys: "collect_by_key specs [] c = Inr (by_key, c1)"
    and vs: "tx_each by_key (loss_values run recorded_by now) c1 = Inr (vs, c2)"
    and ins: "insert by_key vs c2 = Inr (n, c')"
    unfolding record_group_losses_def insert_def [symmetric] if_not_P [OF False] tx_bind_inv by blast
  have "list_all2 (\<lambda>s g. \<exists>i. g = loss_row run recorded_by now s i) by_key vs \<and> tables c2 = tables c1"
    by (rule tx_each_reads [OF _ vs]) (auto simp: loss_values_def loss_row_def tx_inv)
  moreover have "set by_key \<subseteq> set specs" "c1 = c" using collect_by_key_subset [OF keys] by auto
  ultimately have P: "\<And>g. g \<in> set vs \<Longrightarrow> ?P g" and c2: "tables c2 = tables c"
    by (fastforce simp: list_all2_iff in_set_zip in_set_conv_nth)+
  have "lossp.resp ?P (insert by_key vs)"
    unfolding insert_def insert_loss_or_ignore_def by (intro lossp.resp_intros only_losses_insert P)
  from tx_relD [OF this ins] show ?thesis by (simp add: c2)
qed

section \<open>One statement per selected row\<close>

lemma execute_many_rows:
  assumes "execute_many rows (\<lambda>row. update_work_items
      (\<lambda>w. wi_work_item_id w = wi_work_item_id row \<and> Q row w) (f row)) c = Inr (n, c')"
    and "keyed wi_work_item_id (db_work_items (tables c))" and "distinct rows"
    and "set rows \<subseteq> set (db_work_items (tables c))" and "\<And>r. r \<in> set rows \<Longrightarrow> Q r r"
    and id: "\<And>r w. wi_work_item_id (f r w) = wi_work_item_id w"
  shows "n = length rows \<and> c' = c\<lparr>tables := (tables c)\<lparr>db_work_items :=
      map (\<lambda>w. if w \<in> set rows then f w w else w) (db_work_items (tables c))\<rparr>\<rparr>"
  using assms(1-5)
proof (induction rows arbitrary: c n)
  case (Cons r rows)
  let ?ws = "db_work_items (tables c)"
  let ?g = "\<lambda>w. if w = r then f r r else w"
  let ?P = "\<lambda>w. wi_work_item_id w = wi_work_item_id r \<and> Q r w"
  have r: "r \<in> set ?ws" "?P r" using Cons.prems(4,5) by auto
  have P: "?P w \<longleftrightarrow> w = r" if "w \<in> set ?ws" for w
    using keyed_unique [OF Cons.prems(2) that r(1)] r(2) by auto
  have upd: "update_where ?P (f r) ?ws = map ?g ?ws"
    unfolding update_where_def by (rule map_cong [OF refl]) (simp add: P)
  have one: "count_where ?P ?ws = 1"
    using r by (subst count_where_keyed_iff [OF Cons.prems(2), of _ "wi_work_item_id r"]) auto
  let ?c = "c\<lparr>tables := (tables c)\<lparr>db_work_items := map ?g ?ws\<rparr>\<rparr>"
  from Cons.prems(1) obtain k where n: "n = 1 + k" and rest: "execute_many rows (\<lambda>row. update_work_items
      (\<lambda>w. wi_work_item_id w = wi_work_item_id row \<and> Q row w) (f row)) ?c = Inr (k, c')"
    by (auto simp: tx_inv upd one)
  have ids: "map wi_work_item_id (map ?g ?ws) = map wi_work_item_id ?ws" using id by auto
  have "keyed wi_work_item_id (map ?g ?ws)" using Cons.prems(2) unfolding keyed_def ids .
  then have key: "keyed wi_work_item_id (db_work_items (tables ?c))" by simp
  have sub: "set rows \<subseteq> set (db_work_items (tables ?c))"
    using Cons.prems(3,4) by auto
  have "f r r \<notin> set rows"
  proof
    assume "f r r \<in> set rows"
    then have "f r r = r" using Cons.prems(2,4) r(1) id keyed_unique [of wi_work_item_id ?ws "f r r" r] by auto
    with \<open>f r r \<in> set rows\<close> Cons.prems(3) show False by simp
  qed
  with Cons.IH [OF rest key _ sub] Cons.prems(3,5) n show ?case
    by (auto simp: comp_def intro!: map_cong)
qed (simp add: tx_inv)

lemma selected_rows:
  "keyed wi_work_item_id ws \<Longrightarrow> distinct (sort_key k (filter P ws)) \<and> set (sort_key k (filter P ws)) \<subseteq> set ws"
  by (auto simp: keyed_def distinct_map)

section \<open>An example queue\<close>

text \<open>One leased item of the leader, and one item it has parked for a sink.\<close>

definition demo_parked :: work_item where
  "demo_parked = (demo_item ''i2'' ''t2'' 1 PENDING_SINK (Some ''w1'') None)
     \<lparr>wi_pending_sink_name := Some ''out'', wi_pending_outcome := Some ''success'',
      wi_pending_path := Some ''default_flow''\<rparr>"

definition demo_queue :: db where
  "demo_queue = demo_live [demo_item ''i1'' ''t1'' 0 LEASED (Some ''w1'') (Some 200000000), demo_parked]"

definition demo_member :: "ident \<Rightarrow> worker_membership_token" where
  "demo_member w = \<lparr>mt_run_id = ''r'', mt_worker_id = w\<rparr>"

lemma demo_queue_ok: "db_ok demo_queue"
  by code_simp

section \<open>The compare-and-swap\<close>

lemma find_item_keyed:
  "keyed wi_work_item_id (db_work_items d) \<Longrightarrow> w \<in> set (db_work_items d) \<Longrightarrow> find_item (wi_work_item_id w) d = Some w"
  unfolding find_item_def by (rule find_keyed)

lemma disposition_keeps_id [simp]:
  "wi_work_item_id (disposition_values st now d img w) = wi_work_item_id w"
  by (cases img) simp_all

text \<open>The columns of a disposition, image by image.\<close>

lemma disposition_columns:
  "disposition_values st now d img w =
    (let moved = w\<lparr>wi_status := st, wi_updated_at := now, wi_lease_expires_at := None\<rparr> in
     case img of
       BlockedImage queue_key barrier_key payload \<Rightarrow> moved\<lparr>wi_lease_owner := None, wi_queue_key := queue_key,
         wi_barrier_key := barrier_key, wi_row_payload_json := payload, wi_barrier_blocked_at := Some now\<rparr>
     | TerminalImage payload \<Rightarrow> moved\<lparr>wi_lease_owner := None, wi_row_payload_json := payload\<rparr>
     | FailedImage purged \<Rightarrow> moved\<lparr>wi_lease_owner := None, wi_row_payload_json :=
         (if \<exists>oc \<in> set (db_outcomes d). to_run_id oc = wi_run_id w \<and> to_token_id oc = wi_token_id w \<and> to_completed oc
          then purged else wi_row_payload_json w)\<rparr>
     | PendingSinkImage payload sink outcome path error_hash error_message parked_by \<Rightarrow>
         moved\<lparr>wi_lease_owner := Some parked_by, wi_row_payload_json := payload,
           wi_pending_sink_name := Some sink, wi_pending_outcome := Some outcome, wi_pending_path := Some path,
           wi_pending_error_hash := error_hash, wi_pending_error_message := error_message\<rparr>)"
  by (cases img) (auto simp: work_item_token_decided_clause_def decided_def exists_where_iff)

lemma update_one_row:
  assumes "keyed wi_work_item_id ws" and "w \<in> set ws" and "P w"
    and P: "\<And>x. P x \<Longrightarrow> wi_work_item_id x = wi_work_item_id w"
  shows "update_where P f ws = map (\<lambda>x. if wi_work_item_id x = wi_work_item_id w then f w else x) ws"
  unfolding update_where_def
  by (rule map_cong [OF refl]) (metis P assms(1-3) keyed_unique)

text \<open>The event of a disposition of the row \<open>w\<close>, leased to \<open>worker\<close> before it and owned by \<open>next\<close> after it.\<close>

definition disposed_event ::
  "scheduler_event_type \<Rightarrow> token_work_status \<Rightarrow> ident option \<Rightarrow> instant \<Rightarrow> ident \<Rightarrow> work_item \<Rightarrow> scheduler_event_record" where
  "disposed_event type st next now worker w =
    \<lparr>sr_event_type = type, sr_run_id = wi_run_id w, sr_token_id = wi_token_id w,
     sr_work_item_id = wi_work_item_id w, sr_node_id = wi_node_id w, sr_from_status = Some LEASED, sr_to_status = st,
     sr_from_lease_owner = Some worker, sr_to_lease_owner = next,
     sr_from_attempt = Some (wi_attempt w), sr_to_attempt = wi_attempt w, sr_recorded_at = now,
     sr_from_lease_expires_at = wi_lease_expires_at w, sr_to_lease_expires_at = None,
     sr_caller_owner = Some worker, sr_context = None\<rparr>"

lemma transition_on_inv:
  assumes body: "transition_on wid st img [LEASED] (Some owner) losses m req c = Inr (after, c')"
    and ok: "keyed wi_work_item_id (db_work_items (tables c))"
  defines "now \<equiv> stamp (conn_env c) (conn_clock_reads c)"
  obtains w type where "w \<in> set (db_work_items (tables c))" "transition_predicate wid [LEASED] (Some owner) (mt_run_id m) w"
    "after = disposition_values st now (tables c) img w"
    "TRANSITION_EVENT_TYPES st = Some type" "req \<longrightarrow> pending_sink_bundle_clause after"
    "only_losses (\<lambda>g. \<exists>s \<in> set losses. \<exists>i. g = loss_row (mt_run_id m) (mt_worker_id m) now s i)
      ((tables c)\<lparr>db_work_items := map (\<lambda>x. if wi_work_item_id x = wid then after else x) (db_work_items (tables c)),
        db_scheduler_events := db_scheduler_events (tables c) @
         [event_values (conn_env c) (disposed_event type st (wi_lease_owner after) now owner w)]\<rparr>) (tables c')"
proof -
  let ?ws = "db_work_items (tables c)"
  let ?P = "transition_predicate wid [LEASED] (Some owner) (mt_run_id m)"
  let ?f = "disposition_values st now (tables c) img"
  let ?d1 = "(tables c)\<lparr>db_work_items := update_where ?P ?f ?ws\<rparr>"
  let ?d2 = "\<lambda>row type. ?d1\<lparr>db_scheduler_events := db_scheduler_events (tables c) @
       [event_values (conn_env c) (transition_event type st (next_lease_owner img) now (Some owner) row)]\<rparr>"
  from body obtain row type n where
    one: "count_where ?P ?ws = 1" and before: "find_item wid (tables c) = Some row"
    and after: "find_item wid ?d1 = Some after" and req: "req \<longrightarrow> pending_sink_bundle_clause after"
    and type: "TRANSITION_EVENT_TYPES st = Some type"
    and losses: "record_group_losses (mt_run_id m) losses (mt_worker_id m) now
      (c\<lparr>conn_clock_reads := Suc (conn_clock_reads c), tables := ?d2 row type\<rparr>) = Inr (n, c')"
    unfolding transition_on_def lookup_def now_def stamp_def
    by (auto simp: tx_inv split: option.splits)
  from one obtain w where w: "w \<in> set ?ws" "?P w"
    using count_where_pos_iff [of ?P ?ws] by auto
  then have wid: "wi_work_item_id w = wid" by (simp add: transition_predicate_def)
  have table: "update_where ?P ?f ?ws = map (\<lambda>x. if wi_work_item_id x = wid then ?f w else x) ?ws"
    using update_one_row [where P = ?P and f = ?f, OF ok w] wid by (simp add: transition_predicate_def)
  have row: "row = w" using before find_item_keyed [OF ok w(1)] wid by simp
  have "keyed wi_work_item_id (db_work_items ?d1)" using ok by (auto simp: keyed_update_where)
  moreover have "?f w \<in> set (db_work_items ?d1)" using mem_update_where [where P = ?P, OF w] by simp
  ultimately have after': "after = ?f w" using find_item_keyed [of ?d1 "?f w"] after wid by simp
  have "wi_lease_owner after = next_lease_owner img" unfolding after' by (cases img) simp_all
  then have event: "transition_event type st (next_lease_owner img) now (Some owner) w =
      disposed_event type st (wi_lease_owner after) now owner w"
    using w(2) by (simp add: transition_event_def disposed_event_def transition_predicate_def)
  show thesis
    by (rule that [OF w _ type req])
      (use record_group_losses_frame [OF losses] table in \<open>simp_all add: row event after' cong: if_cong\<close>)
qed

text \<open>C13. A committed disposition moves exactly one item: the caller's own LEASED item, of the
  caller's run and not bound to a sink.  A blocked item takes its queue or barrier key, its payload and
  the instant it was blocked; a terminal item its scrubbed payload; a failed item keeps its payload
  unless its token is already decided; an item parked for a sink takes the whole bundle, which is
  complete when the verb asks for it, and stays with its owner.  The lease is cleared in all other
  cases, every other column keeps its value and every other item is untouched.  One event is
  appended, with the type of the target status, the item as it was and its next owner; and the only
  other change is group losses of the given specs, recorded by the caller.\<close>

theorem disposition_is_exact:
  assumes "db_ok d" and "transition e wid st img owner losses m req d = (Inr after, d')"
  shows "\<exists>w type gs. w \<in> set (db_work_items d) \<and> wi_work_item_id w = wid \<and> wi_run_id w = mt_run_id m \<and>
    wi_status w = LEASED \<and> wi_lease_owner w = Some (mt_worker_id m) \<and> wi_pending_sink_name w = None \<and>
    after = (let moved = w\<lparr>wi_status := st, wi_updated_at := stamp e 0, wi_lease_expires_at := None\<rparr> in
      case img of
        BlockedImage queue_key barrier_key payload \<Rightarrow> moved\<lparr>wi_lease_owner := None, wi_queue_key := queue_key,
          wi_barrier_key := barrier_key, wi_row_payload_json := payload, wi_barrier_blocked_at := Some (stamp e 0)\<rparr>
      | TerminalImage payload \<Rightarrow> moved\<lparr>wi_lease_owner := None, wi_row_payload_json := payload\<rparr>
      | FailedImage purged \<Rightarrow> moved\<lparr>wi_lease_owner := None, wi_row_payload_json :=
          (if \<exists>oc \<in> set (db_outcomes d). to_run_id oc = mt_run_id m \<and> to_token_id oc = wi_token_id w \<and> to_completed oc
           then purged else wi_row_payload_json w)\<rparr>
      | PendingSinkImage payload sink outcome path error_hash error_message parked_by \<Rightarrow>
          moved\<lparr>wi_lease_owner := Some parked_by, wi_row_payload_json := payload,
            wi_pending_sink_name := Some sink, wi_pending_outcome := Some outcome, wi_pending_path := Some path,
            wi_pending_error_hash := error_hash, wi_pending_error_message := error_message\<rparr>) \<and>
    (req \<longrightarrow> pending_sink_bundle_clause after) \<and>
    (st, type) \<in> {(BLOCKED, MARK_BLOCKED), (TERMINAL, MARK_TERMINAL), (FAILED, MARK_FAILED),
      (PENDING_SINK, MARK_PENDING_SINK)} \<and>
    d' = d\<lparr>db_work_items := map (\<lambda>x. if wi_work_item_id x = wid then after else x) (db_work_items d),
      db_scheduler_events := db_scheduler_events d @
        [event_values e \<lparr>sr_event_type = type, sr_run_id = mt_run_id m, sr_token_id = wi_token_id w,
           sr_work_item_id = wid, sr_node_id = wi_node_id w, sr_from_status = Some LEASED, sr_to_status = st,
           sr_from_lease_owner = Some (mt_worker_id m), sr_to_lease_owner = wi_lease_owner after,
           sr_from_attempt = Some (wi_attempt w), sr_to_attempt = wi_attempt w, sr_recorded_at = stamp e 0,
           sr_from_lease_expires_at = wi_lease_expires_at w, sr_to_lease_expires_at = None,
           sr_caller_owner = Some (mt_worker_id m), sr_context = None\<rparr>],
      db_group_losses := db_group_losses d @ gs\<rparr> \<and>
    (\<forall>g \<in> set gs. \<exists>s \<in> set losses. \<exists>loss_id. g = \<lparr>gl_loss_id = loss_id, gl_run_id = mt_run_id m,
       gl_closer_name = ls_closer_name s, gl_group_id = ls_group_id s, gl_member_key = ls_member_key s,
       gl_token_id = ls_token_id s, gl_reason = ls_reason s, gl_recorded_by = mt_worker_id m,
       gl_recorded_at = stamp e 0, gl_adopted_epoch = None\<rparr>)"
proof -
  from assms(2) have owner: "owner = mt_worker_id m"
    and tx: "fenced_member_transaction e m ''_transition''
      (transition_on wid st img [LEASED] (Some owner) losses m req) d = (Inr after, d')"
    by (auto simp: transition_def split: if_splits)
  from tx obtain c where body: "transition_on wid st img [LEASED] (Some owner) losses m req (open_conn e d) = Inr (after, c)"
    and d': "tables c = d'"
    by (rule fenced_member_inv)
  have "keyed wi_work_item_id (db_work_items (tables (open_conn e d)))"
    using assms(1) by (simp add: db_ok_def token_work_items_ok_def)
  with body obtain w type where w: "w \<in> set (db_work_items d)"
      "transition_predicate wid [LEASED] (Some owner) (mt_run_id m) w"
    and after: "after = disposition_values st (stamp e 0) d img w"
    and req: "req \<longrightarrow> pending_sink_bundle_clause after" and type: "TRANSITION_EVENT_TYPES st = Some type"
    and tab: "only_losses (\<lambda>g. \<exists>s \<in> set losses. \<exists>i. g = loss_row (mt_run_id m) (mt_worker_id m) (stamp e 0) s i)
      (d\<lparr>db_work_items := map (\<lambda>x. if wi_work_item_id x = wid then after else x) (db_work_items d),
        db_scheduler_events := db_scheduler_events d @
          [event_values e (disposed_event type st (wi_lease_owner after) (stamp e 0) owner w)]\<rparr>) (tables c)"
    by (rule transition_on_inv) simp
  from tab [unfolded only_losses_def disposed_event_def loss_row_def d'] obtain gs where gs:
    "d' = d\<lparr>db_work_items := map (\<lambda>x. if wi_work_item_id x = wid then after else x) (db_work_items d),
      db_scheduler_events := db_scheduler_events d @
        [event_values e (disposed_event type st (wi_lease_owner after) (stamp e 0) owner w)],
      db_group_losses := db_group_losses d @ gs\<rparr>"
    "\<forall>g \<in> set gs. \<exists>s \<in> set losses. \<exists>i. g = loss_row (mt_run_id m) (mt_worker_id m) (stamp e 0) s i"
    unfolding disposed_event_def loss_row_def by auto
  have run: "wi_run_id w = mt_run_id m" using w(2) by (simp add: transition_predicate_def)
  have pair: "(st, type) \<in> {(BLOCKED, MARK_BLOCKED), (TERMINAL, MARK_TERMINAL), (FAILED, MARK_FAILED),
      (PENDING_SINK, MARK_PENDING_SINK)}"
    using type by (cases st) simp_all
  show ?thesis
    by (rule exI [of _ w], rule exI [of _ type], rule exI [of _ gs])
      (use w req pair gs in \<open>simp add: transition_predicate_def disposed_event_def loss_row_def owner
        flip: after [unfolded disposition_columns run]\<close>)
qed

theorem disposition_is_exact_witness:
  "wi_status (hd (db_work_items (snd (mark_terminal demo_env (demo_member ''w1'') ''i1'' ''w1'' [] demo_queue)))) = TERMINAL \<and>
   tl (db_work_items (snd (mark_terminal demo_env (demo_member ''w1'') ''i1'' ''w1'' [] demo_queue))) = [demo_parked] \<and>
   length (db_scheduler_events (snd (mark_terminal demo_env (demo_member ''w1'') ''i1'' ''w1'' [] demo_queue))) = 1"
proof -
  let ?r = "mark_terminal demo_env (demo_member ''w1'') ''i1'' ''w1'' [] demo_queue"
  have "case fst ?r of Inl _ \<Rightarrow> False | Inr a \<Rightarrow> wi_status a = TERMINAL" by code_simp
  then obtain a where a: "fst ?r = Inr a" "wi_status a = TERMINAL" by (auto split: sum.splits)
  then have r: "?r = (Inr a, snd ?r)" by (metis prod.collapse)
  from disposition_is_exact [OF demo_queue_ok r [unfolded mark_terminal_def]] obtain ev gs where
    "snd ?r = demo_queue\<lparr>db_work_items := map (\<lambda>x. if wi_work_item_id x = ''i1'' then a else x) (db_work_items demo_queue),
       db_scheduler_events := db_scheduler_events demo_queue @ [ev], db_group_losses := db_group_losses demo_queue @ gs\<rparr>"
    unfolding mark_terminal_def by blast
  with a(2) show ?thesis
    by (simp add: demo_queue_def demo_live_def demo_db_def demo_item_def demo_parked_def)
qed

lemma transition_on_miss:
  assumes "\<not> exists_where (transition_predicate wid sts owner (mt_run_id m)) (db_work_items (tables c))"
    and "token_work_items_ok (db_work_items (tables c))"
  shows "transition_on wid st img sts owner losses m req c
    = Inl (AuditIntegrityError ''transition affected no transform-lease row'')"
proof -
  let ?P = "transition_predicate wid sts owner (mt_run_id m)"
  have "update_where ?P f (db_work_items (tables c)) = db_work_items (tables c)" for f
    using assms(1) by (intro update_where_none) (auto simp: exists_where_iff)
  moreover have "count_where ?P (db_work_items (tables c)) = 0"
    using assms(1) by (auto simp: count_where_eq_0_iff exists_where_iff)
  ultimately show ?thesis
    using assms(2)
    by (simp add: transition_on_def tx_bind_def tx_then_def read_landscape_transaction_time_def
        select_tables_def tx_gets_def update_work_items_def put_table_def tx_assert_def)
qed

text \<open>C14. A worker that does not hold the lease cannot dispose of the item: when the caller's run has
  no LEASED transform item of that identity owned by the caller, every disposition of an admitted
  worker raises an integrity error and leaves the whole database as it was.\<close>

theorem disposition_refused_without_lease:
  assumes "db_ok d" and "\<not> env_locked e" and "exists_where (active_member m) (db_workers d)"
    and "\<not> exists_where (\<lambda>w. wi_work_item_id w = wid \<and> wi_run_id w = mt_run_id m \<and> wi_status w = LEASED \<and>
           wi_lease_owner w = Some (mt_worker_id m) \<and> wi_pending_sink_name w = None) (db_work_items d)"
  shows "transition e wid st img (mt_worker_id m) losses m req d
    = (Inl (AuditIntegrityError ''transition affected no transform-lease row''), d)"
proof -
  have "\<not> exists_where (transition_predicate wid [LEASED] (Some (mt_worker_id m)) (mt_run_id m)) (db_work_items d)"
    using assms(4) by (auto simp: exists_where_iff transition_predicate_def)
  then have "transition_on wid st img [LEASED] (Some (mt_worker_id m)) losses m req (open_conn e d)
      = Inl (AuditIntegrityError ''transition affected no transform-lease row'')"
    using assms(1) by (intro transition_on_miss) (simp_all add: db_ok_def)
  with assms show ?thesis
    unfolding transition_def by (simp add: fenced_member_body_error db_ok_def)
qed

theorem disposition_refused_without_lease_witness:
  "mark_failed demo_env (demo_member ''w2'') ''i1'' ''w2'' [] demo_queue
     = (Inl (AuditIntegrityError ''transition affected no transform-lease row''), demo_queue)"
proof -
  have "exists_where (active_member (demo_member ''w2'')) (db_workers demo_queue)" by code_simp
  moreover have "\<not> exists_where (\<lambda>w. wi_work_item_id w = ''i1'' \<and> wi_run_id w = mt_run_id (demo_member ''w2'') \<and>
      wi_status w = LEASED \<and> wi_lease_owner w = Some (mt_worker_id (demo_member ''w2'')) \<and>
      wi_pending_sink_name w = None) (db_work_items demo_queue)" by code_simp
  ultimately show ?thesis
    using disposition_refused_without_lease [OF demo_queue_ok, of demo_env "demo_member ''w2''" "''i1''" FAILED
        "FailedImage (scrubbed_row_payload_json demo_env ''i1'')" "[]" False]
    by (simp add: mark_failed_def demo_env_def demo_member_def)
qed

section \<open>Sink terminalization\<close>

lemma terminalized_keeps_id [simp]: "wi_work_item_id (terminalized_image p now w) = wi_work_item_id w"
  by (simp add: terminalized_image_def)

lemma check_batch_token_inv [tx_inv]:
  "check_batch_token owner rows token c = Inr r \<longleftrightarrow>
   (\<exists>w. filter (\<lambda>w. wi_token_id w = token) rows = [w] \<and> pending_sink_bundle_clause w \<and>
      wi_lease_owner w = Some owner) \<and> r = ((), c)"
  by (cases "filter (\<lambda>w. wi_token_id w = token) rows")
    (auto simp: check_batch_token_def Let_def tx_inv)

lemma check_batch_tokens_inv:
  "tx_for tokens (check_batch_token owner rows) c = Inr r \<longleftrightarrow>
   (\<forall>token \<in> set tokens. \<exists>w. filter (\<lambda>w. wi_token_id w = token) rows = [w] \<and>
      pending_sink_bundle_clause w \<and> wi_lease_owner w = Some owner) \<and> r = ((), c)"
  by (induction tokens) (auto simp: tx_inv)

lemma one_row_per_token:
  assumes "\<forall>token \<in> set tokens. \<exists>w. filter (\<lambda>w. wi_token_id w = token) rows = [w]"
    and "\<forall>w \<in> set rows. wi_token_id w \<in> set tokens" and "distinct tokens"
  shows "length rows = length tokens"
  using assms
proof (induction tokens arbitrary: rows)
  case (Cons t ts)
  let ?rest = "filter (\<lambda>w. wi_token_id w \<noteq> t) rows"
  have "\<forall>token \<in> set ts. \<exists>w. filter (\<lambda>w. wi_token_id w = token) ?rest = [w]"
  proof
    fix token assume "token \<in> set ts"
    then have "filter (\<lambda>w. wi_token_id w = token) ?rest = filter (\<lambda>w. wi_token_id w = token) rows"
      using Cons.prems(3) by (auto simp: filter_filter intro!: filter_cong)
    then show "\<exists>w. filter (\<lambda>w. wi_token_id w = token) ?rest = [w]" using Cons.prems(1) \<open>token \<in> set ts\<close> by simp
  qed
  then have "length ?rest = length ts" using Cons.prems by (intro Cons.IH) auto
  moreover have "length (filter (\<lambda>w. wi_token_id w = t) rows) = 1" using Cons.prems(1) by force
  ultimately show ?case
    using sum_length_filter_compl [of "\<lambda>w. wi_token_id w = t" rows] by simp
qed simp

lemma checked_batch:
  assumes checks: "\<forall>token \<in> set tokens. \<exists>w. filter (\<lambda>w. wi_token_id w = token)
      (sort_key k (filter (sink_bound run tokens) ws)) = [w] \<and> pending_sink_bundle_clause w \<and> wi_lease_owner w = Some owner"
  shows "r \<in> set (sort_key k (filter (sink_bound run tokens) ws)) \<Longrightarrow> batch_cas run owner r r"
    and "\<forall>token \<in> set tokens. \<exists>!w. w \<in> set ws \<and> sink_bound run tokens w \<and> wi_token_id w = token \<and>
       wi_lease_owner w = Some owner \<and> pending_sink_bundle_clause w"
proof -
  have only: "\<exists>w. (\<forall>x. x \<in> set ws \<and> sink_bound run tokens x \<and> wi_token_id x = token \<longleftrightarrow> x = w) \<and>
      pending_sink_bundle_clause w \<and> wi_lease_owner w = Some owner" if "token \<in> set tokens" for token
  proof -
    from checks that obtain w where w: "filter (\<lambda>w. wi_token_id w = token)
        (sort_key k (filter (sink_bound run tokens) ws)) = [w]"
      "pending_sink_bundle_clause w" "wi_lease_owner w = Some owner" by blast
    have "x \<in> set ws \<and> sink_bound run tokens x \<and> wi_token_id x = token \<longleftrightarrow> x = w" for x
      using arg_cong [OF w(1), of set] by auto
    with w(2,3) show ?thesis by blast
  qed
  then show "\<forall>token \<in> set tokens. \<exists>!w. w \<in> set ws \<and> sink_bound run tokens w \<and> wi_token_id w = token \<and>
       wi_lease_owner w = Some owner \<and> pending_sink_bundle_clause w" by metis
  assume r: "r \<in> set (sort_key k (filter (sink_bound run tokens) ws))"
  then have "wi_token_id r \<in> set tokens" by (simp add: sink_bound_def)
  from only [OF this] obtain w where w: "\<And>x. x \<in> set ws \<and> sink_bound run tokens x \<and>
      wi_token_id x = wi_token_id r \<longleftrightarrow> x = w" "pending_sink_bundle_clause w" "wi_lease_owner w = Some owner" by blast
  have "r = w" using w(1) [of r] r by simp
  with r w(2,3) show "batch_cas run owner r r" by (simp add: batch_cas_def sink_bound_def)
qed

lemma sink_batch_committed:
  assumes "db_ok d" and "mark_pending_sink_terminal_many e tokens owner t d = (Inr n, d')" and "tokens \<noteq> []"
  defines "S \<equiv> sink_bound (ct_run_id t) tokens"
  shows "n = length tokens \<and>
    (\<forall>token \<in> set tokens. \<exists>!w. w \<in> set (db_work_items d) \<and> S w \<and> wi_token_id w = token \<and>
       wi_lease_owner w = Some owner \<and> pending_sink_bundle_clause w) \<and>
    (\<exists>seats. d' = d\<lparr>db_seats := seats, db_work_items := map (\<lambda>w. if S w
        then terminalized_image (scrubbed_row_payload_json e (wi_token_id w)) (stamp e 1) w else w) (db_work_items d),
      db_scheduler_events := db_scheduler_events d @
        map (\<lambda>w. event_values e (sink_terminal_event (ct_run_id t) owner (stamp e 1) w))
        (sort_key sweep_order (filter S (db_work_items d)))\<rparr>)"
proof -
  let ?ws = "db_work_items d" and ?run = "ct_run_id t"
  let ?rows = "sort_key sweep_order (filter (sink_bound ?run tokens) ?ws)"
  let ?img = "\<lambda>row. terminalized_image (scrubbed_row_payload_json e (wi_token_id row)) (stamp e 1)"
  from assms(2,3) have dist: "distinct tokens"
    and tx: "fenced_leader_transaction e t DEFAULT_RUN_LIVENESS_WINDOW ''mark_pending_sink_terminal_many''
      (mark_pending_sink_terminal_many_body ?run tokens owner) d = (Inr n, d')"
    by (auto simp: mark_pending_sink_terminal_many_def split: if_splits)
  from tx obtain c1 c2 ss where body: "mark_pending_sink_terminal_many_body ?run tokens owner c1 = Inr (n, c2)"
    and c1: "tables c1 = d\<lparr>db_seats := update_where (holds_seat t) (renewed (sample e 0) DEFAULT_RUN_LIVENESS_WINDOW) (db_seats d)\<rparr>"
      "conn_env c1 = e" "conn_clock_reads c1 = 1"
    and d': "d' = (tables c2)\<lparr>db_seats := ss\<rparr>"
    by (elim fenced_leader_inv)
  let ?c = "c1\<lparr>conn_clock_reads := 2\<rparr>"
  have key: "keyed wi_work_item_id ?ws" using assms(1) by (simp add: db_ok_def token_work_items_ok_def)
  from body obtain checks: "\<forall>token \<in> set tokens. \<exists>w. filter (\<lambda>w. wi_token_id w = token) ?rows = [w] \<and>
      pending_sink_bundle_clause w \<and> wi_lease_owner w = Some owner"
    and run: "?rows = [] \<and> n = 0 \<and> c2 = ?c \<or> ?rows \<noteq> [] \<and> (\<exists>c3. execute_many ?rows (\<lambda>row. update_work_items
        (\<lambda>w. wi_work_item_id w = wi_work_item_id row \<and> batch_cas ?run owner row w) (?img row)) ?c = Inr (n, c3) \<and>
      record_many (map (sink_terminal_event ?run owner (stamp e 1)) ?rows) c3 = Inr ((), c2))"
    unfolding mark_pending_sink_terminal_many_body_def tx_bind_inv tx_then_inv check_batch_tokens_inv
    by (auto simp: tx_inv c1 stamp_def numeral_2_eq_2 split: if_splits)
  note checked = checked_batch [OF checks]
  have "?rows \<noteq> []" using checks assms(3) by (cases tokens) auto
  with run obtain c3 where exec: "execute_many ?rows (\<lambda>row. update_work_items
        (\<lambda>w. wi_work_item_id w = wi_work_item_id row \<and> batch_cas ?run owner row w) (?img row)) ?c = Inr (n, c3)"
    and evs: "record_many (map (sink_terminal_event ?run owner (stamp e 1)) ?rows) c3 = Inr ((), c2)" by blast
  have c3: "n = length ?rows \<and> c3 = ?c\<lparr>tables := (tables ?c)\<lparr>db_work_items :=
      map (\<lambda>w. if w \<in> set ?rows then ?img w w else w) ?ws\<rparr>\<rparr>"
    using execute_many_rows [OF exec _ _ _ checked(1)] key selected_rows [OF key] c1(1) by simp
  have "length ?rows = length tokens"
    using checks dist by (intro one_row_per_token) (auto simp: sink_bound_def)
  moreover have rows: "map (\<lambda>w. if w \<in> set ?rows then ?img w w else w) ?ws = map (\<lambda>w. if S w then ?img w w else w) ?ws"
    by (auto simp: S_def intro!: map_cong)
  moreover have "\<exists>seats. d' = d\<lparr>db_seats := seats, db_work_items := map (\<lambda>w. if S w then ?img w w else w) ?ws,
      db_scheduler_events := db_scheduler_events d @
        map (\<lambda>w. event_values e (sink_terminal_event ?run owner (stamp e 1) w)) ?rows\<rparr>"
    by (rule exI [of _ ss]) (use rows c3 record_many_inv [OF evs] d' c1 in \<open>simp add: comp_def del: map_eq_conv\<close>)
  ultimately show ?thesis using c3 checked(2) unfolding S_def by simp
qed

text \<open>C15. Terminalizing a sink batch is all or nothing.  When it raises, nothing is written but at most
  one row of the coordination ledger, the report of a refused fence.  When it commits, every requested
  token has exactly one sink-bound item, owned by the caller and carrying a complete bundle; exactly
  those items become TERMINAL with their payload scrubbed and their lease cleared, one event each; the
  count is the number of tokens; and apart from the leader's seat, whose deadline the fence renews, no
  other row of the database changes.  The empty batch commits and writes nothing.\<close>

theorem sink_batch_is_all_or_nothing:
  assumes "db_ok d" and "mark_pending_sink_terminal_many e tokens owner t d = (r, d')"
  defines "S \<equiv> (\<lambda>w. wi_run_id w = ct_run_id t \<and> wi_token_id w \<in> set tokens \<and>
      (wi_status w = PENDING_SINK \<or> wi_status w = LEASED) \<and> wi_pending_sink_name w \<noteq> None)"
  shows "case r of
    Inl err \<Rightarrow> d' = d \<or> (\<exists>ev. d' = d\<lparr>db_coord_events := db_coord_events d @ [ev]\<rparr>)
  | Inr n \<Rightarrow> n = length tokens \<and> distinct tokens \<and>
      (\<forall>token \<in> set tokens. \<exists>!w. w \<in> set (db_work_items d) \<and> S w \<and> wi_token_id w = token \<and>
         wi_lease_owner w = Some owner \<and> pending_sink_bundle_clause w) \<and>
      (\<exists>seats. d' = d\<lparr>db_seats := (if tokens = [] then db_seats d else seats),
        db_work_items := map (\<lambda>w. if S w then w\<lparr>wi_status := TERMINAL,
            wi_row_payload_json := scrubbed_row_payload_json e (wi_token_id w), wi_lease_owner := None,
            wi_lease_expires_at := None, wi_updated_at := stamp e 1\<rparr> else w) (db_work_items d),
        db_scheduler_events := db_scheduler_events d @ map (\<lambda>w. event_values e
            \<lparr>sr_event_type = MARK_PENDING_SINK_TERMINAL, sr_run_id = ct_run_id t, sr_token_id = wi_token_id w,
             sr_work_item_id = wi_work_item_id w, sr_node_id = wi_node_id w, sr_from_status = Some (wi_status w),
             sr_to_status = TERMINAL, sr_from_lease_owner = wi_lease_owner w, sr_to_lease_owner = None,
             sr_from_attempt = Some (wi_attempt w), sr_to_attempt = wi_attempt w, sr_recorded_at = stamp e 1,
             sr_from_lease_expires_at = wi_lease_expires_at w, sr_to_lease_expires_at = None,
             sr_caller_owner = Some owner, sr_context = None\<rparr>)
          (sort_key sweep_order (filter S (db_work_items d)))\<rparr>)"
proof (cases r)
  case (Inl err)
  with assms(2) have "same_but_ledger d d'"
    by (auto simp: mark_pending_sink_terminal_many_def split: if_splits dest: leader_transaction_rolled_back)
  with Inl show ?thesis by (auto simp: same_but_ledger_def le_Suc_eq length_Suc_conv)
next
  case (Inr n)
  have S: "sink_bound (ct_run_id t) tokens = S" by (auto simp: S_def sink_bound_def)
  show ?thesis
  proof (cases "tokens = []")
    case True
    with assms(2) Inr show ?thesis by (simp add: mark_pending_sink_terminal_many_def S_def)
  next
    case False
    then have "distinct tokens"
      using assms(2) Inr by (auto simp: mark_pending_sink_terminal_many_def split: if_splits)
    with False Inr show ?thesis
      using sink_batch_committed [OF assms(1) assms(2) [unfolded Inr] False]
      unfolding S terminalized_image_def sink_terminal_event_def by simp
  qed
qed

text \<open>The leader's parked token commits; together with a token that is not parked, nothing is written.\<close>

theorem sink_batch_is_all_or_nothing_witness:
  "map wi_status (db_work_items (snd (mark_pending_sink_terminal_many demo_env [''t2''] ''w1'' demo_token demo_queue)))
     = [LEASED, TERMINAL] \<and>
   (\<exists>err. fst (mark_pending_sink_terminal_many demo_env [''t2'', ''t1''] ''w1'' demo_token demo_queue) = Inl err) \<and>
   db_work_items (snd (mark_pending_sink_terminal_many demo_env [''t2'', ''t1''] ''w1'' demo_token demo_queue))
     = db_work_items demo_queue"
proof (intro conjI)
  let ?r = "mark_pending_sink_terminal_many demo_env [''t2''] ''w1'' demo_token demo_queue"
  let ?q = "mark_pending_sink_terminal_many demo_env [''t2'', ''t1''] ''w1'' demo_token demo_queue"
  have "fst ?r = Inr 1" by code_simp
  then have r: "?r = (Inr 1, snd ?r)" by (metis prod.collapse)
  from sink_batch_is_all_or_nothing [OF demo_queue_ok r]
  show "map wi_status (db_work_items (snd ?r)) = [LEASED, TERMINAL]"
    by (auto simp: demo_queue_def demo_live_def demo_db_def demo_item_def demo_parked_def demo_token_def)
  have f: "fst ?q = Inl (AuditIntegrityError ''batch terminalization is missing a token'')" by code_simp
  then show "\<exists>err. fst ?q = Inl err" by blast
  have q: "?q = (Inl (AuditIntegrityError ''batch terminalization is missing a token''), snd ?q)"
    using f by (metis prod.collapse)
  from sink_batch_is_all_or_nothing [OF demo_queue_ok q]
  show "db_work_items (snd ?q) = db_work_items demo_queue" by auto
qed

text \<open>C16. The crash repair terminalizes exactly the parked sink items of the leader's run whose token
  already has a completed outcome, whoever parked them: each becomes TERMINAL with its payload
  scrubbed and its owner cleared, with one event; a parked item whose token is undecided keeps its
  bundle and can still be claimed.\<close>

theorem sink_repair_is_exact:
  assumes "db_ok d" and "terminalize_pending_sinks_with_terminal_outcomes e caller t d = (Inr n, d')"
  defines "S \<equiv> (\<lambda>w. wi_run_id w = ct_run_id t \<and> wi_status w = PENDING_SINK \<and> wi_pending_sink_name w \<noteq> None \<and>
      decided d (ct_run_id t) (wi_token_id w))"
  shows "n = count_where S (db_work_items d) \<and>
    db_work_items d' = map (\<lambda>w. if S w then terminalized_image (scrubbed_row_payload_json e (wi_token_id w))
        (stamp e 1) w else w) (db_work_items d) \<and>
    db_scheduler_events d' = db_scheduler_events d @
      map (\<lambda>w. event_values e (sink_terminal_event (ct_run_id t) caller (stamp e 1) w))
        (sort_key sweep_order (filter S (db_work_items d)))"
proof -
  let ?ws = "db_work_items d" and ?run = "ct_run_id t"
  let ?img = "\<lambda>row. terminalized_image (scrubbed_row_payload_json e (wi_token_id row)) (stamp e 1)"
  let ?ev = "\<lambda>row. (sink_terminal_event ?run caller (stamp e 1) row)\<lparr>sr_from_status := Some PENDING_SINK\<rparr>"
  from assms(2) [unfolded terminalize_pending_sinks_with_terminal_outcomes_def fenced_write_def] obtain c1 c2 ss
    where body: "terminalize_pending_sinks_body ?run caller c1 = Inr (n, c2)"
    and c1: "tables c1 = d\<lparr>db_seats := update_where (holds_seat t) (renewed (sample e 0) DEFAULT_RUN_LIVENESS_WINDOW) (db_seats d)\<rparr>"
      "conn_env c1 = e" "conn_clock_reads c1 = 1"
    and d': "d' = (tables c2)\<lparr>db_seats := ss\<rparr>"
    by (elim fenced_leader_inv)
  let ?c = "c1\<lparr>conn_clock_reads := 2\<rparr>"
  have key: "keyed wi_work_item_id ?ws" using assms(1) by (simp add: db_ok_def token_work_items_ok_def)
  have S: "repairable ?run (d\<lparr>db_seats := x\<rparr>) = S" for x
    by (simp add: fun_eq_iff repairable_def sink_parked_def S_def decided_def)
  let ?rows = "sort_key sweep_order (filter S ?ws)"
  from body have run: "?rows = [] \<and> n = 0 \<and> c2 = ?c \<or> ?rows \<noteq> [] \<and> (\<exists>c3. execute_many ?rows (\<lambda>row. update_work_items
        (\<lambda>w. wi_work_item_id w = wi_work_item_id row \<and> sink_parked ?run w) (?img row)) ?c = Inr (n, c3) \<and>
      record_many (map ?ev ?rows) c3 = Inr ((), c2))"
    unfolding terminalize_pending_sinks_body_def
    by (auto simp: tx_inv c1 S stamp_def numeral_2_eq_2 split: if_splits)
  have evs: "map ?ev ?rows = map (sink_terminal_event ?run caller (stamp e 1)) ?rows"
    by (auto simp: S_def sink_terminal_event_def)
  show ?thesis
  proof (cases "?rows = []")
    case True
    then have "\<forall>w \<in> set ?ws. \<not> S w" by (simp add: filter_empty_conv)
    then have "map (\<lambda>w. if S w then ?img w w else w) ?ws = ?ws" by (intro map_idI) simp
    with run True c1 d' show ?thesis by (simp add: count_where_def)
  next
    case False
    with run obtain c3 where exec: "execute_many ?rows (\<lambda>row. update_work_items
        (\<lambda>w. wi_work_item_id w = wi_work_item_id row \<and> sink_parked ?run w) (?img row)) ?c = Inr (n, c3)"
      and rec: "record_many (map (sink_terminal_event ?run caller (stamp e 1)) ?rows) c3 = Inr ((), c2)"
      unfolding evs by blast
    have c3: "n = length ?rows \<and> c3 = ?c\<lparr>tables := (tables ?c)\<lparr>db_work_items :=
        map (\<lambda>w. if w \<in> set ?rows then ?img w w else w) ?ws\<rparr>\<rparr>"
      using execute_many_rows [OF exec] key selected_rows [OF key] c1(1)
      by (simp add: S_def sink_parked_def)
    then have "db_work_items d' = map (\<lambda>w. if S w then ?img w w else w) ?ws"
      using record_many_inv [OF rec] d' by (auto intro!: map_cong)
    with c3 record_many_inv [OF rec] d' c1 show ?thesis by (simp add: count_where_def)
  qed
qed

text \<open>The example queue after the sink write of its parked item became durable.\<close>

definition demo_written :: db where
  "demo_written = demo_queue\<lparr>db_outcomes := [\<lparr>to_outcome_id = ''o1'', to_run_id = ''r'', to_token_id = ''t2'',
     to_outcome = Some SUCCESS, to_path = DEFAULT_FLOW, to_completed = True, to_recorded_at = 0,
     to_sink_name = Some ''out'', to_batch_id = None, to_error_hash = None, to_context = None\<rparr>]\<rparr>"

theorem sink_repair_is_exact_witness:
  "fst (terminalize_pending_sinks_with_terminal_outcomes demo_env ''w1'' demo_token demo_written) = Inr 1 \<and>
   map wi_status (db_work_items (snd (terminalize_pending_sinks_with_terminal_outcomes demo_env ''w1'' demo_token
     demo_written))) = [LEASED, TERMINAL]"
proof -
  let ?r = "terminalize_pending_sinks_with_terminal_outcomes demo_env ''w1'' demo_token demo_written"
  have ok: "db_ok demo_written" by code_simp
  have f: "fst ?r = Inr 1" by code_simp
  then have r: "?r = (Inr 1, snd ?r)" by (metis prod.collapse)
  have items: "db_work_items (snd ?r) = map (\<lambda>w. if wi_run_id w = ct_run_id demo_token \<and> wi_status w = PENDING_SINK \<and>
        wi_pending_sink_name w \<noteq> None \<and> decided demo_written (ct_run_id demo_token) (wi_token_id w)
      then terminalized_image (scrubbed_row_payload_json demo_env (wi_token_id w)) (stamp demo_env 1) w
      else w) (db_work_items demo_written)"
    using sink_repair_is_exact [OF ok r] by blast
  have "map wi_status (db_work_items (snd ?r)) = [LEASED, TERMINAL]" unfolding items by code_simp
  with f show ?thesis by simp
qed

end
