(* ===== verification/Claim_Properties.thy ===== *)
theory Claim_Properties
  imports Disposition_Properties
begin

text \<open>
  What claiming does: which item a committed claim takes and what it writes, that the
  lease it returns outlives its commit, and that an active worker's claim returns work
  whenever there is any.
\<close>

section \<open>Selection\<close>

lemma first_row_None: "first_row key P rs = None \<longleftrightarrow> (\<forall>r \<in> set rs. \<not> P r)"
proof -
  have "first_row key P rs = None \<longleftrightarrow> sort_key key (filter P rs) = []"
    by (auto simp: first_row_def split: list.splits)
  then show ?thesis by (simp add: filter_empty_conv)
qed

lemma first_row_Some:
  assumes "first_row key P rs = Some r"
  shows "r \<in> set rs \<and> P r \<and> (\<forall>x \<in> set rs. P x \<longrightarrow> key r \<le> key x)"
proof -
  from assms obtain rest where s: "sort_key key (filter P rs) = r # rest"
    by (auto simp: first_row_def split: list.splits)
  have "set (sort_key key (filter P rs)) = {x \<in> set rs. P x}" by auto
  moreover have "sorted (map key (r # rest))" using sorted_sort_key [of key "filter P rs"] s by simp
  ultimately show ?thesis using s by auto
qed

lemma find_unique_row:
  assumes "keyed key rs" and "r \<in> set rs" and "P r" and "\<And>x. P x \<Longrightarrow> key x = key r"
  shows "List.find P rs = Some r"
proof (cases "List.find P rs")
  case None
  then show ?thesis using assms(2,3) by (auto simp: find_None_iff)
next
  case (Some x)
  then have "x \<in> set rs" "P x" by (auto simp: find_Some_iff)
  with assms have "x = r" by (metis keyed_unique)
  with Some show ?thesis by simp
qed

lemma item_of_keyed:
  "keyed wi_work_item_id (db_work_items d) \<Longrightarrow> w \<in> set (db_work_items d) \<Longrightarrow> wi_run_id w = run \<Longrightarrow>
   item_of run (wi_work_item_id w) d = Some w"
  unfolding item_of_def by (rule find_unique_row [of wi_work_item_id]) simp_all

section \<open>The claim compare-and-swap\<close>

definition claimable :: "ident \<Rightarrow> instant \<Rightarrow> work_item \<Rightarrow> bool" where
  "claimable run now w \<longleftrightarrow> wi_run_id w = run \<and> wi_status w = READY \<and> wi_available_at w \<le> now"

lemma claim_update:
  fixes run :: ident and now :: instant and fence :: bool
  assumes "keyed wi_work_item_id ws" and "w \<in> set ws"
  defines "P \<equiv> \<lambda>x. wi_work_item_id x = wi_work_item_id w \<and> wi_run_id x = run \<and> wi_status x = READY \<and>
      wi_available_at x \<le> now \<and> fence"
  shows "count_where P ws = (if claimable run now w \<and> fence then 1 else 0)"
    and "claimable run now w \<and> fence \<Longrightarrow>
      update_where P f ws = map (\<lambda>x. if wi_work_item_id x = wi_work_item_id w then f w else x) ws"
proof -
  have only: "P x \<longleftrightarrow> x = w \<and> claimable run now w \<and> fence" if "x \<in> set ws" for x
    using keyed_unique [OF assms(1) that assms(2)] by (auto simp: P_def claimable_def)
  show "count_where P ws = (if claimable run now w \<and> fence then 1 else 0)"
  proof (cases "claimable run now w \<and> fence")
    case True
    have "count_where P ws = 1 \<longleftrightarrow> (\<exists>r \<in> set ws. P r)"
      by (rule count_where_keyed_iff [OF assms(1), of P "wi_work_item_id w"]) (simp add: P_def)
    with only True assms(2) show ?thesis by auto
  next
    case False
    with only show ?thesis by (auto simp: count_where_eq_0_iff)
  qed
  show "update_where P f ws = map (\<lambda>x. if wi_work_item_id x = wi_work_item_id w then f w else x) ws"
    if "claimable run now w \<and> fence"
    using that assms(2) by (intro update_one_row [OF assms(1)]) (auto simp: P_def claimable_def)
qed

text \<open>What the tail of a claim needs of the database: its references and its deadline.\<close>

definition references_ok :: "db \<Rightarrow> work_item \<Rightarrow> bool" where
  "references_ok d w \<longleftrightarrow> run_exists d (wi_run_id w) \<and> token_exists d (wi_run_id w) (wi_token_id w) \<and>
     node_exists d (wi_run_id w) (wi_node_id w) \<and> 0 \<le> wi_attempt w \<and> wi_work_item_id w \<noteq> ''''"

lemma leased_image_simps [simp]:
  "wi_work_item_id (leased_image o' x n w) = wi_work_item_id w" "wi_run_id (leased_image o' x n w) = wi_run_id w"
  "wi_status (leased_image o' x n w) = LEASED" "wi_lease_owner (leased_image o' x n w) = Some o'"
  by (simp_all add: leased_image_def)

lemma finish_claim_iff:
  fixes secs :: int
  assumes key: "keyed wi_work_item_id (db_work_items (tables c))"
    and w: "leased_image owner (now + seconds secs) now row \<in> set (db_work_items (tables c))" "wi_run_id row = run"
  shows "finish_claim type st run row owner secs now c = Inr r \<longleftrightarrow>
    wi_work_item_id row \<noteq> [] \<and> 0 < secs \<and> clock_resolution (env_dialect (conn_env c)) \<le> deadline_reserve (seconds secs) \<and>
    run_exists (tables c) run \<and> token_exists (tables c) run (wi_token_id row) \<and>
    node_exists (tables c) run (wi_node_id row) \<and> 0 \<le> wi_attempt row \<and>
    r = (Some (leased_image owner (now + seconds secs) now row),
      c\<lparr>conn_issued := AList.update (ItemDeadline (wi_work_item_id row))
           \<lparr>dl_expires_at = now + seconds secs, dl_reserve = deadline_reserve (seconds secs)\<rparr> (conn_issued c),
        tables := (tables c)\<lparr>db_scheduler_events := db_scheduler_events (tables c) @
          [event_values (conn_env c) (claim_event type st run row owner (now + seconds secs) now)]\<rparr>\<rparr>)"
proof -
  let ?w = "leased_image owner (now + seconds secs) now row"
  let ?ev = "claim_event type st run row owner (now + seconds secs) now"
  have find: "List.find (\<lambda>w. wi_work_item_id w = wi_work_item_id row \<and> wi_run_id w = run \<and> wi_status w = LEASED \<and>
      wi_lease_owner w = Some owner) (db_work_items (tables c)) = Some ?w"
    using w(2) by (intro find_unique_row [OF key w(1)]) simp_all
  have check: "scheduler_events_check (event_values (conn_env c) ?ev) \<longleftrightarrow> 0 \<le> wi_attempt row" for c
    by (simp add: scheduler_events_check_def event_values_def claim_event_def Let_def)
  have ids: "sr_run_id ?ev = run" "sr_token_id ?ev = wi_token_id row" "sr_node_id ?ev = wi_node_id row"
    by (simp_all add: claim_event_def)
  show ?thesis
    unfolding finish_claim_def tx_then_inv tx_bind_inv record_issued_deadline_inv record_event_inv select_tables_inv
      valid_deadline_key.simps
    by (auto simp: check ids find tx_inv)
qed

section \<open>Claiming READY work\<close>

text \<open>The row claim of an admitted worker, computed: nothing when the item is not available any
  more, else the lease.\<close>

lemma claim_ready_row_eq:
  fixes secs :: int
  assumes key: "token_work_items_ok (db_work_items (tables c))" and w: "w \<in> set (db_work_items (tables c))"
    and active: "active_worker_fence_clause (tables c) owner run" and "owner \<noteq> ''''"
    and run: "wi_run_id w = run"
  defines "now \<equiv> decision_instant (env_dialect (conn_env c)) (env_clock (conn_env c) (conn_clock_reads c))"
  defines "c1 \<equiv> c\<lparr>conn_clock_reads := Suc (conn_clock_reads c), tables := (tables c)\<lparr>db_work_items :=
      map (\<lambda>x. if wi_work_item_id x = wi_work_item_id w then leased_image owner (now + seconds secs) now w else x)
        (db_work_items (tables c))\<rparr>\<rparr>"
  assumes avail: "claimable run now w"
  shows "claim_ready_row (wi_work_item_id w) run owner secs True False c
    = finish_claim CLAIM_READY READY run w owner secs now c1"
proof -
  let ?ws = "db_work_items (tables c)" and ?f = "leased_image owner (now + seconds secs) now"
  let ?P = "\<lambda>x. wi_work_item_id x = wi_work_item_id w \<and> wi_run_id x = run \<and> wi_status x = READY \<and>
      wi_available_at x \<le> now \<and> True"
  have keyed: "keyed wi_work_item_id ?ws" using key by (simp add: token_work_items_ok_def)
  note upd = claim_update [OF keyed w, of run now True]
  have fence: "claim_fence True False owner run (tables c)"
    using active by (simp add: claim_fence_def claim_verb_fence_clause_def)
  have table: "update_where ?P ?f ?ws = map (\<lambda>x. if wi_work_item_id x = wi_work_item_id w then ?f w else x) ?ws"
    using upd(2) avail by simp
  have "token_work_items_ok (update_where ?P ?f ?ws)"
    using key \<open>owner \<noteq> ''''\<close> unfolding token_work_items_ok_def
    by (auto simp: list_all_iff set_update_where token_work_items_check_def leased_image_def work_item_lane_def
        intro!: keyed_update_where)
  moreover have "count_where ?P ?ws = 1" using upd(1) avail by simp
  ultimately show ?thesis
    using item_of_keyed [OF keyed w run] fence table
    by (simp add: claim_ready_row_def tx_bind_def tx_then_def select_tables_def tx_gets_def
        read_landscape_decision_time_def update_work_items_def put_table_def tx_assert_def now_def c1_def)
qed



text \<open>The claimed table, and its event.\<close>

definition claimed_db :: "env \<Rightarrow> ident \<Rightarrow> ident \<Rightarrow> int \<Rightarrow> instant \<Rightarrow> work_item \<Rightarrow> db \<Rightarrow> db" where
  "claimed_db e run owner secs now w d =
    d\<lparr>db_work_items := map (\<lambda>x. if wi_work_item_id x = wi_work_item_id w
         then leased_image owner (now + seconds secs) now w else x) (db_work_items d),
      db_scheduler_events := db_scheduler_events d @
        [event_values e (claim_event CLAIM_READY READY run w owner (now + seconds secs) now)]\<rparr>"



text \<open>Two available items; the second one was ingested first.\<close>

definition demo_ready :: db where
  "demo_ready = demo_live [demo_item ''i1'' ''t1'' 1 READY None None, demo_item ''i2'' ''t2'' 0 READY None None]"

lemma demo_ready_ok: "db_ok demo_ready"
  by code_simp


section \<open>Progress\<close>

lemma fenced_member_commit:
  assumes "exists_where (active_member m) (db_workers d)" and "run_workers_ok (db_workers d)" and "\<not> env_locked e"
    and "body (open_conn e d) = Inr (x, c)"
    and "\<forall>(key, dl) \<in> set (conn_issued c). dl_reserve dl < dl_expires_at dl -
       decision_instant (env_dialect (conn_env c)) (env_clock (conn_env c) (conn_clock_reads c))"
  shows "fenced_member_transaction e m v body d = (Inr x, tables c)"
proof -
  have "keyed wk_worker_id (db_workers d)" using assms(2) by (simp add: run_workers_ok_def)
  then have "count_where (active_member m) (db_workers d) = 1"
    using assms(1) count_where_keyed_iff [of wk_worker_id "db_workers d" "active_member m" "mt_worker_id m"]
    by (auto simp: active_member_def exists_where_iff)
  then have fence: "verify_membership_fence m v (open_conn e d) = Inr ((), open_conn e d)"
    using assms(2) by (simp add: verify_membership_fence_def tx_inv member_fence_identity open_conn_def)
  obtain c' where "check_deadlines_before_commit c = Inr ((), c')" "tables c' = tables c"
    using assms(5) unfolding check_deadlines_before_commit_def case_prod_beta
    by (cases "conn_issued c = []") (auto simp: tx_inv tx_for_assert_inv list_all_iff)
  then have "begin_write e (tx_then (verify_membership_fence m v) body) d = (Inr x, tables c)"
    using assms(3,4) fence by (simp add: begin_write_def tx_bind_def tx_then_def tx_return_def)
  then show ?thesis by (simp add: fenced_member_transaction_def)
qed

lemma deadline_reserve_of_seconds: "0 < secs \<Longrightarrow> clock_resolution dl \<le> deadline_reserve (seconds secs)"
  by (cases dl) (auto simp: clock_resolution_def deadline_reserve_def tenth_def Let_def)

lemma claim_ready_body_eq:
  fixes secs :: int
  assumes ok: "db_ok d" and active: "active_worker_fence_clause d owner run" and "owner \<noteq> ''''" and "0 < secs"
    and first: "first_row claim_order (claimable run (sample e 0)) (db_work_items d) = Some w"
    and avail: "sample e 0 \<le> sample e 1" and refs: "references_ok d w"
  shows "claim_ready_body run owner secs (open_conn e d) =
    Inr (Some (leased_image owner (sample e 1 + seconds secs) (sample e 1) w),
      (open_conn e d)\<lparr>conn_clock_reads := 2,
        conn_issued := [(ItemDeadline (wi_work_item_id w),
          \<lparr>dl_expires_at = sample e 1 + seconds secs, dl_reserve = deadline_reserve (seconds secs)\<rparr>)],
        tables := claimed_db e run owner secs (sample e 1) w d\<rparr>)"
proof -
  let ?now = "sample e 1" and ?c = "(open_conn e d)\<lparr>conn_clock_reads := 1\<rparr>"
  let ?ws = "map (\<lambda>x. if wi_work_item_id x = wi_work_item_id w then leased_image owner (?now + seconds secs) ?now w else x)
      (db_work_items d)"
  have key: "token_work_items_ok (db_work_items d)" "keyed wi_work_item_id (db_work_items d)"
    using ok by (simp_all add: db_ok_def token_work_items_ok_def)
  have w: "w \<in> set (db_work_items (tables ?c))" "wi_run_id w = run" "claimable run ?now w"
    using first_row_Some [OF first] avail by (auto simp: claimable_def)
  have cl: "(\<lambda>w. wi_run_id w = run \<and> wi_status w = READY \<and> wi_available_at w \<le> sample e 0) = claimable run (sample e 0)"
    by (auto simp: claimable_def)
  have "claim_ready_body run owner secs (open_conn e d) = claim_ready_row (wi_work_item_id w) run owner secs True False ?c"
    using first unfolding claim_ready_body_def cl [symmetric]
    by (simp add: tx_bind_def read_landscape_decision_time_def select_tables_def tx_gets_def sample_def)
  also have "\<dots> = finish_claim CLAIM_READY READY run w owner secs ?now
      ((open_conn e d)\<lparr>conn_clock_reads := 2, tables := d\<lparr>db_work_items := ?ws\<rparr>\<rparr>)"
    using claim_ready_row_eq [OF _ w(1) _ assms(3) w(2), of secs] key(1) active w(3)
    by (simp add: sample_def numeral_2_eq_2 cong: if_cong)
  also have "\<dots> = Inr (Some (leased_image owner (?now + seconds secs) ?now w),
      (open_conn e d)\<lparr>conn_clock_reads := 2, conn_issued := [(ItemDeadline (wi_work_item_id w),
          \<lparr>dl_expires_at = ?now + seconds secs, dl_reserve = deadline_reserve (seconds secs)\<rparr>)],
        tables := claimed_db e run owner secs ?now w d\<rparr>)"
  proof (subst finish_claim_iff)
    show "keyed wi_work_item_id (db_work_items (tables ((open_conn e d)\<lparr>conn_clock_reads := 2, tables := d\<lparr>db_work_items := ?ws\<rparr>\<rparr>)))"
      using key(2) by (simp add: keyed_def comp_def if_distrib cong: if_cong map_cong)
    show "leased_image owner (?now + seconds secs) ?now w \<in> set (db_work_items (tables
        ((open_conn e d)\<lparr>conn_clock_reads := 2, tables := d\<lparr>db_work_items := ?ws\<rparr>\<rparr>)))" using w(1) by force
  qed (use refs w(2) assms(4) in \<open>simp_all add: references_ok_def claimed_db_def deadline_reserve_of_seconds
      run_exists_def token_exists_def node_exists_def split: option.splits\<close>)
  finally show ?thesis .
qed

text \<open>C18. Claiming makes progress.  When the write lock is free, the worker is an active member, the clock
  does not run backwards between its samples and leaves the lease its reserve at the commit, and the
  items refer to rows that exist, then a claim returns work exactly when there is any: it
  hands out the first available item, and otherwise nothing, changing nothing.\<close>

theorem claim_returns_work:
  assumes "db_ok d" and "\<not> env_locked e" and "exists_where (active_member m) (db_workers d)"
    and "mt_worker_id m \<noteq> ''''" and "0 < secs" and "sample e 0 \<le> sample e 1"
    and "deadline_reserve (seconds secs) < sample e 1 + seconds secs - sample e 2"
    and "\<forall>w \<in> set (db_work_items d). claimable (mt_run_id m) (sample e 0) w \<longrightarrow> references_ok d w"
  shows "claim_ready e m (mt_worker_id m) secs d =
    (case first_row claim_order (claimable (mt_run_id m) (sample e 0)) (db_work_items d) of
       None \<Rightarrow> (Inr None, d)
     | Some w \<Rightarrow> (Inr (Some (leased_image (mt_worker_id m) (sample e 1 + seconds secs) (sample e 1) w)),
                 claimed_db e (mt_run_id m) (mt_worker_id m) secs (sample e 1) w d))"
proof (cases "first_row claim_order (claimable (mt_run_id m) (sample e 0)) (db_work_items d)")
  case None
  have cl: "(\<lambda>w. wi_run_id w = mt_run_id m \<and> wi_status w = READY \<and> wi_available_at w \<le> sample e 0)
      = claimable (mt_run_id m) (sample e 0)"
    by (auto simp: claimable_def)
  have "claim_ready_body (mt_run_id m) (mt_worker_id m) secs (open_conn e d) = Inr (None, (open_conn e d)\<lparr>conn_clock_reads := 1\<rparr>)"
    using None unfolding claim_ready_body_def cl [symmetric]
    by (simp add: tx_bind_def read_landscape_decision_time_def select_tables_def tx_gets_def sample_def tx_return_def)
  with None assms(1-3) show ?thesis
    by (simp add: claim_ready_def fenced_member_commit db_ok_def)
next
  case (Some w)
  have "active_worker_fence_clause d (mt_worker_id m) (mt_run_id m)"
    using assms(3) by (auto simp: active_worker_fence_clause_def exists_where_iff active_member_def)
  moreover have "references_ok d w" using first_row_Some [OF Some] assms(8) by blast
  ultimately have "claim_ready_body (mt_run_id m) (mt_worker_id m) secs (open_conn e d) =
    Inr (Some (leased_image (mt_worker_id m) (sample e 1 + seconds secs) (sample e 1) w),
      (open_conn e d)\<lparr>conn_clock_reads := 2,
        conn_issued := [(ItemDeadline (wi_work_item_id w),
          \<lparr>dl_expires_at = sample e 1 + seconds secs, dl_reserve = deadline_reserve (seconds secs)\<rparr>)],
        tables := claimed_db e (mt_run_id m) (mt_worker_id m) secs (sample e 1) w d\<rparr>)"
    using assms(1,4-6) Some by (intro claim_ready_body_eq)
  with Some assms(1-3,7) show ?thesis
    by (simp add: claim_ready_def fenced_member_commit db_ok_def sample_def)
qed

theorem claim_returns_work_witness:
  "fst (claim_ready demo_env (demo_member ''w1'') ''w1'' 60 demo_ready) =
     Inr (Some (leased_image ''w1'' (100001000 + 60000000) 100001000 (demo_item ''i2'' ''t2'' 0 READY None None)))"
proof -
  have "sample demo_env 0 = 100000000" "sample demo_env 1 = 100001000" "sample demo_env 2 = 100002000" by code_simp+
  moreover have "first_row claim_order (claimable ''r'' 100000000) (db_work_items demo_ready)
      = Some (demo_item ''i2'' ''t2'' 0 READY None None)" by code_simp
  moreover have "deadline_reserve (seconds 60) = seconds 1" by code_simp
  moreover have "exists_where (active_member (demo_member ''w1'')) (db_workers demo_ready)" by code_simp
  moreover have "\<forall>w \<in> set (db_work_items demo_ready). claimable ''r'' 100000000 w \<longrightarrow> references_ok demo_ready w" by code_simp
  ultimately show ?thesis
    using claim_returns_work [OF demo_ready_ok, of demo_env "demo_member ''w1''" 60]
    by (simp add: demo_member_def demo_env_def)
qed

end
