(* ===== verification/Python_Values.thy ===== *)
theory Python_Values
  imports Elspeth_Prelude Complex_Main
begin

text \<open>
  The Python values an expression of \<open>core/expression_parser.py\<close> computes with, and the
  operators of the language its tables name: \<open>None\<close>, booleans, unbounded integers, finite
  binary64 floats (a rational that a double holds), strings, lists, tuples, sets and dicts in
  insertion order.  Row data is JSON-shaped and canonical JSON has no NaN or infinity; an
  operation whose double result would not be finite reports that instead.  Case mapping,
  whitespace and printf-style formatting are the interpreter's and are the fields of \<open>text_ops\<close>.
\<close>

datatype pyval = PNone | PBool bool | PInt int | PFloat rat | PStr string
  | PList "pyval list" | PTuple "pyval list" | PSet "pyval list" | PDict "(pyval \<times> pyval) list"

datatype pyexn = KeyErr | IndexErr | TypeErr | ZeroDivErr | OverflowErr | ValueErr | AttributeErr

text \<open>What \<open>str % value\<close> may raise.\<close>

datatype format_exn = FormatType | FormatValue | FormatKey | FormatOverflow

fun format_exn_of :: "format_exn \<Rightarrow> pyexn" where
  "format_exn_of FormatType = TypeErr" | "format_exn_of FormatValue = ValueErr"
| "format_exn_of FormatKey = KeyErr" | "format_exn_of FormatOverflow = OverflowErr"

record text_ops =
  tx_lower :: "string \<Rightarrow> string"
  tx_upper :: "string \<Rightarrow> string"
  tx_casefold :: "string \<Rightarrow> string"
  tx_is_space :: "char \<Rightarrow> bool"
  tx_format :: "string \<Rightarrow> pyval \<Rightarrow> format_exn + string"

section \<open>Doubles\<close>

text \<open>Rounding to nearest, ties to even, on the grid of the doubles: 53 significant bits, the
  least exponent -1074.  \<open>None\<close> is an overflow to infinity.\<close>

definition round_half_even :: "rat \<Rightarrow> int" where
  "round_half_even q = (let n = \<lfloor>q\<rfloor>; r = q - of_int n in
     if r < 1/2 \<or> (r = 1/2 \<and> even n) then n else n + 1)"

definition power_of :: "nat \<Rightarrow> int \<Rightarrow> rat" where
  "power_of b k = (if 0 \<le> k then of_nat b ^ nat k else 1 / of_nat b ^ nat (- k))"

fun digits_in :: "nat \<Rightarrow> nat \<Rightarrow> nat" where
  "digits_in b n = (if n = 0 \<or> b < 2 then 0 else Suc (digits_in b (n div b)))"

declare digits_in.simps [simp del]

text \<open>The k with b^k \<open>\<le>\<close> |q| < b^(k+1), for q other than 0.\<close>

definition magnitude :: "nat \<Rightarrow> rat \<Rightarrow> int" where
  "magnitude b q = (let (n, d) = quotient_of \<bar>q\<bar>; k = int (digits_in b (nat n)) - int (digits_in b (nat d)) in
     if power_of b k \<le> \<bar>q\<bar> then k else k - 1)"

definition to_double :: "rat \<Rightarrow> rat option" where
  "to_double q =
    (if q = 0 then Some 0
     else let ulp = power_of 2 (max (magnitude 2 q - 52) (-1074)); r = of_int (round_half_even (q / ulp)) * ulp in
       if \<bar>r\<bar> < power_of 2 1024 then Some r else None)"

text \<open>The decimal that \<open>str(float)\<close> spells: the shortest one that reads back as the same double,
  and of those the nearest.  Seventeen digits always suffice.\<close>

definition spellings :: "rat \<Rightarrow> nat \<Rightarrow> rat list" where
  "spellings q n =
    (let grid = power_of 10 (magnitude 10 q + 1 - int n); lo = of_int \<lfloor>q / grid\<rfloor> * grid in
     filter (\<lambda>c. to_double c = Some q) [lo, lo + grid])"

definition decimal_spelling :: "rat \<Rightarrow> rat" where
  "decimal_spelling q =
    (if q = 0 then 0
     else case List.find (\<lambda>n. spellings q n \<noteq> []) [1..<18] of
       None \<Rightarrow> q
     | Some n \<Rightarrow> hd (sort_key (\<lambda>c. \<bar>c - q\<bar>) (spellings q n)))"

section \<open>Numbers\<close>

text \<open>\<open>bool\<close> is a subtype of \<open>int\<close>.\<close>

datatype pynum = IntN int | FloatN rat

fun as_num :: "pyval \<Rightarrow> pynum option" where
  "as_num (PBool b) = Some (IntN (of_bool b))"
| "as_num (PInt n) = Some (IntN n)"
| "as_num (PFloat q) = Some (FloatN q)"
| "as_num _ = None"

fun exact :: "pynum \<Rightarrow> rat" where
  "exact (IntN n) = of_int n"
| "exact (FloatN q) = q"

text \<open>What an operator yields: a value, a double that is not finite, or an exception.\<close>

datatype op_result = Value pyval | NonFinite | Raises pyexn

definition float_result :: "rat option \<Rightarrow> op_result" where
  "float_result r = (case r of None \<Rightarrow> NonFinite | Some q \<Rightarrow> Value (PFloat q))"

text \<open>An integer operand of a float operation is converted first.\<close>

definition float_op :: "(rat \<Rightarrow> rat \<Rightarrow> op_result) \<Rightarrow> pynum \<Rightarrow> pynum \<Rightarrow> op_result" where
  "float_op f m n = (case (to_double (exact m), to_double (exact n)) of
     (Some a, Some b) \<Rightarrow> f a b | _ \<Rightarrow> Raises OverflowErr)"

definition num_op :: "(int \<Rightarrow> int \<Rightarrow> op_result) \<Rightarrow> (rat \<Rightarrow> rat \<Rightarrow> op_result) \<Rightarrow> pynum \<Rightarrow> pynum \<Rightarrow> op_result" where
  "num_op fi ff m n = (case (m, n) of (IntN a, IntN b) \<Rightarrow> fi a b | _ \<Rightarrow> float_op ff m n)"

text \<open>CPython's \<open>float_divmod\<close>: the exact remainder, then a rounded quotient snapped to an integer.\<close>

definition fmod :: "rat \<Rightarrow> rat \<Rightarrow> rat" where
  "fmod x y = (let t = x / y; k = (if 0 \<le> t then \<lfloor>t\<rfloor> else \<lceil>t\<rceil>) in x - y * of_int k)"

definition float_mod :: "rat \<Rightarrow> rat \<Rightarrow> op_result" where
  "float_mod x y =
    (if y = 0 then Raises ZeroDivErr
     else let m = fmod x y in
       if m \<noteq> 0 \<and> (y < 0) \<noteq> (m < 0) then float_result (to_double (m + y)) else Value (PFloat m))"

definition float_floordiv :: "rat \<Rightarrow> rat \<Rightarrow> op_result" where
  "float_floordiv x y =
    (if y = 0 then Raises ZeroDivErr
     else let m = fmod x y in
       case Option.bind (to_double (x - m)) (\<lambda>n. Option.bind (to_double (n / y)) (\<lambda>q.
         if m \<noteq> 0 \<and> (y < 0) \<noteq> (m < 0) then to_double (q - 1) else Some q)) of
         None \<Rightarrow> NonFinite
       | Some q \<Rightarrow> let f = of_int \<lfloor>q\<rfloor> in
           Value (PFloat (if 1/2 < q - f then f + 1 else f)))"

section \<open>Equality, hashing and order\<close>

text \<open>Numbers compare by value across their types, sequences by position, sets and dicts by
  their elements.\<close>

primrec py_eq :: "pyval \<Rightarrow> pyval \<Rightarrow> bool" where
  "py_eq PNone b = (b = PNone)"
| "py_eq (PBool x) b = (case as_num b of None \<Rightarrow> False | Some n \<Rightarrow> exact (IntN (of_bool x)) = exact n)"
| "py_eq (PInt x) b = (case as_num b of None \<Rightarrow> False | Some n \<Rightarrow> exact (IntN x) = exact n)"
| "py_eq (PFloat x) b = (case as_num b of None \<Rightarrow> False | Some n \<Rightarrow> exact (FloatN x) = exact n)"
| "py_eq (PStr x) b = (b = PStr x)"
| "py_eq (PList xs) b = (case b of PList ys \<Rightarrow> list_all2 (\<lambda>p y. p y) (map py_eq xs) ys | _ \<Rightarrow> False)"
| "py_eq (PTuple xs) b = (case b of PTuple ys \<Rightarrow> list_all2 (\<lambda>p y. p y) (map py_eq xs) ys | _ \<Rightarrow> False)"
| "py_eq (PSet xs) b = (case b of
     PSet ys \<Rightarrow> length xs = length ys \<and> list_all (\<lambda>p. list_ex p ys) (map py_eq xs) | _ \<Rightarrow> False)"
| "py_eq (PDict xs) b = (case b of
     PDict ys \<Rightarrow> length xs = length ys \<and>
       list_all (\<lambda>(p, q). list_ex (\<lambda>(k, v). p k \<and> q v) ys) (map (map_prod py_eq py_eq) xs) | _ \<Rightarrow> False)"

definition py_elem :: "pyval \<Rightarrow> pyval list \<Rightarrow> bool" where
  "py_elem x ys = list_ex (py_eq x) ys"

definition py_subset :: "pyval list \<Rightarrow> pyval list \<Rightarrow> bool" where
  "py_subset xs ys = list_all (\<lambda>x. py_elem x ys) xs"

primrec hashable :: "pyval \<Rightarrow> bool" where
  "hashable PNone = True" | "hashable (PBool b) = True" | "hashable (PInt n) = True"
| "hashable (PFloat q) = True" | "hashable (PStr s) = True" | "hashable (PList xs) = False"
| "hashable (PTuple xs) = list_all (\<lambda>b. b) (map hashable xs)"
| "hashable (PSet xs) = False" | "hashable (PDict xs) = False"

datatype order_op = LtO | LtEO | GtO | GtEO

fun holds :: "order_op \<Rightarrow> 'a::linorder \<Rightarrow> 'a \<Rightarrow> bool" where
  "holds LtO a b \<longleftrightarrow> a < b" | "holds LtEO a b \<longleftrightarrow> a \<le> b"
| "holds GtO a b \<longleftrightarrow> a > b" | "holds GtEO a b \<longleftrightarrow> a \<ge> b"

fun set_order :: "order_op \<Rightarrow> pyval list \<Rightarrow> pyval list \<Rightarrow> bool" where
  "set_order LtEO xs ys \<longleftrightarrow> py_subset xs ys"
| "set_order LtO xs ys \<longleftrightarrow> py_subset xs ys \<and> length xs < length ys"
| "set_order GtEO xs ys \<longleftrightarrow> py_subset ys xs"
| "set_order GtO xs ys \<longleftrightarrow> py_subset ys xs \<and> length ys < length xs"

text \<open>Sequences: the first position at which they differ decides, then the lengths.  Each element
  of the left one is given by its equality and its order.\<close>

fun seq_order :: "order_op \<Rightarrow> ((pyval \<Rightarrow> bool) \<times> (pyval \<Rightarrow> pyexn + bool)) list \<Rightarrow> pyval list \<Rightarrow> pyexn + bool" where
  "seq_order op ((eq, cmp) # xs) (y # ys) = (if eq y then seq_order op xs ys else cmp y)"
| "seq_order op xs ys = Inr (holds op (length xs) (length ys))"

definition num_order :: "order_op \<Rightarrow> pynum \<Rightarrow> pyval \<Rightarrow> pyexn + bool" where
  "num_order op m b = (case as_num b of None \<Rightarrow> Inl TypeErr | Some n \<Rightarrow> Inr (holds op (exact m) (exact n)))"

primrec py_order :: "order_op \<Rightarrow> pyval \<Rightarrow> pyval \<Rightarrow> pyexn + bool" where
  "py_order op PNone b = Inl TypeErr"
| "py_order op (PBool x) b = num_order op (IntN (of_bool x)) b"
| "py_order op (PInt x) b = num_order op (IntN x) b"
| "py_order op (PFloat x) b = num_order op (FloatN x) b"
| "py_order op (PStr s) b = (case b of PStr t \<Rightarrow> Inr (holds op s t) | _ \<Rightarrow> Inl TypeErr)"
| "py_order op (PList xs) b = (case b of
     PList ys \<Rightarrow> seq_order op (zip (map py_eq xs) (map (py_order op) xs)) ys | _ \<Rightarrow> Inl TypeErr)"
| "py_order op (PTuple xs) b = (case b of
     PTuple ys \<Rightarrow> seq_order op (zip (map py_eq xs) (map (py_order op) xs)) ys | _ \<Rightarrow> Inl TypeErr)"
| "py_order op (PSet xs) b = (case b of PSet ys \<Rightarrow> Inr (set_order op xs ys) | _ \<Rightarrow> Inl TypeErr)"
| "py_order op (PDict xs) b = Inl TypeErr"

section \<open>Containers\<close>

definition dict_find :: "(pyval \<times> pyval) list \<Rightarrow> pyval \<Rightarrow> pyval option" where
  "dict_find kvs k = map_option snd (List.find (\<lambda>(k', _). py_eq k k') kvs)"

definition dict_insert :: "pyval \<Rightarrow> pyval \<Rightarrow> (pyval \<times> pyval) list \<Rightarrow> (pyval \<times> pyval) list" where
  "dict_insert k v kvs =
    (if list_ex (\<lambda>(k', _). py_eq k k') kvs
     then map (\<lambda>(k', v'). if py_eq k k' then (k', v) else (k', v')) kvs else kvs @ [(k, v)])"

definition set_insert :: "pyval \<Rightarrow> pyval list \<Rightarrow> pyval list" where
  "set_insert x xs = (if py_elem x xs then xs else xs @ [x])"

definition seq_index :: "'a list \<Rightarrow> int \<Rightarrow> pyexn + 'a" where
  "seq_index xs i = (let j = (if i < 0 then i + int (length xs) else i) in
     if 0 \<le> j \<and> j < int (length xs) then Inr (xs ! nat j) else Inl IndexErr)"

fun as_index :: "pyval \<Rightarrow> int option" where
  "as_index (PBool b) = Some (of_bool b)" | "as_index (PInt n) = Some n" | "as_index _ = None"

definition map_ok :: "('a \<Rightarrow> 'b) \<Rightarrow> 'e + 'a \<Rightarrow> 'e + 'b" where
  "map_ok f r = (case r of Inl e \<Rightarrow> Inl e | Inr x \<Rightarrow> Inr (f x))"

text \<open>\<open>value[key]\<close>.\<close>

fun py_getitem :: "pyval \<Rightarrow> pyval \<Rightarrow> pyexn + pyval" where
  "py_getitem (PDict kvs) k =
    (if \<not> hashable k then Inl TypeErr
     else case dict_find kvs k of None \<Rightarrow> Inl KeyErr | Some v \<Rightarrow> Inr v)"
| "py_getitem (PList xs) k = (case as_index k of None \<Rightarrow> Inl TypeErr | Some i \<Rightarrow> seq_index xs i)"
| "py_getitem (PTuple xs) k = (case as_index k of None \<Rightarrow> Inl TypeErr | Some i \<Rightarrow> seq_index xs i)"
| "py_getitem (PStr s) k =
    (case as_index k of None \<Rightarrow> Inl TypeErr | Some i \<Rightarrow> map_ok (\<lambda>c. PStr [c]) (seq_index s i))"
| "py_getitem _ k = Inl TypeErr"

text \<open>\<open>a in b\<close>.\<close>

fun py_in :: "pyval \<Rightarrow> pyval \<Rightarrow> pyexn + bool" where
  "py_in a (PList ys) = Inr (py_elem a ys)"
| "py_in a (PTuple ys) = Inr (py_elem a ys)"
| "py_in a (PSet ys) = (case a of
     PSet _ \<Rightarrow> Inr False \<comment> \<open>looked up as a frozenset, which no element is\<close>
   | _ \<Rightarrow> if hashable a then Inr (py_elem a ys) else Inl TypeErr)"
| "py_in a (PDict kvs) = (if hashable a then Inr (py_elem a (map fst kvs)) else Inl TypeErr)"
| "py_in a (PStr t) = (case a of PStr s \<Rightarrow> Inr (sublist s t) | _ \<Rightarrow> Inl TypeErr)"
| "py_in a _ = Inl TypeErr"

fun truthy :: "pyval \<Rightarrow> bool" where
  "truthy PNone = False" | "truthy (PBool b) = b" | "truthy (PInt n) = (n \<noteq> 0)"
| "truthy (PFloat q) = (q \<noteq> 0)" | "truthy (PStr s) = (s \<noteq> [])" | "truthy (PList xs) = (xs \<noteq> [])"
| "truthy (PTuple xs) = (xs \<noteq> [])" | "truthy (PSet xs) = (xs \<noteq> [])" | "truthy (PDict xs) = (xs \<noteq> [])"

section \<open>Operators\<close>

definition py_add :: "pyval \<Rightarrow> pyval \<Rightarrow> op_result" where
  "py_add a b = (case (as_num a, as_num b) of
     (Some m, Some n) \<Rightarrow> num_op (\<lambda>x y. Value (PInt (x + y))) (\<lambda>x y. float_result (to_double (x + y))) m n
   | _ \<Rightarrow> (case (a, b) of
       (PStr x, PStr y) \<Rightarrow> Value (PStr (x @ y))
     | (PList x, PList y) \<Rightarrow> Value (PList (x @ y))
     | (PTuple x, PTuple y) \<Rightarrow> Value (PTuple (x @ y))
     | _ \<Rightarrow> Raises TypeErr))"

definition py_sub :: "pyval \<Rightarrow> pyval \<Rightarrow> op_result" where
  "py_sub a b = (case (as_num a, as_num b) of
     (Some m, Some n) \<Rightarrow> num_op (\<lambda>x y. Value (PInt (x - y))) (\<lambda>x y. float_result (to_double (x - y))) m n
   | _ \<Rightarrow> (case (a, b) of
       (PSet x, PSet y) \<Rightarrow> Value (PSet (filter (\<lambda>v. \<not> py_elem v y) x))
     | _ \<Rightarrow> Raises TypeErr))"

text \<open>A repetition count that does not fit the index type overflows.\<close>

definition repeat_seq :: "('a list \<Rightarrow> pyval) \<Rightarrow> 'a list \<Rightarrow> int \<Rightarrow> op_result" where
  "repeat_seq mk xs n =
    (if - (2 ^ 63) \<le> n \<and> n < 2 ^ 63 then Value (mk (concat (replicate (nat n) xs))) else Raises OverflowErr)"

fun py_repeat :: "pyval \<Rightarrow> pyval \<Rightarrow> op_result" where
  "py_repeat (PStr s) b = (case as_index b of None \<Rightarrow> Raises TypeErr | Some n \<Rightarrow> repeat_seq PStr s n)"
| "py_repeat (PList xs) b = (case as_index b of None \<Rightarrow> Raises TypeErr | Some n \<Rightarrow> repeat_seq PList xs n)"
| "py_repeat (PTuple xs) b = (case as_index b of None \<Rightarrow> Raises TypeErr | Some n \<Rightarrow> repeat_seq PTuple xs n)"
| "py_repeat a b = Raises TypeErr"

definition py_mul :: "pyval \<Rightarrow> pyval \<Rightarrow> op_result" where
  "py_mul a b = (case (as_num a, as_num b) of
     (Some m, Some n) \<Rightarrow> num_op (\<lambda>x y. Value (PInt (x * y))) (\<lambda>x y. float_result (to_double (x * y))) m n
   | (Some _, None) \<Rightarrow> py_repeat b a
   | _ \<Rightarrow> py_repeat a b)"

text \<open>The quotient of two integers is rounded once, whatever their size.\<close>

definition int_truediv :: "int \<Rightarrow> int \<Rightarrow> op_result" where
  "int_truediv x y =
    (if y = 0 then Raises ZeroDivErr
     else case to_double (of_int x / of_int y) of None \<Rightarrow> Raises OverflowErr | Some q \<Rightarrow> Value (PFloat q))"

definition numeric_op :: "(int \<Rightarrow> int \<Rightarrow> op_result) \<Rightarrow> (rat \<Rightarrow> rat \<Rightarrow> op_result) \<Rightarrow> pyval \<Rightarrow> pyval \<Rightarrow> op_result" where
  "numeric_op fi ff a b = (case (as_num a, as_num b) of
     (Some m, Some n) \<Rightarrow> num_op fi ff m n | _ \<Rightarrow> Raises TypeErr)"

definition py_truediv :: "pyval \<Rightarrow> pyval \<Rightarrow> op_result" where
  "py_truediv = numeric_op int_truediv
     (\<lambda>x y. if y = 0 then Raises ZeroDivErr else float_result (to_double (x / y)))"

definition py_floordiv :: "pyval \<Rightarrow> pyval \<Rightarrow> op_result" where
  "py_floordiv = numeric_op (\<lambda>x y. if y = 0 then Raises ZeroDivErr else Value (PInt (x div y))) float_floordiv"

definition py_mod :: "text_ops \<Rightarrow> pyval \<Rightarrow> pyval \<Rightarrow> op_result" where
  "py_mod tx a b = (case a of
     PStr s \<Rightarrow> (case tx_format tx s b of Inl e \<Rightarrow> Raises (format_exn_of e) | Inr t \<Rightarrow> Value (PStr t))
   | _ \<Rightarrow> numeric_op (\<lambda>x y. if y = 0 then Raises ZeroDivErr else Value (PInt (x mod y))) float_mod a b)"

definition py_neg :: "pyval \<Rightarrow> op_result" where
  "py_neg a = (case as_num a of
     Some (IntN n) \<Rightarrow> Value (PInt (- n)) | Some (FloatN q) \<Rightarrow> Value (PFloat (- q)) | None \<Rightarrow> Raises TypeErr)"

definition py_pos :: "pyval \<Rightarrow> op_result" where
  "py_pos a = (case as_num a of
     Some (IntN n) \<Rightarrow> Value (PInt n) | Some (FloatN q) \<Rightarrow> Value (PFloat q) | None \<Rightarrow> Raises TypeErr)"

definition py_abs :: "pyval \<Rightarrow> pyexn + pyval" where
  "py_abs a = (case as_num a of
     Some (IntN n) \<Rightarrow> Inr (PInt \<bar>n\<bar>) | Some (FloatN q) \<Rightarrow> Inr (PFloat \<bar>q\<bar>) | None \<Rightarrow> Inl TypeErr)"

fun py_len :: "pyval \<Rightarrow> pyexn + pyval" where
  "py_len (PStr s) = Inr (PInt (int (length s)))"
| "py_len (PList xs) = Inr (PInt (int (length xs)))"
| "py_len (PTuple xs) = Inr (PInt (int (length xs)))"
| "py_len (PSet xs) = Inr (PInt (int (length xs)))"
| "py_len (PDict xs) = Inr (PInt (int (length xs)))"
| "py_len _ = Inl TypeErr"

section \<open>Strings\<close>

definition on_str :: "(string \<Rightarrow> string) \<Rightarrow> pyval \<Rightarrow> pyexn + pyval" where
  "on_str f a = (case a of PStr s \<Rightarrow> Inr (PStr (f s)) | _ \<Rightarrow> Inl TypeErr)"

definition strip_chars :: "(char \<Rightarrow> bool) \<Rightarrow> string \<Rightarrow> string" where
  "strip_chars P s = rev (dropWhile P (rev (dropWhile P s)))"

text \<open>The number of maximal runs of characters that are not whitespace.\<close>

fun count_words :: "(char \<Rightarrow> bool) \<Rightarrow> bool \<Rightarrow> string \<Rightarrow> nat" where
  "count_words space in_word [] = 0"
| "count_words space in_word (c # cs) =
    (if space c then count_words space False cs
     else (if in_word then 0 else 1) + count_words space True cs)"

end
