(* ===== verification/Expression_Parser.thy ===== *)
theory Expression_Parser
  imports Python_Values
begin

text \<open>
  The expression language of gate conditions (\<open>core/expression_parser.py\<close>): the abstract syntax
  \<open>ast.parse\<close> yields, the depth bound, the whitelist validator, the evaluator and the static
  classifications.  Parsing text into that syntax is the interpreter's.  The validator's three
  counters go up before a child is visited and down after it, so they are passed to the child.
  Messages are dropped; an error is the constructor of the arm that reports it.
\<close>

section \<open>Abstract syntax\<close>

datatype boolop = And | Or
datatype binop = Add | Sub | Mult | Div | FloorDiv | Mod | OtherBinop
datatype unaryop = NotOp | USub | UAdd | Invert
datatype cmpop = Eq | NotEq | Lt | LtE | Gt | GtE | Is | IsNot | In | NotIn

text \<open>A literal.  \<open>CFloat None\<close> is one that is not finite, \<open>COther\<close> one of another type (complex,
  bytes, Ellipsis).\<close>

datatype pconst = CNone | CBool bool | CInt int | CFloat "rat option" | CStr string | CComplex | COther

datatype forbidden_construct = Lambda | ListComp | DictComp | SetComp | GeneratorExp | Await | Yield
  | YieldFrom | NamedExpr | JoinedStr | FormattedValue | Starred

text \<open>The shape of a syntax tree, operators, load contexts and comprehension clauses included.\<close>

datatype ast_tree = Node "ast_tree list"

text \<open>\<open>Forbidden\<close> is a construct with a rejecting arm, \<open>Unhandled\<close> an expression type without one; nothing
  below them or below a slice is ever visited, so they keep only their shape.  A boolean operation has
  at least one operand.  A \<open>**\<close> argument of a call has no name, a \<open>**\<close> entry of a dict no key.\<close>

datatype pexpr =
    Name string
  | Subscript pexpr pexpr
  | Attribute pexpr string
  | Call pexpr "pexpr list" "(string option \<times> pexpr) list"
  | Compare pexpr "(cmpop \<times> pexpr) list"
  | BoolOp boolop pexpr "pexpr list"
  | BinOp pexpr binop pexpr
  | UnaryOp unaryop pexpr
  | Constant pconst
  | List "pexpr list"
  | Dict "(pexpr option \<times> pexpr) list"
  | Tuple "pexpr list"
  | SetLit "pexpr list"
  | IfExp pexpr pexpr pexpr
  | Slice "ast_tree list"
  | Forbidden forbidden_construct "ast_tree list"
  | Unhandled "ast_tree list"

section \<open>Tables\<close>

definition SAFE_BUILTIN_ARITIES :: "(string \<times> nat \<times> nat) list" where
  "SAFE_BUILTIN_ARITIES = [(''len'', 1, 1), (''abs'', 1, 1), (''lower'', 1, 1), (''upper'', 1, 1),
     (''strip'', 1, 2), (''casefold'', 1, 1), (''starts_with'', 2, 2), (''word_count'', 1, 1),
     (''decimal_within'', 3, 3)]"

definition SAFE_BUILTINS :: "string list" where
  "SAFE_BUILTINS = [''len'', ''abs'', ''lower'', ''upper'', ''strip'', ''casefold'', ''starts_with'',
     ''word_count'', ''decimal_within'']"

definition SAFE_CONSTANTS :: "string list" where
  "SAFE_CONSTANTS = [''True'', ''False'', ''None'']"

definition ALWAYS_NUMERIC_BUILTINS :: "string list" where
  "ALWAYS_NUMERIC_BUILTINS = [''len'', ''abs'', ''word_count'']"

definition ALWAYS_BOOLEAN_BUILTINS :: "string list" where
  "ALWAYS_BOOLEAN_BUILTINS = [''starts_with'', ''decimal_within'']"

section \<open>The depth bound\<close>

abbreviation leaf :: ast_tree where "leaf \<equiv> Node []"

text \<open>\<open>ast.iter_child_nodes\<close>, all the way down: a name has a load context, a call a node per keyword, and
  every operator is a node.\<close>

primrec tree_of :: "pexpr \<Rightarrow> ast_tree" where
  "tree_of (Name n) = Node [leaf]"
| "tree_of (Subscript v k) = Node [tree_of v, tree_of k, leaf]"
| "tree_of (Attribute v a) = Node [tree_of v, leaf]"
| "tree_of (Call f args kws) =
    Node (tree_of f # map tree_of args @ map (\<lambda>p. Node [snd p]) (map (map_prod id tree_of) kws))"
| "tree_of (Compare e rest) =
    Node (tree_of e # map (\<lambda>_. leaf) rest @ map snd (map (map_prod id tree_of) rest))"
| "tree_of (BoolOp op e es) = Node (leaf # tree_of e # map tree_of es)"
| "tree_of (BinOp a op b) = Node [tree_of a, leaf, tree_of b]"
| "tree_of (UnaryOp op a) = Node [leaf, tree_of a]"
| "tree_of (Constant c) = leaf"
| "tree_of (List es) = Node (map tree_of es @ [leaf])"
| "tree_of (Dict kvs) = (let ts = map (map_prod (map_option tree_of) tree_of) kvs in
     Node (List.map_filter fst ts @ map snd ts))"
| "tree_of (Tuple es) = Node (map tree_of es @ [leaf])"
| "tree_of (SetLit es) = Node (map tree_of es)"
| "tree_of (IfExp t b e) = Node [tree_of t, tree_of b, tree_of e]"
| "tree_of (Slice ts) = Node ts"
| "tree_of (Forbidden k ts) = Node ts"
| "tree_of (Unhandled ts) = Node ts"

primrec tree_nodes :: "ast_tree \<Rightarrow> nat" where
  "tree_nodes (Node ts) = Suc (sum_list (map tree_nodes ts))"

text \<open>The work list of \<open>ExpressionParser.__init__\<close>, its end first: the node popped is replaced by its
  children, one level down.\<close>

function within_depth :: "(ast_tree \<times> nat) list \<Rightarrow> bool" where
  "within_depth [] = True"
| "within_depth ((Node children, depth) # pending) =
    (if depth > 64 then False
     else within_depth (rev (map (\<lambda>child. (child, Suc depth)) children) @ pending))"
  by pat_completeness auto
termination
  by (relation "measure (\<lambda>stack. sum_list (map (tree_nodes \<circ> fst) stack))")
    (simp_all add: rev_map [symmetric] sum_list_rev comp_def)

text \<open>The number of levels below a node.\<close>

primrec height :: "ast_tree \<Rightarrow> nat" where
  "height (Node ts) = foldr max (map Suc (map height ts)) 0"

section \<open>Subexpressions\<close>

fun child_exprs :: "pexpr \<Rightarrow> pexpr list" where
  "child_exprs (Name n) = []"
| "child_exprs (Subscript v k) = [v, k]"
| "child_exprs (Attribute v a) = [v]"
| "child_exprs (Call f args kws) = f # args @ map snd kws"
| "child_exprs (Compare e rest) = e # map snd rest"
| "child_exprs (BoolOp op e es) = e # es"
| "child_exprs (BinOp a op b) = [a, b]"
| "child_exprs (UnaryOp op a) = [a]"
| "child_exprs (Constant c) = []"
| "child_exprs (List es) = es"
| "child_exprs (Dict kvs) = List.map_filter fst kvs @ map snd kvs"
| "child_exprs (Tuple es) = es"
| "child_exprs (SetLit es) = es"
| "child_exprs (IfExp t b e) = [t, b, e]"
| "child_exprs (Slice ts) = []"
| "child_exprs (Forbidden k ts) = []"
| "child_exprs (Unhandled ts) = []"

lemma map_filter_mem: "x \<in> set (List.map_filter f xs) \<longleftrightarrow> (\<exists>y \<in> set xs. f y = Some x)"
  by (induction xs) (auto simp: map_filter_simps split: option.splits)

text \<open>The number of expressions below and including one; the recursions over them descend in it.\<close>

primrec nodes :: "pexpr \<Rightarrow> nat" where
  "nodes (Name n) = 1"
| "nodes (Subscript v k) = Suc (nodes v + nodes k)"
| "nodes (Attribute v a) = Suc (nodes v)"
| "nodes (Call f args kws) = Suc (nodes f + sum_list (map nodes args) + sum_list (map snd (map (map_prod id nodes) kws)))"
| "nodes (Compare e rest) = Suc (nodes e + sum_list (map snd (map (map_prod id nodes) rest)))"
| "nodes (BoolOp op e es) = Suc (nodes e + sum_list (map nodes es))"
| "nodes (BinOp a op b) = Suc (nodes a + nodes b)"
| "nodes (UnaryOp op a) = Suc (nodes a)"
| "nodes (Constant c) = 1"
| "nodes (List es) = Suc (sum_list (map nodes es))"
| "nodes (Dict kvs) = Suc (sum_list (map (\<lambda>p. (case fst p of None \<Rightarrow> 0 | Some n \<Rightarrow> n) + snd p)
     (map (map_prod (map_option nodes) nodes) kvs)))"
| "nodes (Tuple es) = Suc (sum_list (map nodes es))"
| "nodes (SetLit es) = Suc (sum_list (map nodes es))"
| "nodes (IfExp t b e) = Suc (nodes t + nodes b + nodes e)"
| "nodes (Slice ts) = 1"
| "nodes (Forbidden k ts) = 1"
| "nodes (Unhandled ts) = 1"

lemma nodes_child_exprs: "nodes e = Suc (sum_list (map nodes (child_exprs e)))"
proof (cases e)
  case (Dict kvs)
  have "sum_list (map (\<lambda>p. (case fst p of None \<Rightarrow> 0 | Some n \<Rightarrow> n) + snd p) (map (map_prod (map_option nodes) nodes) kvs))
      = sum_list (map nodes (List.map_filter fst kvs)) + sum_list (map (\<lambda>p. nodes (snd p)) kvs)"
    by (induction kvs) (auto simp: map_filter_simps split: option.splits)
  then show ?thesis using Dict by (simp add: comp_def)
qed (simp_all add: comp_def)

lemma child_fewer_nodes: "c \<in> set (child_exprs e) \<Longrightarrow> nodes c < nodes e"
  using member_le_sum_list [of "nodes c" "map nodes (child_exprs e)"] nodes_child_exprs [of e] by auto

lemma nodes_below:
  "nodes v < nodes (Subscript v k)" "nodes k < nodes (Subscript v k)" "nodes v < nodes (Attribute v a)"
  "nodes f < nodes (Call f args kws)" "x \<in> set args \<Longrightarrow> nodes x < nodes (Call f args kws)"
  "(w, x) \<in> set kws \<Longrightarrow> nodes x < nodes (Call f args kws)"
  "nodes e < nodes (Compare e rest)" "(op, x) \<in> set rest \<Longrightarrow> nodes x < nodes (Compare e rest)"
  "nodes e < nodes (BoolOp bop e es)" "x \<in> set es \<Longrightarrow> nodes x < nodes (BoolOp bop e es)"
  "nodes e < nodes (BinOp e b e')" "nodes e' < nodes (BinOp e b e')"
  "nodes e < nodes (UnaryOp u e)" "x \<in> set es \<Longrightarrow> nodes x < nodes (List es)" "x \<in> set es \<Longrightarrow> nodes x < nodes (Tuple es)"
  "x \<in> set es \<Longrightarrow> nodes x < nodes (SetLit es)"
  "x \<in> set (List.map_filter fst kvs) \<Longrightarrow> nodes x < nodes (Dict kvs)" "(y, x) \<in> set kvs \<Longrightarrow> nodes x < nodes (Dict kvs)"
  "nodes t < nodes (IfExp t b' e)" "nodes b' < nodes (IfExp t b' e)" "nodes e < nodes (IfExp t b' e)"
  by (rule child_fewer_nodes; force)+

section \<open>The validator\<close>

datatype validation_error =
    BareBuiltin string | BareAllowedName string | ForbiddenName string
  | SliceSyntax | SubscriptReceiver
  | ForbiddenAttribute string | BareGet string | ForbiddenAttributeAccess string
  | GetArity nat | GetKeywords | BuiltinKeywords string | BuiltinArity string nat | ForbiddenCall
  | IdentityWithoutNone | ForbiddenBinaryOperator | ForbiddenUnaryOperator
  | NonFiniteLiteral | ForbiddenConstant | DictSpread
  | ForbiddenSyntax forbidden_construct | UnsupportedConstruct

fun is_none_constant :: "pexpr \<Rightarrow> bool" where
  "is_none_constant (Constant CNone) = True"
| "is_none_constant _ = False"

fun is_slice :: "pexpr \<Rightarrow> bool" where
  "is_slice (Slice es) = True"
| "is_slice _ = False"

fun allowed_get :: "string list \<Rightarrow> pexpr \<Rightarrow> bool" where
  "allowed_get names (Attribute (Name n) a) \<longleftrightarrow> n \<in> set names \<and> a = ''get''"
| "allowed_get names _ \<longleftrightarrow> False"

fun is_allowed_derived :: "string list \<Rightarrow> pexpr \<Rightarrow> bool" where
  "is_allowed_derived names (Name n) \<longleftrightarrow> n \<in> set names"
| "is_allowed_derived names (Subscript v k) \<longleftrightarrow> is_allowed_derived names v"
| "is_allowed_derived names (Call f args kws) \<longleftrightarrow> allowed_get names f"
| "is_allowed_derived names _ \<longleftrightarrow> False"

text \<open>The name a node is, when it is one of the given names.\<close>

fun allowed_name :: "string list \<Rightarrow> pexpr \<Rightarrow> string option" where
  "allowed_name names (Name n) = (if n \<in> set names then Some n else None)"
| "allowed_name names _ = None"

definition visit_Name :: "string list \<Rightarrow> nat \<Rightarrow> nat \<Rightarrow> string \<Rightarrow> validation_error list" where
  "visit_Name names allow_name allow_builtin n =
    (if n \<in> set SAFE_CONSTANTS then []
     else if n \<in> set SAFE_BUILTINS then if allow_builtin > 0 then [] else [BareBuiltin n]
     else if n \<in> set names then if allow_name > 0 then [] else [BareAllowedName n]
     else [ForbiddenName n])"

fun visit_Constant :: "pconst \<Rightarrow> validation_error list" where
  "visit_Constant (CFloat None) = [NonFiniteLiteral]"
| "visit_Constant CComplex = [ForbiddenConstant]"
| "visit_Constant COther = [ForbiddenConstant]"
| "visit_Constant _ = []"

text \<open>\<open>is\<close> and \<open>is not\<close> need a \<open>None\<close> literal on one side.\<close>

fun identity_errors :: "pexpr \<Rightarrow> (cmpop \<times> pexpr) list \<Rightarrow> validation_error list" where
  "identity_errors left [] = []"
| "identity_errors left ((op, right) # rest) =
    (if op \<in> {Is, IsNot} \<and> \<not> (is_none_constant left \<or> is_none_constant right) then [IdentityWithoutNone] else [])
    @ identity_errors right rest"

definition arity_errors :: "string \<Rightarrow> pexpr list \<Rightarrow> validation_error list" where
  "arity_errors n args = (case map_of SAFE_BUILTIN_ARITIES n of
     Some (minimum, maximum) \<Rightarrow>
       if minimum \<le> length args \<and> length args \<le> maximum then [] else [BuiltinArity n (length args)]
   | None \<Rightarrow> [])"

text \<open>\<open>visit\<close>: the errors a node reports, in the order they are appended.  \<open>in_call\<close> holds while the callee
  of a call is visited, \<open>allow_name\<close> and \<open>allow_builtin\<close> are the two reference counters.\<close>

function validate :: "string list \<Rightarrow> bool \<Rightarrow> nat \<Rightarrow> nat \<Rightarrow> pexpr \<Rightarrow> validation_error list" where
  "validate ns ic an ab (Name n) = visit_Name ns an ab n"
| "validate ns ic an ab (Subscript v k) =
    (if is_slice k then [SliceSyntax] else []) @ (if is_allowed_derived ns v then [] else [SubscriptReceiver])
    @ validate ns ic (Suc an) ab v @ validate ns ic an ab k"
| "validate ns ic an ab (Attribute v a) =
    (case allowed_name ns v of
       Some n \<Rightarrow> validate ns ic (Suc an) ab v @
         (if a \<noteq> ''get'' then [ForbiddenAttribute a] else if \<not> ic then [BareGet n] else [])
     | None \<Rightarrow> ForbiddenAttributeAccess a # validate ns ic an ab v)"
| "validate ns ic an ab (Call f args kws) =
    (if allowed_get ns f
     then (if length args \<noteq> 1 then [GetArity (length args)] else []) @ (if kws \<noteq> [] then [GetKeywords] else [])
       @ validate ns True an ab f @ concat (map (validate ns False an ab) args)
     else case allowed_name SAFE_BUILTINS f of
       Some n \<Rightarrow> (if kws \<noteq> [] then [BuiltinKeywords n] else []) @ arity_errors n args
         @ validate ns ic an (Suc ab) f @ concat (map (validate ns ic an ab) args)
     | None \<Rightarrow> ForbiddenCall # validate ns ic an ab f @ concat (map (validate ns ic an ab) args)
         @ concat (map (\<lambda>p. validate ns ic an ab (snd p)) kws))"
| "validate ns ic an ab (Compare e rest) =
    identity_errors e rest @ validate ns ic an ab e @ concat (map (\<lambda>p. validate ns ic an ab (snd p)) rest)"
| "validate ns ic an ab (BoolOp op e es) = validate ns ic an ab e @ concat (map (validate ns ic an ab) es)"
| "validate ns ic an ab (BinOp a op b) =
    (if op = OtherBinop then [ForbiddenBinaryOperator] else []) @ validate ns ic an ab a @ validate ns ic an ab b"
| "validate ns ic an ab (UnaryOp op a) =
    (if op = Invert then [ForbiddenUnaryOperator] else []) @ validate ns ic an ab a"
| "validate ns ic an ab (Constant c) = visit_Constant c"
| "validate ns ic an ab (List es) = concat (map (validate ns ic an ab) es)"
| "validate ns ic an ab (Dict kvs) =
    map (\<lambda>_. DictSpread) (filter (\<lambda>p. fst p = None) kvs)
    @ concat (map (validate ns ic an ab) (List.map_filter fst kvs))
    @ concat (map (validate ns ic an ab) (map snd kvs))"
| "validate ns ic an ab (Tuple es) = concat (map (validate ns ic an ab) es)"
| "validate ns ic an ab (SetLit es) = concat (map (validate ns ic an ab) es)"
| "validate ns ic an ab (IfExp t b e) = validate ns ic an ab t @ validate ns ic an ab b @ validate ns ic an ab e"
| "validate ns ic an ab (Slice es) = [SliceSyntax]"
| "validate ns ic an ab (Forbidden k es) = [ForbiddenSyntax k]"
| "validate ns ic an ab (Unhandled es) = [UnsupportedConstruct]"
  by pat_completeness auto
termination
  by (relation "measure (\<lambda>(_, _, _, _, e). nodes e)") (auto simp: nodes_below simp del: nodes.simps)

end
