(* ===== verification/Expression_Evaluator.thy ===== *)
theory Expression_Evaluator
  imports Expression_Parser
begin

text \<open>
  Evaluation of a validated expression (\<open>_ExpressionEvaluator\<close> and \<open>ExpressionParser.evaluate\<close>)
  and the static classifications of \<open>ExpressionParser\<close>.  \<open>Raised\<close> is an exception of an operand on
  its way out; \<open>Unrepresented\<close> says that the code goes on with an object that is not a value of
  \<open>pyval\<close> (a function outside a call, a bytes or complex literal, the identity of two objects
  other than \<open>None\<close>).  Both are excluded for validated expressions below.
\<close>

section \<open>Evaluation\<close>

datatype evaluation_kind = missing_key | index_out_of_range | incompatible_types | division_by_zero
  | arithmetic_overflow | invalid_value | non_finite_result | unexpected_error

datatype eval_exn = SecurityError | EvaluationError evaluation_kind | Raised pyexn | Unrepresented

type_synonym 'a ev = "eval_exn + 'a"

record evaluator =
  ev_context :: pyval
  ev_allowed_names :: "string list"
  ev_single_name_mode :: bool
  ev_text :: text_ops

definition ev_bind :: "'a ev \<Rightarrow> ('a \<Rightarrow> 'b ev) \<Rightarrow> 'b ev" where
  "ev_bind r f = (case r of Inl e \<Rightarrow> Inl e | Inr x \<Rightarrow> f x)"

lemma ev_bind_cong [fundef_cong]:
  "r = r' \<Longrightarrow> (\<And>x. r' = Inr x \<Longrightarrow> f x = f' x) \<Longrightarrow> ev_bind r f = ev_bind r' f'"
  by (auto simp: ev_bind_def split: sum.splits)

lemma ev_bind_Inr [simp]: "ev_bind r f = Inr y \<longleftrightarrow> (\<exists>x. r = Inr x \<and> f x = Inr y)"
  by (auto simp: ev_bind_def split: sum.splits)

lemma ev_bind_simps [simp]: "ev_bind (Inl e) f = Inl e" "ev_bind (Inr x) f = f x"
  by (simp_all add: ev_bind_def)

lemma ev_bind_Inl: "ev_bind r f = Inl e \<longleftrightarrow> r = Inl e \<or> (\<exists>x. r = Inr x \<and> f x = Inl e)"
  by (auto simp: ev_bind_def split: sum.splits)

text \<open>The try blocks: which exception of an operation becomes which evaluation error.\<close>

definition raised :: "pyexn \<Rightarrow> 'a ev" where
  "raised x = Inl (Raised x)"

fun subscript_error :: "pyexn \<Rightarrow> eval_exn" where
  "subscript_error KeyErr = EvaluationError missing_key"
| "subscript_error IndexErr = EvaluationError index_out_of_range"
| "subscript_error TypeErr = EvaluationError incompatible_types"
| "subscript_error x = Raised x"

fun call_error :: "pyexn \<Rightarrow> eval_exn" where
  "call_error TypeErr = EvaluationError incompatible_types"
| "call_error OverflowErr = EvaluationError arithmetic_overflow"
| "call_error ValueErr = EvaluationError invalid_value"
| "call_error x = Raised x"

fun binop_error :: "pyexn \<Rightarrow> eval_exn" where
  "binop_error ZeroDivErr = EvaluationError division_by_zero"
| "binop_error TypeErr = EvaluationError incompatible_types"
| "binop_error KeyErr = EvaluationError missing_key"
| "binop_error x = Raised x"

fun type_error :: "pyexn \<Rightarrow> eval_exn" where
  "type_error TypeErr = EvaluationError incompatible_types"
| "type_error x = Raised x"

definition wrap :: "(pyexn \<Rightarrow> eval_exn) \<Rightarrow> pyexn + 'a \<Rightarrow> 'a ev" where
  "wrap h r = (case r of Inl x \<Rightarrow> Inl (h x) | Inr v \<Rightarrow> Inr v)"

text \<open>The try block around an operator, and \<open>_ensure_finite_float\<close> on its result.\<close>

fun finite_result :: "(pyexn \<Rightarrow> eval_exn) \<Rightarrow> op_result \<Rightarrow> pyval ev" where
  "finite_result h (Value v) = Inr v"
| "finite_result h NonFinite = Inl (EvaluationError non_finite_result)"
| "finite_result h (Raises x) = Inl (h x)"

text \<open>\<open>except TypeError\<close> around a set or dict literal also catches what its elements let through.\<close>

definition unhashable_caught :: "'a ev \<Rightarrow> 'a ev" where
  "unhashable_caught r = (case r of Inl (Raised TypeErr) \<Rightarrow> Inl (EvaluationError incompatible_types) | _ \<Rightarrow> r)"

fun const_value :: "pconst \<Rightarrow> pyval ev" where
  "const_value CNone = Inr PNone"
| "const_value (CBool b) = Inr (PBool b)"
| "const_value (CInt n) = Inr (PInt n)"
| "const_value (CFloat None) = Inl (EvaluationError non_finite_result)"
| "const_value (CFloat (Some q)) = Inr (PFloat q)"
| "const_value (CStr s) = Inr (PStr s)"
| "const_value CComplex = Inl Unrepresented"
| "const_value COther = Inl Unrepresented"

subsection \<open>Callables\<close>

datatype callable = Builtin string | GetOf pyval | NotCallable pyval

definition name_value :: "evaluator \<Rightarrow> string \<Rightarrow> callable ev" where
  "name_value c n =
    (if n \<in> set (ev_allowed_names c)
     then if ev_single_name_mode c then Inr (NotCallable (ev_context c))
          else ev_bind (wrap Raised (py_getitem (ev_context c) (PStr n))) (\<lambda>v. Inr (NotCallable v))
     else if n = ''True'' then Inr (NotCallable (PBool True))
     else if n = ''False'' then Inr (NotCallable (PBool False))
     else if n = ''None'' then Inr (NotCallable PNone)
     else if n \<in> set SAFE_BUILTINS then Inr (Builtin n)
     else Inl SecurityError)"

text \<open>\<open>value.get\<close>.  An allowed name in single-name mode is the context itself.\<close>

definition get_method :: "pyval \<Rightarrow> callable ev" where
  "get_method v = (case v of PDict _ \<Rightarrow> Inr (GetOf v) | _ \<Rightarrow> Inl (Raised AttributeErr))"

definition attribute_value :: "evaluator \<Rightarrow> pexpr \<Rightarrow> string \<Rightarrow> pyval \<Rightarrow> callable ev" where
  "attribute_value c receiver a v =
    (if a = ''get''
     then if allowed_name (ev_allowed_names c) receiver \<noteq> None then get_method v
          else if ev_single_name_mode c then Inl Unrepresented else Inl SecurityError
     else Inl SecurityError)"

definition numeric_decimal_fraction :: "pyval \<Rightarrow> pyexn + rat" where
  "numeric_decimal_fraction v = (case v of
     PInt n \<Rightarrow> Inr (of_int n) | PFloat q \<Rightarrow> Inr (decimal_spelling q) | _ \<Rightarrow> Inl TypeErr)"

definition decimal_within :: "pyval \<Rightarrow> pyval \<Rightarrow> pyval \<Rightarrow> pyexn + pyval" where
  "decimal_within left right tolerance =
    (case numeric_decimal_fraction left of Inl x \<Rightarrow> Inl x | Inr l \<Rightarrow>
     case numeric_decimal_fraction right of Inl x \<Rightarrow> Inl x | Inr r \<Rightarrow>
     case numeric_decimal_fraction tolerance of Inl x \<Rightarrow> Inl x | Inr bound \<Rightarrow>
       if bound < 0 then Inl ValueErr else Inr (PBool (\<bar>l - r\<bar> \<le> bound)))"

fun starts_with :: "pyval \<Rightarrow> pyval \<Rightarrow> pyexn + pyval" where
  "starts_with (PStr s) (PStr p) = Inr (PBool (prefix p s))"
| "starts_with _ _ = Inl TypeErr"

fun word_count :: "text_ops \<Rightarrow> pyval \<Rightarrow> pyexn + pyval" where
  "word_count tx (PStr s) = Inr (PInt (int (count_words (tx_is_space tx) False s)))"
| "word_count tx _ = Inl TypeErr"

fun strip_with :: "text_ops \<Rightarrow> pyval \<Rightarrow> pyval \<Rightarrow> pyexn + pyval" where
  "strip_with tx (PStr s) PNone = Inr (PStr (strip_chars (tx_is_space tx) s))"
| "strip_with tx (PStr s) (PStr cs) = Inr (PStr (strip_chars (\<lambda>c. c \<in> set cs) s))"
| "strip_with tx _ _ = Inl TypeErr"

definition apply_builtin :: "text_ops \<Rightarrow> string \<Rightarrow> pyval list \<Rightarrow> pyexn + pyval" where
  "apply_builtin tx n args = (case args of
     [a] \<Rightarrow>
       if n = ''len'' then py_len a else if n = ''abs'' then py_abs a
       else if n = ''lower'' then on_str (tx_lower tx) a else if n = ''upper'' then on_str (tx_upper tx) a
       else if n = ''casefold'' then on_str (tx_casefold tx) a
       else if n = ''strip'' then strip_with tx a PNone
       else if n = ''word_count'' then word_count tx a else Inl TypeErr
   | [a, b] \<Rightarrow> if n = ''strip'' then strip_with tx a b else if n = ''starts_with'' then starts_with a b else Inl TypeErr
   | [a, b, d] \<Rightarrow> if n = ''decimal_within'' then decimal_within a b d else Inl TypeErr
   | _ \<Rightarrow> Inl TypeErr)"

definition dict_get :: "pyval \<Rightarrow> pyval list \<Rightarrow> pyexn + pyval" where
  "dict_get d args = (case (d, args) of
     (PDict kvs, [k]) \<Rightarrow> if hashable k then Inr (case dict_find kvs k of None \<Rightarrow> PNone | Some v \<Rightarrow> v) else Inl TypeErr
   | (PDict kvs, [k, dflt]) \<Rightarrow>
       if hashable k then Inr (case dict_find kvs k of None \<Rightarrow> dflt | Some v \<Rightarrow> v) else Inl TypeErr
   | _ \<Rightarrow> Inl TypeErr)"

fun apply_callable :: "text_ops \<Rightarrow> callable \<Rightarrow> pyval list \<Rightarrow> pyexn + pyval" where
  "apply_callable tx (Builtin n) args = apply_builtin tx n args"
| "apply_callable tx (GetOf d) args = dict_get d args"
| "apply_callable tx (NotCallable v) args = Inl TypeErr"

definition as_value :: "callable \<Rightarrow> pyval ev" where
  "as_value f = (case f of NotCallable v \<Rightarrow> Inr v | _ \<Rightarrow> Inl Unrepresented)"

subsection \<open>Operator tables\<close>

text \<open>Validated expressions apply \<open>is\<close> only where one operand is the literal \<open>None\<close>.\<close>

definition py_is :: "pyval \<Rightarrow> pyval \<Rightarrow> bool ev" where
  "py_is a b = (if a = PNone \<or> b = PNone then Inr (a = b) else Inl Unrepresented)"

fun apply_cmpop :: "cmpop \<Rightarrow> pyval \<Rightarrow> pyval \<Rightarrow> bool ev" where
  "apply_cmpop Eq a b = Inr (py_eq a b)"
| "apply_cmpop NotEq a b = Inr (\<not> py_eq a b)"
| "apply_cmpop Lt a b = wrap type_error (py_order LtO a b)"
| "apply_cmpop LtE a b = wrap type_error (py_order LtEO a b)"
| "apply_cmpop Gt a b = wrap type_error (py_order GtO a b)"
| "apply_cmpop GtE a b = wrap type_error (py_order GtEO a b)"
| "apply_cmpop Is a b = py_is a b"
| "apply_cmpop IsNot a b = ev_bind (py_is a b) (\<lambda>x. Inr (\<not> x))"
| "apply_cmpop In a b = wrap type_error (py_in a b)"
| "apply_cmpop NotIn a b = ev_bind (wrap type_error (py_in a b)) (\<lambda>x. Inr (\<not> x))"

text \<open>An operator without a table entry is a \<open>KeyError\<close> of the lookup.\<close>

fun apply_binop :: "text_ops \<Rightarrow> binop \<Rightarrow> pyval \<Rightarrow> pyval \<Rightarrow> pyval ev" where
  "apply_binop tx Add a b = finite_result binop_error (py_add a b)"
| "apply_binop tx Sub a b = finite_result binop_error (py_sub a b)"
| "apply_binop tx Mult a b = finite_result binop_error (py_mul a b)"
| "apply_binop tx Div a b = finite_result binop_error (py_truediv a b)"
| "apply_binop tx FloorDiv a b = finite_result binop_error (py_floordiv a b)"
| "apply_binop tx Mod a b = finite_result binop_error (py_mod tx a b)"
| "apply_binop tx OtherBinop a b = Inl (Raised KeyErr)"

fun apply_unaryop :: "unaryop \<Rightarrow> pyval \<Rightarrow> pyval ev" where
  "apply_unaryop NotOp a = Inr (PBool (\<not> truthy a))"
| "apply_unaryop USub a = finite_result type_error (py_neg a)"
| "apply_unaryop UAdd a = finite_result type_error (py_pos a)"
| "apply_unaryop Invert a = Inl (Raised KeyErr)"

subsection \<open>The evaluator\<close>

text \<open>An invalid argument count that reached the evaluator.\<close>

definition arity_bypass :: "pexpr \<Rightarrow> pexpr list \<Rightarrow> bool" where
  "arity_bypass f args = (case allowed_name (map fst SAFE_BUILTIN_ARITIES) f of
     Some n \<Rightarrow> arity_errors n args \<noteq> [] | None \<Rightarrow> False)"

text \<open>\<open>results\<close>: the elements of a display in order, stopping at the first exception; the accumulating
  versions insert each element as it comes.\<close>

primrec results :: "'a ev list \<Rightarrow> 'a list ev" where
  "results [] = Inr []"
| "results (r # rs) = ev_bind r (\<lambda>x. ev_bind (results rs) (\<lambda>xs. Inr (x # xs)))"

primrec set_display :: "pyval ev list \<Rightarrow> pyval list \<Rightarrow> pyval list ev" where
  "set_display [] acc = Inr acc"
| "set_display (r # rs) acc =
    ev_bind r (\<lambda>x. if hashable x then set_display rs (set_insert x acc) else Inl (Raised TypeErr))"

primrec dict_display :: "(pyval ev \<times> pyval ev) list \<Rightarrow> (pyval \<times> pyval) list \<Rightarrow> (pyval \<times> pyval) list ev" where
  "dict_display [] acc = Inr acc"
| "dict_display (p # ps) acc =
    ev_bind (fst p) (\<lambda>k. ev_bind (snd p) (\<lambda>v.
      if hashable k then dict_display ps (dict_insert k v acc) else Inl (Raised TypeErr)))"

primrec compare_chain :: "(cmpop \<times> pyval ev) list \<Rightarrow> pyval \<Rightarrow> pyval ev" where
  "compare_chain [] left = Inr (PBool True)"
| "compare_chain (p # ps) left =
    ev_bind (snd p) (\<lambda>right. ev_bind (apply_cmpop (fst p) left right) (\<lambda>b.
      if b then compare_chain ps right else Inr (PBool False)))"

text \<open>\<open>and\<close> and \<open>or\<close> return the operand that decides.\<close>

primrec bool_chain :: "boolop \<Rightarrow> pyval ev list \<Rightarrow> pyval ev \<Rightarrow> pyval ev" where
  "bool_chain op [] r = r"
| "bool_chain op (r' # rs) r = ev_bind r (\<lambda>x. if truthy x = (op = Or) then Inr x else bool_chain op rs r')"

text \<open>The callee: a name or an attribute may give a function, anything else is a value.  An attribute
  evaluates its receiver.\<close>

fun callee_operand :: "pexpr \<Rightarrow> pexpr" where
  "callee_operand (Attribute v a) = v"
| "callee_operand f = f"

definition callee_value :: "evaluator \<Rightarrow> pexpr \<Rightarrow> pyval ev \<Rightarrow> callable ev" where
  "callee_value c f operand = (case f of
     Name n \<Rightarrow> name_value c n
   | Attribute v a \<Rightarrow> ev_bind operand (attribute_value c v a)
   | _ \<Rightarrow> ev_bind operand (\<lambda>v. Inr (NotCallable v)))"

lemma callee_operand_nodes: "nodes (callee_operand f) < nodes (Call f args kws)"
proof -
  have "nodes (callee_operand f) \<le> nodes f" by (cases f) simp_all
  then show ?thesis using nodes_below(4) [of f args kws] by linarith
qed

function eval :: "evaluator \<Rightarrow> pexpr \<Rightarrow> pyval ev" where
  "eval c (Name n) = ev_bind (name_value c n) as_value"
| "eval c (Subscript v k) =
    ev_bind (eval c v) (\<lambda>value. ev_bind (eval c k) (\<lambda>key. wrap subscript_error (py_getitem value key)))"
| "eval c (Attribute v a) =
    ev_bind (eval c v) (\<lambda>value. ev_bind (attribute_value c v a value) (\<lambda>_. Inl Unrepresented))"
| "eval c (Call f args kws) =
    (if arity_bypass f args then Inl SecurityError
     else ev_bind (callee_value c f (eval c (callee_operand f))) (\<lambda>func.
       ev_bind (results (map (eval c) args)) (\<lambda>vals. wrap call_error (apply_callable (ev_text c) func vals))))"
| "eval c (Compare e rest) =
    ev_bind (eval c e) (compare_chain (map (\<lambda>p. (fst p, eval c (snd p))) rest))"
| "eval c (BoolOp op e es) = bool_chain op (map (eval c) es) (eval c e)"
| "eval c (BinOp a op b) = ev_bind (eval c a) (\<lambda>left. ev_bind (eval c b) (\<lambda>right. apply_binop (ev_text c) op left right))"
| "eval c (UnaryOp op a) = ev_bind (eval c a) (apply_unaryop op)"
| "eval c (Constant k) = const_value k"
| "eval c (List es) = ev_bind (results (map (eval c) es)) (\<lambda>xs. Inr (PList xs))"
| "eval c (Dict kvs) =
    (if list_ex (\<lambda>p. fst p = None) kvs then Inl SecurityError
     else unhashable_caught (ev_bind (dict_display
       (zip (map (eval c) (List.map_filter fst kvs)) (map (\<lambda>p. eval c (snd p)) kvs)) []) (\<lambda>d. Inr (PDict d))))"
| "eval c (Tuple es) = ev_bind (results (map (eval c) es)) (\<lambda>xs. Inr (PTuple xs))"
| "eval c (SetLit es) = unhashable_caught (ev_bind (set_display (map (eval c) es) []) (\<lambda>xs. Inr (PSet xs)))"
| "eval c (IfExp t b e) = ev_bind (eval c t) (\<lambda>x. if truthy x then eval c b else eval c e)"
| "eval c (Slice es) = Inl SecurityError"
| "eval c (Forbidden k es) = Inl SecurityError"
| "eval c (Unhandled es) = Inl SecurityError"
  by pat_completeness auto
termination
  by (relation "measure (\<lambda>(_, e). nodes e)")
    (auto simp: nodes_below callee_operand_nodes simp del: nodes.simps)

section \<open>Construction and evaluation\<close>

datatype parser_exn = ExpressionSyntaxError | ExpressionSecurityError "validation_error list" | EmptyAllowedNames

record expression_parser =
  ep_ast :: pexpr
  ep_allowed_names :: "string list"
  ep_single_name_mode :: bool

text \<open>\<open>ExpressionParser.__init__\<close>: \<open>parsed\<close> is what \<open>ast.parse\<close> returns, nothing when it raises.  The
  root \<open>Expression\<close> wraps the body.\<close>

definition expression_parser_init :: "pexpr option \<Rightarrow> string list option \<Rightarrow> parser_exn + expression_parser" where
  "expression_parser_init parsed allowed_names =
    (if allowed_names = Some [] then Inl EmptyAllowedNames
     else let names = (case allowed_names of None \<Rightarrow> [''row''] | Some ns \<Rightarrow> ns) in
       case parsed of
         None \<Rightarrow> Inl ExpressionSyntaxError
       | Some body \<Rightarrow>
           if \<not> within_depth [(Node [tree_of body], 0)] then Inl ExpressionSyntaxError
           else let errors = validate names False 0 0 body in
             if errors \<noteq> [] then Inl (ExpressionSecurityError errors)
             else Inr \<lparr>ep_ast = body, ep_allowed_names = names, ep_single_name_mode = (allowed_names = None)\<rparr>)"

text \<open>What \<open>evaluate\<close> lets through, and what it wraps.\<close>

fun evaluate_error :: "eval_exn \<Rightarrow> eval_exn" where
  "evaluate_error (Raised OverflowErr) = EvaluationError arithmetic_overflow"
| "evaluate_error (Raised ValueErr) = EvaluationError invalid_value"
| "evaluate_error (Raised IndexErr) = EvaluationError unexpected_error"
| "evaluate_error (Raised ZeroDivErr) = EvaluationError unexpected_error"
| "evaluate_error x = x"

definition evaluate :: "text_ops \<Rightarrow> expression_parser \<Rightarrow> pyval \<Rightarrow> pyval ev" where
  "evaluate tx p context =
    (case eval \<lparr>ev_context = context, ev_allowed_names = ep_allowed_names p,
        ev_single_name_mode = ep_single_name_mode p, ev_text = tx\<rparr> (ep_ast p) of
       Inl e \<Rightarrow> Inl (evaluate_error e) | Inr v \<Rightarrow> Inr v)"

section \<open>Static classifications\<close>

fun is_boolean_node :: "pexpr \<Rightarrow> bool" where
  "is_boolean_node (Compare e rest) = True"
| "is_boolean_node (Call f args kws) = (allowed_name ALWAYS_BOOLEAN_BUILTINS f \<noteq> None)"
| "is_boolean_node (BoolOp op e es) = (is_boolean_node e \<and> list_all (\<lambda>b. b) (map is_boolean_node es))"
| "is_boolean_node (UnaryOp op a) = (op = NotOp)"
| "is_boolean_node (Constant c) = (case c of CBool b \<Rightarrow> True | _ \<Rightarrow> False)"
| "is_boolean_node (IfExp t b e) = (is_boolean_node b \<and> is_boolean_node e)"
| "is_boolean_node _ = False"

fun is_numeric_constant :: "pexpr \<Rightarrow> bool" where
  "is_numeric_constant (Constant c) = (case c of CInt n \<Rightarrow> True | CFloat q \<Rightarrow> True | CComplex \<Rightarrow> True | _ \<Rightarrow> False)"
| "is_numeric_constant _ = False"

fun is_non_routable_node :: "pexpr \<Rightarrow> bool" where
  "is_non_routable_node (Constant c) = is_numeric_constant (Constant c)"
| "is_non_routable_node (Call f args kws) = (allowed_name ALWAYS_NUMERIC_BUILTINS f \<noteq> None)"
| "is_non_routable_node (UnaryOp op a) = (op \<in> {USub, UAdd})"
| "is_non_routable_node (BinOp a op b) =
    (op \<in> {Sub, Div, FloorDiv} \<or> op = Add \<and> (is_numeric_constant a \<or> is_numeric_constant b))"
| "is_non_routable_node _ = False"

definition is_boolean_expression :: "expression_parser \<Rightarrow> bool" where
  "is_boolean_expression p = is_boolean_node (ep_ast p)"

fun is_constant :: "pexpr \<Rightarrow> bool" where
  "is_constant (Constant c) = True"
| "is_constant _ = False"

definition is_constant_expression :: "expression_parser \<Rightarrow> bool" where
  "is_constant_expression p = is_constant (ep_ast p)"

definition is_provably_non_routable :: "expression_parser \<Rightarrow> bool" where
  "is_provably_non_routable p = is_non_routable_node (ep_ast p)"

text \<open>\<open>ast.walk\<close>: every node below and including one.\<close>

function walk :: "pexpr \<Rightarrow> pexpr list" where
  "walk e = e # concat (map walk (child_exprs e))"
  by pat_completeness auto
termination by (relation "measure nodes") (simp_all add: child_fewer_nodes)

declare walk.simps [simp del]

fun amplifies :: "pexpr \<Rightarrow> bool" where
  "amplifies (BinOp a op b) = (op \<in> {Mult, Mod} \<and> (\<not> is_non_routable_node a \<or> \<not> is_non_routable_node b))"
| "amplifies _ = False"

definition has_string_amplification_risk :: "expression_parser \<Rightarrow> bool" where
  "has_string_amplification_risk p = list_ex amplifies (walk (ep_ast p))"

fun concatenates :: "pexpr \<Rightarrow> bool" where
  "concatenates (BinOp a op b) = (op = Add \<and> (\<not> is_non_routable_node a \<or> \<not> is_non_routable_node b))"
| "concatenates _ = False"

definition has_string_concatenation_risk :: "expression_parser \<Rightarrow> bool" where
  "has_string_concatenation_risk p = list_ex concatenates (walk (ep_ast p))"

fun consumes_sets :: "pexpr \<Rightarrow> bool" where
  "consumes_sets (Compare e rest) = True" | "consumes_sets (Call f args kws) = True"
| "consumes_sets (UnaryOp op a) = True" | "consumes_sets _ = False"

text \<open>The children that a set can pass through: not the test of a conditional.\<close>

fun passing_children :: "pexpr \<Rightarrow> pexpr list" where
  "passing_children (IfExp t b e) = [b, e]"
| "passing_children e = child_exprs e"

fun is_set_literal :: "pexpr \<Rightarrow> bool" where
  "is_set_literal (SetLit es) = True" | "is_set_literal _ = False"

lemma passing_children_sub: "c \<in> set (passing_children e) \<Longrightarrow> c \<in> set (child_exprs e)"
  by (cases e) auto

function set_reaches_value :: "pexpr \<Rightarrow> bool" where
  "set_reaches_value e =
    (if is_set_literal e then True
     else if consumes_sets e then False
     else list_ex set_reaches_value (passing_children e))"
  by pat_completeness auto
termination
  by (relation "measure nodes") (auto simp: list_ex_iff intro: child_fewer_nodes passing_children_sub)

declare set_reaches_value.simps [simp del]

definition result_can_be_set :: "expression_parser \<Rightarrow> bool" where
  "result_can_be_set p = set_reaches_value (ep_ast p)"

definition string_copying_calls :: "string list" where
  "string_copying_calls = filter (\<lambda>n. n \<notin> set ALWAYS_NUMERIC_BUILTINS \<and> n \<notin> set ALWAYS_BOOLEAN_BUILTINS) SAFE_BUILTINS"

fun copies_string :: "pexpr \<Rightarrow> bool" where
  "copies_string (Call f args kws) = (allowed_name string_copying_calls f \<noteq> None)"
| "copies_string _ = False"

fun is_container :: "pexpr \<Rightarrow> bool" where
  "is_container (List es) = True" | "is_container (Tuple es) = True" | "is_container (Dict kvs) = True"
| "is_container _ = False"

definition has_eager_container_string_allocation_risk :: "expression_parser \<Rightarrow> bool" where
  "has_eager_container_string_allocation_risk p =
    list_ex (\<lambda>child. is_container child \<and> list_ex copies_string (walk child)) (walk (ep_ast p))"

definition has_repeated_string_copying_calls :: "expression_parser \<Rightarrow> bool" where
  "has_repeated_string_copying_calls p = (1 < length (filter copies_string (walk (ep_ast p))))"

subsection \<open>Field reads\<close>

record static_field_reads =
  fr_fields :: "string list"
  fr_complete :: bool

fun string_literal :: "pexpr \<Rightarrow> string option" where
  "string_literal (Constant (CStr s)) = Some s"
| "string_literal _ = None"

text \<open>A direct read of the name: the field it spells out, or \<open>None\<close> when it does not.\<close>

fun field_read :: "string \<Rightarrow> pexpr \<Rightarrow> string option option" where
  "field_read name (Subscript v k) = (if v = Name name then Some (string_literal k) else None)"
| "field_read name (Call f args kws) =
    (if f = Attribute (Name name) ''get''
     then Some (case args of [a] \<Rightarrow> string_literal a | _ \<Rightarrow> None) else None)"
| "field_read name _ = None"

definition static_field_reads :: "expression_parser \<Rightarrow> string \<Rightarrow> static_field_reads" where
  "static_field_reads p name =
    (let reads = List.map_filter (field_read name) (walk (ep_ast p)) in
     \<lparr>fr_fields = List.map_filter id reads, fr_complete = (None \<notin> set reads)\<rparr>)"

end
