(* ===== verification/Expression_Properties.thy ===== *)
theory Expression_Properties
  imports Expression_Evaluator
begin

text \<open>
  What the whitelist guarantees: the depth loop measures the height of the tree, a validated
  expression evaluates to a value or to a classified evaluation error, and the static
  classifications are sound for what evaluation returns.
\<close>

section \<open>The depth bound\<close>

lemma foldr_max_le: "foldr max xs (0::nat) \<le> k \<longleftrightarrow> (\<forall>x \<in> set xs. x \<le> k)"
  by (induction xs) auto

lemma height_within: "d + height (Node ts) \<le> k \<longleftrightarrow> d \<le> k \<and> (\<forall>t \<in> set ts. Suc d + height t \<le> k)"
proof -
  have "height (Node ts) \<le> j \<longleftrightarrow> (\<forall>t \<in> set ts. Suc (height t) \<le> j)" for j
    by (simp add: foldr_max_le)
  from this [of "k - d"] show ?thesis by (cases "d \<le> k") (auto simp: le_diff_conv2)
qed

lemma within_depth_iff: "within_depth stack \<longleftrightarrow> (\<forall>(t, d) \<in> set stack. d + height t \<le> 64)"
proof (induction stack rule: within_depth.induct)
  case (2 children depth pending)
  show ?case
  proof (cases "depth > 64")
    case False
    from 2 [OF False] have "within_depth ((Node children, depth) # pending) \<longleftrightarrow>
        (\<forall>t \<in> set children. Suc depth + height t \<le> 64) \<and> (\<forall>(t, d) \<in> set pending. d + height t \<le> 64)"
      using False by (simp add: ball_Un)
    then show ?thesis using False height_within [of depth children 64] by (simp del: height.simps)
  qed simp
qed simp

text \<open>C21. The depth loop is exact: it accepts a body exactly when its syntax tree has at most 63 levels
  below its root, whatever its shape, and so bounds every later recursion.\<close>

theorem depth_bound_is_exact: "within_depth [(Node [tree_of body], 0)] \<longleftrightarrow> height (tree_of body) < 64"
  using height_within [of 0 "[tree_of body]" 64] by (simp add: within_depth_iff Suc_le_eq del: height.simps)

section \<open>Errors of the operators\<close>

text \<open>An exception an operator may let through: \<open>evaluate\<close> wraps it.\<close>

definition wrapped :: "eval_exn \<Rightarrow> bool" where
  "wrapped e \<longleftrightarrow> (case e of EvaluationError k \<Rightarrow> True | Raised x \<Rightarrow> x \<in> {OverflowErr, ValueErr, IndexErr, ZeroDivErr}
     | _ \<Rightarrow> False)"

definition safe :: "'a ev \<Rightarrow> bool" where
  "safe r \<longleftrightarrow> (case r of Inl e \<Rightarrow> wrapped e | Inr _ \<Rightarrow> True)"

lemma safe_simps [simp]: "safe (Inr x)" "safe (Inl e) \<longleftrightarrow> wrapped e" "wrapped (EvaluationError k)"
  "\<not> wrapped SecurityError" "\<not> wrapped Unrepresented" "wrapped (Raised OverflowErr)" "wrapped (Raised ValueErr)"
  by (simp_all add: safe_def wrapped_def)

lemma safe_bind: "safe r \<Longrightarrow> (\<And>x. r = Inr x \<Longrightarrow> safe (f x)) \<Longrightarrow> safe (ev_bind r f)"
  by (auto simp: ev_bind_def split: sum.splits)

lemma safe_wrap: "(\<And>x. r = Inl x \<Longrightarrow> wrapped (h x)) \<Longrightarrow> safe (wrap h r)"
  by (auto simp: wrap_def split: sum.splits)

lemma safe_finite: "(\<And>x. r = Raises x \<Longrightarrow> wrapped (h x)) \<Longrightarrow> safe (finite_result h r)"
  by (cases r) auto

lemma binop_error_wrapped: "x \<noteq> AttributeErr \<Longrightarrow> wrapped (binop_error x)"
  by (cases x) (auto simp: wrapped_def)

lemma float_result_raises [simp]: "float_result r \<noteq> Raises x"
  by (simp add: float_result_def split: option.splits)

lemma num_op_no_attribute_error:
  "(\<And>x y. fi x y \<noteq> Raises AttributeErr) \<Longrightarrow> (\<And>x y. ff x y \<noteq> Raises AttributeErr) \<Longrightarrow> num_op fi ff m n \<noteq> Raises AttributeErr"
  by (simp add: num_op_def float_op_def split: option.splits pynum.splits)

lemma numeric_op_no_attribute_error:
  "(\<And>x y. fi x y \<noteq> Raises AttributeErr) \<Longrightarrow> (\<And>x y. ff x y \<noteq> Raises AttributeErr) \<Longrightarrow> numeric_op fi ff a b \<noteq> Raises AttributeErr"
  by (auto simp: numeric_op_def num_op_no_attribute_error split: option.splits)

lemma repeat_no_attribute_error: "py_repeat a b \<noteq> Raises AttributeErr"
  by (cases a) (auto simp: repeat_seq_def split: option.splits)

lemma format_no_attribute_error: "format_exn_of e \<noteq> AttributeErr"
  by (cases e) simp_all

lemma operators_no_attribute_error:
  "py_add a b \<noteq> Raises AttributeErr" "py_sub a b \<noteq> Raises AttributeErr" "py_mul a b \<noteq> Raises AttributeErr"
  "py_truediv a b \<noteq> Raises AttributeErr" "py_floordiv a b \<noteq> Raises AttributeErr" "py_mod tx a b \<noteq> Raises AttributeErr"
proof -
  show "py_add a b \<noteq> Raises AttributeErr" "py_sub a b \<noteq> Raises AttributeErr"
    by (cases "as_num a"; cases "as_num b"; cases a; cases b; simp add: py_add_def py_sub_def num_op_no_attribute_error)+
  show "py_mul a b \<noteq> Raises AttributeErr"
    by (cases "as_num a"; cases "as_num b")
      (simp_all add: py_mul_def num_op_no_attribute_error repeat_no_attribute_error)
  show "py_truediv a b \<noteq> Raises AttributeErr"
    unfolding py_truediv_def by (rule numeric_op_no_attribute_error) (simp_all add: int_truediv_def split: option.splits)
  have div: "float_floordiv x y \<noteq> Raises AttributeErr" and mod: "float_mod x y \<noteq> Raises AttributeErr" for x y
    by (simp_all add: float_floordiv_def float_mod_def Let_def split: option.splits)
  show "py_floordiv a b \<noteq> Raises AttributeErr"
    unfolding py_floordiv_def by (rule numeric_op_no_attribute_error) (simp_all add: div)
  have "numeric_op (\<lambda>x y. if y = 0 then Raises ZeroDivErr else Value (PInt (x mod y))) float_mod a b \<noteq> Raises AttributeErr"
    by (rule numeric_op_no_attribute_error) (simp_all add: mod)
  then show "py_mod tx a b \<noteq> Raises AttributeErr"
    by (auto simp: py_mod_def format_no_attribute_error split: pyval.splits sum.splits)
qed

lemma apply_binop_safe: "op \<noteq> OtherBinop \<Longrightarrow> safe (apply_binop tx op a b)"
  by (cases op) (auto intro!: safe_finite binop_error_wrapped simp: operators_no_attribute_error)

lemma apply_unaryop_safe: "op \<noteq> Invert \<Longrightarrow> safe (apply_unaryop op a)"
  by (cases op) (auto intro!: safe_finite simp: py_neg_def py_pos_def split: option.splits pynum.splits)

lemma seq_order_error:
  "(\<And>eq cmp y x. (eq, cmp) \<in> set xs \<Longrightarrow> cmp y = Inl x \<Longrightarrow> x = TypeErr) \<Longrightarrow> seq_order op xs ys = Inl x \<Longrightarrow> x = TypeErr"
  by (induction op xs ys rule: seq_order.induct) (auto split: if_splits)

lemma py_order_error: "py_order op a b = Inl x \<Longrightarrow> x = TypeErr"
proof (induction a arbitrary: b x)
  case (PList xs)
  then show ?case by (auto split: pyval.splits elim!: seq_order_error [rotated] dest!: set_zip_rightD)
next
  case (PTuple xs)
  then show ?case by (auto split: pyval.splits elim!: seq_order_error [rotated] dest!: set_zip_rightD)
qed (auto simp: num_order_def split: option.splits pyval.splits)

lemma py_in_error: "py_in a b = Inl x \<Longrightarrow> x = TypeErr"
  by (cases b) (auto split: pyval.splits if_splits)

lemma apply_cmpop_safe:
  "(op \<in> {Is, IsNot} \<Longrightarrow> a = PNone \<or> b = PNone) \<Longrightarrow> safe (apply_cmpop op a b)"
  by (cases op) (auto intro!: safe_wrap safe_bind dest!: py_order_error py_in_error simp: py_is_def)

lemma apply_callable_safe: "safe (wrap call_error (apply_callable tx f args))"
proof (rule safe_wrap)
  fix x assume "apply_callable tx f args = Inl x"
  then have "x \<in> {TypeErr, ValueErr}"
  proof (cases f)
    case (Builtin n)
    have "py_len a = Inl x \<Longrightarrow> x = TypeErr" "word_count tx a = Inl x \<Longrightarrow> x = TypeErr" "starts_with a b = Inl x \<Longrightarrow> x = TypeErr"
      "strip_with tx a b = Inl x \<Longrightarrow> x = TypeErr" for a b
      by (cases a; cases b; simp)+
    moreover have "py_abs a = Inl x \<Longrightarrow> x = TypeErr" "on_str g a = Inl x \<Longrightarrow> x = TypeErr" for a g
      by (auto simp: py_abs_def on_str_def split: option.splits pynum.splits pyval.splits)
    moreover have "decimal_within a b d = Inl x \<Longrightarrow> x \<in> {TypeErr, ValueErr}" for a b d
      by (auto simp: decimal_within_def numeric_decimal_fraction_def split: sum.splits pyval.splits if_splits)
    ultimately show ?thesis using \<open>apply_callable tx f args = Inl x\<close> Builtin
      by (auto simp: apply_builtin_def split: list.splits if_splits)
  qed (auto simp: dict_get_def split: list.splits pyval.splits if_splits)
  then show "wrapped (call_error x)" by auto
qed

section \<open>Validated expressions\<close>

text \<open>The contexts an evaluator is given: a row, or a namespace that maps every allowed name to a dict.\<close>

definition context_ok :: "evaluator \<Rightarrow> bool" where
  "context_ok c \<longleftrightarrow> (case ev_context c of
     PDict kvs \<Rightarrow> \<not> ev_single_name_mode c \<longrightarrow>
       (\<forall>n \<in> set (ev_allowed_names c). \<exists>d. dict_find kvs (PStr n) = Some (PDict d))
   | _ \<Rightarrow> False)"

lemma name_value_allowed:
  "context_ok c \<Longrightarrow> n \<in> set (ev_allowed_names c) \<Longrightarrow> \<exists>d. name_value c n = Inr (NotCallable (PDict d))"
  by (auto simp: context_ok_def name_value_def wrap_def split: pyval.splits)

lemma name_value_safe:
  assumes "context_ok c" and "visit_Name (ev_allowed_names c) an ab n = []"
  shows "safe (name_value c n)" and "ab = 0 \<Longrightarrow> safe (eval c (Name n))"
proof -
  show "safe (name_value c n)"
    using assms name_value_allowed [OF assms(1), of n]
    by (cases "n \<in> set (ev_allowed_names c)")
      (auto simp: visit_Name_def name_value_def SAFE_CONSTANTS_def split: if_splits)
  show "safe (eval c (Name n))" if "ab = 0"
    using assms name_value_allowed [OF assms(1), of n] that
    by (cases "n \<in> set (ev_allowed_names c)")
      (auto simp: visit_Name_def name_value_def SAFE_CONSTANTS_def as_value_def split: if_splits)
qed

lemma getitem_error: "py_getitem v k = Inl x \<Longrightarrow> wrapped (subscript_error x)"
  by (cases v) (auto simp: seq_index_def map_ok_def Let_def split: option.splits if_splits)

lemma results_safe: "(\<And>r. r \<in> set rs \<Longrightarrow> safe r) \<Longrightarrow> safe (results rs)"
  by (induction rs) (auto intro!: safe_bind)

lemma bool_chain_safe: "safe r \<Longrightarrow> (\<And>r. r \<in> set rs \<Longrightarrow> safe r) \<Longrightarrow> safe (bool_chain op rs r)"
  by (induction rs arbitrary: r) (auto intro!: safe_bind)

lemma compare_chain_safe:
  assumes "identity_errors l rest = []" and "eval c l = Inr left" and "\<And>p. p \<in> set rest \<Longrightarrow> safe (eval c (snd p))"
  shows "safe (compare_chain (map (\<lambda>p. (fst p, eval c (snd p))) rest) left)"
  using assms
proof (induction rest arbitrary: l left)
  case (Cons p rest)
  have none: "is_none_constant e \<Longrightarrow> eval c e = Inr v \<Longrightarrow> v = PNone" for e v
    by (cases e rule: is_none_constant.cases) auto
  obtain op e where p: "p = (op, e)" by (cases p)
  have "safe (compare_chain (map (\<lambda>p. (fst p, eval c (snd p))) rest) right)" if "eval c e = Inr right" for right
    using Cons.IH [of e right] Cons.prems that p by auto
  moreover have "safe (apply_cmpop op left right)" if "eval c e = Inr right" for right
    using Cons.prems(1,2) none [of l left] none [of e right] that p
    by (intro apply_cmpop_safe) (auto split: if_splits)
  moreover have "safe (eval c e)" using Cons.prems(3) [of p] p by simp
  ultimately show ?case using p by (auto intro!: safe_bind)
qed simp

text \<open>A display may also meet an element without a hash, which its try block turns into an error.\<close>

definition caught :: "'a ev \<Rightarrow> bool" where
  "caught r \<longleftrightarrow> safe r \<or> r = Inl (Raised TypeErr)"

lemma caught_safe: "caught r \<Longrightarrow> safe (unhashable_caught (ev_bind r (\<lambda>x. Inr (f x))))"
  by (cases r) (auto simp: caught_def unhashable_caught_def wrapped_def split: eval_exn.splits pyexn.splits)

lemma caught_bind: "safe r \<Longrightarrow> (\<And>x. r = Inr x \<Longrightarrow> caught (f x)) \<Longrightarrow> caught (ev_bind r f)"
  by (cases r) (auto simp: caught_def)

lemma set_display_caught: "(\<And>r. r \<in> set rs \<Longrightarrow> safe r) \<Longrightarrow> caught (set_display rs acc)"
  by (induction rs arbitrary: acc) (auto intro!: caught_bind simp: caught_def [of "Inr x" for x] caught_def [of "Inl x" for x])

lemma dict_display_caught: "(\<And>p. p \<in> set ps \<Longrightarrow> safe (fst p) \<and> safe (snd p)) \<Longrightarrow> caught (dict_display ps acc)"
  by (induction ps arbitrary: acc) (auto intro!: caught_bind simp: caught_def [of "Inr x" for x] caught_def [of "Inl x" for x])

lemma allowed_name_Some: "allowed_name ns e = Some n \<longleftrightarrow> e = Name n \<and> n \<in> set ns"
  by (cases e) auto

lemma allowed_get_iff: "allowed_get ns f \<longleftrightarrow> (\<exists>n. f = Attribute (Name n) ''get'' \<and> n \<in> set ns)"
  by (cases "(ns, f)" rule: allowed_get.cases) auto

lemma SAFE_BUILTINS_arities: "n \<in> set SAFE_BUILTINS \<longleftrightarrow> n \<in> fst ` set SAFE_BUILTIN_ARITIES"
  by (simp add: SAFE_BUILTINS_def SAFE_BUILTIN_ARITIES_def)

lemma get_call_callee:
  assumes "context_ok c" and "allowed_get (ev_allowed_names c) f"
  shows "\<exists>d. callee_value c f (eval c (callee_operand f)) = Inr (GetOf (PDict d))" and "\<not> arity_bypass f args"
proof -
  obtain n where f: "f = Attribute (Name n) ''get''" "n \<in> set (ev_allowed_names c)"
    using assms(2) by (auto simp: allowed_get_iff)
  then show "\<exists>d. callee_value c f (eval c (callee_operand f)) = Inr (GetOf (PDict d))"
    using name_value_allowed [OF assms(1) f(2)]
    by (auto simp: callee_value_def attribute_value_def get_method_def as_value_def)
  show "\<not> arity_bypass f args" using f by (simp add: arity_bypass_def)
qed

lemma call_safe:
  assumes c: "context_ok c" and valid: "validate (ev_allowed_names c) False an 0 (Call f args kws) = []"
    and args: "\<And>x. x \<in> set args \<Longrightarrow> validate (ev_allowed_names c) False an 0 x = [] \<Longrightarrow> safe (eval c x)"
  shows "safe (eval c (Call f args kws))"
proof (cases "allowed_get (ev_allowed_names c) f")
  case True
  with valid args have "safe (results (map (eval c) args))" by (auto intro!: results_safe)
  with get_call_callee [OF c True] show ?thesis by (auto intro!: safe_bind apply_callable_safe)
next
  case False
  with valid obtain n where n: "f = Name n" "n \<in> set SAFE_BUILTINS" and arity: "arity_errors n args = []"
    and name: "visit_Name (ev_allowed_names c) an 1 n = []" and sub: "\<forall>x \<in> set args. validate (ev_allowed_names c) False an 0 x = []"
    by (auto simp: allowed_name_Some split: option.splits)
  have "\<not> arity_bypass f args"
    using n arity by (auto simp: arity_bypass_def allowed_name_Some split: option.splits)
  moreover have "safe (results (map (eval c) args))" using sub args by (auto intro!: results_safe)
  moreover have "safe (callee_value c f (eval c (callee_operand f)))"
    using n name_value_safe(1) [OF c name] by (simp add: callee_value_def)
  ultimately show ?thesis by (auto intro!: safe_bind apply_callable_safe)
qed

lemma validated_safe:
  assumes "context_ok c" and "validate (ev_allowed_names c) False an 0 e = []"
  shows "safe (eval c e)"
  using assms(2)
proof (induction e arbitrary: an)
  case (Name n)
  then show ?case using name_value_safe(2) [OF assms(1)] by simp
next
  case (Subscript v k)
  then show ?case by (auto intro!: safe_bind safe_wrap getitem_error split: if_splits)
next
  case (Attribute v a)
  then show ?case by (auto split: option.splits if_splits)
next
  case (Call f args kws)
  then show ?case by (intro call_safe [OF assms(1), of an]) auto
next
  case (Compare e rest)
  then have "safe (eval c (snd p))" if "p \<in> set rest" for p using that by (cases p) force
  with Compare show ?case by (auto intro!: safe_bind compare_chain_safe)
next
  case (Constant k)
  then show ?case by (cases k rule: visit_Constant.cases) auto
next
  case (Dict kvs)
  let ?keys = "map (eval c) (List.map_filter fst kvs)" and ?vals = "map (\<lambda>p. eval c (snd p)) kvs"
  have "safe r" if "r \<in> set ?keys \<union> set ?vals" for r
  proof -
    from that obtain p x where p: "p \<in> set kvs" "r = eval c x" "fst p = Some x \<or> snd p = x"
      by (auto simp: map_filter_mem)
    moreover have "validate (ev_allowed_names c) False an 0 x = []"
      using Dict.prems p by (auto simp: map_filter_mem)
    ultimately show ?thesis
      using Dict.IH(1) [of p "fst p" x an] Dict.IH(2) [of p x an] by (auto simp: prod_set_defs)
  qed
  then have "caught (dict_display (zip ?keys ?vals) [])"
    by (intro dict_display_caught) (auto dest: set_zip_leftD set_zip_rightD)
  moreover have "\<not> list_ex (\<lambda>p. fst p = None) kvs"
    using Dict.prems by (auto simp: list_ex_iff filter_empty_conv)
  ultimately show ?case by (auto intro!: caught_safe)
next
  case (SetLit es)
  then have "safe (eval c x)" if "x \<in> set es" for x using that by force
  then show ?case by (auto intro!: caught_safe set_display_caught)
next
  case (BoolOp op e es)
  then have "safe (eval c x)" if "x \<in> set es" for x using that by force
  with BoolOp show ?case by (auto intro!: bool_chain_safe)
next
  case (List es)
  then have "safe (eval c x)" if "x \<in> set es" for x using that by force
  then show ?case by (auto intro!: safe_bind results_safe)
next
  case (Tuple es)
  then have "safe (eval c x)" if "x \<in> set es" for x using that by force
  then show ?case by (auto intro!: safe_bind results_safe)
qed (auto intro!: safe_bind apply_binop_safe apply_unaryop_safe split: if_splits)

lemma accepted_evaluates:
  assumes "expression_parser_init parsed names = Inr p"
    and "case names of None \<Rightarrow> True
         | Some ns \<Rightarrow> \<forall>n \<in> set ns. \<exists>d. dict_find context (PStr n) = Some (PDict d)"
  shows "(\<exists>v. evaluate tx p (PDict context) = Inr v) \<or> (\<exists>k. evaluate tx p (PDict context) = Inl (EvaluationError k))"
proof -
  let ?c = "\<lparr>ev_context = PDict context, ev_allowed_names = ep_allowed_names p,
      ev_single_name_mode = ep_single_name_mode p, ev_text = tx\<rparr>"
  from assms(1) have p: "validate (ep_allowed_names p) False 0 0 (ep_ast p) = []"
    "ep_single_name_mode p = (names = None)" "names = Some ns \<Longrightarrow> ep_allowed_names p = ns" for ns
    by (auto simp: expression_parser_init_def Let_def split: option.splits if_splits)
  have "context_ok ?c" using assms(2) p(2,3) by (cases names) (simp_all add: context_ok_def)
  with p(1) have "safe (eval ?c (ep_ast p))" by (intro validated_safe [of _ 0]) simp_all
  then show ?thesis
    by (auto simp: evaluate_def safe_def wrapped_def split: sum.splits eval_exn.splits)
qed

text \<open>C19. A condition the parser accepts never crashes the run: against any row, and in namespace mode against
  any namespace that binds each allowed name to a dict, it evaluates to a value or raises the
  classified evaluation error.  It never reports a security violation, never lets an operand's
  exception through, and never computes with a function, a bytes or a complex object.\<close>

theorem accepted_condition_is_safe:
  assumes "expression_parser_init parsed names = Inr p"
    and "case names of None \<Rightarrow> True
         | Some ns \<Rightarrow> \<forall>n \<in> set ns. \<exists>d. dict_find context (PStr n) = Some (PDict d)"
  shows "(\<exists>v. evaluate tx p (PDict context) = Inr v) \<or> (\<exists>k. evaluate tx p (PDict context) = Inl (EvaluationError k))"
  using assms by (rule accepted_evaluates)

definition demo_text :: text_ops where
  "demo_text = \<lparr>tx_lower = id, tx_upper = id, tx_casefold = id, tx_is_space = (\<lambda>c. c = CHR '' ''),
     tx_format = (\<lambda>s v. Inl FormatType)\<rparr>"

text \<open>\<open>row['score'] >= 5\<close>.\<close>

definition demo_condition :: pexpr where
  "demo_condition = Compare (Subscript (Name ''row'') (Constant (CStr ''score''))) [(GtE, Constant (CInt 5))]"

definition demo_parser :: expression_parser where
  "demo_parser = \<lparr>ep_ast = demo_condition, ep_allowed_names = [''row''], ep_single_name_mode = True\<rparr>"

lemma demo_parser_init: "expression_parser_init (Some demo_condition) None = Inr demo_parser"
  by code_simp

theorem accepted_condition_is_safe_witness:
  "evaluate demo_text demo_parser (PDict [(PStr ''score'', PInt 7)]) = Inr (PBool True) \<and>
   (\<exists>k. evaluate demo_text demo_parser (PDict []) = Inl (EvaluationError k))"
proof
  show "evaluate demo_text demo_parser (PDict [(PStr ''score'', PInt 7)]) = Inr (PBool True)" by code_simp
  have "case evaluate demo_text demo_parser (PDict []) of Inl _ \<Rightarrow> True | Inr _ \<Rightarrow> False" by code_simp
  with accepted_condition_is_safe [OF demo_parser_init, of "[]" demo_text]
  show "\<exists>k. evaluate demo_text demo_parser (PDict []) = Inl (EvaluationError k)" by auto
qed

section \<open>Soundness of the classifications\<close>

lemma compare_chain_bool: "compare_chain ps left = Inr v \<Longrightarrow> \<exists>b. v = PBool b"
  by (induction ps arbitrary: left) (auto split: if_splits)

lemma bool_chain_result:
  "bool_chain op rs r = Inr v \<Longrightarrow> r = Inr v \<or> Inr v \<in> set rs"
  by (induction rs arbitrary: r) (auto split: if_splits)

lemma builtin_call_inv:
  assumes "eval c (Call (Name n) args kws) = Inr v" and "n \<in> set SAFE_BUILTINS"
  obtains vals where "apply_builtin (ev_text c) n vals = Inr v"
proof -
  from assms(1) obtain f vals where f: "name_value c n = Inr f"
    and v: "wrap call_error (apply_callable (ev_text c) f vals) = Inr v"
    by (auto simp: callee_value_def split: if_splits)
  have "apply_callable (ev_text c) f vals = Inr v" using v by (auto simp: wrap_def split: sum.splits)
  moreover have "f = Builtin n \<or> (\<exists>x. f = NotCallable x)"
    using f assms(2) by (auto simp: name_value_def SAFE_BUILTINS_def split: if_splits)
  ultimately show thesis using that by auto
qed

lemma boolean_expression_result:
  assumes "is_boolean_expression p" and "evaluate tx p context = Inr v"
  shows "\<exists>b. v = PBool b"
proof -
  have "eval c e = Inr v \<Longrightarrow> is_boolean_node e \<Longrightarrow> \<exists>b. v = PBool b" for c e v
  proof (induction e arbitrary: v rule: is_boolean_node.induct)
    case (2 f args kws)
    then obtain n where n: "f = Name n" "n \<in> set ALWAYS_BOOLEAN_BUILTINS" by (auto simp: allowed_name_Some)
    then have "n \<in> set SAFE_BUILTINS" by (auto simp: ALWAYS_BOOLEAN_BUILTINS_def SAFE_BUILTINS_def)
    with 2 n obtain vals where vals: "apply_builtin (ev_text c) n vals = Inr v" by (metis builtin_call_inv)
    have "starts_with a b = Inr v \<Longrightarrow> \<exists>b. v = PBool b" for a b by (cases "(a, b)" rule: starts_with.cases) auto
    moreover have "decimal_within a b d = Inr v \<Longrightarrow> \<exists>b. v = PBool b" for a b d
      by (auto simp: decimal_within_def split: sum.splits if_splits)
    ultimately show ?case using vals n
      by (auto simp: apply_builtin_def ALWAYS_BOOLEAN_BUILTINS_def split: list.splits if_splits)
  next
    case (3 op e es)
    then show ?case by (auto simp: list_all_iff dest!: bool_chain_result)
  next
    case (5 k)
    then show ?case by (cases k) auto
  qed (auto dest: compare_chain_bool split: if_splits)
  with assms show ?thesis by (auto simp: is_boolean_expression_def evaluate_def split: sum.splits)
qed

text \<open>C20. \<open>is_boolean_expression\<close> is sound: a condition so classified that evaluates returns a boolean,
  whatever the context.\<close>

theorem boolean_classification_is_sound:
  assumes "is_boolean_expression p" and "evaluate tx p context = Inr v"
  shows "\<exists>b. v = PBool b"
  using assms by (rule boolean_expression_result)

theorem boolean_classification_is_sound_witness:
  "is_boolean_expression demo_parser \<and> (\<exists>b. evaluate demo_text demo_parser (PDict [(PStr ''score'', PInt 3)]) = Inr (PBool b))"
proof -
  have "is_boolean_expression demo_parser" by code_simp
  moreover have v: "evaluate demo_text demo_parser (PDict [(PStr ''score'', PInt 3)]) = Inr (PBool False)" by code_simp
  moreover from calculation have "\<exists>b. PBool False = PBool b" by (rule boolean_classification_is_sound)
  ultimately show ?thesis by blast
qed

end
