(* ===== verification/Expression_Flow.thy ===== *)
theory Expression_Flow
  imports Expression_Properties
begin

text \<open>
  What a condition can return and what it can depend on: the classification that refuses a
  condition without a route label, the one that keeps unordered sets out of stored values, and
  the static enumeration of the fields an expression reads.
\<close>

section \<open>Conditions without a route label\<close>

definition numeric :: "pyval \<Rightarrow> bool" where
  "numeric v \<longleftrightarrow> (case v of PInt n \<Rightarrow> True | PFloat q \<Rightarrow> True | _ \<Rightarrow> False)"

lemma num_op_numeric:
  assumes "num_op fi ff m n = Value v" and "\<And>a b. fi a b = Value v \<Longrightarrow> numeric v" and "\<And>a b. ff a b = Value v \<Longrightarrow> numeric v"
  shows "numeric v"
  using assms by (auto simp: num_op_def float_op_def split: pynum.splits option.splits)

lemma float_result_numeric: "float_result r = Value v \<Longrightarrow> numeric v"
  by (auto simp: float_result_def numeric_def split: option.splits)

lemma numeric_PInt [simp]: "numeric (PInt n)" "numeric (PFloat q)"
  by (simp_all add: numeric_def)

lemma finite_result_Inr: "finite_result h r = Inr v \<longleftrightarrow> r = Value v"
  by (cases r) auto

lemma numeric_add:
  assumes "py_add a b = Value v" and "numeric a \<or> numeric b"
  shows "numeric v"
proof -
  have "as_num a \<noteq> None \<or> as_num b \<noteq> None" using assms(2) by (auto simp: numeric_def split: pyval.splits)
  with assms(1) have "\<exists>m n. as_num a = Some m \<and> as_num b = Some n"
    by (auto simp: py_add_def split: option.splits prod.splits pyval.splits)
  with assms(1) show ?thesis
    by (auto simp: py_add_def dest!: num_op_numeric dest: float_result_numeric)
qed

lemma numeric_truediv: "py_truediv a b = Value v \<Longrightarrow> numeric v"
  unfolding py_truediv_def numeric_op_def
  by (auto split: option.splits dest!: num_op_numeric simp: int_truediv_def split: if_splits dest: float_result_numeric)

lemma numeric_floordiv: "py_floordiv a b = Value v \<Longrightarrow> numeric v"
  unfolding py_floordiv_def numeric_op_def
  by (auto split: option.splits dest!: num_op_numeric simp: float_floordiv_def Let_def split: if_splits)

lemma numeric_or_set_sub: "py_sub a b = Value v \<Longrightarrow> numeric v \<or> (\<exists>xs. v = PSet xs)"
  by (auto simp: py_sub_def split: option.splits pyval.splits dest!: num_op_numeric dest: float_result_numeric)

text \<open>C22. \<open>is_provably_non_routable\<close> is sound: a condition refused on its account never evaluates to a
  boolean or a string, the only two results a gate can route on.\<close>

theorem non_routable_classification_is_sound:
  assumes "is_provably_non_routable p" and "evaluate tx p context = Inr v"
  shows "(\<forall>b. v \<noteq> PBool b) \<and> (\<forall>s. v \<noteq> PStr s)"
proof -
  have const: "eval c e = Inr v \<Longrightarrow> is_numeric_constant e \<Longrightarrow> numeric v" for c e v
  proof -
    assume a: "eval c e = Inr v" "is_numeric_constant e"
    then obtain k where "e = Constant k" by (cases e) auto
    with a show ?thesis by (cases k rule: const_value.cases) auto
  qed
  have "eval c e = Inr v \<Longrightarrow> is_non_routable_node e \<Longrightarrow> numeric v \<or> (\<exists>xs. v = PSet xs)" for c e v
  proof (cases e rule: is_non_routable_node.cases)
    case (2 f args kws)
    assume "eval c e = Inr v" "is_non_routable_node e"
    with 2 obtain n where n: "f = Name n" "n \<in> set ALWAYS_NUMERIC_BUILTINS" by (auto simp: allowed_name_Some)
    then have "n \<in> set SAFE_BUILTINS" by (auto simp: ALWAYS_NUMERIC_BUILTINS_def SAFE_BUILTINS_def)
    with \<open>eval c e = Inr v\<close> 2 n obtain vals where vals: "apply_builtin (ev_text c) n vals = Inr v" by (metis builtin_call_inv)
    have "py_len a = Inr v \<Longrightarrow> numeric v" "word_count tx a = Inr v \<Longrightarrow> numeric v" for a tx by (cases a; auto)+
    moreover have "py_abs a = Inr v \<Longrightarrow> numeric v" for a by (auto simp: py_abs_def split: option.splits pynum.splits)
    ultimately show ?thesis using vals n
      by (auto simp: apply_builtin_def ALWAYS_NUMERIC_BUILTINS_def split: list.splits if_splits)
  next
    case (3 op a)
    assume "eval c e = Inr v" "is_non_routable_node e"
    with 3 show ?thesis by (auto simp: finite_result_Inr py_neg_def py_pos_def split: option.splits pynum.splits)
  next
    case (4 a op b)
    assume ev: "eval c e = Inr v" and "is_non_routable_node e"
    with 4 show ?thesis
      by (auto simp: finite_result_Inr dest: numeric_truediv numeric_floordiv dest!: numeric_or_set_sub
          intro: numeric_add const)
  qed (use const [of c e v] in auto)
  with assms have "numeric v \<or> (\<exists>xs. v = PSet xs)"
    by (auto simp: is_provably_non_routable_def evaluate_def split: sum.splits)
  then show ?thesis by (auto simp: numeric_def)
qed

text \<open>\<open>row['score'] - 5\<close>.\<close>

definition demo_numeric :: expression_parser where
  "demo_numeric = \<lparr>ep_ast = BinOp (Subscript (Name ''row'') (Constant (CStr ''score''))) Sub (Constant (CInt 5)),
     ep_allowed_names = [''row''], ep_single_name_mode = True\<rparr>"

theorem non_routable_classification_is_sound_witness:
  "evaluate demo_text demo_numeric (PDict [(PStr ''score'', PInt 6)]) = Inr (PInt 1) \<and> PInt 1 \<noteq> PBool True"
proof -
  have "is_provably_non_routable demo_numeric" by code_simp
  moreover have "evaluate demo_text demo_numeric (PDict [(PStr ''score'', PInt 6)]) = Inr (PInt 1)" by code_simp
  ultimately show ?thesis using non_routable_classification_is_sound by blast
qed

section \<open>Sets in stored values\<close>

primrec has_set :: "pyval \<Rightarrow> bool" where
  "has_set PNone = False" | "has_set (PBool b) = False" | "has_set (PInt n) = False"
| "has_set (PFloat q) = False" | "has_set (PStr s) = False"
| "has_set (PList xs) = list_ex (\<lambda>b. b) (map has_set xs)"
| "has_set (PTuple xs) = list_ex (\<lambda>b. b) (map has_set xs)"
| "has_set (PSet xs) = True"
| "has_set (PDict kvs) = list_ex (\<lambda>(a, b). a \<or> b) (map (map_prod has_set has_set) kvs)"

lemma has_set_containers [simp]:
  "has_set (PList xs) \<longleftrightarrow> (\<exists>x \<in> set xs. has_set x)" "has_set (PTuple xs) \<longleftrightarrow> (\<exists>x \<in> set xs. has_set x)"
  "has_set (PDict kvs) \<longleftrightarrow> (\<exists>p \<in> set kvs. has_set (fst p) \<or> has_set (snd p))"
  by (auto simp: list_ex_iff case_prod_beta)

declare has_set.simps(6,7,9) [simp del]

lemma dict_find_mem: "dict_find kvs k = Some v \<Longrightarrow> \<exists>k'. (k', v) \<in> set kvs"
  by (induction kvs) (auto simp: dict_find_def split: if_splits)

lemma getitem_no_set: "py_getitem v k = Inr x \<Longrightarrow> \<not> has_set v \<Longrightarrow> \<not> has_set x"
proof (cases v)
  case (PDict kvs)
  moreover assume "py_getitem v k = Inr x" "\<not> has_set v"
  ultimately show ?thesis by (fastforce split: if_splits option.splits dest!: dict_find_mem)
qed (auto simp: seq_index_def map_ok_def Let_def split: option.splits if_splits sum.splits)

lemma numeric_no_set: "numeric v \<Longrightarrow> \<not> has_set v"
  by (auto simp: numeric_def split: pyval.splits)

lemma numeric_float_mod: "float_mod x y = Value v \<Longrightarrow> numeric v"
  by (auto simp: float_mod_def Let_def split: if_splits dest: float_result_numeric)

lemma repeat_no_set: "py_repeat a b = Value v \<Longrightarrow> \<not> has_set a \<Longrightarrow> \<not> has_set v"
  by (cases a) (auto simp: repeat_seq_def split: option.splits if_splits)

lemma binop_no_set:
  assumes "apply_binop tx op a b = Inr v" and "\<not> has_set a" and "\<not> has_set b"
  shows "\<not> has_set v"
proof (cases op)
  case Add
  with assms show ?thesis
    by (auto simp: finite_result_Inr py_add_def
        split: option.splits pyval.splits dest!: num_op_numeric dest: float_result_numeric numeric_no_set)
next
  case Sub
  with assms show ?thesis
    by (auto simp: finite_result_Inr py_sub_def split: option.splits pyval.splits dest!: num_op_numeric
        dest: float_result_numeric numeric_no_set)
next
  case Mult
  with assms show ?thesis
    by (auto simp: finite_result_Inr py_mul_def split: option.splits dest!: num_op_numeric
        dest: float_result_numeric numeric_no_set repeat_no_set)
next
  case Mod
  with assms show ?thesis
    by (auto simp: finite_result_Inr py_mod_def numeric_op_def split: option.splits pyval.splits sum.splits if_splits
        dest!: num_op_numeric dest: numeric_float_mod numeric_no_set)
qed (use assms in \<open>auto simp: finite_result_Inr dest!: numeric_truediv numeric_floordiv numeric_no_set\<close>)

lemma wrap_Inr [simp]: "wrap h r = Inr v \<longleftrightarrow> r = Inr v"
  by (auto simp: wrap_def split: sum.splits)

lemma as_value_Inr [simp]: "as_value f = Inr v \<longleftrightarrow> f = NotCallable v"
  by (auto simp: as_value_def split: callable.splits)

lemma unhashable_caught_Inr [simp]: "unhashable_caught r = Inr v \<longleftrightarrow> r = Inr v"
  by (auto simp: unhashable_caught_def split: sum.splits eval_exn.splits pyexn.splits)

lemma get_method_Inr [simp]: "get_method v = Inr g \<longleftrightarrow> g = GetOf v \<and> (\<exists>kvs. v = PDict kvs)"
  by (cases v) (auto simp: get_method_def)

lemma builtin_no_set: "apply_builtin tx n vals = Inr v \<Longrightarrow> \<not> has_set v"
proof -
  have "py_len a = Inr v \<Longrightarrow> \<not> has_set v" "word_count tx a = Inr v \<Longrightarrow> \<not> has_set v" for a by (cases a; auto)+
  moreover have "py_abs a = Inr v \<Longrightarrow> \<not> has_set v" for a by (auto simp: py_abs_def split: option.splits pynum.splits)
  moreover have "on_str f a = Inr v \<Longrightarrow> \<not> has_set v" for f a by (auto simp: on_str_def split: pyval.splits)
  moreover have "strip_with tx a b = Inr v \<Longrightarrow> \<not> has_set v" for a b by (cases "(tx, a, b)" rule: strip_with.cases) auto
  moreover have "starts_with a b = Inr v \<Longrightarrow> \<not> has_set v" for a b by (cases "(a, b)" rule: starts_with.cases) auto
  moreover have "decimal_within a b d = Inr v \<Longrightarrow> \<not> has_set v" for a b d
    by (auto simp: decimal_within_def split: sum.splits if_splits)
  ultimately show "apply_builtin tx n vals = Inr v \<Longrightarrow> ?thesis"
    by (auto simp: apply_builtin_def split: list.splits if_splits)
qed

lemma name_no_set:
  "name_value c n = Inr (NotCallable v) \<Longrightarrow> \<not> has_set (ev_context c) \<Longrightarrow> \<not> has_set v"
  by (auto simp: name_value_def split: if_splits dest: getitem_no_set)

lemma call_no_set:
  assumes "\<not> has_set (ev_context c)" and "validate (ev_allowed_names c) False an 0 (Call f args kws) = []"
    and "eval c (Call f args kws) = Inr v"
  shows "\<not> has_set v"
proof -
  from assms(3) obtain g vals where g: "callee_value c f (eval c (callee_operand f)) = Inr g"
    and vals: "results (map (eval c) args) = Inr vals" and v: "apply_callable (ev_text c) g vals = Inr v"
    by (auto split: if_splits)
  have len: "length vals = length es" if "results es = Inr vals" for es :: "pyval ev list" and vals
    using that by (induction es arbitrary: vals) auto
  show ?thesis
  proof (cases "allowed_get (ev_allowed_names c) f")
    case True
    then obtain n where f: "f = Attribute (Name n) ''get''" by (auto simp: allowed_get_iff)
    from True assms(2) have "length args = 1" by (auto split: if_splits)
    then obtain k where k: "vals = [k]" using len [OF vals] by (auto simp: length_Suc_conv)
    from g f obtain d where d: "g = GetOf d" "name_value c n = Inr (NotCallable d)"
      by (auto simp: callee_value_def attribute_value_def split: if_splits)
    with name_no_set assms(1) have "\<not> has_set d" by blast
    with v d(1) k show ?thesis
      by (fastforce simp: dict_get_def split: pyval.splits if_splits option.splits dest: dict_find_mem)
  next
    case False
    with assms(2) obtain n where "f = Name n" by (auto simp: allowed_name_Some split: option.splits)
    with g v show ?thesis
      by (auto simp: callee_value_def name_value_def split: if_splits dest: builtin_no_set)
  qed
qed

lemma unaryop_no_set: "apply_unaryop op a = Inr v \<Longrightarrow> \<not> has_set v"
  by (cases op) (auto simp: finite_result_Inr py_neg_def py_pos_def split: option.splits pynum.splits)

lemma results_mem: "results (map f es) = Inr xs \<Longrightarrow> x \<in> set xs \<Longrightarrow> \<exists>e \<in> set es. f e = Inr x"
  by (induction es arbitrary: xs) auto

lemma bool_chain_operand: "bool_chain op (map f es) r = Inr v \<Longrightarrow> r = Inr v \<or> (\<exists>e \<in> set es. f e = Inr v)"
  by (drule bool_chain_result) (auto intro: sym)

lemma dict_display_no_set:
  "dict_display ps acc = Inr d \<Longrightarrow> (\<And>p x. p \<in> set ps \<Longrightarrow> fst p = Inr x \<or> snd p = Inr x \<Longrightarrow> \<not> has_set x) \<Longrightarrow>
   \<not> has_set (PDict acc) \<Longrightarrow> \<not> has_set (PDict d)"
proof (induction ps arbitrary: acc)
  case (Cons p ps)
  from Cons.prems(1) obtain k v where kv: "fst p = Inr k" "snd p = Inr v"
    and rest: "dict_display ps (dict_insert k v acc) = Inr d" by (auto split: if_splits)
  have "\<not> has_set k" "\<not> has_set v" using Cons.prems(2) [of p] kv by auto
  with Cons.prems(3) have "\<not> has_set (PDict (dict_insert k v acc))"
    by (auto simp: dict_insert_def split: if_splits)
  with Cons.IH [OF rest] Cons.prems(2) show ?case by auto
qed simp

lemma evaluation_no_set:
  assumes ctx: "\<not> has_set (ev_context c)" and "validate (ev_allowed_names c) False an 0 e = []"
    and "\<not> set_reaches_value e" and "eval c e = Inr v"
  shows "\<not> has_set v"
  using assms(2-)
proof (induction e arbitrary: an v)
  case (Name n)
  then show ?case using name_no_set [OF _ ctx] by auto
next
  case (Subscript w k)
  then show ?case
    by (auto simp: set_reaches_value.simps [of "Subscript w k"] split: if_splits dest: getitem_no_set)
next
  case (Call f args kws)
  then show ?case using call_no_set [OF ctx] by blast
next
  case (Compare e rest)
  then show ?case by (auto dest: compare_chain_bool)
next
  case (BoolOp op e es)
  then show ?case
    by (auto simp: set_reaches_value.simps [of "BoolOp op e es"] list_ex_iff dest!: bool_chain_operand)
next
  case (BinOp a op b)
  then show ?case
    by (auto simp: set_reaches_value.simps [of "BinOp a op b"] dest: binop_no_set split: if_splits)
next
  case (UnaryOp op a)
  then show ?case by (auto dest: unaryop_no_set)
next
  case (Constant k)
  then show ?case by (cases k rule: const_value.cases) auto
next
  case (List es)
  then have "\<not> has_set x" if "results (map (eval c) es) = Inr xs" "x \<in> set xs" for x xs
    using results_mem [OF that] by (auto simp: set_reaches_value.simps [of "List es"] list_ex_iff)
  with List.prems(3) show ?case by auto
next
  case (Tuple es)
  then have "\<not> has_set x" if "results (map (eval c) es) = Inr xs" "x \<in> set xs" for x xs
    using results_mem [OF that] by (auto simp: set_reaches_value.simps [of "Tuple es"] list_ex_iff)
  with Tuple.prems(3) show ?case by auto
next
  case (SetLit es)
  from SetLit.prems(2) show ?case by (simp add: set_reaches_value.simps [of "SetLit es"])
next
  case (IfExp t b e)
  then show ?case by (auto simp: set_reaches_value.simps [of "IfExp t b e"] split: if_splits)
next
  case (Dict kvs)
  let ?keys = "map (eval c) (List.map_filter fst kvs)" and ?vals = "map (\<lambda>p. eval c (snd p)) kvs"
  from Dict.prems(3) obtain d where d: "dict_display (zip ?keys ?vals) [] = Inr d" "v = PDict d"
    by (auto split: if_splits)
  have "\<not> has_set x" if "Inr x \<in> set ?keys \<union> set ?vals" for x
  proof -
    from that obtain p y where p: "p \<in> set kvs" "eval c y = Inr x" "fst p = Some y \<or> snd p = y"
      by (auto simp: map_filter_mem)
    moreover have "validate (ev_allowed_names c) False an 0 y = []" "\<not> set_reaches_value y"
      using Dict.prems(1,2) p by (auto simp: map_filter_mem set_reaches_value.simps [of "Dict kvs"] list_ex_iff ball_Un)
    ultimately show ?thesis
      using Dict.IH(1) [of p "fst p" y an x] Dict.IH(2) [of p y an x] by (auto simp: prod_set_defs)
  qed
  then have "\<not> has_set x" if "p \<in> set (zip ?keys ?vals)" "fst p = Inr x \<or> snd p = Inr x" for p x
    using that by (cases p) (metis UnI1 UnI2 fst_conv set_zip_leftD set_zip_rightD snd_conv)
  from dict_display_no_set [OF d(1) this] d(2) show ?case by simp
qed auto

text \<open>C23. \<open>result_can_be_set\<close> is sound for rows that hold no set: when it is false for an accepted
  expression and the row has no set anywhere in it, no set occurs anywhere in the value computed, so
  what a transform stores has one canonical order.\<close>

theorem stored_value_has_no_set:
  assumes "expression_parser_init parsed names = Inr p" and "\<not> result_can_be_set p"
    and "\<not> has_set context" and "evaluate tx p context = Inr v"
  shows "\<not> has_set v"
proof -
  from assms(1) have "validate (ep_allowed_names p) False 0 0 (ep_ast p) = []"
    by (auto simp: expression_parser_init_def Let_def split: option.splits if_splits)
  moreover let ?c = "\<lparr>ev_context = context, ev_allowed_names = ep_allowed_names p,
      ev_single_name_mode = ep_single_name_mode p, ev_text = tx\<rparr>"
  from assms(4) have "eval ?c (ep_ast p) = Inr v" by (auto simp: evaluate_def split: sum.splits)
  ultimately show ?thesis
    using evaluation_no_set [of ?c 0 "ep_ast p" v] assms(2,3) by (simp add: result_can_be_set_def)
qed

text \<open>\<open>[len({1, 2}), row['x']]\<close>: the set is consumed.\<close>

definition demo_stored :: pexpr where
  "demo_stored = List [Call (Name ''len'') [SetLit [Constant (CInt 1), Constant (CInt 2)]] [],
     Subscript (Name ''row'') (Constant (CStr ''x''))]"

theorem stored_value_has_no_set_witness:
  "\<exists>p v. expression_parser_init (Some demo_stored) None = Inr p \<and> \<not> result_can_be_set p \<and>
     evaluate demo_text p (PDict [(PStr ''x'', PStr ''a'')]) = Inr v \<and> \<not> has_set v"
proof -
  let ?p = "\<lparr>ep_ast = demo_stored, ep_allowed_names = [''row''], ep_single_name_mode = True\<rparr>"
  have init: "expression_parser_init (Some demo_stored) None = Inr ?p" by code_simp
  have can: "\<not> result_can_be_set ?p"
    by (simp add: result_can_be_set_def demo_stored_def set_reaches_value.simps)
  have row: "\<not> has_set (PDict [(PStr ''x'', PStr ''a'')])" by simp
  have eval: "evaluate demo_text ?p (PDict [(PStr ''x'', PStr ''a'')]) = Inr (PList [PInt 2, PStr ''a''])" by code_simp
  from stored_value_has_no_set [OF init can row eval] init can eval show ?thesis by blast
qed

section \<open>Field reads\<close>

text \<open>A name used other than as the receiver of a subscript or of a method call.\<close>

fun read_children :: "pexpr \<Rightarrow> pexpr list" where
  "read_children (Subscript (Name n) k) = [k]"
| "read_children (Call (Attribute (Name n) a) args kws) = args @ map snd kws"
| "read_children e = child_exprs e"

lemma read_children_sub: "c \<in> set (read_children e) \<Longrightarrow> c \<in> set (child_exprs e)"
  by (cases e rule: read_children.cases) auto

function bare :: "string \<Rightarrow> pexpr \<Rightarrow> bool" where
  "bare name e = (e = Name name \<or> list_ex (bare name) (read_children e))"
  by pat_completeness auto
termination
  by (relation "measure (\<lambda>(_, e). nodes e)") (auto simp: list_ex_iff intro: child_fewer_nodes read_children_sub)

declare bare.simps [simp del]

text \<open>Every read of the name spells out a field of the given set.\<close>

definition reads_only :: "string set \<Rightarrow> string \<Rightarrow> pexpr \<Rightarrow> bool" where
  "reads_only fs name e \<longleftrightarrow> \<not> bare name e \<and>
     (\<forall>x \<in> set (walk e). \<forall>r. field_read name x = Some r \<longrightarrow> (\<exists>f \<in> fs. r = Some f))"

lemma walk_child: "c \<in> set (child_exprs e) \<Longrightarrow> x \<in> set (walk c) \<Longrightarrow> x \<in> set (walk e)"
  by (subst walk.simps) auto

lemma walk_self: "e \<in> set (walk e)"
  by (subst walk.simps) simp

lemma reads_only_child: "reads_only fs name e \<Longrightarrow> c \<in> set (read_children e) \<Longrightarrow> reads_only fs name c"
  using walk_child [OF read_children_sub] bare.simps [of name e]
  by (fastforce simp: reads_only_def list_ex_iff)

lemma reads_only_self: "reads_only fs name e \<Longrightarrow> field_read name e = Some r \<Longrightarrow> \<exists>f \<in> fs. r = Some f"
  using walk_self by (auto simp: reads_only_def)

text \<open>Two evaluators of the same condition on two rows that agree on some fields.\<close>

definition row_evaluator :: "text_ops \<Rightarrow> (pyval \<times> pyval) list \<Rightarrow> evaluator" where
  "row_evaluator tx row = \<lparr>ev_context = PDict row, ev_allowed_names = [''row''], ev_single_name_mode = True, ev_text = tx\<rparr>"

definition agree :: "string set \<Rightarrow> (pyval \<times> pyval) list \<Rightarrow> (pyval \<times> pyval) list \<Rightarrow> bool" where
  "agree fs r s \<longleftrightarrow> (\<forall>f \<in> fs. dict_find r (PStr f) = dict_find s (PStr f))"

lemma name_value_row:
  "name_value (row_evaluator tx r) ''row'' = Inr (NotCallable (PDict r))"
  "n \<noteq> ''row'' \<Longrightarrow> name_value (row_evaluator tx r) n = name_value (row_evaluator tx s) n"
  by (simp_all add: name_value_def row_evaluator_def)

lemma attribute_value_row: "attribute_value (row_evaluator tx r) = attribute_value (row_evaluator tx s)"
  by (auto simp: row_evaluator_def attribute_value_def fun_eq_iff)

lemma ev_text_row [simp]: "ev_text (row_evaluator tx r) = tx"
  by (simp add: row_evaluator_def)

lemma string_literal_Some: "string_literal e = Some s \<longleftrightarrow> e = Constant (CStr s)"
  by (cases e rule: string_literal.cases) auto

lemma get_call_agrees:
  assumes "agree fs r s" and "reads_only fs ''row'' (Call f args kws)"
    and "f = Attribute v a" and args: "\<And>x. x \<in> set args \<Longrightarrow> eval (row_evaluator tx r) x = eval (row_evaluator tx s) x"
    and v: "(\<forall>n. v \<noteq> Name n) \<Longrightarrow> eval (row_evaluator tx r) v = eval (row_evaluator tx s) v"
  shows "eval (row_evaluator tx r) (Call f args kws) = eval (row_evaluator tx s) (Call f args kws)"
proof -
  have vals: "map (eval (row_evaluator tx r)) args = map (eval (row_evaluator tx s)) args" using args by simp
  consider "v = Name ''row''" "a = ''get''" | "v = Name ''row''" "a \<noteq> ''get''"
    | n where "v = Name n" "n \<noteq> ''row''" | "\<forall>n. v \<noteq> Name n" by blast
  then show ?thesis
  proof cases
    case 1
    then obtain x where x: "args = [Constant (CStr x)]" "x \<in> fs"
      using reads_only_self [OF assms(2)] assms(3) by (auto simp: string_literal_Some split: list.splits)
    with assms(1) have "dict_find r (PStr x) = dict_find s (PStr x)" by (simp add: agree_def)
    with 1 x assms(3) show ?thesis
      by (simp add: callee_value_def name_value_def as_value_def attribute_value_def row_evaluator_def
          get_method_def dict_get_def arity_bypass_def)
  next
    case 2
    with assms(3) show ?thesis
      by (simp add: callee_value_def name_value_row as_value_def attribute_value_def)
  next
    case 3
    with assms(3) show ?thesis
      by (simp add: callee_value_def name_value_row(2) [of n tx r s] attribute_value_row [of tx r s] vals del: map_eq_conv)
  next
    case 4
    with assms(3) v show ?thesis
      by (simp add: callee_value_def vals attribute_value_row [of tx r s] del: map_eq_conv)
  qed
qed

lemma call_agrees:
  assumes "agree fs r s" and reads: "reads_only fs ''row'' (Call f args kws)"
    and IH: "\<And>x. nodes x < nodes (Call f args kws) \<Longrightarrow> reads_only fs ''row'' x \<Longrightarrow>
      eval (row_evaluator tx r) x = eval (row_evaluator tx s) x"
  shows "eval (row_evaluator tx r) (Call f args kws) = eval (row_evaluator tx s) (Call f args kws)"
proof (cases "\<exists>v a. f = Attribute v a")
  case True
  then obtain v a where f: "f = Attribute v a" by blast
  have args: "eval (row_evaluator tx r) x = eval (row_evaluator tx s) x" if "x \<in> set args" for x
    using that f by (intro IH nodes_below reads_only_child [OF reads]) (cases v; simp)+
  have "eval (row_evaluator tx r) v = eval (row_evaluator tx s) v" if "\<forall>n. v \<noteq> Name n"
  proof (rule IH)
    show "nodes v < nodes (Call f args kws)" using f by simp
    have "f \<in> set (read_children (Call f args kws))" "v \<in> set (read_children f)" using f that by (cases v; simp)+
    then show "reads_only fs ''row'' v" using reads reads_only_child by blast
  qed
  with f args show ?thesis by (intro get_call_agrees [OF assms(1) reads f])
next
  case False
  then have children: "read_children (Call f args kws) = child_exprs (Call f args kws)" by (cases f) auto
  have sub: "eval (row_evaluator tx r) x = eval (row_evaluator tx s) x" if "x \<in> set (child_exprs (Call f args kws))" for x
    using that children by (intro IH child_fewer_nodes reads_only_child [OF reads]) auto
  have "callee_operand f = f" using False by (cases f) auto
  moreover have "callee_value (row_evaluator tx r) f (eval (row_evaluator tx r) f)
      = callee_value (row_evaluator tx s) f (eval (row_evaluator tx s) f)"
  proof (cases "\<exists>n. f = Name n")
    case True
    then obtain n where n: "f = Name n" by blast
    have "reads_only fs ''row'' f" using children by (intro reads_only_child [OF reads]) simp
    then have "n \<noteq> ''row''" using n by (auto simp: reads_only_def bare.simps)
    then show ?thesis using n name_value_row(2) [of n tx r s] by (simp add: callee_value_def)
  next
    case f: False
    show ?thesis using sub [of f] f False by (cases f) (simp_all add: callee_value_def)
  qed
  ultimately show ?thesis using sub by (simp cong: map_cong)
qed

lemma evaluation_reads_only:
  assumes "agree fs r s" and "reads_only fs ''row'' e"
  shows "eval (row_evaluator tx r) e = eval (row_evaluator tx s) e"
  using assms(2)
proof (induction e rule: measure_induct_rule [of nodes])
  case (less e)
  have child: "eval (row_evaluator tx r) x = eval (row_evaluator tx s) x" if "x \<in> set (read_children e)" for x
    using that less by (blast intro: child_fewer_nodes read_children_sub reads_only_child)
  show ?case
  proof (cases e)
    case (Name n)
    with less.prems have "n \<noteq> ''row''" by (auto simp: reads_only_def bare.simps)
    with Name name_value_row(2) [of n tx r s] show ?thesis by simp
  next
    case (Subscript v k)
    show ?thesis
    proof (cases "v = Name ''row''")
      case True
      then obtain f where f: "k = Constant (CStr f)" "f \<in> fs"
        using reads_only_self [OF less.prems] Subscript by (auto simp: string_literal_Some)
      with assms(1) have "dict_find r (PStr f) = dict_find s (PStr f)" by (simp add: agree_def)
      with True f Subscript show ?thesis by (simp add: name_value_row as_value_def)
    next
      case False
      have "eval (row_evaluator tx r) v = eval (row_evaluator tx s) v"
      proof (cases "\<exists>n. v = Name n")
        case True
        then obtain n where "v = Name n" "n \<noteq> ''row''" using False by blast
        then show ?thesis using name_value_row(2) [of n tx r s] by simp
      next
        case False
        then show ?thesis using child [of v] Subscript by (cases v) auto
      qed
      moreover have "eval (row_evaluator tx r) k = eval (row_evaluator tx s) k"
        using child [of k] Subscript by (cases v) auto
      ultimately show ?thesis using Subscript by simp
    qed
  next
    case (Attribute v a)
    then show ?thesis using child [of v] attribute_value_row [of tx r s] by simp
  next
    case (Call f args kws)
    show ?thesis unfolding Call using less.prems less.IH by (intro call_agrees [OF assms(1)]) (simp_all add: Call del: nodes.simps)
  next
    case (Compare a rest)
    then have "map (\<lambda>p. (fst p, eval (row_evaluator tx r) (snd p))) rest = map (\<lambda>p. (fst p, eval (row_evaluator tx s) (snd p))) rest"
      using child by auto
    then show ?thesis using Compare child [of a] by (simp del: map_eq_conv)
  next
    case (Dict kvs)
    have "map (eval (row_evaluator tx r)) (List.map_filter fst kvs) = map (eval (row_evaluator tx s)) (List.map_filter fst kvs)"
      "map (\<lambda>p. eval (row_evaluator tx r) (snd p)) kvs = map (\<lambda>p. eval (row_evaluator tx s) (snd p)) kvs"
      using child Dict by auto
    then show ?thesis using Dict by (simp del: map_eq_conv)
  qed (use child in \<open>simp_all cong: map_cong if_cong\<close>)
qed

text \<open>C24. \<open>static_field_reads\<close> is sound for conditions that use \<open>row\<close> only through \<open>row[...]\<close> and
  \<open>row.get(...)\<close>: when the enumeration is complete, two rows that agree on the enumerated fields
  give the same result, value or error.\<close>

theorem complete_field_reads_determine_result:
  assumes "expression_parser_init parsed None = Inr p" and "fr_complete (static_field_reads p ''row'')"
    and "\<not> bare ''row'' (ep_ast p)" and "agree (set (fr_fields (static_field_reads p ''row''))) r s"
  shows "evaluate tx p (PDict r) = evaluate tx p (PDict s)"
proof -
  from assms(1) have "ep_allowed_names p = [''row'']" "ep_single_name_mode p"
    by (auto simp: expression_parser_init_def Let_def split: option.splits if_splits)
  then have ev: "evaluate tx p (PDict x) = (case eval (row_evaluator tx x) (ep_ast p) of
      Inl e \<Rightarrow> Inl (evaluate_error e) | Inr v \<Rightarrow> Inr v)" for x
    by (simp add: evaluate_def row_evaluator_def)
  have "\<exists>f \<in> set (fr_fields (static_field_reads p ''row'')). y = Some f"
    if "x \<in> set (walk (ep_ast p))" "field_read ''row'' x = Some y" for x y
  proof -
    have y: "y \<in> set (List.map_filter (field_read ''row'') (walk (ep_ast p)))" using that by (auto simp: map_filter_mem)
    with assms(2) obtain f where "y = Some f" by (cases y) (auto simp: static_field_reads_def Let_def)
    with y show ?thesis by (auto simp: static_field_reads_def Let_def map_filter_mem [of _ id])
  qed
  then have "reads_only (set (fr_fields (static_field_reads p ''row''))) ''row'' (ep_ast p)"
    using assms(3) by (auto simp: reads_only_def)
  from evaluation_reads_only [OF assms(4) this] show ?thesis by (simp add: ev)
qed

theorem complete_field_reads_determine_result_witness:
  "evaluate demo_text demo_parser (PDict [(PStr ''score'', PInt 7)])
     = evaluate demo_text demo_parser (PDict [(PStr ''name'', PNone), (PStr ''score'', PInt 7)])"
proof -
  have "static_field_reads demo_parser ''row'' = \<lparr>fr_fields = [''score''], fr_complete = True\<rparr>" by code_simp
  moreover have "\<not> bare ''row'' (ep_ast demo_parser)" by code_simp
  ultimately show ?thesis
    by (intro complete_field_reads_determine_result [OF demo_parser_init]) (simp_all add: agree_def dict_find_def)
qed

text \<open>\<open>row['a'][len(row)]['x']\<close>: the reference counter of the validator is still raised while the key of an
  inner subscript is visited, so the bare \<open>row\<close> there is accepted, and no read of \<open>row\<close> accounts
  for it.\<close>

definition leaky_condition :: pexpr where
  "leaky_condition = Subscript (Subscript (Subscript (Name ''row'') (Constant (CStr ''a'')))
     (Call (Name ''len'') [Name ''row''] [])) (Constant (CStr ''x''))"

text \<open>C25. Without that restriction the enumeration is not sound: this accepted condition has the complete
  read set \<open>{a}\<close>, and yet its value changes when a field other than \<open>a\<close> is added to the row.\<close>

theorem bare_row_escapes_field_reads:
  "\<exists>p r s. expression_parser_init (Some leaky_condition) None = Inr p \<and>
     static_field_reads p ''row'' = \<lparr>fr_fields = [''a''], fr_complete = True\<rparr> \<and> agree {''a''} r s \<and>
     evaluate demo_text p (PDict r) = Inr (PInt 1) \<and> evaluate demo_text p (PDict s) = Inr (PInt 2)"
proof (intro exI conjI)
  let ?p = "\<lparr>ep_ast = leaky_condition, ep_allowed_names = [''row''], ep_single_name_mode = True\<rparr>"
  let ?a = "(PStr ''a'', PList [PNone, PDict [(PStr ''x'', PInt 1)], PDict [(PStr ''x'', PInt 2)]])"
  show "expression_parser_init (Some leaky_condition) None = Inr ?p" by code_simp
  show "static_field_reads ?p ''row'' = \<lparr>fr_fields = [''a''], fr_complete = True\<rparr>" by code_simp
  show "agree {''a''} [?a] [?a, (PStr ''b'', PNone)]" by (simp add: agree_def dict_find_def)
  show "evaluate demo_text ?p (PDict [?a]) = Inr (PInt 1)" by code_simp
  show "evaluate demo_text ?p (PDict [?a, (PStr ''b'', PNone)]) = Inr (PInt 2)" by code_simp
qed

end
