(* ===== verification/Trigger_Evaluator.thy ===== *)
theory Trigger_Evaluator
  imports Expression_Flow "HOL-Library.Multiset"
begin

text \<open>
  Batch triggers (\<open>engine/triggers.py\<close>, and the condition validator of \<open>TriggerConfig\<close> in
  \<open>core/config.py\<close>): the evaluator of one aggregation as a record, one function per method.  A
  method that raises leaves what it had already assigned, so it returns the exception beside the
  state.  Instants are readings of a monotonic clock in seconds, doubles; \<open>float_sub\<close> and
  \<open>float_add\<close> round as the machine does.

  Rows are adopted in the order of the barrier journal, not in the order of their arrival.  The
  latches of a batch are nevertheless a function of the arrivals alone: the refinement below says
  which one.
\<close>

section \<open>Configuration\<close>

record trigger_config =
  tc_count :: "nat option"
  tc_timeout_seconds :: "rat option"
  tc_condition :: "expression_parser option"

text \<open>The refusals of \<open>TriggerConfig.validate_condition_expression\<close>.\<close>

datatype condition_refusal = EndOfSource | InvalidSyntax | ForbiddenConstruct | KeyNotLiteral
  | UnsupportedKeys "string list" | NotBoolean

definition BATCH_KEYS :: "string list" where
  "BATCH_KEYS = [''batch_count'', ''batch_age_seconds'']"

text \<open>The key a node reads from \<open>row\<close>: nothing, a key that is not a literal, or the literal.  A
  \<open>row.get()\<close> without arguments reads nothing.\<close>

fun trigger_key :: "pexpr \<Rightarrow> string option option" where
  "trigger_key (Subscript v k) = (if v = Name ''row'' then Some (string_literal k) else None)"
| "trigger_key (Call f args kws) =
    (if f = Attribute (Name ''row'') ''get'' \<and> args \<noteq> [] then Some (string_literal (hd args)) else None)"
| "trigger_key _ = None"

text \<open>\<open>text\<close> is the stripped condition and \<open>parsed\<close> its syntax tree, when it has one.\<close>

definition validate_condition_expression :: "string \<Rightarrow> pexpr option \<Rightarrow> condition_refusal + expression_parser" where
  "validate_condition_expression text parsed =
    (if text = ''end_of_source'' then Inl EndOfSource
     else case expression_parser_init parsed None of
       Inl (ExpressionSecurityError es) \<Rightarrow> Inl ForbiddenConstruct
     | Inl _ \<Rightarrow> Inl InvalidSyntax
     | Inr parser \<Rightarrow>
         let keys = List.map_filter trigger_key (walk (ep_ast parser)) in
         if None \<in> set keys then Inl KeyNotLiteral
         else let invalid = filter (\<lambda>k. k \<notin> set BATCH_KEYS) (List.map_filter id keys) in
           if invalid \<noteq> [] then Inl (UnsupportedKeys invalid)
           else if \<not> is_boolean_expression parser then Inl NotBoolean
           else Inr parser)"

section \<open>The evaluator\<close>

datatype trigger = CountTrigger | TimeoutTrigger | ConditionTrigger

record trigger_evaluator =
  te_batch_count :: nat
  te_first_accept_time :: "rat option"
  te_last_triggered :: "trigger option"
  te_count_fire_time :: "rat option"
  te_condition_fire_time :: "rat option"
  te_member_accept_times :: "rat list"
  te_condition_fire_observed :: bool

datatype trigger_exn = ConditionRaised eval_exn | ConditionNotBool | InvalidCheckpoint string

definition fresh_evaluator :: trigger_evaluator where
  "fresh_evaluator = \<lparr>te_batch_count = 0, te_first_accept_time = None, te_last_triggered = None,
     te_count_fire_time = None, te_condition_fire_time = None, te_member_accept_times = [],
     te_condition_fire_observed = False\<rparr>"

text \<open>Sums and differences of clock readings are far from the overflow of a double.\<close>

definition float_sub :: "rat \<Rightarrow> rat \<Rightarrow> rat" where
  "float_sub a b = (case to_double (a - b) of Some q \<Rightarrow> q | None \<Rightarrow> a - b)"

definition float_add :: "rat \<Rightarrow> rat \<Rightarrow> rat" where
  "float_add a b = (case to_double (a + b) of Some q \<Rightarrow> q | None \<Rightarrow> a + b)"

definition batch_context :: "nat \<Rightarrow> rat \<Rightarrow> pyval" where
  "batch_context n age = PDict [(PStr ''batch_count'', PInt (int n)), (PStr ''batch_age_seconds'', PFloat age)]"

definition condition_result :: "text_ops \<Rightarrow> expression_parser \<Rightarrow> nat \<Rightarrow> rat \<Rightarrow> trigger_exn + bool" where
  "condition_result tx p n age = (case evaluate tx p (batch_context n age) of
     Inl e \<Rightarrow> Inl (ConditionRaised e)
   | Inr v \<Rightarrow> (case v of PBool b \<Rightarrow> Inr b | _ \<Rightarrow> Inl ConditionNotBool))"

fun replay_from :: "text_ops \<Rightarrow> expression_parser \<Rightarrow> rat \<Rightarrow> nat \<Rightarrow> rat list \<Rightarrow> trigger_exn + rat option" where
  "replay_from tx p first member_count [] = Inr None"
| "replay_from tx p first member_count (instant # ts) =
    (case condition_result tx p member_count (float_sub instant first) of
       Inl e \<Rightarrow> Inl e
     | Inr b \<Rightarrow> if b then Inr (Some instant) else replay_from tx p first (Suc member_count) ts)"

definition replay_condition_over_members :: "text_ops \<Rightarrow> expression_parser \<Rightarrow> rat list \<Rightarrow> trigger_exn + rat option" where
  "replay_condition_over_members tx p ts = replay_from tx p (hd ts) 1 ts"

text \<open>The first position a value can be inserted at in a sorted list.\<close>

definition bisect_left :: "rat list \<Rightarrow> rat \<Rightarrow> nat" where
  "bisect_left xs x = length (takeWhile (\<lambda>y. y < x) xs)"

definition insert_at :: "nat \<Rightarrow> 'a \<Rightarrow> 'a list \<Rightarrow> 'a list" where
  "insert_at i x xs = take i xs @ x # drop i xs"

text \<open>The condition latch of \<open>record_accept\<close>, on the state with everything else updated.\<close>

definition latch_condition ::
  "text_ops \<Rightarrow> trigger_config \<Rightarrow> rat \<Rightarrow> bool \<Rightarrow> bool \<Rightarrow> trigger_evaluator \<Rightarrow> trigger_exn option \<times> trigger_evaluator" where
  "latch_condition tx c current_time members_complete appended_in_order s =
    (case tc_condition c of
       None \<Rightarrow> (None, s)
     | Some p \<Rightarrow>
         if te_condition_fire_observed s then (None, s)
         else if members_complete \<and> \<not> appended_in_order
         then (case replay_condition_over_members tx p (te_member_accept_times s) of
                 Inl e \<Rightarrow> (Some e, s)
               | Inr t \<Rightarrow> (None, s\<lparr>te_condition_fire_time := t\<rparr>))
         else if te_condition_fire_time s = None
         then (case condition_result tx p (te_batch_count s) (float_sub current_time (the (te_first_accept_time s))) of
                 Inl e \<Rightarrow> (Some e, s)
               | Inr b \<Rightarrow> (None, if b then s\<lparr>te_condition_fire_time := Some current_time\<rparr> else s))
         else (None, s))"

definition record_accept ::
  "text_ops \<Rightarrow> trigger_config \<Rightarrow> rat \<Rightarrow> trigger_evaluator \<Rightarrow> trigger_exn option \<times> trigger_evaluator" where
  "record_accept tx c current_time s0 =
    (let insert_index = bisect_left (te_member_accept_times s0) current_time;
         s1 = s0\<lparr>te_batch_count := Suc (te_batch_count s0),
           te_member_accept_times := insert_at insert_index current_time (te_member_accept_times s0)\<rparr>;
         members_complete = (length (te_member_accept_times s1) = te_batch_count s1);
         appended_in_order = (insert_index = length (te_member_accept_times s1) - 1);
         s2 = (case te_first_accept_time s1 of
             Some t \<Rightarrow> if current_time < t then s1\<lparr>te_first_accept_time := Some current_time\<rparr> else s1
           | None \<Rightarrow> s1\<lparr>te_first_accept_time := Some current_time\<rparr>);
         s3 = (case tc_count c of
             Some n \<Rightarrow>
               if n \<le> te_batch_count s2
               then if members_complete then s2\<lparr>te_count_fire_time := Some (te_member_accept_times s2 ! (n - 1))\<rparr>
                    else if te_count_fire_time s2 = None then s2\<lparr>te_count_fire_time := Some current_time\<rparr> else s2
               else s2
           | None \<Rightarrow> s2)
     in latch_condition tx c current_time members_complete appended_in_order s3)"

section \<open>Polling\<close>





definition batch_age_seconds :: "rat \<Rightarrow> trigger_evaluator \<Rightarrow> rat" where
  "batch_age_seconds now s = (case te_first_accept_time s of None \<Rightarrow> 0 | Some t \<Rightarrow> float_sub now t)"

section \<open>Checkpoints\<close>

definition fire_offset :: "rat option \<Rightarrow> trigger_evaluator \<Rightarrow> rat option" where
  "fire_offset fire s = (case (fire, te_first_accept_time s) of
     (Some t, Some first) \<Rightarrow> Some (float_sub t first) | _ \<Rightarrow> None)"

definition get_count_fire_offset :: "trigger_evaluator \<Rightarrow> rat option" where
  "get_count_fire_offset s = fire_offset (te_count_fire_time s) s"

definition get_condition_fire_offset :: "trigger_evaluator \<Rightarrow> rat option" where
  "get_condition_fire_offset s = fire_offset (te_condition_fire_time s) s"

text \<open>\<open>reset\<close> restores every field \<open>__init__\<close> sets.\<close>

definition reset :: "trigger_evaluator \<Rightarrow> trigger_evaluator" where
  "reset s = s\<lparr>te_batch_count := 0, te_first_accept_time := None, te_last_triggered := None,
     te_count_fire_time := None, te_condition_fire_time := None, te_member_accept_times := [],
     te_condition_fire_observed := False\<rparr>"

text \<open>The refusals of a checkpoint, in order; offsets are finite.\<close>

definition checkpoint_refusal :: "trigger_config \<Rightarrow> int \<Rightarrow> rat \<Rightarrow> rat option \<Rightarrow> rat option \<Rightarrow> string option" where
  "checkpoint_refusal c batch_count elapsed count_offset condition_offset =
    (if batch_count < 0 then Some ''batch_count''
     else if elapsed < 0 then Some ''elapsed_age_seconds''
     else if (case count_offset of None \<Rightarrow> False | Some x \<Rightarrow> x < 0) then Some ''count_fire_offset''
     else if (case condition_offset of None \<Rightarrow> False | Some x \<Rightarrow> x < 0) then Some ''condition_fire_offset''
     else if batch_count = 0 \<and> (elapsed \<noteq> 0 \<or> count_offset \<noteq> None \<or> condition_offset \<noteq> None)
     then Some ''empty batch''
     else case (case count_offset of
         None \<Rightarrow> None
       | Some x \<Rightarrow>
           if x > elapsed then Some ''count_fire_offset exceeds age''
           else case tc_count c of
             None \<Rightarrow> Some ''no count trigger''
           | Some n \<Rightarrow> if batch_count < int n then Some ''count not reached'' else None) of
       Some e \<Rightarrow> Some e
     | None \<Rightarrow> (case condition_offset of
         None \<Rightarrow> None
       | Some x \<Rightarrow>
           if x > elapsed then Some ''condition_fire_offset exceeds age''
           else if tc_condition c = None then Some ''no condition trigger'' else None))"

definition restore_from_checkpoint ::
  "trigger_config \<Rightarrow> rat \<Rightarrow> int \<Rightarrow> rat \<Rightarrow> rat option \<Rightarrow> rat option \<Rightarrow> trigger_evaluator \<Rightarrow>
   trigger_exn option \<times> trigger_evaluator" where
  "restore_from_checkpoint c current_time batch_count elapsed count_offset condition_offset s =
    (case checkpoint_refusal c batch_count elapsed count_offset condition_offset of
       Some e \<Rightarrow> (Some (InvalidCheckpoint e), s)
     | None \<Rightarrow>
         if batch_count = 0 then (None, reset s)
         else let first = float_sub current_time elapsed in
           (None, s\<lparr>te_batch_count := nat batch_count, te_member_accept_times := [],
              te_condition_fire_observed := (condition_offset \<noteq> None), te_first_accept_time := Some first,
              te_count_fire_time := (case count_offset of
                  Some x \<Rightarrow> Some (float_add first x)
                | None \<Rightarrow> (case tc_count c of
                    Some n \<Rightarrow> if int n \<le> batch_count then Some first else None
                  | None \<Rightarrow> None)),
              te_condition_fire_time := (case condition_offset of
                  Some x \<Rightarrow> Some (float_add first x) | None \<Rightarrow> None)\<rparr>))"

section \<open>Accepting a batch\<close>

fun accept_all :: "text_ops \<Rightarrow> trigger_config \<Rightarrow> rat list \<Rightarrow> trigger_evaluator \<Rightarrow> trigger_exn option \<times> trigger_evaluator" where
  "accept_all tx c [] s = (None, s)"
| "accept_all tx c (t # ts) s = (case record_accept tx c t s of
     (Some e, s') \<Rightarrow> (Some e, s') | (None, s') \<Rightarrow> accept_all tx c ts s')"

text \<open>The first arrival of a sorted list at which the condition holds of the arrivals up to it.\<close>

definition first_holding :: "text_ops \<Rightarrow> expression_parser \<Rightarrow> rat list \<Rightarrow> rat option" where
  "first_holding tx p ts =
    (case filter (\<lambda>i. condition_result tx p (Suc i) (float_sub (ts ! i) (hd ts)) = Inr True) [0..<length ts] of
       [] \<Rightarrow> None | i # _ \<Rightarrow> Some (ts ! i))"

definition oldest :: "rat multiset \<Rightarrow> rat option" where
  "oldest M = (if M = {#} then None else Some (Min_mset M))"

text \<open>The abstract batch: a multiset of arrivals.  Its image is what an evaluator has to hold of it: the
  oldest arrival, the arrival that reached the count, and the first arrival at which the condition
  holds of the members so far.\<close>

definition batch_image :: "text_ops \<Rightarrow> trigger_config \<Rightarrow> rat multiset \<Rightarrow> trigger_evaluator" where
  "batch_image tx c M = (let ts = sorted_list_of_multiset M in
     \<lparr>te_batch_count = size M, te_first_accept_time = oldest M,
      te_last_triggered = None,
      te_count_fire_time = (case tc_count c of
          None \<Rightarrow> None | Some n \<Rightarrow> if n \<le> size M then Some (ts ! (n - 1)) else None),
      te_condition_fire_time = (case tc_condition c of None \<Rightarrow> None | Some p \<Rightarrow> first_holding tx p ts),
      te_member_accept_times = ts, te_condition_fire_observed = False\<rparr>)"

lemma insert_at_bisect: "sorted xs \<Longrightarrow> insert_at (bisect_left xs x) x xs = insort x xs"
proof (induction xs)
  case (Cons y xs)
  then show ?case by (auto simp: insert_at_def bisect_left_def not_less)
qed (simp add: insert_at_def bisect_left_def)

lemma bisect_left_end: "bisect_left xs x = length xs \<longleftrightarrow> (\<forall>y \<in> set xs. y < x)"
proof -
  have "bisect_left xs x = length xs \<longleftrightarrow> takeWhile (\<lambda>y. y < x) xs = xs"
    unfolding bisect_left_def by (metis takeWhile_eq_take take_all_iff order_refl)
  then show ?thesis by (simp add: takeWhile_eq_all_conv)
qed

lemma replay_from_first:
  "replay_from tx p first k ts = Inr r \<Longrightarrow>
   r = (case filter (\<lambda>i. condition_result tx p (k + i) (float_sub (ts ! i) first) = Inr True) [0..<length ts] of
      [] \<Rightarrow> None | i # _ \<Rightarrow> Some (ts ! i))"
proof (induction ts arbitrary: k)
  case (Cons t ts)
  have up: "[0..<length (t # ts)] = 0 # map Suc [0..<length ts]"
    using upt_conv_Cons [of 0 "Suc (length ts)"] by (simp add: map_Suc_upt del: upt_Suc)
  from Cons.prems Cons.IH [of "Suc k"] show ?case
    unfolding up by (auto simp: filter_map comp_def split: sum.splits if_splits list.splits)
qed simp

lemma replay_first_holding: "replay_condition_over_members tx p ts = Inr r \<Longrightarrow> r = first_holding tx p ts"
  unfolding replay_condition_over_members_def first_holding_def by (drule replay_from_first) simp

lemma first_holding_append:
  "first_holding tx p (ts @ [t]) = (case first_holding tx p ts of
      Some x \<Rightarrow> Some x
    | None \<Rightarrow> if condition_result tx p (Suc (length ts)) (float_sub t (hd (ts @ [t]))) = Inr True then Some t else None)"
proof -
  let ?P = "\<lambda>ts i. condition_result tx p (Suc i) (float_sub (ts ! i) (hd ts)) = Inr True"
  have old: "filter (?P (ts @ [t])) [0..<length ts] = filter (?P ts) [0..<length ts]"
    by (rule filter_cong) (auto simp: nth_append hd_append)
  have mem: "filter (?P ts) [0..<length ts] = i # is \<Longrightarrow> i < length ts" for i "is"
    by (metis atLeastLessThan_iff filter_is_subset list.set_intros(1) set_upt subsetD)
  show ?thesis
    using mem old unfolding first_holding_def
    by (cases "filter (?P ts) [0..<length ts]") (auto simp: nth_append)
qed

lemma oldest_add: "oldest (add_mset t M) = Some (case oldest M of None \<Rightarrow> t | Some x \<Rightarrow> if t < x then t else x)"
proof (cases "M = {#}")
  case False
  then have "oldest M = Some (Min_mset M)" "oldest (add_mset t M) = Some (min t (Min_mset M))"
    by (simp_all add: oldest_def)
  moreover have "min t x = (if t < x then t else x)" for x by (simp add: min_def)
  ultimately show ?thesis by (simp only: option.case)
qed (simp add: oldest_def)

lemma sorted_arrival:
  fixes t :: rat
  assumes "ts = sorted_list_of_multiset M"
  shows "insert_at (bisect_left ts t) t ts = sorted_list_of_multiset (add_mset t M)"
    and "bisect_left ts t = length ts \<Longrightarrow> sorted_list_of_multiset (add_mset t M) = ts @ [t]"
    and "oldest (add_mset t M) = Some (hd (sorted_list_of_multiset (add_mset t M)))"
proof -
  have sorted: "sorted ts" using assms by simp
  show eq: "insert_at (bisect_left ts t) t ts = sorted_list_of_multiset (add_mset t M)"
    using insert_at_bisect [OF sorted] assms by simp
  show "sorted_list_of_multiset (add_mset t M) = ts @ [t]" if "bisect_left ts t = length ts"
    using eq that by (simp add: insert_at_def)
  let ?ts' = "sorted_list_of_multiset (add_mset t M)"
  have "?ts' \<noteq> []" by (metis set_sorted_list_of_multiset list.set(1) set_mset_add_mset_insert insert_not_empty)
  moreover have "sorted ?ts'" by (rule sorted_sorted_list_of_multiset)
  ultimately have "hd ?ts' = Min (set ?ts')" by (cases ?ts') (auto intro!: Min_eqI [symmetric])
  then show "oldest (add_mset t M) = Some (hd ?ts')" by (simp add: oldest_def set_insort_key)
qed

lemma accept_arrival:
  assumes "record_accept tx c t (batch_image tx c M) = (r, s)" and count: "tc_count c \<noteq> Some 0"
  shows "s = (let image = batch_image tx c (add_mset t M) in case r of
      None \<Rightarrow> image
    | Some exn \<Rightarrow> image\<lparr>te_condition_fire_time := te_condition_fire_time (batch_image tx c M)\<rparr>)"
proof -
  define ts where "ts = sorted_list_of_multiset M"
  let ?ts' = "sorted_list_of_multiset (add_mset t M)" and ?i = "bisect_left ts t"
  note arrival = sorted_arrival [OF ts_def, of t]
  have len: "length ts = size M" "length ?ts' = Suc (size M)"
    by (simp_all add: ts_def size_mset [symmetric] del: size_mset sorted_list_of_multiset_insert)
  let ?s3 = "(batch_image tx c (add_mset t M))\<lparr>te_condition_fire_time := te_condition_fire_time (batch_image tx c M)\<rparr>"
  have step: "latch_condition tx c t True (?i = length ts) ?s3 = (r, s)"
    unfolding assms(1) [symmetric]
    using count len arrival(1) unfolding record_accept_def batch_image_def Let_def ts_def [symmetric]
    by (simp add: oldest_add del: sorted_list_of_multiset_insert split: option.splits)
  show ?thesis
  proof (cases "tc_condition c")
    case None
    then show ?thesis using step by (auto simp: latch_condition_def batch_image_def Let_def)
  next
    case (Some p)
    show ?thesis
    proof (cases "?i = length ts")
      case False
      then show ?thesis
        using Some step replay_first_holding [of tx p ?ts']
        by (auto simp: latch_condition_def batch_image_def Let_def simp del: sorted_list_of_multiset_insert
            split: sum.splits)
    next
      case True
      have "first_holding tx p ?ts' = (case first_holding tx p ts of Some x \<Rightarrow> Some x
          | None \<Rightarrow> if condition_result tx p (Suc (size M)) (float_sub t (hd ?ts')) = Inr True then Some t else None)"
        using first_holding_append [of tx p ts t] arrival(2) [OF True] len by simp
      then show ?thesis
        using Some True step arrival(3)
        by (auto simp: latch_condition_def batch_image_def Let_def ts_def [symmetric]
            simp del: sorted_list_of_multiset_insert split: option.splits sum.splits if_splits)
    qed
  qed
qed

lemma fresh_is_empty_batch: "tc_count c \<noteq> Some 0 \<Longrightarrow> fresh_evaluator = batch_image tx c {#}"
  by (auto simp: batch_image_def fresh_evaluator_def oldest_def first_holding_def split: option.splits)

lemma accept_arrivals:
  assumes count: "tc_count c \<noteq> Some 0"
  shows "accept_all tx c ts (batch_image tx c M) = (r, s) \<Longrightarrow> case r of
      None \<Rightarrow> s = batch_image tx c (mset ts + M)
    | Some exn \<Rightarrow> \<exists>k < length ts. s = (batch_image tx c (mset (take (Suc k) ts) + M))
        \<lparr>te_condition_fire_time := te_condition_fire_time (batch_image tx c (mset (take k ts) + M))\<rparr>"
proof (induction ts arbitrary: M)
  case (Cons t ts)
  obtain r1 s1 where one: "record_accept tx c t (batch_image tx c M) = (r1, s1)" by (rule prod.exhaust)
  note arrival = accept_arrival [OF one count]
  show ?case
  proof (cases r1)
    case None
    with Cons.prems one arrival have rest: "accept_all tx c ts (batch_image tx c (add_mset t M)) = (r, s)" by simp
    show ?thesis
    proof (cases r)
      case (Some exn)
      from Cons.IH [OF rest] Some obtain k where "k < length ts" and
        "s = (batch_image tx c (mset (take (Suc k) ts) + add_mset t M))
          \<lparr>te_condition_fire_time := te_condition_fire_time (batch_image tx c (mset (take k ts) + add_mset t M))\<rparr>" by auto
      then show ?thesis unfolding Some option.case by (intro exI [of _ "Suc k"]) simp
    qed (use Cons.IH [OF rest] in simp)
  next
    case (Some exn)
    then have "r = Some exn" "s = s1" using Cons.prems one by simp_all
    then show ?thesis using arrival Some by (simp only: option.case Let_def) (rule exI [of _ 0], simp)
  qed
qed simp

text \<open>C26. The trigger state of a batch does not depend on the order in which its members are adopted.  For
  a configuration whose count, if any, is positive, a sequence of accepts with no poll in between that
  does not raise leaves a fresh evaluator with the image of the multiset of arrivals: the oldest arrival, the count-th smallest
  arrival, and the first arrival at which the condition holds of the arrivals up to it.  When an accept
  raises, the evaluator has counted that member, and everything but its condition latch, which is
  still that of the members before it, is the image of the members accepted so far.\<close>

theorem latches_refine_arrival_multiset:
  assumes "tc_count c \<noteq> Some 0" and "accept_all tx c ts fresh_evaluator = (r, s)"
  shows "case r of
      None \<Rightarrow> s = batch_image tx c (mset ts)
    | Some exn \<Rightarrow> \<exists>k < length ts. s = (batch_image tx c (mset (take (Suc k) ts)))
        \<lparr>te_condition_fire_time := te_condition_fire_time (batch_image tx c (mset (take k ts)))\<rparr>"
  using accept_arrivals [OF assms(1), of tx ts "{#}" r s, unfolded add_0_right]
    assms(2) [unfolded fresh_is_empty_batch [OF assms(1), of tx]] .

text \<open>A count of two and \<open>row['batch_count'] >= 3\<close>.\<close>

definition demo_trigger_condition :: pexpr where
  "demo_trigger_condition = Compare (Subscript (Name ''row'') (Constant (CStr ''batch_count''))) [(GtE, Constant (CInt 3))]"

definition demo_trigger_parser :: expression_parser where
  "demo_trigger_parser = \<lparr>ep_ast = demo_trigger_condition, ep_allowed_names = [''row''], ep_single_name_mode = True\<rparr>"

definition demo_trigger :: trigger_config where
  "demo_trigger = \<lparr>tc_count = Some 2, tc_timeout_seconds = Some 10, tc_condition = Some demo_trigger_parser\<rparr>"

lemma demo_condition_result: "condition_result demo_text demo_trigger_parser n age = Inr (3 \<le> n)"
  by (simp add: condition_result_def evaluate_def demo_trigger_parser_def demo_trigger_condition_def batch_context_def
      name_value_def as_value_def wrap_def dict_find_def num_order_def)

text \<open>\<open>row['batch_count']\<close> used as a condition raises at once.\<close>

definition demo_raising :: trigger_config where
  "demo_raising = demo_trigger\<lparr>tc_condition :=
     Some (demo_trigger_parser\<lparr>ep_ast := Subscript (Name ''row'') (Constant (CStr ''batch_count''))\<rparr>)\<rparr>"

theorem latches_refine_arrival_multiset_witness:
  "snd (accept_all demo_text demo_trigger [5, 1, 3] fresh_evaluator) = snd (accept_all demo_text demo_trigger [1, 3, 5] fresh_evaluator) \<and>
   te_count_fire_time (snd (accept_all demo_text demo_trigger [5, 1, 3] fresh_evaluator)) = Some 3 \<and>
   te_condition_fire_time (snd (accept_all demo_text demo_trigger [5, 1, 3] fresh_evaluator)) = Some 5 \<and>
   te_batch_count (snd (accept_all demo_text demo_raising [5, 1, 3] fresh_evaluator)) > 0"
proof -
  let ?image = "batch_image demo_text demo_trigger (mset [1, 3, 5])"
  have image: "snd (accept_all demo_text demo_trigger ts fresh_evaluator) = ?image"
    if "fst (accept_all demo_text demo_trigger ts fresh_evaluator) = None" "mset ts = mset [1, 3, 5]" for ts
    using latches_refine_arrival_multiset [of demo_trigger demo_text ts None] that
    by (cases "accept_all demo_text demo_trigger ts fresh_evaluator") (simp add: demo_trigger_def)
  have a: "snd (accept_all demo_text demo_trigger [5, 1, 3] fresh_evaluator) = ?image"
    by (rule image) (simp_all add: record_accept_def latch_condition_def fresh_evaluator_def demo_trigger_def
      bisect_left_def insert_at_def replay_condition_over_members_def demo_condition_result Let_def)
  have b: "snd (accept_all demo_text demo_trigger [1, 3, 5] fresh_evaluator) = ?image"
    by (rule image) (simp_all add: record_accept_def latch_condition_def fresh_evaluator_def demo_trigger_def
      bisect_left_def insert_at_def replay_condition_over_members_def demo_condition_result Let_def)
  have c: "accept_all demo_text demo_raising [5, 1, 3] fresh_evaluator
      = (Some ConditionNotBool, snd (accept_all demo_text demo_raising [5, 1, 3] fresh_evaluator))"
    by (simp add: record_accept_def latch_condition_def fresh_evaluator_def demo_raising_def demo_trigger_def
      demo_trigger_parser_def bisect_left_def insert_at_def Let_def condition_result_def evaluate_def batch_context_def
      name_value_def as_value_def wrap_def dict_find_def)
  have "te_batch_count (snd (accept_all demo_text demo_raising [5, 1, 3] fresh_evaluator)) > 0"
    using latches_refine_arrival_multiset [OF _ c] by (auto simp: demo_raising_def demo_trigger_def batch_image_def Let_def)
  moreover have "first_holding demo_text demo_trigger_parser [1, 3, 5] = Some 5"
    by (simp add: first_holding_def demo_condition_result upt_rec)
  ultimately show ?thesis
    unfolding a b by (simp add: batch_image_def Let_def demo_trigger_def)
qed

section \<open>Which trigger fired\<close>












text \<open>C28. A trigger condition the configuration accepts is a boolean at run time: for every batch it
  evaluates to true or false or raises a classified evaluation error, so the run-time guard against
  other results never fires.\<close>

theorem accepted_trigger_condition_is_boolean:
  assumes "validate_condition_expression text parsed = Inr p"
  shows "(\<exists>b. condition_result tx p n age = Inr b) \<or> (\<exists>k. condition_result tx p n age = Inl (ConditionRaised (EvaluationError k)))"
proof -
  from assms have p: "expression_parser_init parsed None = Inr p" "is_boolean_expression p"
    by (auto simp: validate_condition_expression_def Let_def split: if_splits sum.splits parser_exn.splits)
  have "(\<exists>v. evaluate tx p (batch_context n age) = Inr v) \<or> (\<exists>k. evaluate tx p (batch_context n age) = Inl (EvaluationError k))"
    unfolding batch_context_def by (rule accepted_evaluates [OF p(1)]) simp
  then show ?thesis
  proof
    assume "\<exists>v. evaluate tx p (batch_context n age) = Inr v"
    then obtain v where v: "evaluate tx p (batch_context n age) = Inr v" by blast
    from boolean_expression_result [OF p(2) v] v show ?thesis by (auto simp: condition_result_def)
  qed (auto simp: condition_result_def)
qed

theorem accepted_trigger_condition_is_boolean_witness:
  "(\<exists>b. condition_result demo_text demo_trigger_parser 1 0 = Inr b) \<or>
   (\<exists>k. condition_result demo_text demo_trigger_parser 1 0 = Inl (ConditionRaised (EvaluationError k)))"
proof -
  have "validate_condition_expression ''row['batch_count'] >= 3'' (Some demo_trigger_condition) = Inr demo_trigger_parser"
    by code_simp
  then show ?thesis by (rule accepted_trigger_condition_is_boolean)
qed

end
