(* ===== verification/Spec2Isabelle.thy ===== *)
theory Spec2Isabelle
  imports Run_Histories Claim_Properties Trigger_Evaluator
begin

text \<open>
  ELSPETH runs auditable data pipelines.  Several worker processes of one run share the
  \<^emph>\<open>Landscape\<close>, an SQL audit database; one of them leads.  Workers lease token work items from it,
  dispose of them, and record what became of every token.  Gates and batch triggers decide by
  expressions written in the pipeline configuration.  Paths below are relative to \<open>src/src/elspeth\<close>.

  \<^bold>\<open>How the code is modelled.\<close>  A table is a list of records in the record \<open>db\<close>.  A repository method
  with a connection is a body of type \<open>'a body\<close>, a function from a connection to an error or a result
  with the connection after it; \<open>begin_write\<close> runs a body on a copy of the database and commits it or
  rolls it back.  A public verb is a function of an environment, its arguments and the database.  The
  environment \<open>env\<close> holds what is outside the repository: the dialect, the readings of the database
  clock, the process clock, whether the write lock is held, the canonical JSON serialiser, the UUID
  source, and the process identity.  An exception is a value of \<open>error\<close>; a refused fence is one.
  \<open>sample e n\<close> and \<open>stamp e n\<close> are the n-th decision instant and the n-th transaction instant of a
  transaction.

  \<^bold>\<open>Foundations\<close>
  \<^item> \<open>Elspeth_Prelude\<close>: transaction bodies and their combinators, keyed tables, the locale
    \<open>tx_preorder\<close> of relations that lift from statements to bodies.
  \<^item> \<open>Sha256\<close>: \<open>hashlib.sha256\<close>, from which work-item and event identities are derived.
  \<^item> \<open>Landscape_Schema\<close>: enums and rows of \<open>contracts/\<close> and \<open>core/landscape/schema.py\<close>, the table
    constraints (\<open>db_ok\<close>), the shared WHERE clauses.
  \<^item> \<open>Landscape_Database\<close>: \<open>database.begin_write\<close>, \<open>database_clock.py\<close>, \<open>lease_deadlines.py\<close>, one
    primitive per kind of statement, the locale \<open>db_preorder\<close>.
  \<^item> \<open>Landscape_History\<close>: the preorder \<open>evolves\<close>, what no verb may undo, interpreted in \<open>db_preorder\<close>.
  \<^item> \<open>Example_Run\<close>: the small run on which the witnesses evaluate the verbs.

  \<^bold>\<open>Run coordination\<close> (\<open>core/landscape/run_coordination_repository.py\<close>)
  \<^item> \<open>Run_Coordination\<close>: the leader seat with its epoch, the worker registry, the two fences, takeover,
    release, heartbeats, admission, eviction and departure.
  \<^item> \<open>Coordination_Fencing\<close>: a fenced transaction commits only under its token; what a takeover writes
    and when it is refused.  \<open>Coordination_Membership\<close>: eviction, release, heartbeat and admission.
  \<^item> \<open>Run_Histories\<close>: the relation \<open>later\<close>, every sequence of verbs by any number of workers, each in
    its own environment; this theory states the safety of the fences along it.

  \<^bold>\<open>Token scheduler\<close> (\<open>core/landscape/scheduler/\<close>)
  \<^item> \<open>Work_Items\<close>: identities, inserts and the event ledger (\<open>work_items.py\<close>, \<open>events.py\<close>,
    \<open>payload_codec.py\<close>).  \<open>Group_Losses\<close>: \<open>group_losses.py\<close>.
  \<^item> \<open>Scheduler_Leases\<close>: \<open>leases.py\<close>.  \<open>Lease_Recovery\<close> and \<open>Lease_Properties\<close> give the exact effect of
    the recovery sweep and the re-drive, \<open>Claim_Properties\<close> that of a claim and its progress.
  \<^item> \<open>Scheduler_Dispositions\<close> and \<open>Scheduler_Queue\<close>: \<open>dispositions.py\<close> and \<open>queue.py\<close>;
    \<open>Disposition_Properties\<close> gives the exact effect and the refusals of a disposition, of a sink batch
    and of the crash repair.
  \<^item> \<open>Barrier_Journal\<close>: \<open>barrier.py\<close>.

  \<^bold>\<open>Token outcomes\<close>
  \<^item> \<open>Outcome_Contract\<close>: the pair constraints of \<open>contracts/audit.py\<close> and the places that check them;
    what the census of \<open>web/execution/accounting.py\<close> accepts, against the loader.
  \<^item> \<open>Token_Outcomes\<close>: the recorders of \<open>data_flow/outcomes.py\<close>; what they write loads back, and no
    token becomes both decided and abandoned.

  \<^bold>\<open>Expressions and batch triggers\<close>
  \<^item> \<open>Python_Values\<close>: the values and operators of Python that conditions use.
  \<^item> \<open>Expression_Parser\<close>, \<open>Expression_Evaluator\<close>: \<open>core/expression_parser.py\<close>, the validator, the
    evaluator and the static classifications.
  \<^item> \<open>Expression_Properties\<close>, \<open>Expression_Flow\<close>: an accepted condition is safe to evaluate, the depth
    bound is exact, the classifications are sound, and where the read set fails to be complete.
  \<^item> \<open>Trigger_Evaluator\<close>: \<open>engine/triggers.py\<close> and the condition check of \<open>TriggerConfig\<close>; the latches
    refine the multiset of arrivals, and the first trigger to fire wins.

  \<^bold>\<open>Bounds.\<close>  Every function is total: loops over rows and syntax trees are structural or have a
  termination proof, so nothing runs on fuel.  The only numeric bounds are the code's own, such as the
  64 levels of an expression, the 64 characters of a loss reason and the 64 rounds of the digest, and
  the bit counts with which the digest's constants are computed: 35 bits hold their roots.

  \<^bold>\<open>Simplifications.\<close>  Writers are serialised, as \<open>BEGIN IMMEDIATE\<close> and the PostgreSQL row locks make
  them, so a verb is atomic and a locking read is the read.  A JSON column holds the value whose text
  the code stores; a context that canonical JSON refuses has no value here, so the refusal of
  \<open>canonical_json\<close> before a transaction starts is not represented.  The context of an expression is a
  dict of JSON-shaped values.  Floats are finite: NaN, the infinities and the sign of a zero are not
  values, so the \<open>isfinite\<close> checks of \<open>restore_from_checkpoint\<close> and of the numeric conversions hold
  trivially, and an operation that would overflow says so.  A row of class \<open>PipelineRow\<close> and Python's
  recursion limit are not represented either.  Error messages are reduced to labels.

  \<^bold>\<open>Not modelled.\<close>  Other repositories of the Landscape (runs, nodes, node states, calls, batches beyond
  the membership primitive, sink effects, exports), the engine that drives the verbs, the DAG builder,
  the configuration loader beyond the trigger condition, checkpoints and retention, plugins, the web
  application, the command line, telemetry and the development lints.  Parsing text into syntax trees,
  Unicode case tables and canonical JSON are the interpreter's or a package's and are parameters.
\<close>

section \<open>Fencing along every history\<close>

text \<open>C3. Once the seat of a run has moved past a leader's token (a later epoch, or the same epoch
  without it), every leader-fenced transaction under that token is refused in every later image of
  the database, whatever its body: it raises the loss of leadership and leaves at most one ledger
  row.\<close>

theorem deposed_leader_stays_fenced:
  assumes "db_ok d" and "s \<in> set (db_seats d)" and "superseded t s" and "later d d'"
  shows "fst (fenced_leader_transaction e t win v body d')
           = Inl (if env_locked e then DatabaseLockedError else leadership_lost t v) \<and>
         same_but_ledger d' (snd (fenced_leader_transaction e t win v body d'))"
proof -
  have ev: "evolves d d'" using assms(4,1) by (rule later_evolves)
  then obtain s' where "s' \<in> set (db_seats d')" "seat_evolves s s'"
    using assms(2) by (rule evolves_seat)
  then have "\<not> exists_where (holds_seat t) (db_seats d')"
    using superseded_not_held superseded_evolves assms(1,3) evolves_ok [OF ev] by blast
  with evolves_ok [OF ev assms(1)] show ?thesis
    by (simp add: leader_transaction_refused)
qed

theorem deposed_leader_stays_fenced_witness:
  "fst (fenced_leader_transaction demo_env demo_token (seconds 80) ''evict_worker''
          (evict_worker_body demo_token ''w2'' 0)
          (exec_verb demo_env (CoordinationVerb (WorkerHeartbeat \<lparr>mt_run_id = ''r'', mt_worker_id = ''w2''\<rparr> (seconds 80)))
             (exec_verb demo_env (CoordinationVerb (AcquireRunLeadership ''r'' ''w9'' (seconds 80) ''resume'')) demo_orphaned)))
     = Inl (RunLeadershipLostError ''r'' ''w1'' 1 ''evict_worker'')"
proof -
  let ?d = "exec_verb demo_env (CoordinationVerb (AcquireRunLeadership ''r'' ''w9'' (seconds 80) ''resume'')) demo_orphaned"
  let ?d' = "exec_verb demo_env (CoordinationVerb (WorkerHeartbeat \<lparr>mt_run_id = ''r'', mt_worker_id = ''w2''\<rparr> (seconds 80))) ?d"
  have ok: "db_ok ?d" by (rule exec_verb_ok [OF demo_orphaned_ok])
  have "list_ex (superseded demo_token) (db_seats ?d)" by code_simp
  then obtain s where "s \<in> set (db_seats ?d)" "superseded demo_token s" by (auto simp: list_ex_iff)
  moreover have "later ?d ?d'" by (intro later_step later_refl)
  moreover have "\<not> env_locked demo_env" by (simp add: demo_env_def)
  ultimately show ?thesis
    using deposed_leader_stays_fenced [OF ok, of s demo_token ?d' demo_env "seconds 80"
        "''evict_worker''" "evict_worker_body demo_token ''w2'' 0"]
    by (simp add: leadership_lost_def demo_token_def)
qed

text \<open>C4. No two workers are ever admitted under the same epoch of a run: if a leader-fenced
  transaction commits under one token, and in any later image one commits under a token of the same
  run and epoch, both tokens name the same worker.\<close>

theorem epoch_has_one_holder:
  assumes "db_ok d" and "fenced_leader_transaction e t win v body d = (Inr x, d1)"
    and "later d d'" and "fenced_leader_transaction e' t' win' v' body' d' = (Inr y, d2)"
    and "ct_run_id t' = ct_run_id t" and "ct_leader_epoch t' = ct_leader_epoch t"
  shows "ct_worker_id t' = ct_worker_id t"
proof (rule ccontr)
  assume other: "ct_worker_id t' \<noteq> ct_worker_id t"
  from leader_transaction_committed [OF assms(2)] obtain s where
    s: "s \<in> set (db_seats d)" "holds_seat t s" by (auto simp: exists_where_iff)
  then have "superseded t' s"
    using other assms(5,6) by (simp add: superseded_def holds_seat_def)
  moreover have ev: "evolves d d'" using assms(3,1) by (rule later_evolves)
  then obtain s' where "s' \<in> set (db_seats d')" "seat_evolves s s'"
    using s(1) by (rule evolves_seat)
  ultimately have "\<not> exists_where (holds_seat t') (db_seats d')"
    using superseded_not_held superseded_evolves evolves_ok [OF ev assms(1)] by blast
  with leader_transaction_committed [OF assms(4)] show False by contradiction
qed

theorem epoch_has_one_holder_witness:
  "fst (evict_worker demo_env demo_token ''w2'' 0 (seconds 80) (demo_live [])) = Inr True \<and>
   fst (evict_worker demo_env \<lparr>ct_run_id = ''r'', ct_worker_id = ''w1'', ct_leader_epoch = 1\<rparr> ''w3'' 0
          (seconds 80) (snd (evict_worker demo_env demo_token ''w2'' 0 (seconds 80) (demo_live []))))
     = Inr False \<and>
   ''w1'' = ct_worker_id demo_token"
proof -
  let ?r = "evict_worker demo_env demo_token ''w2'' 0 (seconds 80) (demo_live [])"
  let ?t = "\<lparr>ct_run_id = ''r'', ct_worker_id = ''w1'', ct_leader_epoch = 1\<rparr>"
  let ?q = "evict_worker demo_env ?t ''w3'' 0 (seconds 80) (snd ?r)"
  have fq: "fst ?q = Inr False" by code_simp
  then have q: "?q = (Inr False, snd ?q)" by (metis prod.collapse)
  have fr: "fst ?r = Inr True" by code_simp
  then have r: "?r = (Inr True, snd ?r)" by (metis prod.collapse)
  have "later (demo_live []) (exec_verb demo_env (CoordinationVerb (EvictWorker demo_token ''w2'' 0 (seconds 80))) (demo_live []))"
    by (intro later_step later_refl)
  then have l: "later (demo_live []) (snd ?r)" by simp
  have "ct_worker_id ?t = ct_worker_id demo_token"
    by (rule epoch_has_one_holder [OF demo_live_ok r [unfolded evict_worker_def] l
        q [unfolded evict_worker_def [of _ ?t]]]) (simp_all add: demo_token_def)
  with fq fr show ?thesis by simp
qed

text \<open>C7. Worker identities are single use: once a registry row is departed or evicted, every
  membership-fenced transaction of that identity is refused in every later image, whatever its
  body, and leaves at most one ledger row.\<close>

theorem inactive_identity_stays_fenced:
  assumes "db_ok d" and "w \<in> set (db_workers d)" and "wk_worker_id w = mt_worker_id m"
    and "wk_run_id w = mt_run_id m" and "wk_status w \<noteq> Active" and "later d d'"
  shows "fst (fenced_member_transaction e m v body d')
           = Inl (if env_locked e then DatabaseLockedError
                  else RunMembershipLostError (mt_run_id m) (mt_worker_id m) v) \<and>
         same_but_ledger d' (snd (fenced_member_transaction e m v body d'))"
proof -
  have ev: "evolves d d'" using assms(6,1) by (rule later_evolves)
  then obtain w' where w': "w' \<in> set (db_workers d')" "worker_evolves w w'"
    using assms(2) by (rule evolves_worker)
  then have "wk_worker_id w' = mt_worker_id m" "wk_run_id w' = mt_run_id m" "wk_status w' \<noteq> Active"
    using assms(3-5) by (simp_all add: worker_evolves_def)
  with w'(1) evolves_ok [OF ev assms(1)] show ?thesis
    using member_transaction_refused by blast
qed

theorem inactive_identity_stays_fenced_witness:
  "fst (fenced_member_transaction demo_env \<lparr>mt_run_id = ''r'', mt_worker_id = ''w2''\<rparr> ''claim_ready''
          (tx_return ()) (exec_verb demo_env (CoordinationVerb (EvictWorker demo_token ''w2'' 0 (seconds 80))) (demo_live [])))
     = Inl (RunMembershipLostError ''r'' ''w2'' ''claim_ready'')"
proof -
  let ?d = "exec_verb demo_env (CoordinationVerb (EvictWorker demo_token ''w2'' 0 (seconds 80))) (demo_live [])"
  have ok: "db_ok ?d" by (rule exec_verb_ok [OF demo_live_ok])
  have "list_ex (\<lambda>w. wk_worker_id w = ''w2'' \<and> wk_run_id w = ''r'' \<and> wk_status w = Evicted) (db_workers ?d)"
    by code_simp
  then obtain w where "w \<in> set (db_workers ?d)" "wk_worker_id w = ''w2''" "wk_run_id w = ''r''"
    "wk_status w = Evicted" by (auto simp: list_ex_iff)
  moreover have "\<not> env_locked demo_env" by (simp add: demo_env_def)
  ultimately show ?thesis
    using inactive_identity_stays_fenced [OF ok, of w "\<lparr>mt_run_id = ''r'', mt_worker_id = ''w2''\<rparr>" ?d demo_env
        "''claim_ready''" "tx_return ()"]
    by (simp add: later_refl)
qed

end
